(* ===== verification/Prelude.thy ===== *)
theory Prelude
  imports Main "HOL-Library.List_Lexorder" "HOL-Library.Char_ord"
begin

text \<open>
  The vocabulary every component theory shares: the result type in which a Go function that
  returns \<^verbatim>\<open>(T, error)\<close> is modelled, sorting by a string key, and the append-without-duplicates
  helper that the Go packages each carry a copy of, together with the contract its clients use.

  A Go \<^verbatim>\<open>string\<close> is a sequence of bytes; so is an Isabelle \<^typ>\<open>string\<close> (a list of 8-bit
  characters).  Comparison of strings (\<^verbatim>\<open><\<close> in Go, BINARY collation in SQLite) is the
  lexicographic order on bytes, which is the order of HOL-Library.List_Lexorder on char lists.
\<close>

named_theorems result_simps \<open>inversion rules for results of fallible code\<close>
named_theorems frame_simps \<open>fields an operation leaves alone\<close>

section \<open>Results\<close>

type_synonym ('e, 'a) result = "'e + 'a"

abbreviation Ok :: "'a \<Rightarrow> ('e, 'a) result" where
  "Ok x \<equiv> Inr x"

abbreviation Err :: "'e \<Rightarrow> ('e, 'a) result" where
  "Err e \<equiv> Inl e"

text \<open>
  \<^verbatim>\<open>x, err := f(); if err != nil { return err }; ...\<close>
\<close>

lemma case_InrE:
  assumes "case x of Inl e \<Rightarrow> False | Inr y \<Rightarrow> True"
  obtains y where "x = Inr y"
  using assms by (cases x) auto

definition bind_res :: "('e, 'a) result \<Rightarrow> ('a \<Rightarrow> ('e, 'b) result) \<Rightarrow> ('e, 'b) result" where
  "bind_res r k = (case r of Inl e \<Rightarrow> Inl e | Inr x \<Rightarrow> k x)"

lemma bind_res_simps [simp]:
  "bind_res (Inl e) k = Inl e"
  "bind_res (Inr x) k = k x"
  by (simp_all add: bind_res_def)

lemma bind_res_Ok_iff [result_simps]:
  "bind_res r k = Inr y \<longleftrightarrow> (\<exists>x. r = Inr x \<and> k x = Inr y)"
  by (cases r) simp_all

lemma bind_res_Err_iff:
  "bind_res r k = Inl e \<longleftrightarrow> r = Inl e \<or> (\<exists>x. r = Inr x \<and> k x = Inl e)"
  by (cases r) simp_all

lemma map_sum_Ok_iff [result_simps]: "map_sum f g r = Inr y \<longleftrightarrow> (\<exists>x. r = Inr x \<and> y = g x)"
  by (cases r) auto

lemma map_sum_Err_iff: "map_sum f g r = Inl e \<longleftrightarrow> (\<exists>x. r = Inl x \<and> e = f x)"
  by (cases r) auto

text \<open>\<^verbatim>\<open>if bad { return err }\<close>\<close>

definition check :: "bool \<Rightarrow> 'e \<Rightarrow> ('e, unit) result" where
  "check ok e = (if ok then Inr () else Inl e)"

lemma check_Ok_iff [result_simps]: "check ok e = Inr u \<longleftrightarrow> ok"
  by (simp add: check_def)

lemma check_Err_iff: "check ok e = Inl e' \<longleftrightarrow> \<not> ok \<and> e' = e"
  by (auto simp: check_def)

text \<open>A \<^verbatim>\<open>for i, x := range xs { if err := f(i, x); err != nil { return err } }\<close> loop.\<close>

fun check_each :: "(nat \<Rightarrow> 'a \<Rightarrow> ('e, unit) result) \<Rightarrow> nat \<Rightarrow> 'a list \<Rightarrow> ('e, unit) result" where
  "check_each f i [] = Inr ()"
| "check_each f i (x # xs) = (case f i x of Inl e \<Rightarrow> Inl e | Inr u \<Rightarrow> check_each f (Suc i) xs)"

lemma check_each_Ok_iff [result_simps]:
  "check_each f i xs = Inr u \<longleftrightarrow> (\<forall>j < length xs. f (i + j) (xs ! j) = Inr ())"
proof (induction xs arbitrary: i)
  case Nil
  then show ?case by simp
next
  case (Cons x xs)
  have "(\<forall>j < length (x # xs). f (i + j) ((x # xs) ! j) = Inr ()) \<longleftrightarrow>
        f i x = Inr () \<and> (\<forall>j < length xs. f (Suc i + j) (xs ! j) = Inr ())"
    by (auto simp: less_Suc_eq_0_disj)
  with Cons show ?case by (auto split: sum.splits)
qed

lemma check_each_OkD:
  "check_each f i xs = Inr u \<Longrightarrow> x \<in> set xs \<Longrightarrow> \<exists>j. f j x = Inr ()"
  by (force simp: check_each_Ok_iff in_set_conv_nth)

text \<open>A loop that transforms each element and stops at the first error.\<close>

fun map_res :: "('a \<Rightarrow> ('e, 'b) result) \<Rightarrow> 'a list \<Rightarrow> ('e, 'b list) result" where
  "map_res f [] = Inr []"
| "map_res f (x # xs) = (case f x of Inl e \<Rightarrow> Inl e
     | Inr y \<Rightarrow> (case map_res f xs of Inl e \<Rightarrow> Inl e | Inr ys \<Rightarrow> Inr (y # ys)))"

lemma map_res_Ok_iff [result_simps]:
  "map_res f xs = Inr ys \<longleftrightarrow> list_all2 (\<lambda>x y. f x = Inr y) xs ys"
proof (induction xs arbitrary: ys)
  case Nil
  then show ?case by auto
next
  case (Cons x xs)
  then show ?case by (cases "f x"; cases "map_res f xs") (auto simp: list_all2_Cons1)
qed

lemma map_res_length: "map_res f xs = Inr ys \<Longrightarrow> length ys = length xs"
  by (auto simp: map_res_Ok_iff dest: list_all2_lengthD)

section \<open>Appending without duplicates\<close>

text \<open>
  \<^verbatim>\<open>appendUnique(slice, items...)\<close> of internal/linker: keeps the order of first
  occurrence.  The \<^verbatim>\<open>seen\<close> set of the Go code is the set of the slice built so far.
\<close>

fun append_unique :: "'a list \<Rightarrow> 'a list \<Rightarrow> 'a list" where
  "append_unique xs [] = xs"
| "append_unique xs (y # ys) =
     (if y \<in> set xs then append_unique xs ys else append_unique (xs @ [y]) ys)"

text \<open>The contract of such a helper: which items it accepts, and that nothing is lost.\<close>

locale unique_appender =
  fixes add :: "'a list \<Rightarrow> 'a list \<Rightarrow> 'a list"
    and accepts :: "'a \<Rightarrow> bool"
  assumes add_set: "set (add xs ys) = set xs \<union> {y \<in> set ys. accepts y}"
    and add_distinct: "distinct xs \<Longrightarrow> distinct (add xs ys)"
    and add_extends: "\<exists>zs. add xs ys = xs @ zs"
begin

lemma keeps_old: "x \<in> set xs \<Longrightarrow> x \<in> set (add xs ys)"
  by (simp add: add_set)

lemma takes_new: "y \<in> set ys \<Longrightarrow> accepts y \<Longrightarrow> y \<in> set (add xs ys)"
  by (simp add: add_set)

lemma only_those: "z \<in> set (add xs ys) \<Longrightarrow> z \<in> set xs \<or> z \<in> set ys"
  by (auto simp: add_set)

lemma fold_set:
  "set (fold (\<lambda>ys acc. add acc ys) yss xs) = set xs \<union> {y. \<exists>ys \<in> set yss. y \<in> set ys \<and> accepts y}"
  by (induction yss arbitrary: xs) (auto simp: add_set)

lemma fold_distinct:
  "distinct xs \<Longrightarrow> distinct (fold (\<lambda>ys acc. add acc ys) yss xs)"
  by (induction yss arbitrary: xs) (auto simp: add_distinct)

lemma add_nonempty: "xs \<noteq> [] \<Longrightarrow> add xs ys \<noteq> []"
  using add_extends[of xs ys] by auto

end

lemma append_unique_set: "set (append_unique xs ys) = set xs \<union> set ys"
  by (induction xs ys rule: append_unique.induct) auto

lemma append_unique_distinct: "distinct xs \<Longrightarrow> distinct (append_unique xs ys)"
  by (induction xs ys rule: append_unique.induct) auto

lemma append_unique_extends: "\<exists>zs. append_unique xs ys = xs @ zs"
  by (induction xs ys rule: append_unique.induct) auto

interpretation au: unique_appender append_unique "\<lambda>_. True"
  by unfold_locales
    (auto simp: append_unique_set append_unique_distinct intro: append_unique_extends)

section \<open>Lists\<close>

lemma find_Some_iff':
  "List.find P xs = Some x \<Longrightarrow> x \<in> set xs \<and> P x"
  by (auto simp: find_Some_iff)

lemma find_None_iff': "List.find P xs = None \<longleftrightarrow> (\<forall>x \<in> set xs. \<not> P x)"
  by (auto simp: find_None_iff)

text \<open>The first occurrence of each key: what \<^verbatim>\<open>if seen[k] { continue }\<close> keeps.\<close>

fun first_by :: "('a \<Rightarrow> 'k) \<Rightarrow> 'k list \<Rightarrow> 'a list \<Rightarrow> 'a list" where
  "first_by key seen [] = []"
| "first_by key seen (x # xs) =
     (if key x \<in> set seen then first_by key seen xs
      else x # first_by key (key x # seen) xs)"

lemma first_by_keys: "key ` set (first_by key seen xs) = key ` set xs - set seen"
  by (induction xs arbitrary: seen) auto

lemma first_by_subset: "set (first_by key seen xs) \<subseteq> set xs"
proof (induction xs arbitrary: seen)
  case Nil
  then show ?case by simp
next
  case (Cons x xs)
  from Cons[of seen] Cons[of "key x # seen"] show ?case by auto
qed

lemma first_by_distinct: "distinct (map key (first_by key seen xs))"
proof (induction xs arbitrary: seen)
  case Nil
  then show ?case by simp
next
  case (Cons x xs)
  have "key x \<notin> key ` set (first_by key (key x # seen) xs)"
    by (simp add: first_by_keys)
  with Cons show ?case by simp
qed

lemma first_by_mem_key:
  "x \<in> set xs \<Longrightarrow> key x \<notin> set seen \<Longrightarrow> \<exists>y \<in> set (first_by key seen xs). key y = key x"
proof -
  assume "x \<in> set xs" "key x \<notin> set seen"
  then have "key x \<in> key ` set (first_by key seen xs)" by (simp add: first_by_keys)
  then show ?thesis by auto
qed

section \<open>Machine integers\<close>

text \<open>Signed 64-bit wrap-around.\<close>

definition int64 :: "int \<Rightarrow> bool" where
  "int64 x \<longleftrightarrow> - (2 ^ 63) \<le> x \<and> x < 2 ^ 63"

definition wrap64 :: "int \<Rightarrow> int" where
  "wrap64 x = (x + 2 ^ 63) mod 2 ^ 64 - 2 ^ 63"

lemma wrap64_id: "int64 x \<Longrightarrow> wrap64 x = x"
  by (simp add: wrap64_def int64_def)

end
