(* ===== verification/GoStrings.thy ===== *)
theory GoStrings
  imports Prelude
begin

text \<open>
  The operations of Go's packages strings and unicode that the program calls, on byte strings.
  Separators and cut sets the program passes are ASCII, so working on bytes is exact.
  \<^verbatim>\<open>strings.TrimSpace\<close> removes Unicode white space, which is a finite set of byte
  sequences in UTF-8; \<open>space_seqs\<close> lists them.
\<close>

type_synonym gostring = string

abbreviation nl :: char where "nl \<equiv> CHR 0x0A"
abbreviation cr :: char where "cr \<equiv> CHR 0x0D"
abbreviation tab :: char where "tab \<equiv> CHR 0x09"
abbreviation sp :: char where "sp \<equiv> CHR 0x20"
abbreviation slash :: char where "slash \<equiv> CHR 0x2F"
abbreviation backslash :: char where "backslash \<equiv> CHR 0x5C"
abbreviation star :: char where "star \<equiv> CHR 0x2A"

section \<open>Prefixes and suffixes\<close>

definition has_prefix :: "string \<Rightarrow> string \<Rightarrow> bool" where
  "has_prefix s p \<longleftrightarrow> take (length p) s = p"

definition has_suffix :: "string \<Rightarrow> string \<Rightarrow> bool" where
  "has_suffix s p \<longleftrightarrow> length p \<le> length s \<and> drop (length s - length p) s = p"

definition trim_prefix :: "string \<Rightarrow> string \<Rightarrow> string" where
  "trim_prefix s p = (if has_prefix s p then drop (length p) s else s)"

definition trim_suffix :: "string \<Rightarrow> string \<Rightarrow> string" where
  "trim_suffix s p = (if has_suffix s p then take (length s - length p) s else s)"

lemma has_prefix_iff: "has_prefix s p \<longleftrightarrow> (\<exists>t. s = p @ t)"
proof
  assume "has_prefix s p"
  then have "s = p @ drop (length p) s"
    by (metis has_prefix_def append_take_drop_id)
  then show "\<exists>t. s = p @ t" ..
qed (auto simp: has_prefix_def)

lemma has_suffix_iff: "has_suffix s p \<longleftrightarrow> (\<exists>t. s = t @ p)"
proof
  assume "has_suffix s p"
  then have "s = take (length s - length p) s @ p"
    by (metis has_suffix_def append_take_drop_id)
  then show "\<exists>t. s = t @ p" ..
qed (auto simp: has_suffix_def)

lemma has_prefix_append [simp]: "has_prefix (p @ t) p"
  by (simp add: has_prefix_def)

lemma has_prefix_length: "has_prefix s p \<Longrightarrow> length p \<le> length s"
  by (auto simp: has_prefix_iff)

lemma has_suffix_append [simp]: "has_suffix (t @ p) p"
  by (simp add: has_suffix_def)

lemma has_prefix_Nil [simp]: "has_prefix s []"
  by (simp add: has_prefix_def)

lemma has_prefix_trans: "has_prefix s p \<Longrightarrow> has_prefix p q \<Longrightarrow> has_prefix s q"
  by (auto simp: has_prefix_iff)

lemma trim_prefix_append [simp]: "trim_prefix (p @ t) p = t"
  by (simp add: trim_prefix_def)

lemma trim_suffix_append [simp]: "trim_suffix (t @ p) p = t"
  by (simp add: trim_suffix_def)

section \<open>Searching\<close>

text \<open>\<^verbatim>\<open>strings.Index\<close>: the offset of the first occurrence; -1 is \<^const>\<open>None\<close>.\<close>

fun str_index :: "string \<Rightarrow> string \<Rightarrow> nat option" where
  "str_index [] p = (if p = [] then Some 0 else None)"
| "str_index (x # xs) p =
     (if has_prefix (x # xs) p then Some 0 else map_option Suc (str_index xs p))"

definition str_contains :: "string \<Rightarrow> string \<Rightarrow> bool" where
  "str_contains s p \<longleftrightarrow> str_index s p \<noteq> None"

lemma str_index_Some:
  "str_index s p = Some i \<Longrightarrow> \<exists>t. s = take i s @ p @ t \<and> i + length p \<le> length s"
proof (induction s p arbitrary: i rule: str_index.induct)
  case (1 p)
  then show ?case by (auto split: if_splits)
next
  case (2 x xs p)
  show ?case
  proof (cases "has_prefix (x # xs) p")
    case True
    with 2(2) have "i = 0" by simp
    moreover from True obtain t where "x # xs = p @ t" by (auto simp: has_prefix_iff)
    moreover from this have "length p \<le> length (x # xs)" by simp
    ultimately show ?thesis by auto
  next
    case False
    with 2(2) obtain j where j: "str_index xs p = Some j" "i = Suc j" by auto
    from 2(1)[OF False j(1)] j(2) show ?thesis by auto
  qed
qed

lemma str_index_found: "str_index (a @ p @ b) p \<noteq> None"
proof (induction a)
  case Nil
  have "has_prefix (p @ b) p" by simp
  then show ?case by (cases "p @ b") (auto simp del: has_prefix_append)
qed (simp split: if_split)

lemma str_contains_iff: "str_contains s p \<longleftrightarrow> (\<exists>a b. s = a @ p @ b)"
  using str_index_found str_index_Some by (fastforce simp: str_contains_def)

text \<open>\<^verbatim>\<open>strings.ContainsAny\<close> and \<^verbatim>\<open>strings.IndexAny\<close> with an ASCII set.\<close>

definition contains_any :: "string \<Rightarrow> string \<Rightarrow> bool" where
  "contains_any s cs \<longleftrightarrow> list_ex (\<lambda>c. c \<in> set cs) s"

fun index_any :: "string \<Rightarrow> string \<Rightarrow> nat option" where
  "index_any [] cs = None"
| "index_any (x # xs) cs = (if x \<in> set cs then Some 0 else map_option Suc (index_any xs cs))"

lemma contains_any_iff: "contains_any s cs \<longleftrightarrow> (\<exists>c \<in> set s. c \<in> set cs)"
  by (auto simp: contains_any_def list_ex_iff)

lemma index_any_None: "index_any s cs = None \<longleftrightarrow> \<not> contains_any s cs"
  by (induction s) (auto simp: contains_any_iff)

text \<open>\<^verbatim>\<open>strings.LastIndex\<close> of a single byte.\<close>

fun last_index_char :: "string \<Rightarrow> char \<Rightarrow> nat option" where
  "last_index_char [] c = None"
| "last_index_char (x # xs) c =
     (case last_index_char xs c of
        Some i \<Rightarrow> Some (Suc i)
      | None \<Rightarrow> (if x = c then Some 0 else None))"

lemma last_index_char_None: "last_index_char s c = None \<longleftrightarrow> c \<notin> set s"
  by (induction s) (auto split: option.splits)

section \<open>Splitting, joining, replacing\<close>

fun split_on :: "char \<Rightarrow> string \<Rightarrow> string list" where
  "split_on c [] = [[]]"
| "split_on c (x # xs) =
     (if x = c then [] # split_on c xs
      else (case split_on c xs of [] \<Rightarrow> [[x]] | y # ys \<Rightarrow> (x # y) # ys))"

fun str_join :: "string \<Rightarrow> string list \<Rightarrow> string" where
  "str_join sep [] = []"
| "str_join sep [x] = x"
| "str_join sep (x # y # zs) = x @ sep @ str_join sep (y # zs)"

lemma split_on_nonempty [simp]: "split_on c s \<noteq> []"
  by (induction s) (auto split: list.splits)

lemma str_join_Cons: "ys \<noteq> [] \<Longrightarrow> str_join sep (x # ys) = x @ sep @ str_join sep ys"
  by (cases ys) simp_all

lemma join_split: "str_join [c] (split_on c s) = s"
proof (induction s)
  case Nil
  then show ?case by simp
next
  case (Cons x xs)
  show ?case
  proof (cases "x = c")
    case True
    with Cons show ?thesis by (simp add: str_join_Cons)
  next
    case False
    obtain y ys where y: "split_on c xs = y # ys"
      by (meson list.exhaust split_on_nonempty)
    have "str_join [c] ((x # y) # ys) = x # str_join [c] (y # ys)"
      by (cases ys) simp_all
    with False y Cons show ?thesis by simp
  qed
qed

lemma split_on_no_sep: "t \<in> set (split_on c s) \<Longrightarrow> c \<notin> set t"
proof (induction s arbitrary: t)
  case Nil
  then show ?case by simp
next
  case (Cons x xs)
  obtain y ys where y: "split_on c xs = y # ys"
    by (meson list.exhaust split_on_nonempty)
  from Cons.prems Cons.IH y show ?case by (auto split: if_splits)
qed

lemma split_on_id: "c \<notin> set s \<Longrightarrow> split_on c s = [s]"
  by (induction s) auto

lemma split_on_append_sep: "c \<notin> set s \<Longrightarrow> split_on c (s @ c # t) = s # split_on c t"
  by (induction s) auto

lemma split_join:
  "ss \<noteq> [] \<Longrightarrow> \<forall>s \<in> set ss. c \<notin> set s \<Longrightarrow> split_on c (str_join [c] ss) = ss"
proof (induction ss)
  case Nil
  then show ?case by simp
next
  case (Cons s ss)
  then show ?case
    by (cases "ss = []") (auto simp: str_join_Cons split_on_id split_on_append_sep)
qed

text \<open>\<^verbatim>\<open>strings.ReplaceAll(s, old, new)\<close> for a single-byte \<^verbatim>\<open>old\<close>.\<close>

definition replace_char :: "char \<Rightarrow> char \<Rightarrow> string \<Rightarrow> string" where
  "replace_char a b s = map (\<lambda>c. if c = a then b else c) s"

lemma replace_char_id: "a \<notin> set s \<Longrightarrow> replace_char a b s = s"
  by (induction s) (auto simp: replace_char_def)

lemma replace_char_gone: "a \<noteq> b \<Longrightarrow> a \<notin> set (replace_char a b s)"
  by (auto simp: replace_char_def)

text \<open>\<^verbatim>\<open>strings.ReplaceAll\<close> in general; the program never passes an empty \<^verbatim>\<open>old\<close>.\<close>

function replace_all :: "string \<Rightarrow> string \<Rightarrow> string \<Rightarrow> string" where
  "replace_all s old new =
     (if old = [] \<or> s = [] then s
      else if has_prefix s old then new @ replace_all (drop (length old) s) old new
      else hd s # replace_all (tl s) old new)"
  by pat_completeness auto
termination
  by (relation "measure (\<lambda>(s, old, new). length s)") auto

declare replace_all.simps [simp del]

section \<open>White space\<close>

text \<open>
  The UTF-8 encodings of the code points for which \<^verbatim>\<open>unicode.IsSpace\<close> holds:
  TAB, LF, VT, FF, CR, SPACE, U+0085, U+00A0, U+1680, U+2000 to U+200A, U+2028, U+2029,
  U+202F, U+205F and U+3000.
\<close>

definition space_seqs :: "string list" where
  "space_seqs =
     [[tab], [nl], [CHR 0x0B], [CHR 0x0C], [cr], [sp],
      [CHR 0xC2, CHR 0x85], [CHR 0xC2, CHR 0xA0], [CHR 0xE1, CHR 0x9A, CHR 0x80],
      [CHR 0xE2, CHR 0x80, CHR 0x80], [CHR 0xE2, CHR 0x80, CHR 0x81],
      [CHR 0xE2, CHR 0x80, CHR 0x82], [CHR 0xE2, CHR 0x80, CHR 0x83],
      [CHR 0xE2, CHR 0x80, CHR 0x84], [CHR 0xE2, CHR 0x80, CHR 0x85],
      [CHR 0xE2, CHR 0x80, CHR 0x86], [CHR 0xE2, CHR 0x80, CHR 0x87],
      [CHR 0xE2, CHR 0x80, CHR 0x88], [CHR 0xE2, CHR 0x80, CHR 0x89],
      [CHR 0xE2, CHR 0x80, CHR 0x8A], [CHR 0xE2, CHR 0x80, CHR 0xA8],
      [CHR 0xE2, CHR 0x80, CHR 0xA9], [CHR 0xE2, CHR 0x80, CHR 0xAF],
      [CHR 0xE2, CHR 0x81, CHR 0x9F], [CHR 0xE3, CHR 0x80, CHR 0x80]]"

fun trim_left_fuel :: "nat \<Rightarrow> string \<Rightarrow> string" where
  "trim_left_fuel 0 s = s"
| "trim_left_fuel (Suc n) s =
     (case List.find (has_prefix s) space_seqs of
        None \<Rightarrow> s
      | Some p \<Rightarrow> trim_left_fuel n (drop (length p) s))"

fun trim_right_fuel :: "nat \<Rightarrow> string \<Rightarrow> string" where
  "trim_right_fuel 0 s = s"
| "trim_right_fuel (Suc n) s =
     (case List.find (has_suffix s) space_seqs of
        None \<Rightarrow> s
      | Some p \<Rightarrow> trim_right_fuel n (take (length s - length p) s))"

text \<open>
  Each round removes at least one byte, so as many rounds as there are bytes are enough
  (\<open>trim_space_no_leading\<close>, \<open>trim_space_no_trailing\<close> below).
\<close>

definition trim_space :: "string \<Rightarrow> string" where
  "trim_space s = (let t = trim_left_fuel (length s) s in trim_right_fuel (length t) t)"

lemma space_seqs_nonempty: "p \<in> set space_seqs \<Longrightarrow> p \<noteq> []"
  by (auto simp: space_seqs_def)

lemma space_seqs_prefix_Nil: "p \<in> set space_seqs \<Longrightarrow> \<not> has_prefix [] p"
  by (auto simp: has_prefix_iff space_seqs_nonempty)

lemma space_seqs_suffix_Nil: "p \<in> set space_seqs \<Longrightarrow> \<not> has_suffix [] p"
  by (auto simp: has_suffix_iff space_seqs_nonempty)

lemma trim_left_done:
  "length s \<le> n \<Longrightarrow> p \<in> set space_seqs \<Longrightarrow> \<not> has_prefix (trim_left_fuel n s) p"
proof (induction n arbitrary: s)
  case 0
  then show ?case by (simp add: space_seqs_prefix_Nil)
next
  case (Suc n)
  show ?case
  proof (cases "List.find (has_prefix s) space_seqs")
    case None
    with Suc.prems have "\<not> has_prefix s p" by (simp add: find_None_iff')
    with None show ?thesis by simp
  next
    case (Some q)
    then have q: "q \<in> set space_seqs" "has_prefix s q" by (auto dest: find_Some_iff')
    then have "length q \<noteq> 0" "length q \<le> length s"
      by (auto simp: space_seqs_nonempty has_prefix_iff)
    with Suc.prems(1) have "length (drop (length q) s) \<le> n"
      unfolding length_drop length_take by linarith
    with Suc Some show ?thesis by simp
  qed
qed

lemma trim_right_done:
  "length s \<le> n \<Longrightarrow> p \<in> set space_seqs \<Longrightarrow> \<not> has_suffix (trim_right_fuel n s) p"
proof (induction n arbitrary: s)
  case 0
  then show ?case by (simp add: space_seqs_suffix_Nil)
next
  case (Suc n)
  show ?case
  proof (cases "List.find (has_suffix s) space_seqs")
    case None
    with Suc.prems have "\<not> has_suffix s p" by (simp add: find_None_iff')
    with None show ?thesis by simp
  next
    case (Some q)
    then have q: "q \<in> set space_seqs" "has_suffix s q" by (auto dest: find_Some_iff')
    then have "length q \<noteq> 0" "length q \<le> length s"
      by (auto simp: space_seqs_nonempty has_suffix_iff)
    with Suc.prems(1) have "length (take (length s - length q) s) \<le> n"
      unfolding length_drop length_take by linarith
    with Suc Some show ?thesis by simp
  qed
qed

lemma trim_right_prefix: "\<exists>t. s = trim_right_fuel n s @ t"
proof (induction n arbitrary: s)
  case 0
  then show ?case by simp
next
  case (Suc n)
  show ?case
  proof (cases "List.find (has_suffix s) space_seqs")
    case (Some q)
    obtain t where "take (length s - length q) s
        = trim_right_fuel n (take (length s - length q) s) @ t"
      using Suc by blast
    then have "s = trim_right_fuel n (take (length s - length q) s) @ t @ drop (length s - length q) s"
      by (metis append_assoc append_take_drop_id)
    with Some show ?thesis by auto
  qed simp
qed

lemma trim_space_no_trailing: "p \<in> set space_seqs \<Longrightarrow> \<not> has_suffix (trim_space s) p"
  by (simp add: trim_space_def Let_def trim_right_done)

lemma trim_space_no_leading:
  assumes "p \<in> set space_seqs"
  shows "\<not> has_prefix (trim_space s) p"
proof
  let ?t = "trim_left_fuel (length s) s"
  assume "has_prefix (trim_space s) p"
  moreover obtain u where "?t = trim_space s @ u"
    using trim_right_prefix[of ?t "length ?t"] by (auto simp: trim_space_def Let_def)
  ultimately have "has_prefix ?t p" by (auto simp: has_prefix_iff)
  with assms show False using trim_left_done[of s "length s" p] by simp
qed

lemma trim_left_id: "\<forall>p \<in> set space_seqs. \<not> has_prefix s p \<Longrightarrow> trim_left_fuel n s = s"
  using find_None_iff'[of "has_prefix s" space_seqs] by (cases n) simp_all

lemma trim_right_id: "\<forall>p \<in> set space_seqs. \<not> has_suffix s p \<Longrightarrow> trim_right_fuel n s = s"
  using find_None_iff'[of "has_suffix s" space_seqs] by (cases n) simp_all

lemma trim_space_idem: "trim_space (trim_space s) = trim_space s"
proof -
  have "\<forall>p \<in> set space_seqs. \<not> has_prefix (trim_space s) p"
    by (simp add: trim_space_no_leading)
  moreover have "\<forall>p \<in> set space_seqs. \<not> has_suffix (trim_space s) p"
    by (simp add: trim_space_no_trailing)
  ultimately show ?thesis
    unfolding trim_space_def [of "trim_space s"]
    by (simp only: trim_left_id trim_right_id Let_def)
qed

text \<open>\<^verbatim>\<open>strings.TrimSpace(s) == ""\<close>, the test for a blank field.\<close>

definition blank :: "string \<Rightarrow> bool" where
  "blank s \<longleftrightarrow> trim_space s = []"

lemma blank_Nil [simp]: "blank []"
  by (simp add: blank_def trim_space_def)

text \<open>
  \<^verbatim>\<open>strings.FieldsFunc\<close>: the maximal runs of bytes outside an ASCII separator set.
\<close>

fun fields_acc :: "char list \<Rightarrow> string \<Rightarrow> string \<Rightarrow> string list" where
  "fields_acc seps cur [] = (if cur = [] then [] else [rev cur])"
| "fields_acc seps cur (x # xs) =
     (if x \<in> set seps
      then (if cur = [] then fields_acc seps [] xs else rev cur # fields_acc seps [] xs)
      else fields_acc seps (x # cur) xs)"

definition fields_of :: "char list \<Rightarrow> string \<Rightarrow> string list" where
  "fields_of seps s = fields_acc seps [] s"

lemma fields_acc_clean:
  "set cur \<inter> set seps = {} \<Longrightarrow>
   list_all (\<lambda>f. f \<noteq> [] \<and> set f \<inter> set seps = {}) (fields_acc seps cur s)"
proof (induction s arbitrary: cur)
  case Nil
  then show ?case by simp
next
  case (Cons x xs)
  show ?case
  proof (cases "x \<in> set seps")
    case True
    with Cons.prems Cons.IH[of "[]"] show ?thesis by simp
  next
    case False
    with Cons.prems Cons.IH[of "x # cur"] show ?thesis by simp
  qed
qed

lemma fields_of_clean:
  "f \<in> set (fields_of seps s) \<Longrightarrow> f \<noteq> [] \<and> set f \<inter> set seps = {}"
  using fields_acc_clean[of "[]" seps s] by (simp add: fields_of_def list_all_iff)

section \<open>Fields\<close>

text \<open>
  \<^verbatim>\<open>strings.Fields\<close>: the maximal runs without white space.  Every round removes a byte.
\<close>

fun str_fields_fuel :: "nat \<Rightarrow> string \<Rightarrow> string \<Rightarrow> string list" where
  "str_fields_fuel 0 cur s = (if cur = [] then [] else [cur])"
| "str_fields_fuel (Suc n) cur s =
     (case s of
        [] \<Rightarrow> (if cur = [] then [] else [cur])
      | c # cs \<Rightarrow>
          (case List.find (has_prefix s) space_seqs of
             Some p \<Rightarrow> (if cur = [] then [] else [cur]) @ str_fields_fuel n [] (drop (length p) s)
           | None \<Rightarrow> str_fields_fuel n (cur @ [c]) cs))"

definition str_fields :: "string \<Rightarrow> string list" where
  "str_fields s = str_fields_fuel (length s) [] s"

lemma str_fields_Nil [simp]: "str_fields [] = []"
  by (simp add: str_fields_def)

text \<open>The three parts of \<^verbatim>\<open>strings.Cut(s, sep)\<close> for a one-byte separator.\<close>

fun str_cut :: "char \<Rightarrow> string \<Rightarrow> string \<times> string \<times> bool" where
  "str_cut c [] = ([], [], False)"
| "str_cut c (x # xs) =
     (if x = c then ([], xs, True) else (case str_cut c xs of (a, b, ok) \<Rightarrow> (x # a, b, ok)))"

lemma str_cut_found: "str_cut c s = (a, b, True) \<longleftrightarrow> s = a @ c # b \<and> c \<notin> set a"
proof (induction s arbitrary: a)
  case Nil
  then show ?case by simp
next
  case (Cons x xs)
  obtain a' b' ok where s: "str_cut c xs = (a', b', ok)" by (metis prod_cases3)
  with Cons[of a'] Cons[of "tl a"] show ?case by (cases a) auto
qed

section \<open>UTF-8\<close>

text \<open>
  \<open>utf8_valid\<close> is \<^verbatim>\<open>utf8.ValidString\<close>.  The automaton keeps the number of
  continuation bytes still due and the range of the next one; after a lead byte the range excludes
  overlong forms, surrogates and code points above U+10FFFF.
\<close>

definition utf8_lead :: "nat \<Rightarrow> (nat \<times> nat \<times> nat) option" where
  "utf8_lead b =
     (if b < 128 then Some (0, 128, 191)
      else if 194 \<le> b \<and> b \<le> 223 then Some (1, 128, 191)
      else if b = 224 then Some (2, 160, 191)
      else if b = 237 then Some (2, 128, 159)
      else if 225 \<le> b \<and> b \<le> 239 then Some (2, 128, 191)
      else if b = 240 then Some (3, 144, 191)
      else if 241 \<le> b \<and> b \<le> 243 then Some (3, 128, 191)
      else if b = 244 then Some (3, 128, 143) else None)"

primrec utf8_from :: "nat \<Rightarrow> nat \<Rightarrow> nat \<Rightarrow> string \<Rightarrow> bool" where
  "utf8_from k lo hi [] \<longleftrightarrow> k = 0"
| "utf8_from k lo hi (c # s) \<longleftrightarrow>
     (let b = of_char c in
        if k > 0 then lo \<le> b \<and> b \<le> hi \<and> utf8_from (k - 1) 128 191 s
        else (case utf8_lead b of None \<Rightarrow> False | Some (k', lo', hi') \<Rightarrow> utf8_from k' lo' hi' s))"

definition utf8_valid :: "string \<Rightarrow> bool" where
  "utf8_valid s \<longleftrightarrow> utf8_from 0 128 191 s"

lemma utf8_lead_range: "utf8_lead b = Some (k, lo, hi) \<Longrightarrow> 128 \<le> lo"
  by (auto simp: utf8_lead_def split: if_splits)

lemma utf8_from_ascii:
  "of_char c < (128 :: nat) \<Longrightarrow> 128 \<le> lo \<Longrightarrow> utf8_from k lo hi (c # s) \<longleftrightarrow> k = 0 \<and> utf8_from 0 128 191 s"
  by (auto simp: Let_def utf8_lead_def)

lemma utf8_from_cut:
  "128 \<le> lo \<Longrightarrow> of_char c < (128 :: nat) \<Longrightarrow>
     utf8_from k lo hi (s @ c # t) \<longleftrightarrow> utf8_from k lo hi s \<and> utf8_valid t"
proof (induction s arbitrary: k lo hi)
  case Nil
  then show ?case using utf8_from_ascii[of c lo k hi t] by (auto simp: utf8_valid_def)
next
  case (Cons x xs)
  show ?case
    using Cons.IH[OF _ Cons.prems(2)] utf8_lead_range
    by (auto simp: Let_def split: option.split)
qed

lemma utf8_valid_cut: "of_char c < (128 :: nat) \<Longrightarrow> utf8_valid (s @ c # t) \<longleftrightarrow> utf8_valid s \<and> utf8_valid t"
  using utf8_from_cut[of 128 c 0 191 s t] by (simp add: utf8_valid_def)

lemma utf8_from_replace:
  "128 \<le> lo \<Longrightarrow> of_char a < (128 :: nat) \<Longrightarrow> of_char b < (128 :: nat) \<Longrightarrow>
     utf8_from k lo hi (replace_char a b s) = utf8_from k lo hi s"
proof (induction s arbitrary: k lo hi)
  case (Cons x xs)
  show ?case
  proof (cases "x = a")
    case True
    have "utf8_from k lo hi (b # replace_char a b xs) \<longleftrightarrow> k = 0 \<and> utf8_from 0 128 191 xs"
      using utf8_from_ascii[of b lo k hi] Cons by (auto simp del: utf8_from.simps)
    also have "\<dots> \<longleftrightarrow> utf8_from k lo hi (x # xs)"
      using utf8_from_ascii[of a lo k hi xs] Cons.prems True by (auto simp del: utf8_from.simps)
    finally show ?thesis using True by (simp add: replace_char_def)
  next
    case False
    then have r: "replace_char a b (x # xs) = x # replace_char a b xs" by (simp add: replace_char_def)
    show ?thesis unfolding r using Cons.IH[OF _ Cons.prems(2,3)] utf8_lead_range
      by (auto simp: Let_def split: option.split)
  qed
qed (simp add: replace_char_def)

lemma utf8_valid_replace [simp]:
  "of_char a < (128 :: nat) \<Longrightarrow> of_char b < (128 :: nat) \<Longrightarrow> utf8_valid (replace_char a b s) = utf8_valid s"
  by (simp add: utf8_valid_def utf8_from_replace)

lemma utf8_valid_Nil [simp]: "utf8_valid []"
  by (simp add: utf8_valid_def)

lemma utf8_valid_ascii: "list_all (\<lambda>c. of_char c < (128 :: nat)) s \<Longrightarrow> utf8_valid s"
  unfolding utf8_valid_def by (induction s) (simp_all add: utf8_lead_def)

end
