(* ===== verification/Base64.thy ===== *)
theory Base64
  imports GoStrings
begin

text \<open>
  \<^verbatim>\<open>base64.RawURLEncoding\<close>: the URL-safe alphabet without padding, which skill
  references, cursors and capability references use.  Decoding follows the Go decoder: line
  breaks are skipped, a character outside the alphabet or a single left-over character is an
  error, and the unused low bits of the last character are not checked (the decoder is not
  strict, which is why \<^verbatim>\<open>Verify\<close> re-encodes what it decoded).
\<close>

definition alphabet :: string where
  "alphabet = ''ABCDEFGHIJKLMNOPQRSTUVWXYZabcdefghijklmnopqrstuvwxyz0123456789-_''"

definition enc6 :: "nat \<Rightarrow> char" where
  "enc6 n = alphabet ! n"

fun index_in :: "string \<Rightarrow> char \<Rightarrow> nat option" where
  "index_in [] c = None"
| "index_in (x # xs) c = (if x = c then Some 0 else map_option Suc (index_in xs c))"

definition dec6 :: "char \<Rightarrow> nat option" where
  "dec6 c = index_in alphabet c"

fun b64_encode :: "string \<Rightarrow> string" where
  "b64_encode [] = []"
| "b64_encode [a] =
     (let n = of_char a * 16 in [enc6 (n div 64), enc6 (n mod 64)])"
| "b64_encode [a, b] =
     (let n = (of_char a * 256 + of_char b) * 4
      in [enc6 (n div 4096), enc6 (n div 64 mod 64), enc6 (n mod 64)])"
| "b64_encode (a # b # c # rest) =
     (let n = (of_char a * 256 + of_char b) * 256 + of_char c
      in enc6 (n div 262144) # enc6 (n div 4096 mod 64) # enc6 (n div 64 mod 64)
         # enc6 (n mod 64) # b64_encode rest)"

fun digits_decode :: "nat list \<Rightarrow> string option" where
  "digits_decode [] = Some []"
| "digits_decode [i] = None"
| "digits_decode [i, j] = Some [char_of ((i * 64 + j) div 16)]"
| "digits_decode [i, j, k] =
     (let n = ((i * 64 + j) * 64 + k) div 4 in Some [char_of (n div 256), char_of (n mod 256)])"
| "digits_decode (i # j # k # l # rest) =
     (let n = ((i * 64 + j) * 64 + k) * 64 + l
      in map_option (\<lambda>cs. char_of (n div 65536) # char_of (n div 256 mod 256)
                            # char_of (n mod 256) # cs) (digits_decode rest))"

fun all_some :: "'a option list \<Rightarrow> 'a list option" where
  "all_some [] = Some []"
| "all_some (None # xs) = None"
| "all_some (Some x # xs) = map_option (\<lambda>ys. x # ys) (all_some xs)"

definition b64_decode :: "string \<Rightarrow> string option" where
  "b64_decode s =
     (case all_some (map dec6 (filter (\<lambda>c. c \<noteq> nl \<and> c \<noteq> cr) s)) of
        None \<Rightarrow> None
      | Some ds \<Rightarrow> digits_decode ds)"

section \<open>Round trip\<close>

lemma alphabet_length: "length alphabet = 64"
  by (simp add: alphabet_def)

lemma distinct_alphabet: "distinct alphabet"
  by (simp add: alphabet_def)

lemma index_in_nth: "distinct xs \<Longrightarrow> i < length xs \<Longrightarrow> index_in xs (xs ! i) = Some i"
proof (induction xs arbitrary: i)
  case Nil
  then show ?case by simp
next
  case (Cons x xs)
  then show ?case by (cases i) auto
qed

lemma dec6_enc6 [simp]: "n < 64 \<Longrightarrow> dec6 (enc6 n) = Some n"
  by (simp add: dec6_def enc6_def index_in_nth distinct_alphabet alphabet_length)

lemma enc6_in: "n < 64 \<Longrightarrow> enc6 n \<in> set alphabet"
  by (simp add: enc6_def alphabet_length)

lemma alphabet_no_breaks: "c \<in> set alphabet \<Longrightarrow> c \<noteq> nl \<and> c \<noteq> cr \<and> c \<noteq> CHR ''.''"
  by (auto simp: alphabet_def)

lemma byte_lt: "of_char c < (256 :: nat)"
  by (rule nat_of_char_less_256)

lemma byte_le: "of_char c \<le> (255 :: nat)"
  using byte_lt[of c] by linarith

lemma b64_encode_alphabet: "set (b64_encode s) \<subseteq> set alphabet"
proof (induction s rule: b64_encode.induct)
  case (2 a)
  have "of_char a * 16 div 64 < (64::nat)" using byte_lt[of a] by arith
  then show ?case by (simp add: Let_def enc6_in)
next
  case (3 a b)
  have "(of_char a * 256 + of_char b) * 4 div 4096 < (64::nat)"
    using byte_le[of a] byte_le[of b] by (intro less_mult_imp_div_less) simp
  then show ?case by (simp add: Let_def enc6_in)
next
  case (4 a b c rest)
  have "((of_char a * 256 + of_char b) * 256 + of_char c) div 262144 < (64::nat)"
    using byte_le[of a] byte_le[of b] byte_le[of c] by (intro less_mult_imp_div_less) simp
  with 4 show ?case by (simp add: Let_def enc6_in)
qed simp

lemma encode_no_breaks: "filter (\<lambda>c. c \<noteq> nl \<and> c \<noteq> cr) (b64_encode s) = b64_encode s"
  using b64_encode_alphabet[of s] alphabet_no_breaks by (auto simp: filter_id_conv)

lemma encode_no_dot: "CHR ''.'' \<notin> set (b64_encode s)"
  using b64_encode_alphabet[of s] alphabet_no_breaks by blast

lemma digits3:
  fixes n :: nat
  assumes "n < 16777216"
  shows "((n div 262144 * 64 + n div 4096 mod 64) * 64 + n div 64 mod 64) * 64 + n mod 64 = n"
proof -
  have "n div 4096 = n div 64 div 64" "n div 262144 = n div 64 div 64 div 64"
    by (simp_all add: div_mult2_eq[symmetric])
  then show ?thesis by simp
qed

lemma parts3:
  fixes x y z :: nat
  assumes "y < 256" "z < 256"
  shows "((x * 256 + y) * 256 + z) div 65536 = x
    \<and> ((x * 256 + y) * 256 + z) div 256 mod 256 = y \<and> ((x * 256 + y) * 256 + z) mod 256 = z"
proof -
  define m where "m = x * 256 + y"
  have m: "(m * 256 + z) div 256 = m" "(m * 256 + z) mod 256 = z" using assms by simp_all
  have "(m * 256 + z) div 65536 = (m * 256 + z) div 256 div 256"
    by (simp only: div_mult2_eq[symmetric] numeral_times_numeral) simp
  with m have "(m * 256 + z) div 65536 = m div 256" by simp
  moreover have "m div 256 = x" "m mod 256 = y" using assms by (simp_all add: m_def)
  ultimately show ?thesis using m by (simp add: m_def[symmetric] del: char_of_mod_256)
qed

lemma decode_digits_encode:
  "\<exists>ds. all_some (map dec6 (b64_encode s)) = Some ds \<and> digits_decode ds = Some s"
proof (induction s rule: b64_encode.induct)
  case 1
  show ?case by simp
next
  case (2 a)
  let ?n = "of_char a * 16 :: nat"
  have "?n div 64 < 64" using byte_lt[of a] by arith
  then have "all_some (map dec6 (b64_encode [a])) = Some [?n div 64, ?n mod 64]"
    by (simp add: Let_def)
  moreover have "(?n div 64 * 64 + ?n mod 64) div 16 = of_char a"
    by (simp only: div_mult_mod_eq)
  ultimately show ?case by simp
next
  case (3 a b)
  define m :: nat where "m = of_char a * 256 + of_char b"
  have m: "m * 4 div 4096 < 64"
    unfolding m_def using byte_le[of a] byte_le[of b] by (intro less_mult_imp_div_less) simp
  have e: "b64_encode [a, b] = [enc6 (m * 4 div 4096), enc6 (m * 4 div 64 mod 64), enc6 (m * 4 mod 64)]"
    by (simp only: m_def b64_encode.simps Let_def)
  have "m * 4 div 4096 = m * 4 div 64 div 64" by (simp only: div_mult2_eq[symmetric] numeral_times_numeral) simp
  then have d: "(m * 4 div 4096 * 64 + m * 4 div 64 mod 64) * 64 + m * 4 mod 64 = m * 4"
    by (simp only: div_mult_mod_eq)
  have "m div 256 = of_char a" "m mod 256 = of_char b"
    unfolding m_def using byte_lt[of b] by simp_all
  then have c: "char_of (m div 256) = a" "char_of (m mod 256) = b" by (simp_all only: char_of_char)
  have "digits_decode [m * 4 div 4096, m * 4 div 64 mod 64, m * 4 mod 64] = Some [a, b]"
    by (simp only: digits_decode.simps Let_def d) (simp add: c del: char_of_mod_256)
  with e m show ?case by (simp del: digits_decode.simps)
next
  case (4 a b c rest)
  define n :: nat where "n = (of_char a * 256 + of_char b) * 256 + of_char c"
  obtain ds where ds: "all_some (map dec6 (b64_encode rest)) = Some ds" "digits_decode ds = Some rest"
    using 4 by (auto simp: Let_def)
  have n: "n < 16777216"
    unfolding n_def using byte_le[of a] byte_le[of b] byte_le[of c] by simp
  then have lt: "n div 262144 < 64" by simp
  have e: "b64_encode (a # b # c # rest) = enc6 (n div 262144) # enc6 (n div 4096 mod 64)
      # enc6 (n div 64 mod 64) # enc6 (n mod 64) # b64_encode rest"
    by (simp only: n_def b64_encode.simps Let_def)
  have "n div 65536 = of_char a" "n div 256 mod 256 = of_char b" "n mod 256 = of_char c"
    unfolding n_def using parts3[OF byte_lt[of b] byte_lt[of c]] by blast+
  then have c: "char_of (n div 65536) = a" "char_of (n div 256 mod 256) = b" "char_of (n mod 256) = c"
    by (simp_all only: char_of_char)
  have "digits_decode (n div 262144 # n div 4096 mod 64 # n div 64 mod 64 # n mod 64 # ds)
      = Some (a # b # c # rest)"
    by (simp only: digits_decode.simps Let_def digits3[OF n] ds(2)) (simp add: c del: char_of_mod_256)
  with e lt ds(1) show ?case by (simp del: digits_decode.simps)
qed

theorem b64_roundtrip: "b64_decode (b64_encode s) = Some s"
proof -
  obtain ds where "all_some (map dec6 (b64_encode s)) = Some ds" "digits_decode ds = Some s"
    using decode_digits_encode by blast
  then show ?thesis by (simp add: b64_decode_def encode_no_breaks)
qed

lemma b64_encode_inj: "b64_encode s = b64_encode t \<Longrightarrow> s = t"
  by (metis b64_roundtrip option.inject)

lemma b64_encode_Nil_iff: "b64_encode s = [] \<longleftrightarrow> s = []"
  using b64_encode_inj[of s "[]"] by auto

end
