(* ===== verification/Capability.thy ===== *)
theory Capability
  imports Base64
begin

text \<open>
  internal/capability: the protocol-neutral capability record with its schema digest
  (model.go), the size-bounded description (description.go), and the signed, short-lived
  references by which a caller names a capability it discovered (ref.go).

  Cryptographic primitives and the JSON codec are fields of \<open>prims\<close>: SHA-256, HMAC-SHA256,
  the decode-then-marshal step of \<^verbatim>\<open>canonicalJSON\<close>, the quoting of a JSON string, and the
  codec of the reference claims.  What a theorem needs of them (that decoding inverts encoding)
  is a hypothesis of that theorem.  Times are nanoseconds since the epoch.
\<close>

section \<open>Data\<close>

text \<open>\<^verbatim>\<open>CapabilityKind\<close> and \<^verbatim>\<open>AvailabilityStatus\<close> are Go string types.\<close>

type_synonym capability_kind = string
type_synonym availability_status = string

definition kind_tool :: capability_kind where "kind_tool = ''tool''"
definition kind_prompt :: capability_kind where "kind_prompt = ''prompt''"
definition kind_template :: capability_kind where "kind_template = ''resource-template''"
definition kind_server :: capability_kind where "kind_server = ''server''"

definition av_discovered :: availability_status where "av_discovered = ''discovered''"
definition av_suggested :: availability_status where "av_suggested = ''suggested''"
definition av_setup_required :: availability_status where "av_setup_required = ''setup-required''"
definition av_credential_missing :: availability_status where
  "av_credential_missing = ''credential-missing''"
definition av_login_required :: availability_status where "av_login_required = ''login-required''"
definition av_scope_required :: availability_status where "av_scope_required = ''scope-required''"
definition av_ready :: availability_status where "av_ready = ''ready''"
definition av_unsupported_auth :: availability_status where
  "av_unsupported_auth = ''unsupported-authentication''"
definition av_policy_denied :: availability_status where "av_policy_denied = ''policy-denied''"
definition av_unreachable :: availability_status where "av_unreachable = ''unreachable''"
definition av_stale :: availability_status where "av_stale = ''stale''"

lemmas availability_defs =
  av_discovered_def av_suggested_def av_setup_required_def av_credential_missing_def
  av_login_required_def av_scope_required_def av_ready_def av_unsupported_auth_def
  av_policy_denied_def av_unreachable_def av_stale_def

lemmas kind_defs = kind_tool_def kind_prompt_def kind_template_def kind_server_def

record server_identity =
  canonical_name :: string
  publisher :: string

record server_version =
  sv_identity :: server_identity
  sv_version :: string
  package_digest :: string
  sv_status :: string

text \<open>A \<^verbatim>\<open>time.Time\<close>: \<^const>\<open>None\<close> is the zero time.\<close>

type_synonym gotime = "int option"

record capability =
  cap_server :: server_version
  cap_kind :: capability_kind
  cap_name :: string
  cap_title :: string
  cap_description :: string
  input_schema :: string
  output_schema :: string
  schema_digest :: string
  availability :: availability_status
  observed_at :: gotime
  expires_at :: gotime
  routing_scope :: string
  auth_profile :: string

abbreviation server_name :: "capability \<Rightarrow> string" where
  "server_name c \<equiv> canonical_name (sv_identity (cap_server c))"

abbreviation server_ver :: "capability \<Rightarrow> string" where
  "server_ver c \<equiv> sv_version (cap_server c)"

record reference_claims =
  rc_server :: string
  rc_version :: string
  rc_capability :: string
  rc_kind :: capability_kind
  rc_schema_digest :: string
  rc_routing_scope :: string
  rc_auth_profile :: string
  rc_view :: string
  rc_context :: string
  rc_issued_at :: int
  rc_expires_at :: int
  rc_nonce :: string

record prims =
  sha256 :: "string \<Rightarrow> string"
  hmac :: "string \<Rightarrow> string \<Rightarrow> string"
  json_canon :: "string \<Rightarrow> string option"
  json_quote :: "string \<Rightarrow> string"
  claims_encode :: "reference_claims \<Rightarrow> string"
  claims_decode :: "string \<Rightarrow> reference_claims option"

section \<open>Schema digest\<close>

datatype cap_error =
    ServerNameRequired | ServerVersionRequired | KindRequired | NameRequired
  | BadInputSchema | BadOutputSchema | DigestMismatch string string

definition hex_digit :: "nat \<Rightarrow> char" where
  "hex_digit n = ''0123456789abcdef'' ! n"

definition hex_encode :: "string \<Rightarrow> string" where
  "hex_encode s = concat (map (\<lambda>c. [hex_digit (of_char c div 16), hex_digit (of_char c mod 16)]) s)"

definition canonical_json :: "prims \<Rightarrow> string \<Rightarrow> string option" where
  "canonical_json pr raw = (if blank raw then Some ''null'' else json_canon pr raw)"

abbreviation dq :: char where "dq \<equiv> CHR 0x22"

definition digest_payload :: "prims \<Rightarrow> capability_kind \<Rightarrow> string \<Rightarrow> string \<Rightarrow> string \<Rightarrow> string" where
  "digest_payload pr kind name input output =
     ''{'' @ [dq] @ ''kind'' @ [dq] @ '':'' @ json_quote pr kind
     @ '','' @ [dq] @ ''name'' @ [dq] @ '':'' @ json_quote pr name
     @ '','' @ [dq] @ ''input'' @ [dq] @ '':'' @ input
     @ '','' @ [dq] @ ''output'' @ [dq] @ '':'' @ output @ ''}''"

definition compute_schema_digest ::
  "prims \<Rightarrow> capability_kind \<Rightarrow> string \<Rightarrow> string \<Rightarrow> string \<Rightarrow> (cap_error, string) result" where
  "compute_schema_digest pr kind name input output =
     (case canonical_json pr input of
        None \<Rightarrow> Inl BadInputSchema
      | Some ci \<Rightarrow>
          (case canonical_json pr output of
             None \<Rightarrow> Inl BadOutputSchema
           | Some co \<Rightarrow> Inr (''sha256:'' @ hex_encode (sha256 pr (digest_payload pr kind name ci co)))))"

definition validate_capability :: "prims \<Rightarrow> capability \<Rightarrow> (cap_error, unit) result" where
  "validate_capability pr c =
     (if server_name c = [] then Inl ServerNameRequired
      else if server_ver c = [] then Inl ServerVersionRequired
      else if cap_kind c = [] then Inl KindRequired
      else if cap_name c = [] then Inl NameRequired
      else (case compute_schema_digest pr (cap_kind c) (cap_name c) (input_schema c) (output_schema c) of
              Inl e \<Rightarrow> Inl e
            | Inr digest \<Rightarrow>
                (if schema_digest c \<noteq> [] \<and> schema_digest c \<noteq> digest
                 then Inl (DigestMismatch (schema_digest c) digest) else Inr ())))"

definition with_computed_digest :: "prims \<Rightarrow> capability \<Rightarrow> (cap_error, capability) result" where
  "with_computed_digest pr c =
     (case compute_schema_digest pr (cap_kind c) (cap_name c) (input_schema c) (output_schema c) of
        Inl e \<Rightarrow> Inl e
      | Inr digest \<Rightarrow>
          (let c' = c\<lparr>schema_digest := digest\<rparr>
           in case validate_capability pr c' of Inl e \<Rightarrow> Inl e | Inr _ \<Rightarrow> Inr c'))"

text \<open>Everything about a capability but its digest survives; the digest is the computed one.\<close>

definition cap_complete :: "prims \<Rightarrow> capability \<Rightarrow> bool" where
  "cap_complete pr c \<longleftrightarrow>
     server_name c \<noteq> [] \<and> server_ver c \<noteq> [] \<and> cap_kind c \<noteq> [] \<and> cap_name c \<noteq> [] \<and>
     compute_schema_digest pr (cap_kind c) (cap_name c) (input_schema c) (output_schema c)
       = Inr (schema_digest c)"

lemma with_computed_Ok_iff [result_simps]:
  "with_computed_digest pr c = Inr c' \<longleftrightarrow>
     (\<exists>d. compute_schema_digest pr (cap_kind c) (cap_name c) (input_schema c) (output_schema c) = Inr d
        \<and> c' = c\<lparr>schema_digest := d\<rparr> \<and> server_name c \<noteq> [] \<and> server_ver c \<noteq> []
        \<and> cap_kind c \<noteq> [] \<and> cap_name c \<noteq> [])"
  by (auto simp: with_computed_digest_def validate_capability_def Let_def split: sum.splits)

lemma with_computed_complete: "with_computed_digest pr c = Inr c' \<Longrightarrow> cap_complete pr c'"
  by (auto simp: with_computed_Ok_iff cap_complete_def)

lemma with_computed_fixpoint: "cap_complete pr c \<Longrightarrow> with_computed_digest pr c = Inr c"
  by (auto simp: with_computed_Ok_iff cap_complete_def)

lemma compute_digest_nonempty:
  "compute_schema_digest pr k n i out = Inr d \<Longrightarrow> d \<noteq> []"
  by (auto simp: compute_schema_digest_def split: option.splits)

lemma with_computed_keeps:
  "with_computed_digest pr c = Inr c' \<Longrightarrow>
     cap_server c' = cap_server c \<and> cap_kind c' = cap_kind c \<and> cap_name c' = cap_name c
     \<and> availability c' = availability c \<and> routing_scope c' = routing_scope c
     \<and> auth_profile c' = auth_profile c \<and> input_schema c' = input_schema c"
  by (auto simp: with_computed_Ok_iff)

section \<open>Bounded descriptions\<close>

datatype description_error = BudgetInvalid | DescriptionTooLarge | EncodingFailed

definition default_description_max :: int where "default_description_max = 24 * 1024"
definition maximum_description_max :: int where "maximum_description_max = 64 * 1024"

definition marshal_description ::
  "(capability \<Rightarrow> string option) \<Rightarrow> capability \<Rightarrow> int \<Rightarrow> (description_error, string) result" where
  "marshal_description marshal_indent c max_bytes =
     (let m = (if max_bytes = 0 then default_description_max else max_bytes)
      in if m < 1 \<or> m > maximum_description_max then Inl BudgetInvalid
         else (case marshal_indent c of
                 None \<Rightarrow> Inl EncodingFailed
               | Some encoded \<Rightarrow>
                   (if int (length encoded) > m then Inl DescriptionTooLarge else Inr encoded)))"

section \<open>Signed references\<close>

definition reference_prefix :: string where "reference_prefix = ''mcp-tool:v1:''"

datatype ref_error =
    KeyTooShort | TTLNotPositive | IssueCapability cap_error | ViewAndContextRequired
  | InvalidReference | ExpiredReference

record reference_signer =
  sg_key :: string
  sg_ttl :: int

definition new_reference_signer :: "string \<Rightarrow> int \<Rightarrow> (ref_error, reference_signer) result" where
  "new_reference_signer key ttl =
     (if length key < 32 then Inl KeyTooShort
      else if ttl \<le> 0 then Inl TTLNotPositive
      else Inr \<lparr>sg_key = key, sg_ttl = ttl\<rparr>)"

text \<open>\<^verbatim>\<open>time.Time.Unix\<close> of a time in nanoseconds: whole seconds, rounded down.\<close>

definition unix :: "int \<Rightarrow> int" where
  "unix t = t div 1000000000"

text \<open>
  \<^verbatim>\<open>time.Unix(sec, 0)\<close> in nanoseconds: a time counts the seconds since the year 1 in 64 bits,
  so that a \<open>sec\<close> near the largest integer is a time in the past.
\<close>

definition unix_time :: "int \<Rightarrow> int" where
  "unix_time sec = (wrap64 (sec + 62135596800) - 62135596800) * 1000000000"

lemma unix_time_id: "- (2 ^ 62) \<le> sec \<Longrightarrow> sec < 2 ^ 62 \<Longrightarrow> unix_time sec = sec * 1000000000"
  by (simp add: unix_time_def wrap64_id int64_def)

definition sign :: "prims \<Rightarrow> reference_signer \<Rightarrow> string \<Rightarrow> string" where
  "sign pr s payload = hmac pr (sg_key s) payload"

definition reference_of :: "prims \<Rightarrow> reference_signer \<Rightarrow> string \<Rightarrow> string" where
  "reference_of pr s payload =
     reference_prefix @ b64_encode payload @ ''.'' @ b64_encode (sign pr s payload)"

text \<open>
  Clock readings are integers without a bound: \<^verbatim>\<open>now.Add(ttl)\<close> and
  \<^verbatim>\<open>now.Unix()\<close> are exact for a clock whose seconds fit in 62 bits, and the properties that
  depend on it say so.
\<close>

definition issue_claims ::
  "reference_signer \<Rightarrow> capability \<Rightarrow> string \<Rightarrow> string \<Rightarrow> int \<Rightarrow> string \<Rightarrow> reference_claims" where
  "issue_claims s c view ctx now nonce =
     \<lparr>rc_server = server_name c, rc_version = server_ver c, rc_capability = cap_name c,
      rc_kind = cap_kind c, rc_schema_digest = schema_digest c,
      rc_routing_scope = routing_scope c, rc_auth_profile = auth_profile c,
      rc_view = view, rc_context = ctx,
      rc_issued_at = unix now, rc_expires_at = unix (now + sg_ttl s),
      rc_nonce = b64_encode nonce\<rparr>"

text \<open>\<open>nonce\<close> is the 16 random bytes, \<open>now\<close> the reading of the signer's clock.\<close>

definition issue ::
  "prims \<Rightarrow> reference_signer \<Rightarrow> capability \<Rightarrow> string \<Rightarrow> string \<Rightarrow> int \<Rightarrow> string
   \<Rightarrow> (ref_error, string) result" where
  "issue pr s c view ctx now nonce =
     (case with_computed_digest pr c of
        Inl e \<Rightarrow> Inl (IssueCapability e)
      | Inr c' \<Rightarrow>
          (if view = [] \<or> ctx = [] then Inl ViewAndContextRequired
           else Inr (reference_of pr s (claims_encode pr (issue_claims s c' view ctx now nonce)))))"

definition claims_wf :: "reference_claims \<Rightarrow> bool" where
  "claims_wf c \<longleftrightarrow>
     \<not> (rc_server c = [] \<or> rc_version c = [] \<or> rc_capability c = [] \<or>
        rc_kind c = [] \<or> rc_schema_digest c = [] \<or> rc_view c = [] \<or>
        rc_context c = [] \<or> rc_issued_at c \<le> 0 \<or> rc_expires_at c \<le> rc_issued_at c \<or>
        rc_nonce c = [])"

definition verify ::
  "prims \<Rightarrow> reference_signer \<Rightarrow> int \<Rightarrow> string \<Rightarrow> (ref_error, reference_claims) result" where
  "verify pr s now ref =
     (if \<not> has_prefix ref reference_prefix then Inl InvalidReference
      else (case split_on (CHR ''.'') (trim_prefix ref reference_prefix) of
              [p0, p1] \<Rightarrow>
                (case b64_decode p0 of
                   None \<Rightarrow> Inl InvalidReference
                 | Some payload \<Rightarrow>
                     (if b64_encode payload \<noteq> p0 then Inl InvalidReference
                      else (case b64_decode p1 of
                              None \<Rightarrow> Inl InvalidReference
                            | Some mac \<Rightarrow>
                                (if b64_encode mac \<noteq> p1 \<or> mac \<noteq> sign pr s payload
                                 then Inl InvalidReference
                                 else (case claims_decode pr payload of
                                         None \<Rightarrow> Inl InvalidReference
                                       | Some claims \<Rightarrow>
                                           (if \<not> claims_wf claims then Inl InvalidReference
                                            else if \<not> now < unix_time (rc_expires_at claims)
                                            then Inl ExpiredReference
                                            else Inr claims))))))
            | _ \<Rightarrow> Inl InvalidReference))"

text \<open>
  An accepted reference is, byte for byte, the one the signer would build for its payload:
  the MAC is over that payload, the claims are complete, and they have not expired.
\<close>

lemma verify_sound:
  assumes "verify pr s now ref = Inr c"
  shows "\<exists>payload. ref = reference_of pr s payload \<and> claims_decode pr payload = Some c
     \<and> claims_wf c \<and> now < unix_time (rc_expires_at c)"
proof -
  from assms have pre: "has_prefix ref reference_prefix"
    by (auto simp: verify_def split: if_splits)
  then obtain t where t: "ref = reference_prefix @ t" by (auto simp: has_prefix_iff)
  from assms t obtain p0 p1 where sp: "split_on (CHR ''.'') t = [p0, p1]"
    by (auto simp: verify_def split: list.splits)
  then have tt: "t = p0 @ ''.'' @ p1" using join_split[of "CHR ''.''" t] by simp
  from assms pre t sp obtain payload mac where
    "b64_decode p0 = Some payload" "b64_encode payload = p0"
    "b64_decode p1 = Some mac" "b64_encode mac = p1" "mac = sign pr s payload"
    "claims_decode pr payload = Some c" "claims_wf c" "now < unix_time (rc_expires_at c)"
    by (auto simp: verify_def split: option.splits if_splits)
  with t tt show ?thesis by (auto simp: reference_of_def)
qed

lemma verify_reference_of:
  "verify pr s now (reference_of pr s payload) =
     (case claims_decode pr payload of
        None \<Rightarrow> Inl InvalidReference
      | Some c \<Rightarrow> (if \<not> claims_wf c then Inl InvalidReference
                   else if \<not> now < unix_time (rc_expires_at c) then Inl ExpiredReference
                   else Inr c))"
proof -
  have "split_on (CHR ''.'') (b64_encode payload @ ''.'' @ b64_encode (sign pr s payload))
      = [b64_encode payload, b64_encode (sign pr s payload)]"
    by (simp add: split_on_append_sep split_on_id encode_no_dot)
  then show ?thesis
    by (simp add: verify_def reference_of_def b64_roundtrip split: option.split)
qed

lemma issue_Ok_iff [result_simps]:
  "issue pr s c view ctx now nonce = Inr ref \<longleftrightarrow>
     (\<exists>c'. with_computed_digest pr c = Inr c' \<and> view \<noteq> [] \<and> ctx \<noteq> []
        \<and> ref = reference_of pr s (claims_encode pr (issue_claims s c' view ctx now nonce)))"
  by (auto simp: issue_def split: sum.splits)

lemma issued_claims_wf:
  assumes "cap_complete pr c" "view \<noteq> []" "ctx \<noteq> []" "nonce \<noteq> []"
    and "1000000000 \<le> now" "1000000000 \<le> sg_ttl s"
  shows "claims_wf (issue_claims s c view ctx now nonce)"
proof -
  have "0 < unix now" using assms(5) by (simp add: unix_def)
  moreover have "unix now < unix (now + sg_ttl s)"
    using assms(6) unfolding unix_def by linarith
  moreover have "schema_digest c \<noteq> []"
    using assms(1) compute_digest_nonempty unfolding cap_complete_def by metis
  ultimately show ?thesis
    using assms by (simp add: claims_wf_def issue_claims_def cap_complete_def b64_encode_Nil_iff)
qed

section \<open>The JSON of claims\<close>

text \<open>
  \<^verbatim>\<open>encoding/json\<close> gives back claims whose strings are UTF-8 and whose times are 64-bit
  integers; in other strings it replaces the offending bytes by U+FFFD.
\<close>

definition claims_text :: "reference_claims \<Rightarrow> bool" where
  "claims_text c \<longleftrightarrow>
     list_all utf8_valid [rc_server c, rc_version c, rc_capability c, rc_kind c, rc_schema_digest c,
       rc_routing_scope c, rc_auth_profile c, rc_view c, rc_context c, rc_nonce c] \<and>
     int64 (rc_issued_at c) \<and> int64 (rc_expires_at c)"

definition claims_codec :: "prims \<Rightarrow> bool" where
  "claims_codec pr \<longleftrightarrow> (\<forall>c. claims_text c \<longrightarrow> claims_decode pr (claims_encode pr c) = Some c)"

definition capability_text :: "capability \<Rightarrow> bool" where
  "capability_text c \<longleftrightarrow>
     list_all utf8_valid [server_name c, server_ver c, cap_kind c, cap_name c, routing_scope c, auth_profile c]"

lemma ascii_alphabet: "list_all (\<lambda>c. of_char c < (128 :: nat)) alphabet"
  by code_simp

lemma utf8_b64 [simp]: "utf8_valid (b64_encode s)"
  using b64_encode_alphabet[of s] ascii_alphabet by (intro utf8_valid_ascii) (auto simp: list_all_iff)

lemma ascii_hex: "n < 16 \<Longrightarrow> of_char (hex_digit n) < (128 :: nat)"
proof -
  have "list_all (\<lambda>c. of_char c < (128 :: nat)) ''0123456789abcdef''" by code_simp
  moreover assume "n < 16"
  ultimately show ?thesis by (simp add: hex_digit_def list_all_length)
qed

lemma utf8_digest: "compute_schema_digest pr k n i out = Inr d \<Longrightarrow> utf8_valid d"
proof (rule utf8_valid_ascii)
  assume "compute_schema_digest pr k n i out = Inr d"
  then obtain x where d: "d = ''sha256:'' @ hex_encode x"
    by (auto simp: compute_schema_digest_def split: option.splits)
  have "list_all (\<lambda>c. of_char c < (128 :: nat)) (hex_encode x)"
  proof -
    have "of_char c div 16 < (16 :: nat)" for c :: char by (rule less_mult_imp_div_less) (use byte_lt[of c] in simp)
    then show ?thesis using ascii_hex by (auto simp: hex_encode_def list_all_iff)
  qed
  moreover have "list_all (\<lambda>c. of_char c < (128 :: nat)) ''sha256:''" by code_simp
  ultimately show "list_all (\<lambda>c. of_char c < (128 :: nat)) d" unfolding d list_all_append by blast
qed

lemma issued_claims_text:
  assumes "cap_complete pr c" "capability_text c" "utf8_valid view" "utf8_valid ctx"
    and "1000000000 \<le> now" "0 \<le> sg_ttl s" "now + sg_ttl s < 2 ^ 62 * 1000000000"
  shows "claims_text (issue_claims s c view ctx now nonce)"
    and "unix_time (rc_expires_at (issue_claims s c view ctx now nonce)) = unix (now + sg_ttl s) * 1000000000"
proof -
  have r: "0 \<le> unix now" "unix now < 2 ^ 62" "0 \<le> unix (now + sg_ttl s)" "unix (now + sg_ttl s) < 2 ^ 62"
    using assms(5-7) unfolding unix_def by linarith+
  have "utf8_valid (schema_digest c)" using assms(1) utf8_digest by (auto simp: cap_complete_def)
  then show "claims_text (issue_claims s c view ctx now nonce)"
    using assms(2-4) r by (simp add: claims_text_def issue_claims_def capability_text_def int64_def)
  show "unix_time (rc_expires_at (issue_claims s c view ctx now nonce)) = unix (now + sg_ttl s) * 1000000000"
    using r by (simp add: issue_claims_def unix_time_id)
qed

text \<open>
  The contract of the reference codec towards the broker: an accepted reference carries
  complete, unexpired claims, and acceptance does not depend on anything but key and clock.
\<close>

locale reference_codec =
  fixes accept :: "int \<Rightarrow> string \<Rightarrow> (ref_error, reference_claims) result"
  assumes accept_wf: "accept now ref = Inr c \<Longrightarrow> claims_wf c"
    and accept_fresh: "accept now ref = Inr c \<Longrightarrow> now < unix_time (rc_expires_at c)"
    and accept_mono: "accept now ref = Inr c \<Longrightarrow> now' \<le> now \<Longrightarrow> accept now' ref = Inr c"
begin

lemma accept_same_claims: "accept now ref = Inr c \<Longrightarrow> accept now' ref = Inr c' \<Longrightarrow> c = c'"
  by (metis accept_mono linear sum.inject(2))

lemma expired_rejected:
  "accept now ref = Inr c \<Longrightarrow> unix_time (rc_expires_at c) \<le> later \<Longrightarrow> accept later ref \<noteq> Inr c'"
  by (metis accept_fresh accept_same_claims not_le)

end

interpretation signer: reference_codec "verify pr s" for pr s
proof
  fix now ref c
  assume v: "verify pr s now ref = Inr c"
  show "claims_wf c" "now < unix_time (rc_expires_at c)"
    using verify_sound[OF v] by auto
  fix now' :: int
  assume le: "now' \<le> now"
  from verify_sound[OF v] obtain p where p: "ref = reference_of pr s p"
    "claims_decode pr p = Some c" "claims_wf c" "now < unix_time (rc_expires_at c)" by auto
  with le show "verify pr s now' ref = Inr c" by (simp add: verify_reference_of)
qed

end
