(* ===== verification/GoPath.thy ===== *)
theory GoPath
  imports GoStrings
begin

text \<open>
  The lexical operations of Go's path/filepath on a Unix system: \<^verbatim>\<open>Clean\<close>,
  \<^verbatim>\<open>Join\<close>, \<^verbatim>\<open>Dir\<close>, \<^verbatim>\<open>IsAbs\<close>.  \<^verbatim>\<open>ToSlash\<close> is the identity
  there and is left out of the model.  A path is processed as its list of components; the
  stack of components kept so far has the last one at its head, as the write position of
  the Go code has it.
\<close>

definition is_abs :: "string \<Rightarrow> bool" where
  "is_abs p \<longleftrightarrow> has_prefix p [slash]"

definition clean_step :: "bool \<Rightarrow> string list \<Rightarrow> string \<Rightarrow> string list" where
  "clean_step rooted st c =
     (if c = [] \<or> c = ''.'' then st
      else if c = ''..'' then
        (if st \<noteq> [] \<and> hd st \<noteq> ''..'' then tl st
         else if rooted then st
         else ''..'' # st)
      else c # st)"

definition clean_stack :: "bool \<Rightarrow> string list \<Rightarrow> string list \<Rightarrow> string list" where
  "clean_stack rooted st cs = foldl (clean_step rooted) st cs"

definition path_clean :: "string \<Rightarrow> string" where
  "path_clean p =
     (if p = [] then ''.''
      else let rooted = is_abs p;
               body = str_join [slash] (rev (clean_stack rooted [] (split_on slash p)))
           in if rooted then slash # body
              else if body = [] then ''.'' else body)"

text \<open>\<^verbatim>\<open>filepath.Join\<close> drops empty elements, joins the rest and cleans.\<close>

definition path_join :: "string list \<Rightarrow> string" where
  "path_join es =
     (let ne = filter (\<lambda>e. e \<noteq> []) es in if ne = [] then [] else path_clean (str_join [slash] ne))"

definition path_dir :: "string \<Rightarrow> string" where
  "path_dir p =
     path_clean (case last_index_char p slash of None \<Rightarrow> [] | Some i \<Rightarrow> take (Suc i) p)"

text \<open>\<^verbatim>\<open>strings.TrimRight(s, "/")\<close>\<close>

fun trim_slashes :: "string \<Rightarrow> string" where
  "trim_slashes s = rev (dropWhile (\<lambda>c. c = slash) (rev s))"

text \<open>\<^verbatim>\<open>filepath.Base\<close>\<close>

definition path_base :: "string \<Rightarrow> string" where
  "path_base p =
     (if p = [] then ''.''
      else (let q = trim_slashes p in if q = [] then [slash] else last (split_on slash q)))"

section \<open>The stack of components\<close>

lemma clean_stack_Nil [simp]: "clean_stack r st [] = st"
  by (simp add: clean_stack_def)

lemma clean_stack_Cons [simp]:
  "clean_stack r st (c # cs) = clean_stack r (clean_step r st c) cs"
  by (simp add: clean_stack_def)

lemma clean_stack_append [simp]:
  "clean_stack r st (cs @ ds) = clean_stack r (clean_stack r st cs) ds"
  by (simp add: clean_stack_def)

text \<open>
  What holds of a stack: components are proper, and \<open>..\<close> occurs only below everything
  else (and never in a rooted path).
\<close>

definition proper_comp :: "string \<Rightarrow> bool" where
  "proper_comp c \<longleftrightarrow> c \<noteq> [] \<and> c \<noteq> ''.'' \<and> slash \<notin> set c"

fun dots_last :: "string list \<Rightarrow> bool" where
  "dots_last [] = True"
| "dots_last (c # st) = ((c = ''..'' \<longrightarrow> (\<forall>d \<in> set st. d = ''..'')) \<and> dots_last st)"

definition stack_ok :: "bool \<Rightarrow> string list \<Rightarrow> bool" where
  "stack_ok rooted st \<longleftrightarrow>
     (\<forall>c \<in> set st. proper_comp c) \<and> dots_last st \<and> (rooted \<longrightarrow> ''..'' \<notin> set st)"

lemma stack_ok_Nil [simp]: "stack_ok r []"
  by (simp add: stack_ok_def)

lemma proper_dotdot: "proper_comp ''..''"
  by (simp add: proper_comp_def)

lemma dots_last_top:
  "dots_last st \<Longrightarrow> st = [] \<or> hd st = ''..'' \<Longrightarrow> \<forall>d \<in> set st. d = ''..''"
  by (cases st) auto

lemma dots_last_bottom:
  "dots_last st \<Longrightarrow> ''..'' \<in> set st \<Longrightarrow> last st = ''..''"
proof (induction st)
  case Nil
  then show ?case by simp
next
  case (Cons c st)
  show ?case
  proof (cases "st = []")
    case True
    with Cons.prems show ?thesis by simp
  next
    case False
    then have "last st \<in> set st" by simp
    with Cons.prems have "last st = ''..'' \<or> ''..'' \<in> set st" by (metis dots_last.simps(2) set_ConsD)
    with Cons.prems Cons.IH False show ?thesis by (metis dots_last.simps(2) last_ConsR)
  qed
qed

lemma clean_step_ok:
  assumes "stack_ok r st" "slash \<notin> set c"
  shows "stack_ok r (clean_step r st c)"
proof (cases "c = [] \<or> c = ''.''")
  case True
  with assms show ?thesis by (auto simp: clean_step_def)
next
  case nontriv: False
  show ?thesis
  proof (cases "c = ''..''")
    case False
    with nontriv assms show ?thesis
      by (simp add: clean_step_def stack_ok_def proper_comp_def)
  next
    case True
    show ?thesis
    proof (cases "st \<noteq> [] \<and> hd st \<noteq> ''..''")
      case pop: True
      then obtain d ds where "st = d # ds" by (cases st) auto
      with pop True assms(1) show ?thesis by (simp add: clean_step_def stack_ok_def)
    next
      case push: False
      with assms(1) have "\<forall>d \<in> set st. d = ''..''"
        using dots_last_top[of st] by (auto simp: stack_ok_def)
      with push True assms(1) show ?thesis
        by (auto simp: clean_step_def stack_ok_def proper_dotdot)
    qed
  qed
qed

lemma clean_stack_ok:
  "stack_ok r st \<Longrightarrow> \<forall>c \<in> set cs. slash \<notin> set c \<Longrightarrow> stack_ok r (clean_stack r st cs)"
  by (induction cs arbitrary: st) (simp_all add: clean_step_ok)

text \<open>Components that are already clean are pushed as they are.\<close>

lemma clean_stack_id:
  "stack_ok r (rev cs @ st) \<Longrightarrow> clean_stack r st cs = rev cs @ st"
proof (induction cs arbitrary: st)
  case Nil
  then show ?case by simp
next
  case (Cons c cs)
  from Cons.prems have ok: "stack_ok r (rev cs @ c # st)" by simp
  then have p: "proper_comp c" by (simp add: stack_ok_def)
  have "clean_step r st c = c # st"
  proof (cases "c = ''..''")
    case False
    with p show ?thesis by (simp add: clean_step_def proper_comp_def)
  next
    case True
    have "dots_last (xs @ ys) \<Longrightarrow> dots_last ys" for xs ys :: "string list"
      by (induction xs) auto
    then have "dots_last (c # st)" using ok unfolding stack_ok_def by blast
    with True ok show ?thesis
      by (cases st) (auto simp: clean_step_def stack_ok_def)
  qed
  with Cons.IH[OF ok] show ?case by simp
qed

text \<open>
  A relative path whose clean form has no \<open>..\<close> never leaves the directory it starts
  in: it pushes the same components on top of any rooted stack.
\<close>

lemma clean_stack_no_escape:
  assumes "''..'' \<notin> set (clean_stack False [] cs)"
  shows "clean_stack True S cs = clean_stack False [] cs @ S"
  using assms
proof (induction cs rule: rev_induct)
  case Nil
  then show ?case by simp
next
  case (snoc c cs)
  let ?st = "clean_stack False [] cs"
  show ?case
  proof (cases "c = ''..''")
    case False
    with snoc.prems have "''..'' \<notin> set ?st"
      by (auto simp: clean_step_def split: if_splits)
    with snoc.IH False show ?thesis by (simp add: clean_step_def)
  next
    case True
    with snoc.prems obtain d ds where d: "?st = d # ds" "d \<noteq> ''..''"
      by (cases ?st) (auto simp: clean_step_def split: if_splits)
    with True snoc.prems have "''..'' \<notin> set ?st" by (simp add: clean_step_def)
    from snoc.IH[OF this] d True show ?thesis by (simp add: clean_step_def)
  qed
qed

section \<open>Splitting and joining paths\<close>

lemma split_on_append:
  "split_on c (s @ c # t) = split_on c s @ split_on c t"
proof (induction s)
  case Nil
  then show ?case by simp
next
  case (Cons x xs)
  obtain y ys where "split_on c xs = y # ys"
    by (meson list.exhaust split_on_nonempty)
  with Cons show ?case by simp
qed

lemma split_on_slash_free: "c \<in> set (split_on slash p) \<Longrightarrow> slash \<notin> set c"
  by (rule split_on_no_sep)

lemma clean_comps_ok: "stack_ok r (clean_stack r [] (split_on slash p))"
  by (rule clean_stack_ok) (auto dest: split_on_slash_free)

lemma split_join_stack:
  "stack_ok r st \<Longrightarrow> st \<noteq> [] \<Longrightarrow> split_on slash (str_join [slash] (rev st)) = rev st"
  by (rule split_join) (auto simp: stack_ok_def proper_comp_def)

lemma str_join_ne: "ss \<noteq> [] \<Longrightarrow> \<forall>s \<in> set ss. s \<noteq> [] \<Longrightarrow> str_join sep ss \<noteq> []"
  by (cases ss; cases "tl ss") (auto simp: str_join_Cons)

lemma str_join_hd:
  "ss \<noteq> [] \<Longrightarrow> \<forall>s \<in> set ss. s \<noteq> [] \<Longrightarrow> hd (str_join sep ss) = hd (hd ss)"
  by (cases ss; cases "tl ss") (auto simp: str_join_Cons)

lemma is_abs_Cons [simp]: "is_abs (c # p) \<longleftrightarrow> c = slash"
  by (simp add: is_abs_def has_prefix_def)

lemma is_abs_Nil [simp]: "\<not> is_abs []"
  by (simp add: is_abs_def has_prefix_def)

lemma join_not_abs:
  assumes "stack_ok r st" "st \<noteq> []"
  shows "\<not> is_abs (str_join [slash] (rev st))" "str_join [slash] (rev st) \<noteq> []"
proof -
  have ne: "rev st \<noteq> []" "\<forall>s \<in> set (rev st). s \<noteq> []"
    using assms by (auto simp: stack_ok_def proper_comp_def)
  show j: "str_join [slash] (rev st) \<noteq> []" by (rule str_join_ne) (use ne in auto)
  have "hd (rev st) \<in> set st" using assms(2) by (simp add: hd_rev)
  then have c: "proper_comp (hd (rev st))" using assms(1) by (auto simp: stack_ok_def)
  then have "hd (hd (rev st)) \<in> set (hd (rev st))" by (simp add: proper_comp_def)
  with c have "hd (hd (rev st)) \<noteq> slash" unfolding proper_comp_def by metis
  then have "hd (str_join [slash] (rev st)) \<noteq> slash" using str_join_hd[OF ne] by simp
  with j show "\<not> is_abs (str_join [slash] (rev st))"
    by (cases "str_join [slash] (rev st)") auto
qed

section \<open>Clean\<close>

text \<open>The clean form of a path, by the two shapes it has.\<close>

lemma path_clean_rooted:
  "is_abs p \<Longrightarrow> path_clean p = slash # str_join [slash] (rev (clean_stack True [] (split_on slash p)))"
  by (cases p) (auto simp: path_clean_def)

lemma path_clean_rel:
  assumes "\<not> is_abs p" "p \<noteq> []"
  shows "path_clean p =
    (let st = clean_stack False [] (split_on slash p)
     in if st = [] then ''.'' else str_join [slash] (rev st))"
proof (cases "clean_stack False [] (split_on slash p) = []")
  case True
  with assms show ?thesis by (simp add: path_clean_def)
next
  case False
  from join_not_abs(2)[OF clean_comps_ok False] assms False show ?thesis
    by (simp add: path_clean_def Let_def)
qed

lemma path_clean_idem: "path_clean (path_clean p) = path_clean p"
proof (cases "is_abs p")
  case True
  let ?st = "clean_stack True [] (split_on slash p)"
  have c: "path_clean p = slash # str_join [slash] (rev ?st)"
    using True by (rule path_clean_rooted)
  have "clean_stack True [] (split_on slash (slash # str_join [slash] (rev ?st))) = ?st"
  proof (cases "?st = []")
    case True
    then show ?thesis by (simp add: clean_step_def)
  next
    case False
    from clean_stack_id[of True "rev ?st" "[]"] clean_comps_ok[of True p]
    show ?thesis by (simp add: clean_step_def split_join_stack[OF clean_comps_ok False])
  qed
  then show ?thesis using c by (simp add: path_clean_rooted)
next
  case False
  let ?st = "clean_stack False [] (split_on slash p)"
  show ?thesis
  proof (cases "p = [] \<or> ?st = []")
    case True
    with False have "path_clean p = ''.''" by (auto simp: path_clean_rel path_clean_def)
    then show ?thesis by (simp add: path_clean_def clean_step_def is_abs_def has_prefix_def)
  next
    case st: False
    with False have c: "path_clean p = str_join [slash] (rev ?st)"
      by (simp add: path_clean_rel Let_def)
    have ok: "stack_ok False ?st" by (rule clean_comps_ok)
    from join_not_abs[OF ok] st
    have na: "\<not> is_abs (path_clean p)" "path_clean p \<noteq> []" by (auto simp: c)
    have "split_on slash (path_clean p) = rev ?st"
      unfolding c by (rule split_join_stack[OF ok]) (use st in simp)
    then have "clean_stack False [] (split_on slash (path_clean p)) = ?st"
      using clean_stack_id[of False "rev ?st" "[]"] ok by simp
    with path_clean_rel[OF na] c st show ?thesis by (simp add: Let_def)
  qed
qed

text \<open>\<^verbatim>\<open>clean != ".." && !strings.HasPrefix(clean, "../")\<close>\<close>

definition stays_inside :: "string \<Rightarrow> bool" where
  "stays_inside clean \<longleftrightarrow> clean \<noteq> ''..'' \<and> \<not> has_prefix clean ''../''"

lemma stays_inside_no_dots:
  assumes "\<not> is_abs p" "p \<noteq> []" "stays_inside (path_clean p)"
  shows "''..'' \<notin> set (clean_stack False [] (split_on slash p))"
proof
  let ?st = "clean_stack False [] (split_on slash p)"
  assume dd: "''..'' \<in> set ?st"
  have ok: "stack_ok False ?st" by (rule clean_comps_ok)
  then have "last ?st = ''..''" using dd by (intro dots_last_bottom) (simp_all add: stack_ok_def)
  moreover have ne: "?st \<noteq> []" using dd by force
  ultimately have "hd (rev ?st) = ''..''" by (simp add: hd_rev)
  with ne obtain cs where cs: "rev ?st = ''..'' # cs"
    by (metis list.collapse rev_is_Nil_conv)
  have "path_clean p = str_join [slash] (''..'' # cs)"
    using path_clean_rel[OF assms(1,2)] cs ne by (simp add: Let_def)
  with assms(3) show False
    by (cases cs) (auto simp: stays_inside_def has_prefix_def)
qed

text \<open>
  Joining a directory and a relative path that stays inside gives that directory or a path
  below it.
\<close>

definition below :: "string \<Rightarrow> string \<Rightarrow> bool" where
  "below dir p \<longleftrightarrow> p = dir \<or> has_prefix p (if dir = [slash] then dir else dir @ [slash])"

lemma str_join_append:
  "xs \<noteq> [] \<Longrightarrow> ys \<noteq> [] \<Longrightarrow> str_join sep (xs @ ys) = str_join sep xs @ sep @ str_join sep ys"
proof (induction xs)
  case Nil
  then show ?case by simp
next
  case (Cons x xs)
  then show ?case by (cases "xs = []") (simp_all add: str_join_Cons)
qed

lemma path_join_inside:
  assumes "is_abs dir" "path_clean dir = dir" "\<not> is_abs p" "p \<noteq> []" "stays_inside (path_clean p)"
  shows "below dir (path_join [dir, p])"
proof -
  let ?D = "clean_stack True [] (split_on slash dir)"
  let ?P = "clean_stack False [] (split_on slash p)"
  have nd: "''..'' \<notin> set ?P" using assms(3-5) by (rule stays_inside_no_dots)
  obtain d ds where d: "dir = d # ds" using assms(1) by (cases dir) auto
  then have a: "is_abs (dir @ slash # p)" using assms(1) by simp
  have "path_join [dir, p] = path_clean (dir @ slash # p)"
    using d assms(4) by (simp add: path_join_def)
  also have "\<dots> = slash # str_join [slash] (rev (?P @ ?D))"
    using path_clean_rooted[OF a] clean_stack_no_escape[OF nd] by (simp add: split_on_append)
  finally have j: "path_join [dir, p] = slash # str_join [slash] (rev ?D @ rev ?P)" by simp
  have dd: "dir = slash # str_join [slash] (rev ?D)"
    using path_clean_rooted[OF assms(1)] assms(2) by simp
  show ?thesis
  proof (cases "?P = []")
    case True
    with j dd show ?thesis by (simp add: below_def)
  next
    case P: False
    show ?thesis
    proof (cases "?D = []")
      case True
      with dd have "dir = [slash]" by simp
      with j show ?thesis by (simp add: below_def has_prefix_def)
    next
      case False
      with P j have "path_join [dir, p] = (slash # str_join [slash] (rev ?D)) @ slash # str_join [slash] (rev ?P)"
        by (simp add: str_join_append)
      then have jp: "path_join [dir, p] = (dir @ [slash]) @ str_join [slash] (rev ?P)"
        using dd by simp
      have "dir \<noteq> [slash]"
        using dd join_not_abs(2)[OF clean_comps_ok False] by auto
      with jp show ?thesis unfolding below_def by (metis has_prefix_append)
    qed
  qed
qed

end
