(* ===== verification/ScopeIndex.thy ===== *)
theory ScopeIndex
  imports GoPath
begin

text \<open>
  Scope patterns and the path index: \<^verbatim>\<open>classifyScope\<close>, \<^verbatim>\<open>pathPrefixes\<close> and
  \<^verbatim>\<open>globMatchPath\<close> of internal/registry/path.go, \<^verbatim>\<open>scopesMatchPath\<close> of
  internal/query/query.go and \<^verbatim>\<open>MatchesPath\<close> of internal/linker/linker.go.

  The glob compiler (github.com/gobwas/glob, called with separator \<^verbatim>\<open>'/'\<close>) is not
  part of the repository and is a parameter \<open>glob\<close>: \<open>None\<close> when a pattern does not compile,
  otherwise the matcher.  \<open>glob_laws\<close> states the documented behaviour the index relies on.
\<close>

type_synonym globber = "string \<Rightarrow> (string \<Rightarrow> bool) option"

datatype pattern_type = UniversalPat | PrefixPat | ExactPat | GlobPat

definition norm_path :: "string \<Rightarrow> string" where
  "norm_path p = replace_char backslash slash p"

definition classify_scope :: "string \<Rightarrow> pattern_type \<times> string" where
  "classify_scope scope =
     (let norm = norm_path scope
      in if norm = ''**'' then (UniversalPat, [])
         else (case index_any norm ''*?'' of
                 None \<Rightarrow> (ExactPat, norm)
               | Some i \<Rightarrow>
                   (let base = take (length norm - 3) norm
                    in if has_suffix norm ''/**'' \<and> \<not> contains_any base ''*?''
                       then (PrefixPat, base @ [slash])
                       else (GlobPat,
                             (case last_index_char (take i norm) slash of
                                None \<Rightarrow> []
                              | Some j \<Rightarrow> take (Suc j) norm)))))"

definition path_prefixes :: "string \<Rightarrow> string list" where
  "path_prefixes path =
     (if path = [] then []
      else let parts = split_on slash path; n = length parts
           in map (\<lambda>i. str_join [slash] (take i parts) @ (if i < n then [slash] else [])) [1..<Suc n])"

definition glob_match_path :: "globber \<Rightarrow> string \<Rightarrow> string \<Rightarrow> bool" where
  "glob_match_path glob pattern path =
     (let norm = norm_path pattern
      in if norm = ''**'' then True
         else (case glob norm of
                 None \<Rightarrow> has_prefix path (trim_suffix norm ''/**'')
               | Some g \<Rightarrow> g path))"

fun scopes_match :: "globber \<Rightarrow> string list \<Rightarrow> string \<Rightarrow> bool" where
  "scopes_match glob [] path = False"
| "scopes_match glob (scope # rest) path =
     (let norm = norm_path scope
      in if norm = ''**'' then True
         else (case glob norm of
                 None \<Rightarrow> (if has_prefix path (trim_suffix norm ''/**'') then True
                          else scopes_match glob rest path)
               | Some g \<Rightarrow> (if g path then True else scopes_match glob rest path)))"

definition scopes_match_path :: "globber \<Rightarrow> string list \<Rightarrow> string \<Rightarrow> bool" where
  "scopes_match_path glob scopes path = scopes_match glob scopes (norm_path path)"

definition matches_path :: "globber \<Rightarrow> string \<Rightarrow> string \<Rightarrow> bool" where
  "matches_path glob scope path =
     (if scope = ''**'' \<or> scope = ''**/**'' then True
      else (case glob scope of
              None \<Rightarrow> has_prefix path (trim_suffix scope ''/**'')
            | Some g \<Rightarrow> g path))"

text \<open>
  What the index decides for one stored scope: the SQL conditions of \<^verbatim>\<open>QueryByPath\<close>
  on the columns \<^verbatim>\<open>pattern_type\<close> and \<^verbatim>\<open>path_prefix\<close>.
\<close>

definition index_admits :: "globber \<Rightarrow> string \<Rightarrow> string \<Rightarrow> pattern_type \<Rightarrow> string \<Rightarrow> bool" where
  "index_admits glob path scope pt pp =
     (case pt of
        UniversalPat \<Rightarrow> True
      | PrefixPat \<Rightarrow> pp \<in> set (path_prefixes path)
      | ExactPat \<Rightarrow> pp \<in> set (path_prefixes path)
      | GlobPat \<Rightarrow> glob_match_path glob scope path)"

section \<open>The documented behaviour of the glob compiler\<close>

text \<open>
  The compiler reads its pattern as runes and refuses what is not UTF-8, and U+FFFD with it; a NUL
  byte ends the pattern.
\<close>

definition glob_readable :: "string \<Rightarrow> bool" where
  "glob_readable p \<longleftrightarrow> utf8_valid p \<and> CHR 0x00 \<notin> set p \<and> \<not> str_contains p [CHR 0xEF, CHR 0xBF, CHR 0xBD]"

definition glob_plain :: "string \<Rightarrow> bool" where
  "glob_plain p \<longleftrightarrow> glob_readable p \<and> \<not> contains_any p (backslash # ''*?[]{}'')"

definition glob_laws :: "globber \<Rightarrow> bool" where
  "glob_laws glob \<longleftrightarrow>
     (\<forall>p. glob_plain p \<longrightarrow> glob p = Some (\<lambda>s. s = p)) \<and>
     (\<forall>b. glob_plain b \<longrightarrow> glob (b @ ''/**'') = Some (\<lambda>s. has_prefix s (b @ [slash])))"

text \<open>A concrete compiler with these laws, for witnesses: it knows plain patterns and
  \<open>base/**\<close> and rejects the rest.\<close>

definition simple_glob :: globber where
  "simple_glob p =
     (if glob_plain p then Some (\<lambda>s. s = p)
      else if has_suffix p ''/**'' \<and> glob_plain (trim_suffix p ''/**'')
      then Some (\<lambda>s. has_prefix s (trim_suffix p ''/**'' @ [slash]))
      else None)"

lemma simple_glob_laws: "glob_laws simple_glob"
proof -
  have "\<not> glob_plain (b @ ''/**'')" for b
    by (simp add: glob_plain_def contains_any_def)
  then show ?thesis by (simp add: glob_laws_def simple_glob_def)
qed

lemma glob_readable_norm:
  assumes "glob_readable s" shows "glob_readable (norm_path s)"
proof -
  let ?x = "[CHR 0xEF, CHR 0xBF, CHR 0xBD]"
  have "\<not> str_contains (norm_path s) ?x"
  proof
    assume "str_contains (norm_path s) ?x"
    then obtain a b where "map (\<lambda>c. if c = backslash then slash else c) s = a @ ?x @ b"
      by (auto simp: str_contains_iff norm_path_def replace_char_def)
    then obtain a' b' where "s = a' @ ?x @ b'"
      by (auto simp: map_eq_append_conv map_eq_Cons_conv split: if_splits)
    with assms show False by (auto simp: glob_readable_def str_contains_iff)
  qed
  moreover have "CHR 0x00 \<notin> set (norm_path s)"
    using assms by (auto simp: glob_readable_def norm_path_def replace_char_def split: if_splits)
  moreover have "utf8_valid (norm_path s)"
    using assms by (simp add: glob_readable_def norm_path_def)
  ultimately show ?thesis by (simp add: glob_readable_def)
qed

lemma glob_readable_dir:
  assumes "glob_readable (t @ ''/**'')" shows "glob_readable t"
proof -
  have "\<not> str_contains t [CHR 0xEF, CHR 0xBF, CHR 0xBD]"
    using assms by (fastforce simp: glob_readable_def str_contains_iff)
  with assms show ?thesis using utf8_valid_cut[of slash t "''**''"] by (simp add: glob_readable_def)
qed

section \<open>Lemmas\<close>

lemma norm_path_idem [simp]: "norm_path (norm_path p) = norm_path p"
  by (auto simp: norm_path_def replace_char_def)

lemma norm_path_no_backslash: "backslash \<notin> set (norm_path p)"
  by (simp add: norm_path_def replace_char_gone)

lemma scopes_match_iff:
  "scopes_match glob scopes path \<longleftrightarrow> (\<exists>s \<in> set scopes. glob_match_path glob s path)"
  by (induction scopes) (auto simp: glob_match_path_def Let_def split: option.splits)

lemma scopes_match_path_iff:
  "scopes_match_path glob scopes path \<longleftrightarrow>
   (\<exists>s \<in> set scopes. glob_match_path glob s (norm_path path))"
  by (simp add: scopes_match_path_def scopes_match_iff)

text \<open>
  The generated prefixes are the path itself and every prefix that ends in a slash.
\<close>

lemma path_prefixes_set:
  assumes "p \<noteq> []"
  shows "set (path_prefixes p) = insert p {q. \<exists>q0 r. q = q0 @ [slash] \<and> p = q @ r}"
proof (rule set_eqI)
  fix q
  let ?ps = "split_on slash p"
  have jp: "str_join [slash] ?ps = p" by (rule join_split)
  show "q \<in> set (path_prefixes p) \<longleftrightarrow> q \<in> insert p {q. \<exists>q0 r. q = q0 @ [slash] \<and> p = q @ r}"
  proof
    assume "q \<in> set (path_prefixes p)"
    then obtain i where i: "1 \<le> i" "i \<le> length ?ps"
      and q: "q = str_join [slash] (take i ?ps) @ (if i < length ?ps then [slash] else [])"
      using assms by (auto simp: path_prefixes_def Let_def less_Suc_eq_le simp del: upt_Suc)
    show "q \<in> insert p {q. \<exists>q0 r. q = q0 @ [slash] \<and> p = q @ r}"
    proof (cases "i < length ?ps")
      case False
      with i q jp show ?thesis by simp
    next
      case True
      with i have "take i ?ps \<noteq> []" "drop i ?ps \<noteq> []" by auto
      then have "str_join [slash] (take i ?ps @ drop i ?ps)
          = str_join [slash] (take i ?ps) @ [slash] @ str_join [slash] (drop i ?ps)"
        by (rule str_join_append)
      with jp q True show ?thesis by auto
    qed
  next
    assume "q \<in> insert p {q. \<exists>q0 r. q = q0 @ [slash] \<and> p = q @ r}"
    then consider "q = p" | q0 r where "q = q0 @ [slash]" "p = q @ r" by auto
    then show "q \<in> set (path_prefixes p)"
    proof cases
      case 1
      have "length ?ps \<ge> 1" by (simp add: Suc_le_eq)
      with 1 assms jp show ?thesis
        by (auto simp: path_prefixes_def Let_def less_Suc_eq_le simp del: upt_Suc
            intro!: image_eqI [where x = "length ?ps"])
    next
      case 2
      then have s: "?ps = split_on slash q0 @ split_on slash r" by (simp add: split_on_append)
      let ?i = "length (split_on slash q0)"
      have "?i < length ?ps" "1 \<le> ?i" using s by (simp_all add: Suc_le_eq)
      moreover have "str_join [slash] (take ?i ?ps) = q0" using s by (simp add: join_split)
      ultimately show ?thesis
        using assms 2(1)
        by (auto simp: path_prefixes_def Let_def less_Suc_eq_le simp del: upt_Suc
            intro!: image_eqI [where x = ?i])
    qed
  qed
qed

lemma path_prefixes_dir:
  "p \<noteq> [] \<Longrightarrow> b @ [slash] \<in> set (path_prefixes p) \<longleftrightarrow> has_prefix p (b @ [slash])"
  by (auto simp: path_prefixes_set has_prefix_iff intro: exI [where x = "[]"])

lemma path_prefixes_file:
  assumes "p \<noteq> []" "\<not> has_suffix q [slash]"
  shows "q \<in> set (path_prefixes p) \<longleftrightarrow> q = p"
  using assms by (auto simp: path_prefixes_set)

text \<open>
  A scope the index treats as the glob compiler does: a text the compiler reads to its end, no class
  or alternation syntax, and no literal scope that ends in a slash.
\<close>

definition indexable :: "string \<Rightarrow> bool" where
  "indexable scope \<longleftrightarrow>
     glob_readable scope \<and> \<not> contains_any scope ''[]{}'' \<and>
     (has_suffix (norm_path scope) [slash] \<longrightarrow> contains_any scope ''*?'')"

lemma contains_any_norm:
  "backslash \<notin> set cs \<Longrightarrow> slash \<notin> set cs \<Longrightarrow> contains_any (norm_path s) cs = contains_any s cs"
  by (auto simp: contains_any_iff norm_path_def replace_char_def)

lemma glob_plain_norm:
  "\<not> contains_any (norm_path s) ''*?'' \<Longrightarrow> \<not> contains_any s ''[]{}'' \<Longrightarrow> glob_readable s \<Longrightarrow>
     glob_plain (norm_path s)"
  using norm_path_no_backslash[of s] contains_any_norm[of "''[]{}''" s]
  by (auto simp: glob_plain_def contains_any_iff glob_readable_norm)

text \<open>The central fact: for such scopes the SQL index decides what the glob decides.\<close>

lemma index_agrees:
  assumes laws: "glob_laws glob" and ix: "indexable scope" and p: "path \<noteq> []"
    and c: "classify_scope scope = (pt, pp)"
  shows "index_admits glob path scope pt pp = glob_match_path glob scope path"
proof -
  let ?n = "norm_path scope"
  consider (uni) "?n = ''**''"
    | (lit) "?n \<noteq> ''**''" "\<not> contains_any ?n ''*?''"
    | (sub) "?n \<noteq> ''**''" "contains_any ?n ''*?''" "has_suffix ?n ''/**''"
        "\<not> contains_any (take (length ?n - 3) ?n) ''*?''"
    | (gen) "?n \<noteq> ''**''" "contains_any ?n ''*?''"
        "\<not> (has_suffix ?n ''/**'' \<and> \<not> contains_any (take (length ?n - 3) ?n) ''*?'')"
    by blast
  then show ?thesis
  proof cases
    case uni
    with c show ?thesis by (simp add: classify_scope_def index_admits_def glob_match_path_def)
  next
    case lit
    then have "index_any ?n ''*?'' = None" by (simp add: index_any_None)
    with lit c have k: "pt = ExactPat" "pp = ?n" by (auto simp: classify_scope_def Let_def)
    have pl: "glob_plain ?n" using lit(2) ix by (simp add: glob_plain_norm indexable_def)
    have "\<not> has_suffix ?n [slash]"
      using ix lit(2) contains_any_norm[of "''*?''" scope] by (auto simp: indexable_def)
    with k p have "index_admits glob path scope pt pp \<longleftrightarrow> ?n = path"
      by (simp add: index_admits_def path_prefixes_file)
    moreover have "glob_match_path glob scope path \<longleftrightarrow> path = ?n"
      using laws pl lit(1) by (simp add: glob_match_path_def glob_laws_def)
    ultimately show ?thesis by auto
  next
    case sub
    then obtain i where i: "index_any ?n ''*?'' = Some i"
      using index_any_None[of ?n "''*?''"] by auto
    let ?b = "take (length ?n - 3) ?n"
    from sub i c have k: "pt = PrefixPat" "pp = ?b @ [slash]"
      by (auto simp: classify_scope_def Let_def)
    obtain t where t: "?n = t @ ''/**''" using sub(3) by (auto simp: has_suffix_iff)
    then have b: "?b = t" by simp
    have "\<not> contains_any t (backslash # ''*?[]{}'')"
      using sub(4) ix norm_path_no_backslash[of scope] t b
        contains_any_norm[of "''[]{}''" scope]
      by (auto simp: indexable_def contains_any_iff)
    moreover have "glob_readable t"
      using ix glob_readable_norm[of scope] t glob_readable_dir[of t] by (simp add: indexable_def)
    ultimately have "glob ?n = Some (\<lambda>s. has_prefix s (t @ [slash]))"
      using laws t by (simp add: glob_laws_def glob_plain_def)
    with sub(1) have "glob_match_path glob scope path \<longleftrightarrow> has_prefix path (t @ [slash])"
      by (simp add: glob_match_path_def)
    with k b p show ?thesis by (simp add: index_admits_def path_prefixes_dir)
  next
    case gen
    then obtain i where "index_any ?n ''*?'' = Some i"
      using index_any_None[of ?n "''*?''"] by auto
    with gen c have "pt = GlobPat" by (auto simp: classify_scope_def Let_def)
    then show ?thesis by (simp add: index_admits_def)
  qed
qed

end
