(* ===== verification/McpTables.thy ===== *)
theory McpTables
  imports Capability ScopeIndex
begin

text \<open>
  The tables of the capability half of the SQLite registry (the schema in
  internal/registry/capability.go) as lists of rows in insertion order, and the Go structs that
  are stored in them.  Timestamps the code writes and never reads back (\<^verbatim>\<open>indexed_at\<close>)
  are left out; \<^verbatim>\<open>raw_metadata\<close> and \<^verbatim>\<open>provenance\<close>, which no query reads, too.
\<close>

record mcp_server_row =
  ms_id :: nat
  ms_name :: string
  ms_publisher :: string
  ms_source_type :: string
  ms_source_ref :: string

record mcp_version_row =
  mv_id :: nat
  mv_server :: nat
  mv_version :: string
  mv_digest :: string
  mv_status :: string

record mcp_transport_row =
  mx_version_id :: nat
  mx_kind :: string
  mx_registry :: string
  mx_package :: string
  mx_package_version :: string
  mx_digest :: string
  mx_endpoint :: string
  mx_command :: string
  mx_origin :: string

record mcp_view_row =
  vw_id :: nat
  vw_version :: nat
  vw_visibility :: string
  vw_partition :: string
  vw_cache_scope :: string
  vw_observed :: gotime
  vw_expires :: gotime

record mcp_cap_row =
  mc_id :: nat
  mc_version :: nat
  mc_view :: nat
  mc_kind :: capability_kind
  mc_name :: string
  mc_title :: string
  mc_description :: string
  mc_input :: string
  mc_output :: string
  mc_digest :: string
  mc_risk :: string
  mc_availability :: availability_status
  mc_raw :: string

record mcp_binding_row =
  mb_cap :: nat
  mb_scope :: string
  mb_prefix :: string
  mb_type :: pattern_type
  mb_relationship :: string
  mb_profile :: string

record mcp_search_row =
  mf_cap :: nat
  mf_server :: string
  mf_name :: string
  mf_title :: string
  mf_description :: string
  mf_schema :: string
  mf_binding :: string

text \<open>Each table with \<^verbatim>\<open>AUTOINCREMENT\<close> comes with the last id it handed out.\<close>

record mcp_tables =
  mt_servers :: "nat \<times> mcp_server_row list"
  mt_versions :: "nat \<times> mcp_version_row list"
  mt_transports :: "mcp_transport_row list"
  mt_views :: "nat \<times> mcp_view_row list"
  mt_caps :: "nat \<times> mcp_cap_row list"
  mt_bindings :: "mcp_binding_row list"
  mt_search :: "mcp_search_row list"

definition mcp_empty :: mcp_tables where
  "mcp_empty = \<lparr>mt_servers = (0, []), mt_versions = (0, []), mt_transports = [], mt_views = (0, []),
     mt_caps = (0, []), mt_bindings = [], mt_search = []\<rparr>"

text \<open>Deleting all rows keeps the ids already handed out.\<close>

definition mcp_clear :: "mcp_tables \<Rightarrow> mcp_tables" where
  "mcp_clear t = \<lparr>mt_servers = (fst (mt_servers t), []), mt_versions = (fst (mt_versions t), []),
     mt_transports = [], mt_views = (fst (mt_views t), []), mt_caps = (fst (mt_caps t), []),
     mt_bindings = [], mt_search = []\<rparr>"

text \<open>\<^verbatim>\<open>CapabilityBinding\<close>, \<^verbatim>\<open>TransportRecord\<close> and \<^verbatim>\<open>CapabilityRecord\<close>.\<close>

record capability_binding =
  cb_scope :: string
  cb_relationship :: string
  cb_profile :: string

record transport_record =
  tp_server :: string
  tp_version :: string
  tp_kind :: string
  tp_registry :: string
  tp_package :: string
  tp_package_version :: string
  tp_digest :: string
  tp_endpoint :: string
  tp_command :: string
  tp_origin :: string

record capability_record =
  cr_id :: nat
  cr_capability :: capability
  cr_visibility :: string
  cr_partition :: string
  cr_cache_scope :: string
  cr_source_type :: string
  cr_source_ref :: string
  cr_risk :: string
  cr_bindings :: "capability_binding list"
  cr_raw :: string
  cr_transports :: "transport_record list"

end
