(* ===== verification/Registry.thy ===== *)
theory Registry
  imports McpTables
begin

text \<open>
  internal/registry/registry.go: the skill half of the SQLite registry.  A table is the list of
  its rows in insertion order, a statement is a function on the tables.  The database engine's
  own failures (I/O, locking) are outside the model; the constraint the code can violate, the
  foreign key of \<^verbatim>\<open>skill_tests\<close>, is a branch.  \<^verbatim>\<open>INTEGER PRIMARY KEY AUTOINCREMENT\<close>
  never reuses an id: a new row gets one above every id handed out before (\<open>rg_seq\<close>).
  A \<^verbatim>\<open>SELECT\<close> without \<^verbatim>\<open>ORDER BY\<close> returns rows in table order here; no theorem rests on
  that order.
\<close>

section \<open>Tables\<close>

record skill_row =
  sr_id :: nat
  sr_path :: string
  sr_content :: string
  sr_name :: "string option"
  sr_desc :: "string option"
  sr_pkg :: "string option"
  sr_ver :: "string option"
  sr_vis :: string
  sr_src :: string
  sr_indexed :: string

record scope_row =
  sc_skill :: nat
  sc_scope :: string
  sc_prefix :: string
  sc_type :: pattern_type

record test_row =
  tr_id :: nat
  tr_skill :: nat
  tr_name :: string
  tr_prompt :: string
  tr_extra :: "string option"
  tr_criteria :: string

record search_row =
  fr_skill :: nat
  fr_name :: string
  fr_desc :: string
  fr_headings :: string
  fr_body :: string

record registry =
  rg_skills :: "skill_row list"
  rg_topics :: "(nat \<times> string) list"
  rg_tags :: "(nat \<times> string) list"
  rg_scopes :: "scope_row list"
  rg_tests :: "test_row list"
  rg_search :: "search_row list"
  rg_seq :: nat
  rg_test_seq :: nat
  rg_mcp :: mcp_tables

text \<open>The Go structs \<^verbatim>\<open>Skill\<close> and \<^verbatim>\<open>TestScenario\<close>.\<close>

record skill =
  sk_id :: nat
  sk_path :: string
  sk_content :: string
  sk_name :: string
  sk_desc :: string
  sk_pkg :: string
  sk_ver :: string
  sk_vis :: string
  sk_src :: string
  sk_score :: int
  sk_topics :: "string list"
  sk_tags :: "string list"
  sk_scopes :: "string list"

record test_scenario =
  ts_id :: nat
  ts_skill :: nat
  ts_name :: string
  ts_prompt :: string
  ts_extra :: "string list"
  ts_criteria :: "string list"

datatype registry_error = ForeignKeyViolation

definition empty_registry :: registry where
  "empty_registry = \<lparr>rg_skills = [], rg_topics = [], rg_tags = [], rg_scopes = [], rg_tests = [],
     rg_search = [], rg_seq = 0, rg_test_seq = 0, rg_mcp = mcp_empty\<rparr>"

section \<open>Helpers\<close>

definition null_str :: "string \<Rightarrow> string option" where
  "null_str s = (if s = [] then None else Some s)"

definition coalesce :: "string option \<Rightarrow> string" where
  "coalesce x = (case x of None \<Rightarrow> [] | Some s \<Rightarrow> s)"

lemma coalesce_null_str [simp]: "coalesce (null_str s) = s"
  by (simp add: coalesce_def null_str_def)

definition headings_text :: "string \<Rightarrow> string" where
  "headings_text content =
     str_join [nl]
       (map (\<lambda>line. trim_space (dropWhile (\<lambda>c. c = CHR ''#'') line))
         (filter (\<lambda>line. has_prefix line ''#'') (map trim_space (split_on nl content))))"

definition search_tokens :: "string \<Rightarrow> string list" where
  "search_tokens s =
     filter (\<lambda>t. t \<noteq> []) (map trim_space (fields_of [sp, tab, nl, cr, CHR '',''] s))"

section \<open>Writing\<close>

definition clear :: "registry \<Rightarrow> registry" where
  "clear db = db\<lparr>rg_mcp := mcp_clear (rg_mcp db), rg_tests := [], rg_scopes := [], rg_tags := [],
     rg_topics := [], rg_search := [], rg_skills := []\<rparr>"

definition skill_id_by_path :: "registry \<Rightarrow> string \<Rightarrow> nat option" where
  "skill_id_by_path db path =
     map_option sr_id (List.find (\<lambda>r. sr_path r = path) (rg_skills db))"

definition upsert_skill_row :: "string \<Rightarrow> registry \<Rightarrow> skill \<Rightarrow> registry" where
  "upsert_skill_row now db s =
     (if sk_path s \<in> sr_path ` set (rg_skills db)
      then db\<lparr>rg_skills := map (\<lambda>r. if sr_path r = sk_path s
             then r\<lparr>sr_content := sk_content s, sr_name := null_str (sk_name s),
                    sr_desc := null_str (sk_desc s), sr_pkg := null_str (sk_pkg s),
                    sr_ver := null_str (sk_ver s), sr_vis := sk_vis s, sr_src := sk_src s,
                    sr_indexed := now\<rparr>
             else r) (rg_skills db)\<rparr>
      else db\<lparr>rg_skills := rg_skills db @
             [\<lparr>sr_id = Suc (rg_seq db), sr_path = sk_path s, sr_content = sk_content s,
               sr_name = null_str (sk_name s), sr_desc = null_str (sk_desc s),
               sr_pkg = null_str (sk_pkg s), sr_ver = null_str (sk_ver s),
               sr_vis = sk_vis s, sr_src = sk_src s, sr_indexed = now\<rparr>],
             rg_seq := Suc (rg_seq db)\<rparr>)"

definition replace_search :: "nat \<Rightarrow> skill \<Rightarrow> registry \<Rightarrow> registry" where
  "replace_search i s db =
     db\<lparr>rg_search := filter (\<lambda>r. fr_skill r \<noteq> i) (rg_search db) @
        [\<lparr>fr_skill = i, fr_name = sk_name s, fr_desc = sk_desc s,
          fr_headings = headings_text (sk_content s), fr_body = sk_content s\<rparr>]\<rparr>"

definition scope_row_of :: "nat \<Rightarrow> string \<Rightarrow> scope_row" where
  "scope_row_of i scope =
     (case classify_scope scope of (pt, pp) \<Rightarrow>
        \<lparr>sc_skill = i, sc_scope = scope, sc_prefix = pp, sc_type = pt\<rparr>)"

definition replace_meta :: "nat \<Rightarrow> skill \<Rightarrow> registry \<Rightarrow> registry" where
  "replace_meta i s db =
     db\<lparr>rg_topics := filter (\<lambda>r. fst r \<noteq> i) (rg_topics db) @ map (\<lambda>t. (i, t)) (sk_topics s),
        rg_tags := filter (\<lambda>r. fst r \<noteq> i) (rg_tags db) @ map (\<lambda>t. (i, t)) (sk_tags s),
        rg_scopes := filter (\<lambda>r. sc_skill r \<noteq> i) (rg_scopes db) @ map (scope_row_of i) (sk_scopes s)\<rparr>"

text \<open>
  \<^verbatim>\<open>InsertSkill\<close>: upsert the row, look its id up by path, replace search document,
  topics, tags and scopes.  The lookup cannot fail after the upsert; its \<open>None\<close> branch is the
  Go error return and leaves the upserted row in place.
\<close>

definition insert_skill :: "string \<Rightarrow> registry \<Rightarrow> skill \<Rightarrow> registry \<times> nat option" where
  "insert_skill now db s =
     (let db1 = upsert_skill_row now db s
      in case skill_id_by_path db1 (sk_path s) of
           None \<Rightarrow> (db1, None)
         | Some i \<Rightarrow> (replace_meta i s (replace_search i s db1), Some i))"

text \<open>\<^verbatim>\<open>ON DELETE CASCADE\<close> removes the dependent rows.\<close>

definition delete_skill_by_path :: "registry \<Rightarrow> string \<Rightarrow> registry" where
  "delete_skill_by_path db path =
     (case skill_id_by_path db path of
        None \<Rightarrow> db
      | Some i \<Rightarrow>
          db\<lparr>rg_search := filter (\<lambda>r. fr_skill r \<noteq> i) (rg_search db),
             rg_skills := filter (\<lambda>r. sr_id r \<noteq> i) (rg_skills db),
             rg_topics := filter (\<lambda>r. fst r \<noteq> i) (rg_topics db),
             rg_tags := filter (\<lambda>r. fst r \<noteq> i) (rg_tags db),
             rg_scopes := filter (\<lambda>r. sc_skill r \<noteq> i) (rg_scopes db),
             rg_tests := filter (\<lambda>r. tr_skill r \<noteq> i) (rg_tests db)\<rparr>)"

definition delete_tests_for_skill :: "registry \<Rightarrow> nat \<Rightarrow> registry" where
  "delete_tests_for_skill db i = db\<lparr>rg_tests := filter (\<lambda>r. tr_skill r \<noteq> i) (rg_tests db)\<rparr>"

definition insert_test_scenario :: "registry \<Rightarrow> test_scenario \<Rightarrow> (registry_error, registry) result" where
  "insert_test_scenario db t =
     (if ts_skill t \<notin> sr_id ` set (rg_skills db) then Inl ForeignKeyViolation
      else Inr (db\<lparr>rg_tests := rg_tests db @
             [\<lparr>tr_id = Suc (rg_test_seq db), tr_skill = ts_skill t, tr_name = ts_name t,
               tr_prompt = ts_prompt t, tr_extra = null_str (str_join '','' (ts_extra t)),
               tr_criteria = str_join [nl] (ts_criteria t)\<rparr>],
             rg_test_seq := Suc (rg_test_seq db)\<rparr>))"

section \<open>Reading\<close>

text \<open>
  The three SELECTs have no ORDER BY.  The tables have no index on \<open>skill_id\<close>, so SQLite scans
  them in the order of their row ids, which is the order of insertion; that order is SQLite's behaviour
  and not a promise of the language.
\<close>

definition populate_meta :: "registry \<Rightarrow> skill_row \<Rightarrow> skill" where
  "populate_meta db r =
     \<lparr>sk_id = sr_id r, sk_path = sr_path r, sk_content = sr_content r,
      sk_name = coalesce (sr_name r), sk_desc = coalesce (sr_desc r),
      sk_pkg = coalesce (sr_pkg r), sk_ver = coalesce (sr_ver r),
      sk_vis = sr_vis r, sk_src = sr_src r, sk_score = 0,
      sk_topics = map snd (filter (\<lambda>t. fst t = sr_id r) (rg_topics db)),
      sk_tags = map snd (filter (\<lambda>t. fst t = sr_id r) (rg_tags db)),
      sk_scopes = map sc_scope (filter (\<lambda>t. sc_skill t = sr_id r) (rg_scopes db))\<rparr>"

definition query_skills :: "registry \<Rightarrow> (skill_row \<Rightarrow> bool) \<Rightarrow> skill list" where
  "query_skills db P = map (populate_meta db) (filter P (rg_skills db))"

definition get_skill_by_path :: "registry \<Rightarrow> string \<Rightarrow> skill option" where
  "get_skill_by_path db path =
     map_option (populate_meta db) (List.find (\<lambda>r. sr_path r = path) (rg_skills db))"

definition all_skills :: "registry \<Rightarrow> skill list" where
  "all_skills db = map (populate_meta db) (sort_key sr_path (rg_skills db))"

definition paths_by_source :: "registry \<Rightarrow> string \<Rightarrow> string list" where
  "paths_by_source db src = sort (map sr_path (filter (\<lambda>r. sr_src r = src) (rg_skills db)))"

definition query_by_scope :: "registry \<Rightarrow> string list \<Rightarrow> skill list" where
  "query_by_scope db scopes =
     (if scopes = [] then []
      else query_skills db (\<lambda>r. \<exists>t \<in> set (rg_scopes db). sc_skill t = sr_id r \<and> sc_scope t \<in> set scopes))"

definition count_distinct :: "(nat \<times> string) list \<Rightarrow> string list \<Rightarrow> nat \<Rightarrow> nat" where
  "count_distinct tbl vals i =
     length (remdups (map snd (filter (\<lambda>t. fst t = i \<and> snd t \<in> set vals) tbl)))"

definition query_by_topic :: "registry \<Rightarrow> string list \<Rightarrow> skill list" where
  "query_by_topic db topics =
     (if topics = [] then []
      else query_skills db (\<lambda>r. count_distinct (rg_topics db) topics (sr_id r) = length topics))"

definition query_by_tags :: "registry \<Rightarrow> string list \<Rightarrow> skill list" where
  "query_by_tags db tags =
     (if tags = [] then []
      else query_skills db (\<lambda>r. count_distinct (rg_tags db) tags (sr_id r) = length tags))"

definition query_by_package :: "registry \<Rightarrow> string \<Rightarrow> skill list" where
  "query_by_package db pkg = query_skills db (\<lambda>r. sr_pkg r = Some pkg)"

definition filter_sets :: "registry \<Rightarrow> string \<Rightarrow> string list \<Rightarrow> string list \<Rightarrow> nat list list" where
  "filter_sets db pkg topics tags =
     (if topics \<noteq> [] then [map sk_id (query_by_topic db topics)] else [])
     @ (if tags \<noteq> [] then [map sk_id (query_by_tags db tags)] else [])
     @ (if pkg \<noteq> [] then [map sk_id (query_by_package db pkg)] else [])"

definition query :: "registry \<Rightarrow> string \<Rightarrow> string list \<Rightarrow> string list \<Rightarrow> skill list" where
  "query db pkg topics tags =
     (case filter_sets db pkg topics tags of
        [] \<Rightarrow> []
      | s # rest \<Rightarrow>
          (let merged = filter (\<lambda>i. list_all (\<lambda>t. i \<in> set t) rest) s
           in if merged = [] then []
              else query_skills db (\<lambda>r. sr_id r \<in> set merged)))"

definition all_topics :: "registry \<Rightarrow> string list" where
  "all_topics db = sort (remdups (map snd (rg_topics db)))"

definition all_tags :: "registry \<Rightarrow> string list" where
  "all_tags db = sort (remdups (map snd (rg_tags db)))"

definition all_scopes :: "registry \<Rightarrow> string list" where
  "all_scopes db = sort (remdups (map sc_scope (rg_scopes db)))"

definition get_test_scenarios :: "registry \<Rightarrow> nat \<Rightarrow> test_scenario list" where
  "get_test_scenarios db i =
     map (\<lambda>r. \<lparr>ts_id = tr_id r, ts_skill = tr_skill r, ts_name = tr_name r, ts_prompt = tr_prompt r,
               ts_extra = (if coalesce (tr_extra r) \<noteq> [] then split_on (CHR '','') (coalesce (tr_extra r)) else []),
               ts_criteria = split_on nl (tr_criteria r)\<rparr>)
       (filter (\<lambda>r. tr_skill r = i) (rg_tests db))"

definition skill_count :: "registry \<Rightarrow> nat" where
  "skill_count db = length (rg_skills db)"

definition count_missing_name_or_description :: "registry \<Rightarrow> nat" where
  "count_missing_name_or_description db =
     length (filter (\<lambda>r. coalesce (sr_name r) = [] \<or> coalesce (sr_desc r) = []) (rg_skills db))"

text \<open>
  \<^verbatim>\<open>QueryByPath\<close>: the ids collected by the three lookups (universal scopes, indexed
  prefix and exact scopes, in-process globs), then the rows in path order.
\<close>

definition matched_ids :: "globber \<Rightarrow> registry \<Rightarrow> string \<Rightarrow> nat list" where
  "matched_ids glob db path =
     (let norm = norm_path path; prefixes = path_prefixes norm
      in map sc_skill (filter (\<lambda>t. sc_type t = UniversalPat) (rg_scopes db))
       @ map sc_skill (filter (\<lambda>t. (sc_type t = PrefixPat \<or> sc_type t = ExactPat) \<and> sc_prefix t \<in> set prefixes)
           (rg_scopes db))
       @ map sc_skill (filter (\<lambda>t. sc_type t = GlobPat \<and> glob_match_path glob (sc_scope t) norm)
           (rg_scopes db)))"

definition query_by_path :: "globber \<Rightarrow> registry \<Rightarrow> string \<Rightarrow> skill list" where
  "query_by_path glob db path =
     (if path = [] then []
      else let ids = matched_ids glob db path
           in if ids = [] then []
              else map (populate_meta db)
                     (sort_key sr_path (filter (\<lambda>r. sr_id r \<in> set ids) (rg_skills db))))"

text \<open>
  \<^verbatim>\<open>QueryBySearch\<close>: the full-text engine is a parameter that gives the bm25 rank of a
  document for a query, or \<^const>\<open>None\<close> when it does not match; lower ranks come first, ties
  by path.  The reported score is the negated rank.
\<close>

type_synonym fts_engine = "search_row list \<Rightarrow> string \<Rightarrow> search_row \<Rightarrow> int option"

definition quote_term :: "string \<Rightarrow> string" where
  "quote_term t = [dq] @ replace_all t [dq] [dq, dq] @ [dq]"

definition query_by_search :: "fts_engine \<Rightarrow> registry \<Rightarrow> string \<Rightarrow> skill list" where
  "query_by_search fts db search =
     (if search = [] then []
      else let tokens = search_tokens search
           in if tokens = [] then []
              else let q = str_join '' OR '' (map quote_term tokens);
                       hits = concat (map (\<lambda>d. (case fts (rg_search db) q d of
                                  None \<Rightarrow> []
                                | Some rank \<Rightarrow> map (\<lambda>r. (rank, r))
                                    (filter (\<lambda>r. sr_id r = fr_skill d) (rg_skills db)))) (rg_search db))
                   in map (\<lambda>(rank, r). (populate_meta db r)\<lparr>sk_score := - rank\<rparr>)
                        (sort_key fst (sort_key (\<lambda>h. sr_path (snd h)) hits)))"

end
