(* ===== verification/RegistryProps.thy ===== *)
theory RegistryProps
  imports Registry
begin

text \<open>
  The invariant of the skill tables and what the operations of internal/registry/registry.go do
  under it: every operation keeps it, a written skill reads back as written, other paths are
  untouched, a deleted skill leaves no row behind.  \<open>skill_store\<close> is the contract a client
  (refresh, the file watcher) relies on.
\<close>

section \<open>Invariant\<close>

definition skill_ids :: "registry \<Rightarrow> nat set" where
  "skill_ids db = sr_id ` set (rg_skills db)"

definition keys_ok :: "registry \<Rightarrow> bool" where
  "keys_ok db \<longleftrightarrow> distinct (map sr_path (rg_skills db)) \<and> distinct (map sr_id (rg_skills db))
     \<and> (\<forall>i \<in> skill_ids db. i \<le> rg_seq db)"

definition fks_ok :: "registry \<Rightarrow> bool" where
  "fks_ok db \<longleftrightarrow> fst ` set (rg_topics db) \<subseteq> skill_ids db \<and> fst ` set (rg_tags db) \<subseteq> skill_ids db
     \<and> sc_skill ` set (rg_scopes db) \<subseteq> skill_ids db \<and> tr_skill ` set (rg_tests db) \<subseteq> skill_ids db
     \<and> fr_skill ` set (rg_search db) \<subseteq> skill_ids db"

definition scopes_ok :: "registry \<Rightarrow> bool" where
  "scopes_ok db \<longleftrightarrow> (\<forall>t \<in> set (rg_scopes db). t = scope_row_of (sc_skill t) (sc_scope t))"

definition search_doc :: "skill_row \<Rightarrow> search_row" where
  "search_doc r = \<lparr>fr_skill = sr_id r, fr_name = coalesce (sr_name r), fr_desc = coalesce (sr_desc r),
     fr_headings = headings_text (sr_content r), fr_body = sr_content r\<rparr>"

definition search_ok :: "registry \<Rightarrow> bool" where
  "search_ok db \<longleftrightarrow> set (rg_search db) = search_doc ` set (rg_skills db)
     \<and> distinct (map fr_skill (rg_search db))"

definition reg_ok :: "registry \<Rightarrow> bool" where
  "reg_ok db \<longleftrightarrow> keys_ok db \<and> fks_ok db \<and> scopes_ok db \<and> search_ok db"

lemmas reg_ok_defs = reg_ok_def keys_ok_def fks_ok_def scopes_ok_def search_ok_def skill_ids_def

lemma reg_ok_empty: "reg_ok empty_registry"
  by (simp add: reg_ok_defs empty_registry_def)

lemma reg_ok_clear: "keys_ok db \<Longrightarrow> reg_ok (clear db)"
  by (simp add: reg_ok_defs clear_def)

lemma reg_ok_keys: "reg_ok db \<Longrightarrow> keys_ok db"
  by (simp add: reg_ok_def)

section \<open>List lemmas for tables\<close>

lemma find_map: "List.find P (map f xs) = map_option f (List.find (\<lambda>x. P (f x)) xs)"
  by (induction xs) auto

lemma find_append:
  "List.find P (xs @ ys) = (case List.find P xs of None \<Rightarrow> List.find P ys | Some x \<Rightarrow> Some x)"
  by (induction xs) auto

lemma find_unique:
  "distinct (map f xs) \<Longrightarrow> x \<in> set xs \<Longrightarrow> List.find (\<lambda>y. f y = f x) xs = Some x"
  by (induction xs) (auto simp: image_iff)

lemma filter_replace_same:
  "filter (\<lambda>t. f t = i) (filter (\<lambda>t. f t \<noteq> i) xs @ map g ys) = filter (\<lambda>t. f t = i) (map g ys)"
  by (induction xs) auto

lemma filter_replace_other:
  "i \<noteq> j \<Longrightarrow> \<forall>y. f (g y) = i \<Longrightarrow>
   filter (\<lambda>t. f t = j) (filter (\<lambda>t. f t \<noteq> i) xs @ map g ys) = filter (\<lambda>t. f t = j) xs"
  by (induction xs) (auto simp: filter_empty_conv)

lemma scope_row_of_simps [simp]:
  "sc_skill (scope_row_of i s) = i" "sc_scope (scope_row_of i s) = s"
  "(sc_type (scope_row_of i s), sc_prefix (scope_row_of i s)) = classify_scope s"
  by (simp_all add: scope_row_of_def split: prod.split)

section \<open>The upsert\<close>

lemma upsert_frame [frame_simps]:
  "rg_topics (upsert_skill_row now db s) = rg_topics db"
  "rg_tags (upsert_skill_row now db s) = rg_tags db"
  "rg_scopes (upsert_skill_row now db s) = rg_scopes db"
  "rg_tests (upsert_skill_row now db s) = rg_tests db"
  "rg_search (upsert_skill_row now db s) = rg_search db"
  "rg_mcp (upsert_skill_row now db s) = rg_mcp db"
  by (simp_all add: upsert_skill_row_def)

text \<open>The row the upsert leaves for the path, and its id.\<close>

definition target_id :: "registry \<Rightarrow> string \<Rightarrow> nat" where
  "target_id db path = (case skill_id_by_path db path of None \<Rightarrow> Suc (rg_seq db) | Some i \<Rightarrow> i)"

definition row_of :: "string \<Rightarrow> nat \<Rightarrow> skill \<Rightarrow> skill_row" where
  "row_of now i s = \<lparr>sr_id = i, sr_path = sk_path s, sr_content = sk_content s,
     sr_name = null_str (sk_name s), sr_desc = null_str (sk_desc s), sr_pkg = null_str (sk_pkg s),
     sr_ver = null_str (sk_ver s), sr_vis = sk_vis s, sr_src = sk_src s, sr_indexed = now\<rparr>"

lemma skill_id_None: "skill_id_by_path db path = None \<longleftrightarrow> path \<notin> sr_path ` set (rg_skills db)"
  by (auto simp: skill_id_by_path_def find_None_iff')

lemma skill_id_SomeD:
  "skill_id_by_path db path = Some i \<Longrightarrow> \<exists>r \<in> set (rg_skills db). sr_path r = path \<and> sr_id r = i"
  by (auto simp: skill_id_by_path_def dest: find_Some_iff')

lemma skill_id_unique:
  "keys_ok db \<Longrightarrow> r \<in> set (rg_skills db) \<Longrightarrow> skill_id_by_path db (sr_path r) = Some (sr_id r)"
  by (simp add: skill_id_by_path_def keys_ok_def find_unique)

lemma same_id_same_path:
  "keys_ok db \<Longrightarrow> r \<in> set (rg_skills db) \<Longrightarrow> q \<in> set (rg_skills db) \<Longrightarrow>
   sr_id r = sr_id q \<longleftrightarrow> sr_path r = sr_path q"
  by (metis keys_ok_def distinct_map inj_onD)

lemma upsert_skills_set:
  assumes "keys_ok db"
  shows "set (rg_skills (upsert_skill_row now db s)) =
    insert (row_of now (target_id db (sk_path s)) s) {r \<in> set (rg_skills db). sr_path r \<noteq> sk_path s}"
proof (cases "sk_path s \<in> sr_path ` set (rg_skills db)")
  case False
  then have "target_id db (sk_path s) = Suc (rg_seq db)"
    using skill_id_None[of db "sk_path s"] by (simp add: target_id_def)
  with False have "rg_skills (upsert_skill_row now db s)
      = rg_skills db @ [row_of now (target_id db (sk_path s)) s]"
    by (simp add: upsert_skill_row_def row_of_def)
  moreover have "{r \<in> set (rg_skills db). sr_path r \<noteq> sk_path s} = set (rg_skills db)"
    using False by (auto simp: image_iff)
  ultimately show ?thesis by simp
next
  case True
  then obtain r where r: "r \<in> set (rg_skills db)" "sr_path r = sk_path s" by auto
  with assms have t: "target_id db (sk_path s) = sr_id r"
    using skill_id_unique[of db r] by (simp add: target_id_def)
  have "q = r" if "q \<in> set (rg_skills db)" "sr_path q = sk_path s" for q
    using that r assms by (metis keys_ok_def distinct_map inj_onD)
  then have same: "sr_path q = sk_path s \<longleftrightarrow> q = r" if "q \<in> set (rg_skills db)" for q
    using that r by metis
  have new: "q\<lparr>sr_content := sk_content s, sr_name := null_str (sk_name s),
      sr_desc := null_str (sk_desc s), sr_pkg := null_str (sk_pkg s),
      sr_ver := null_str (sk_ver s), sr_vis := sk_vis s, sr_src := sk_src s,
      sr_indexed := now\<rparr> = row_of now (sr_id q) s" if "sr_path q = sk_path s" for q
    using that by (cases q) (simp add: row_of_def)
  have "rg_skills (upsert_skill_row now db s)
      = map (\<lambda>q. if sr_path q = sk_path s then row_of now (sr_id q) s else q) (rg_skills db)"
    using True new by (simp add: upsert_skill_row_def)
  also have "\<dots> = map (\<lambda>q. if q = r then row_of now (sr_id r) s else q) (rg_skills db)"
    using same by simp
  finally have "set (rg_skills (upsert_skill_row now db s))
      = insert (row_of now (sr_id r) s) (set (rg_skills db) - {r})"
    using r(1) by auto
  moreover have "{q \<in> set (rg_skills db). sr_path q \<noteq> sk_path s} = set (rg_skills db) - {r}"
    using same by blast
  ultimately show ?thesis using t by simp
qed

lemma target_id_new:
  "keys_ok db \<Longrightarrow> r \<in> set (rg_skills db) \<Longrightarrow> sr_id r = target_id db p \<longleftrightarrow> sr_path r = p"
proof -
  assume k: "keys_ok db" and r: "r \<in> set (rg_skills db)"
  show ?thesis
  proof (cases "skill_id_by_path db p")
    case None
    with r have "sr_path r \<noteq> p" by (auto simp: skill_id_None)
    moreover have "sr_id r \<le> rg_seq db" using k r by (auto simp: keys_ok_def skill_ids_def)
    ultimately show ?thesis using None by (simp add: target_id_def)
  next
    case (Some i)
    then obtain q where "q \<in> set (rg_skills db)" "sr_path q = p" "sr_id q = i"
      by (auto dest: skill_id_SomeD)
    with Some k r show ?thesis using same_id_same_path[OF k r, of q] by (simp add: target_id_def)
  qed
qed

lemma upsert_keys_ok:
  assumes k: "keys_ok db"
  shows "keys_ok (upsert_skill_row now db s)"
proof (cases "sk_path s \<in> sr_path ` set (rg_skills db)")
  case True
  have "map sr_path (rg_skills (upsert_skill_row now db s)) = map sr_path (rg_skills db)"
    "map sr_id (rg_skills (upsert_skill_row now db s)) = map sr_id (rg_skills db)"
    "rg_seq (upsert_skill_row now db s) = rg_seq db"
    using True by (simp_all add: upsert_skill_row_def)
  moreover from this(2) have "skill_ids (upsert_skill_row now db s) = skill_ids db"
    unfolding skill_ids_def by (metis list.set_map)
  ultimately show ?thesis using k by (simp add: keys_ok_def)
next
  case False
  have "Suc (rg_seq db) \<notin> skill_ids db" using k by (fastforce simp: keys_ok_def)
  with False k show ?thesis
    by (auto simp: upsert_skill_row_def keys_ok_def skill_ids_def)
qed

lemma upsert_finds:
  assumes k: "keys_ok db"
  shows "skill_id_by_path (upsert_skill_row now db s) (sk_path s) = Some (target_id db (sk_path s))"
proof -
  let ?r = "row_of now (target_id db (sk_path s)) s"
  have "?r \<in> set (rg_skills (upsert_skill_row now db s))" using k by (simp add: upsert_skills_set)
  from skill_id_unique[OF upsert_keys_ok[OF k] this] show ?thesis by (simp add: row_of_def)
qed

lemma insert_skill_eq:
  "keys_ok db \<Longrightarrow> insert_skill now db s =
     (let i = target_id db (sk_path s)
      in (replace_meta i s (replace_search i s (upsert_skill_row now db s)), Some i))"
  by (simp add: insert_skill_def upsert_finds Let_def)

section \<open>Every operation keeps the invariant\<close>

lemma insert_skills_set:
  "keys_ok db \<Longrightarrow> rg_skills (fst (insert_skill now db s)) = rg_skills (upsert_skill_row now db s)"
  by (simp add: insert_skill_eq Let_def replace_meta_def replace_search_def)

lemma insert_skill_ids:
  assumes "keys_ok db"
  shows "skill_ids (fst (insert_skill now db s)) = insert (target_id db (sk_path s)) (skill_ids db)"
proof -
  have "sr_id ` {r \<in> set (rg_skills db). sr_path r \<noteq> sk_path s} \<union> {target_id db (sk_path s)}
      = insert (target_id db (sk_path s)) (sr_id ` set (rg_skills db))"
    using target_id_new[OF assms] by (auto simp: image_iff)
  then show ?thesis
    using assms by (simp add: skill_ids_def insert_skills_set upsert_skills_set row_of_def)
qed

lemma insert_skill_ok:
  assumes ok: "reg_ok db"
  shows "reg_ok (fst (insert_skill now db s))"
proof -
  let ?i = "target_id db (sk_path s)" and ?db' = "fst (insert_skill now db s)"
  have k: "keys_ok db" and f: "fks_ok db" and sc: "scopes_ok db" and se: "search_ok db"
    using ok by (simp_all add: reg_ok_def)
  have eq: "?db' = replace_meta ?i s (replace_search ?i s (upsert_skill_row now db s))"
    using k by (simp add: insert_skill_eq Let_def)
  have ids: "skill_ids ?db' = insert ?i (skill_ids db)" by (rule insert_skill_ids[OF k])
  have "keys_ok ?db'"
    using upsert_keys_ok[OF k] eq
    by (simp add: keys_ok_def skill_ids_def replace_meta_def replace_search_def)
  moreover have "fks_ok ?db'"
    using f unfolding fks_ok_def ids
    by (auto simp: eq replace_meta_def replace_search_def frame_simps)
  moreover have "scopes_ok ?db'"
    using sc by (auto simp: scopes_ok_def eq replace_meta_def replace_search_def frame_simps)
  moreover have "search_ok ?db'"
  proof -
    let ?d = "search_doc (row_of now ?i s)"
    have d: "?d = \<lparr>fr_skill = ?i, fr_name = sk_name s, fr_desc = sk_desc s,
        fr_headings = headings_text (sk_content s), fr_body = sk_content s\<rparr>"
      by (simp add: search_doc_def row_of_def)
    have rows: "rg_search ?db' = filter (\<lambda>r. fr_skill r \<noteq> ?i) (rg_search db) @ [?d]"
      by (simp add: eq replace_meta_def replace_search_def frame_simps d)
    have "set (rg_search ?db') = insert ?d (search_doc ` {r \<in> set (rg_skills db). sr_path r \<noteq> sk_path s})"
      unfolding rows using se target_id_new[OF k]
      by (auto simp: search_ok_def search_doc_def)
    moreover have "distinct (map fr_skill (rg_search ?db'))"
      unfolding rows using se by (auto simp: search_ok_def distinct_map_filter search_doc_def row_of_def)
    ultimately show ?thesis
      by (simp add: search_ok_def insert_skills_set[OF k] upsert_skills_set[OF k])
  qed
  ultimately show ?thesis by (simp add: reg_ok_def)
qed

lemma delete_skill_ok:
  assumes ok: "reg_ok db"
  shows "reg_ok (delete_skill_by_path db path)"
proof (cases "skill_id_by_path db path")
  case None
  with ok show ?thesis by (simp add: delete_skill_by_path_def)
next
  case (Some i)
  let ?db' = "delete_skill_by_path db path"
  have ids: "skill_ids ?db' = skill_ids db - {i}"
    using Some by (auto simp: delete_skill_by_path_def skill_ids_def)
  have "keys_ok ?db'"
    using ok Some unfolding reg_ok_def keys_ok_def ids
    by (auto simp: delete_skill_by_path_def distinct_map_filter)
  moreover have "fks_ok ?db'"
    using ok Some unfolding reg_ok_def fks_ok_def ids by (auto simp: delete_skill_by_path_def)
  moreover have "scopes_ok ?db'"
    using ok Some by (auto simp: reg_ok_def scopes_ok_def delete_skill_by_path_def)
  moreover have "search_ok ?db'"
    using ok Some
    by (auto simp: reg_ok_def search_ok_def delete_skill_by_path_def distinct_map_filter search_doc_def)
  ultimately show ?thesis by (simp add: reg_ok_def)
qed

lemma delete_tests_ok: "reg_ok db \<Longrightarrow> reg_ok (delete_tests_for_skill db i)"
  by (auto simp: reg_ok_defs delete_tests_for_skill_def)

lemma insert_test_ok: "reg_ok db \<Longrightarrow> insert_test_scenario db t = Inr db' \<Longrightarrow> reg_ok db'"
proof -
  assume ok: "reg_ok db" and ins: "insert_test_scenario db t = Inr db'"
  from ins have t: "ts_skill t \<in> skill_ids db"
    by (simp add: insert_test_scenario_def skill_ids_def split: if_splits)
  from ins have same: "rg_skills db' = rg_skills db" "rg_seq db' = rg_seq db"
    "rg_topics db' = rg_topics db" "rg_tags db' = rg_tags db" "rg_scopes db' = rg_scopes db"
    "rg_search db' = rg_search db" "tr_skill ` set (rg_tests db') = insert (ts_skill t) (tr_skill ` set (rg_tests db))"
    by (auto simp: insert_test_scenario_def split: if_splits)
  then have ids: "skill_ids db' = skill_ids db" by (simp add: skill_ids_def)
  have "keys_ok db'" using ok same ids by (simp add: reg_ok_def keys_ok_def)
  moreover have "fks_ok db'" using ok same ids t by (simp add: reg_ok_def fks_ok_def)
  moreover have "scopes_ok db'" using ok same by (simp add: reg_ok_def scopes_ok_def)
  moreover have "search_ok db'" using ok same by (simp add: reg_ok_def search_ok_def)
  ultimately show ?thesis by (simp add: reg_ok_def)
qed

section \<open>Reading back\<close>

text \<open>A skill as it is stored: without the row id and the search score.\<close>

definition stored_form :: "skill \<Rightarrow> skill" where
  "stored_form s = s\<lparr>sk_id := 0, sk_score := 0\<rparr>"

definition read_path :: "registry \<Rightarrow> string \<Rightarrow> skill option" where
  "read_path db path = map_option stored_form (get_skill_by_path db path)"

lemma get_by_row:
  "keys_ok db \<Longrightarrow> r \<in> set (rg_skills db) \<Longrightarrow> get_skill_by_path db (sr_path r) = Some (populate_meta db r)"
  by (simp add: get_skill_by_path_def keys_ok_def find_unique)

lemma get_None: "get_skill_by_path db path = None \<longleftrightarrow> path \<notin> sr_path ` set (rg_skills db)"
  by (auto simp: get_skill_by_path_def find_None_iff')

lemma get_SomeD:
  "get_skill_by_path db path = Some s \<Longrightarrow>
   \<exists>r \<in> set (rg_skills db). sr_path r = path \<and> s = populate_meta db r"
  by (auto simp: get_skill_by_path_def dest: find_Some_iff')

lemma read_after_insert:
  assumes ok: "reg_ok db"
  shows "read_path (fst (insert_skill now db s)) (sk_path s) = Some (stored_form s)"
proof -
  let ?i = "target_id db (sk_path s)" and ?db' = "fst (insert_skill now db s)"
  let ?r = "row_of now ?i s"
  have k: "keys_ok db" using ok by (simp add: reg_ok_def)
  have k': "keys_ok ?db'" using insert_skill_ok[OF ok] by (simp add: reg_ok_def)
  have "?r \<in> set (rg_skills ?db')" by (simp add: insert_skills_set[OF k] upsert_skills_set[OF k])
  from get_by_row[OF k' this] have "get_skill_by_path ?db' (sk_path s) = Some (populate_meta ?db' ?r)"
    by (simp add: row_of_def)
  moreover have "stored_form (populate_meta ?db' ?r) = stored_form s"
    by (simp add: populate_meta_def stored_form_def row_of_def insert_skill_eq[OF k] Let_def
        replace_meta_def replace_search_def filter_replace_same o_def
        del: filter_append filter_filter filter_map)
  ultimately show ?thesis by (simp add: read_path_def)
qed

lemma get_other_path:
  assumes ok: "reg_ok db" and p: "path \<noteq> sk_path s"
  shows "get_skill_by_path (fst (insert_skill now db s)) path = get_skill_by_path db path"
proof -
  let ?i = "target_id db (sk_path s)" and ?db' = "fst (insert_skill now db s)"
  have k: "keys_ok db" using ok by (simp add: reg_ok_def)
  have k': "keys_ok ?db'" using insert_skill_ok[OF ok] by (simp add: reg_ok_def)
  have rows: "set (rg_skills ?db') = insert (row_of now ?i s) {r \<in> set (rg_skills db). sr_path r \<noteq> sk_path s}"
    by (simp add: insert_skills_set[OF k] upsert_skills_set[OF k])
  show ?thesis
  proof (cases "path \<in> sr_path ` set (rg_skills db)")
    case False
    moreover have "path \<notin> sr_path ` set (rg_skills ?db')"
      using False p by (auto simp: rows row_of_def)
    ultimately show ?thesis by (metis get_None)
  next
    case True
    then obtain r where r: "r \<in> set (rg_skills db)" "sr_path r = path" by auto
    with p have r': "r \<in> set (rg_skills ?db')" by (simp add: rows)
    have ne: "?i \<noteq> sr_id r" using target_id_new[OF k r(1)] r(2) p by metis
    have "populate_meta ?db' r = populate_meta db r"
      using ne
      by (simp add: populate_meta_def insert_skill_eq[OF k] Let_def replace_meta_def replace_search_def
          filter_replace_other frame_simps del: filter_append filter_filter filter_map)
    with get_by_row[OF k r(1)] get_by_row[OF k' r'] r(2) show ?thesis by simp
  qed
qed

lemma get_after_delete:
  assumes ok: "reg_ok db"
  shows "get_skill_by_path (delete_skill_by_path db path) q =
     (if q = path then None else get_skill_by_path db q)"
proof (cases "skill_id_by_path db path")
  case None
  then have "delete_skill_by_path db path = db" by (simp add: delete_skill_by_path_def)
  moreover have "get_skill_by_path db path = None" using None by (simp add: get_None skill_id_None)
  ultimately show ?thesis by simp
next
  case (Some i)
  let ?db' = "delete_skill_by_path db path"
  have k: "keys_ok db" using ok by (simp add: reg_ok_def)
  have k': "keys_ok ?db'" using delete_skill_ok[OF ok] by (simp add: reg_ok_def)
  obtain r where r: "r \<in> set (rg_skills db)" "sr_path r = path" "sr_id r = i"
    using Some by (auto dest: skill_id_SomeD)
  have rows: "set (rg_skills ?db') = {x \<in> set (rg_skills db). sr_path x \<noteq> path}"
    using Some same_id_same_path[OF k _ r(1)] r by (auto simp: delete_skill_by_path_def)
  show ?thesis
  proof (cases "q \<in> sr_path ` set (rg_skills db) \<and> q \<noteq> path")
    case False
    then have "q \<notin> sr_path ` set (rg_skills ?db')" by (auto simp: rows)
    then have "get_skill_by_path ?db' q = None" by (simp add: get_None)
    with False get_None[of db q] show ?thesis by auto
  next
    case True
    then obtain x where x: "x \<in> set (rg_skills db)" "sr_path x = q" by auto
    with True have x': "x \<in> set (rg_skills ?db')" by (simp add: rows)
    have ne: "sr_id x \<noteq> i" using same_id_same_path[OF k x(1) r(1)] x r True by simp
    have flt: "filter (\<lambda>t. f t = sr_id x) (filter (\<lambda>t. f t \<noteq> i) ts) = filter (\<lambda>t. f t = sr_id x) ts"
      for f :: "'a \<Rightarrow> nat" and ts
      using ne by (induction ts) auto
    have "populate_meta ?db' x = populate_meta db x"
      using Some by (simp add: populate_meta_def delete_skill_by_path_def flt del: filter_filter)
    with get_by_row[OF k x(1)] get_by_row[OF k' x'] x(2) True show ?thesis by simp
  qed
qed

section \<open>The contract\<close>

locale skill_store =
  fixes put :: "'db \<Rightarrow> 'v \<Rightarrow> 'db"
    and del :: "'db \<Rightarrow> 'k \<Rightarrow> 'db"
    and get :: "'db \<Rightarrow> 'k \<Rightarrow> 'w option"
    and key :: "'v \<Rightarrow> 'k"
    and form :: "'v \<Rightarrow> 'w"
    and inv :: "'db \<Rightarrow> bool"
  assumes put_inv: "inv db \<Longrightarrow> inv (put db v)"
    and del_inv: "inv db \<Longrightarrow> inv (del db k)"
    and get_put: "inv db \<Longrightarrow> get (put db v) k = (if k = key v then Some (form v) else get db k)"
    and get_del: "inv db \<Longrightarrow> get (del db k') k = (if k = k' then None else get db k)"
begin

lemma put_all_inv: "inv db \<Longrightarrow> inv (foldl put db vs)"
  by (induction vs arbitrary: db) (simp_all add: put_inv)

lemma put_all_other:
  "inv db \<Longrightarrow> k \<notin> key ` set vs \<Longrightarrow> get (foldl put db vs) k = get db k"
  by (induction vs arbitrary: db) (auto simp: put_inv get_put)

lemma put_all_get:
  "inv db \<Longrightarrow> distinct (map key vs) \<Longrightarrow> v \<in> set vs \<Longrightarrow> get (foldl put db vs) (key v) = Some (form v)"
proof (induction vs arbitrary: db)
  case Nil
  then show ?case by simp
next
  case (Cons u vs)
  show ?case
  proof (cases "v \<in> set vs")
    case True
    with Cons show ?thesis by (simp add: put_inv)
  next
    case False
    with Cons.prems have "v = u" by simp
    with Cons.prems show ?thesis by (simp add: put_all_other put_inv get_put)
  qed
qed

text \<open>The last value put under a key wins.\<close>

lemma put_all_last:
  "inv db \<Longrightarrow> get (foldl put db vs) k =
     (case List.find (\<lambda>v. key v = k) (rev vs) of Some v \<Rightarrow> Some (form v) | None \<Rightarrow> get db k)"
  by (induction vs rule: rev_induct) (simp_all add: put_all_inv get_put)

lemma put_twice: "inv db \<Longrightarrow> key v = key u \<Longrightarrow> get (put (put db v) u) k = get (put db u) k"
  by (simp add: put_inv get_put)

lemma del_put: "inv db \<Longrightarrow> get (del (put db v) (key v)) k = get (del db (key v)) k"
  by (simp add: put_inv get_put get_del)

lemma del_all_get:
  "inv db \<Longrightarrow> get (foldl del db ks) k = (if k \<in> set ks then None else get db k)"
  by (induction ks arbitrary: db) (auto simp: del_inv get_del)

end

interpretation store: skill_store
  "\<lambda>db s. fst (insert_skill now db s)" delete_skill_by_path read_path sk_path stored_form reg_ok
  for now
proof
  fix db :: registry and v :: skill and k k' :: string
  assume ok: "reg_ok db"
  show "reg_ok (fst (insert_skill now db v))" by (rule insert_skill_ok[OF ok])
  show "reg_ok (delete_skill_by_path db k)" by (rule delete_skill_ok[OF ok])
  show "read_path (fst (insert_skill now db v)) k
      = (if k = sk_path v then Some (stored_form v) else read_path db k)"
    using read_after_insert[OF ok] get_other_path[OF ok] by (simp add: read_path_def)
  show "read_path (delete_skill_by_path db k') k = (if k = k' then None else read_path db k)"
    using get_after_delete[OF ok] by (simp add: read_path_def)
qed

section \<open>Histories of operations\<close>

text \<open>The skill operations of the registry as values, and the map of paths they refine.\<close>

datatype reg_op =
    PutSkill string skill
  | DropSkill string
  | AddScenario test_scenario
  | DropScenarios nat
  | ClearAll

definition apply_op :: "registry \<Rightarrow> reg_op \<Rightarrow> registry" where
  "apply_op db p =
     (case p of
        PutSkill now s \<Rightarrow> fst (insert_skill now db s)
      | DropSkill path \<Rightarrow> delete_skill_by_path db path
      | AddScenario t \<Rightarrow> (case insert_test_scenario db t of Inl _ \<Rightarrow> db | Inr db' \<Rightarrow> db')
      | DropScenarios i \<Rightarrow> delete_tests_for_skill db i
      | ClearAll \<Rightarrow> clear db)"

definition spec_op :: "(string \<Rightarrow> skill option) \<Rightarrow> reg_op \<Rightarrow> string \<Rightarrow> skill option" where
  "spec_op m p =
     (case p of
        PutSkill now s \<Rightarrow> m(sk_path s \<mapsto> stored_form s)
      | DropSkill path \<Rightarrow> m(path := None)
      | AddScenario t \<Rightarrow> m
      | DropScenarios i \<Rightarrow> m
      | ClearAll \<Rightarrow> (\<lambda>_. None))"

lemma apply_op_ok: "reg_ok db \<Longrightarrow> reg_ok (apply_op db p)"
  by (cases p)
    (auto simp: apply_op_def insert_skill_ok delete_skill_ok delete_tests_ok reg_ok_clear reg_ok_keys
      intro: insert_test_ok split: sum.splits)

lemma get_after_tests:
  "insert_test_scenario db t = Inr db' \<Longrightarrow> get_skill_by_path db' path = get_skill_by_path db path"
  "get_skill_by_path (delete_tests_for_skill db i) path = get_skill_by_path db path"
proof -
  have pm: "populate_meta (db\<lparr>rg_tests := ts, rg_test_seq := n\<rparr>) = populate_meta db" for ts n
    by (rule ext) (simp add: populate_meta_def)
  have pm': "populate_meta (db\<lparr>rg_tests := ts\<rparr>) = populate_meta db" for ts
    by (rule ext) (simp add: populate_meta_def)
  show "get_skill_by_path db' path = get_skill_by_path db path" if "insert_test_scenario db t = Inr db'"
    using that pm by (auto simp: insert_test_scenario_def get_skill_by_path_def split: if_splits)
  show "get_skill_by_path (delete_tests_for_skill db i) path = get_skill_by_path db path"
    using pm' by (simp add: delete_tests_for_skill_def get_skill_by_path_def)
qed

lemma read_clear: "read_path (clear db) q = None"
  by (simp add: read_path_def get_skill_by_path_def clear_def)

lemma apply_op_refines: "reg_ok db \<Longrightarrow> read_path (apply_op db p) = spec_op (read_path db) p"
proof (rule ext, cases p)
  fix q
  assume ok: "reg_ok db"
  show "read_path (apply_op db p) q = spec_op (read_path db) p q" if "p = PutSkill now s" for now s
    using store.get_put[OF ok, of now s q] that by (simp add: apply_op_def spec_op_def)
  show "read_path (apply_op db p) q = spec_op (read_path db) p q" if "p = DropSkill path" for path
    using store.get_del[OF ok, of path q] that by (simp add: apply_op_def spec_op_def)
  show "read_path (apply_op db p) q = spec_op (read_path db) p q" if "p = AddScenario t" for t
    using that by (simp add: apply_op_def spec_op_def read_path_def get_after_tests(1) split: sum.split)
  show "read_path (apply_op db p) q = spec_op (read_path db) p q" if "p = DropScenarios i" for i
    using that by (simp add: apply_op_def spec_op_def read_path_def get_after_tests(2))
  show "read_path (apply_op db p) q = spec_op (read_path db) p q" if "p = ClearAll"
    using that by (simp add: apply_op_def spec_op_def read_clear)
qed

lemma history_refines:
  "reg_ok db \<Longrightarrow> reg_ok (foldl apply_op db ops) \<and> read_path (foldl apply_op db ops) = foldl spec_op (read_path db) ops"
  by (induction ops arbitrary: db) (simp_all add: apply_op_ok apply_op_refines)

end
