(* ===== verification/RegistryQueries.thy ===== *)
theory RegistryQueries
  imports RegistryProps
begin

text \<open>
  What the queries of internal/registry/registry.go return: the path index against the glob
  matching of internal/query/query.go, topic, tag and package filters and their intersection,
  and the round trip of test scenarios.
\<close>

section \<open>Path queries\<close>

text \<open>The in-memory reference: filter every skill by its scopes (query.go \<^verbatim>\<open>filterByPath\<close>).\<close>

definition filter_by_path :: "globber \<Rightarrow> skill list \<Rightarrow> string \<Rightarrow> skill list" where
  "filter_by_path glob skills path = filter (\<lambda>s. scopes_match_path glob (sk_scopes s) path) skills"

lemma norm_path_Nil [simp]: "norm_path p = [] \<longleftrightarrow> p = []"
  by (simp add: norm_path_def replace_char_def)

lemma matched_ids_iff:
  "i \<in> set (matched_ids glob db path) \<longleftrightarrow>
    (\<exists>t \<in> set (rg_scopes db). sc_skill t = i \<and>
       index_admits glob (norm_path path) (sc_scope t) (sc_type t) (sc_prefix t))"
proof -
  have cases: "index_admits glob q sc pt pp \<longleftrightarrow>
      pt = UniversalPat \<or> ((pt = PrefixPat \<or> pt = ExactPat) \<and> pp \<in> set (path_prefixes q))
      \<or> (pt = GlobPat \<and> glob_match_path glob sc q)" for q sc pt pp
    by (cases pt) (simp_all add: index_admits_def)
  show ?thesis
    unfolding matched_ids_def Let_def cases set_append set_map set_filter by blast
qed

lemma matched_ids_glob:
  assumes ok: "scopes_ok db" and laws: "glob_laws glob" and p: "path \<noteq> []"
    and ix: "\<forall>t \<in> set (rg_scopes db). indexable (sc_scope t)"
  shows "sr_id r \<in> set (matched_ids glob db path) \<longleftrightarrow>
    scopes_match_path glob (sk_scopes (populate_meta db r)) path"
proof -
  have "index_admits glob (norm_path path) (sc_scope t) (sc_type t) (sc_prefix t)
      = glob_match_path glob (sc_scope t) (norm_path path)" if t: "t \<in> set (rg_scopes db)" for t
  proof (rule index_agrees[OF laws])
    show "indexable (sc_scope t)" using ix t by simp
    show "norm_path path \<noteq> []" using p by simp
    have "t = scope_row_of (sc_skill t) (sc_scope t)" using ok t by (simp add: scopes_ok_def)
    then show "classify_scope (sc_scope t) = (sc_type t, sc_prefix t)"
      by (metis scope_row_of_simps(3))
  qed
  then show ?thesis
    unfolding matched_ids_iff scopes_match_path_iff
    by (auto simp: populate_meta_def)
qed

lemma query_by_path_filter:
  assumes ok: "reg_ok db" and laws: "glob_laws glob" and p: "path \<noteq> []"
    and ix: "\<forall>t \<in> set (rg_scopes db). indexable (sc_scope t)"
  shows "query_by_path glob db path = filter_by_path glob (all_skills db) path"
proof -
  let ?in = "\<lambda>r. sr_id r \<in> set (matched_ids glob db path)"
  have sc: "scopes_ok db" using ok by (simp add: reg_ok_def)
  have "filter_by_path glob (all_skills db) path
      = map (populate_meta db) (filter ?in (sort_key sr_path (rg_skills db)))"
    using matched_ids_glob[OF sc laws p ix]
    by (simp add: filter_by_path_def all_skills_def filter_map o_def)
  then show ?thesis
    using p by (simp add: query_by_path_def Let_def filter_sort)
qed

section \<open>Topic, tag and package filters\<close>

lemma count_distinct_card:
  "count_distinct tbl vals i = card (set vals \<inter> {v. (i, v) \<in> set tbl})"
proof -
  have "set (map snd (filter (\<lambda>t. fst t = i \<and> snd t \<in> set vals) tbl))
      = set vals \<inter> {v. (i, v) \<in> set tbl}"
    by force
  then show ?thesis
    unfolding count_distinct_def using length_remdups_card_conv by metis
qed

lemma count_distinct_all:
  "distinct vals \<Longrightarrow> count_distinct tbl vals i = length vals \<longleftrightarrow> set vals \<subseteq> {v. (i, v) \<in> set tbl}"
proof -
  assume d: "distinct vals"
  let ?A = "{v. (i, v) \<in> set tbl}"
  have "card (set vals \<inter> ?A) = card (set vals) \<longleftrightarrow> set vals \<inter> ?A = set vals"
    by (metis List.finite_set card_subset_eq inf_le1)
  with d show ?thesis by (auto simp: count_distinct_card distinct_card)
qed

lemma count_distinct_dup: "\<not> distinct vals \<Longrightarrow> count_distinct tbl vals i \<noteq> length vals"
proof -
  assume d: "\<not> distinct vals"
  have "count_distinct tbl vals i \<le> card (set vals)"
    unfolding count_distinct_card by (simp add: card_mono)
  also have "\<dots> < length vals" using d by (metis card_length card_distinct nat_less_le)
  finally show ?thesis by simp
qed

lemma meta_topics_set: "set (sk_topics (populate_meta db r)) = {v. (sr_id r, v) \<in> set (rg_topics db)}"
  by (force simp: populate_meta_def)

lemma meta_tags_set: "set (sk_tags (populate_meta db r)) = {v. (sr_id r, v) \<in> set (rg_tags db)}"
  by (force simp: populate_meta_def)

lemma meta_simps [simp]:
  "sk_id (populate_meta db r) = sr_id r" "sk_path (populate_meta db r) = sr_path r"
  "sk_pkg (populate_meta db r) = coalesce (sr_pkg r)"
  by (simp_all add: populate_meta_def)

definition table_skills :: "registry \<Rightarrow> skill list" where
  "table_skills db = map (populate_meta db) (rg_skills db)"

lemma query_skills_filter:
  "(\<And>r. r \<in> set (rg_skills db) \<Longrightarrow> P r \<longleftrightarrow> Q (populate_meta db r)) \<Longrightarrow>
   query_skills db P = filter Q (table_skills db)"
  by (simp add: query_skills_def table_skills_def filter_map o_def cong: filter_cong)

lemma query_by_topic_all:
  "distinct topics \<Longrightarrow> topics \<noteq> [] \<Longrightarrow>
   query_by_topic db topics = filter (\<lambda>s. set topics \<subseteq> set (sk_topics s)) (table_skills db)"
  unfolding query_by_topic_def
  by (simp add: query_skills_filter count_distinct_all meta_topics_set)

lemma query_by_tags_all:
  "distinct tags \<Longrightarrow> tags \<noteq> [] \<Longrightarrow>
   query_by_tags db tags = filter (\<lambda>s. set tags \<subseteq> set (sk_tags s)) (table_skills db)"
  unfolding query_by_tags_def
  by (simp add: query_skills_filter count_distinct_all meta_tags_set)

lemma query_by_topic_dup: "\<not> distinct topics \<Longrightarrow> query_by_topic db topics = []"
  by (simp add: query_by_topic_def query_skills_def count_distinct_dup)

text \<open>A non-empty package column is never stored as the empty string.\<close>

lemma query_by_package_all:
  "pkg \<noteq> [] \<Longrightarrow> query_by_package db pkg = filter (\<lambda>s. sk_pkg s = pkg) (table_skills db)"
  unfolding query_by_package_def
  by (rule query_skills_filter) (auto simp: coalesce_def split: option.splits)

definition passes_filters :: "string \<Rightarrow> string list \<Rightarrow> string list \<Rightarrow> skill \<Rightarrow> bool" where
  "passes_filters pkg topics tags s \<longleftrightarrow>
     set topics \<subseteq> set (sk_topics s) \<and> set tags \<subseteq> set (sk_tags s) \<and> (pkg \<noteq> [] \<longrightarrow> sk_pkg s = pkg)"

lemma table_skill_ids:
  "keys_ok db \<Longrightarrow> r \<in> set (rg_skills db) \<Longrightarrow>
   sr_id r \<in> sk_id ` {s \<in> set (table_skills db). P s} \<longleftrightarrow> P (populate_meta db r)"
proof
  assume k: "keys_ok db" and r: "r \<in> set (rg_skills db)"
  assume "sr_id r \<in> sk_id ` {s \<in> set (table_skills db). P s}"
  then obtain q where q: "q \<in> set (rg_skills db)" "sr_id q = sr_id r" "P (populate_meta db q)"
    by (auto simp: table_skills_def)
  have "q = r" using k q r by (metis keys_ok_def distinct_map inj_onD)
  with q show "P (populate_meta db r)" by simp
qed (force simp: table_skills_def)

lemma filter_sets_meaning:
  assumes k: "keys_ok db" and d: "distinct topics" "distinct tags" and r: "r \<in> set (rg_skills db)"
  shows "(\<forall>t \<in> set (filter_sets db pkg topics tags). sr_id r \<in> set t)
    \<longleftrightarrow> passes_filters pkg topics tags (populate_meta db r)"
proof -
  have ids: "sr_id r \<in> set (map sk_id (filter P (table_skills db))) \<longleftrightarrow> P (populate_meta db r)" for P
    using table_skill_ids[OF k r, of P] by simp
  have "topics \<noteq> [] \<Longrightarrow> sr_id r \<in> set (map sk_id (query_by_topic db topics))
      \<longleftrightarrow> set topics \<subseteq> set (sk_topics (populate_meta db r))"
    by (subst query_by_topic_all[OF d(1)]) (assumption, rule ids)
  moreover have "tags \<noteq> [] \<Longrightarrow> sr_id r \<in> set (map sk_id (query_by_tags db tags))
      \<longleftrightarrow> set tags \<subseteq> set (sk_tags (populate_meta db r))"
    by (subst query_by_tags_all[OF d(2)]) (assumption, rule ids)
  moreover have "pkg \<noteq> [] \<Longrightarrow> sr_id r \<in> set (map sk_id (query_by_package db pkg))
      \<longleftrightarrow> sk_pkg (populate_meta db r) = pkg"
    by (subst query_by_package_all) (assumption, rule ids)
  ultimately show ?thesis
    unfolding filter_sets_def passes_filters_def
    by (cases "topics = []"; cases "tags = []"; cases "pkg = []") (simp_all del: set_map)
qed

lemma query_conjunctive:
  assumes k: "keys_ok db" and d: "distinct topics" "distinct tags"
    and some: "pkg \<noteq> [] \<or> topics \<noteq> [] \<or> tags \<noteq> []"
  shows "query db pkg topics tags = filter (passes_filters pkg topics tags) (table_skills db)"
proof -
  obtain s rest where fs: "filter_sets db pkg topics tags = s # rest"
    using some by (cases "filter_sets db pkg topics tags") (auto simp: filter_sets_def)
  let ?m = "filter (\<lambda>i. list_all (\<lambda>t. i \<in> set t) rest) s"
  have m: "sr_id r \<in> set ?m \<longleftrightarrow> passes_filters pkg topics tags (populate_meta db r)"
    if "r \<in> set (rg_skills db)" for r
    using filter_sets_meaning[OF k d that, of pkg] by (auto simp: fs list_all_iff)
  have "query_skills db (\<lambda>r. sr_id r \<in> set ?m) = filter (passes_filters pkg topics tags) (table_skills db)"
    by (rule query_skills_filter) (rule m)
  moreover have "query_skills db (\<lambda>r. sr_id r \<in> set ?m) = []" if "?m = []"
    unfolding that query_skills_def by simp
  ultimately show ?thesis
    unfolding query_def fs list.case Let_def by (cases "?m = []") (simp_all only: if_True if_False simp_thms)
qed

section \<open>Test scenarios\<close>

definition scenario_storable :: "test_scenario \<Rightarrow> bool" where
  "scenario_storable t \<longleftrightarrow>
     list_all (\<lambda>s. CHR '','' \<notin> set s) (ts_extra t) \<and> ts_extra t \<noteq> [[]] \<and>
     ts_criteria t \<noteq> [] \<and> list_all (\<lambda>s. nl \<notin> set s) (ts_criteria t)"

lemma test_scenario_roundtrip:
  assumes "insert_test_scenario db t = Inr db'" and st: "scenario_storable t"
  shows "get_test_scenarios db' (ts_skill t) =
    get_test_scenarios db (ts_skill t) @ [t\<lparr>ts_id := Suc (rg_test_seq db)\<rparr>]"
proof -
  have extra: "(if coalesce (null_str (str_join '','' (ts_extra t))) \<noteq> []
      then split_on (CHR '','') (coalesce (null_str (str_join '','' (ts_extra t)))) else []) = ts_extra t"
  proof (cases "ts_extra t = []")
    case True
    then show ?thesis by simp
  next
    case False
    then have s: "split_on (CHR '','') (str_join '','' (ts_extra t)) = ts_extra t"
      using st by (simp add: scenario_storable_def split_join list_all_iff)
    then have "str_join '','' (ts_extra t) \<noteq> []"
      using st False by (auto simp: scenario_storable_def)
    with s show ?thesis by simp
  qed
  have crit: "split_on nl (str_join [nl] (ts_criteria t)) = ts_criteria t"
    using st by (simp add: scenario_storable_def split_join list_all_iff)
  show ?thesis
    using assms(1) extra crit
    by (auto simp: insert_test_scenario_def get_test_scenarios_def split: if_splits)
qed

end
