(* ===== verification/RegistryClaims.thy ===== *)
theory RegistryClaims
  imports RegistryQueries
begin

text \<open>
  The properties of the skill registry: histories of operations against the map they refine, the
  path index against the glob semantics, the filters, the test scenarios, and two inputs on which
  the code departs from what its callers expect.
\<close>

section \<open>A small registry for witnesses\<close>

definition demo_skill :: "string \<Rightarrow> string list \<Rightarrow> string list \<Rightarrow> skill" where
  "demo_skill path topics scopes =
     \<lparr>sk_id = 0, sk_path = path, sk_content = ''# Go'', sk_name = ''go'', sk_desc = [], sk_pkg = ''lib'',
      sk_ver = [], sk_vis = ''public'', sk_src = ''repo'', sk_score = 0, sk_topics = topics,
      sk_tags = [], sk_scopes = scopes\<rparr>"

definition demo_registry :: registry where
  "demo_registry = fst (insert_skill ''t'' (fst (insert_skill ''t'' empty_registry
      (demo_skill ''b.md'' [''go''] [''pkg/**'']))) (demo_skill ''a.md'' [''go'', ''sql''] [''pkg/db/x.go'']))"

lemma demo_registry_ok: "reg_ok demo_registry"
  unfolding demo_registry_def by (intro insert_skill_ok reg_ok_empty)

section \<open>Histories\<close>

text \<open>
  C2: After any sequence of InsertSkill, DeleteSkillByPath, InsertTestScenario,
  DeleteTestsForSkill and Clear on an empty database, the tables satisfy the invariant (paths and
  ids are unique, every topic, tag, scope, test and search row belongs to a skill, each scope row
  holds its own classification, each skill has exactly its own search document), and
  GetSkillByPath reads for every path the skill last written there, with its fields, topics, tags
  and scopes in the order they were written (SQLite's row order, as the reads have no ORDER BY).
\<close>

theorem registry_history:
  "reg_ok (foldl apply_op empty_registry ops) \<and>
   read_path (foldl apply_op empty_registry ops) = foldl spec_op (\<lambda>_. None) ops"
proof -
  have "read_path empty_registry = (\<lambda>_. None)"
    by (rule ext) (simp add: read_path_def get_skill_by_path_def empty_registry_def)
  with history_refines[OF reg_ok_empty, of ops] show ?thesis by simp
qed

section \<open>Path queries\<close>

text \<open>
  C3: For every consistent registry and every non-empty file path: when every scope is a text the glob
  compiler reads (UTF-8 without NUL and U+FFFD), holds no bracket or brace syntax, and is no literal
  that ends in a slash, the path-only query answered from the index columns returns the same skills in
  the same order as filtering all skills by glob matching their scopes.  The condition is needed: a
  scope with brace alternatives is missed, as \<open>brace_scope_missed\<close> shows.
\<close>

theorem path_query_agrees:
  assumes "reg_ok db" "glob_laws glob" "path \<noteq> []"
    and "\<forall>t \<in> set (rg_scopes db). indexable (sc_scope t)"
  shows "query_by_path glob db path = filter_by_path glob (all_skills db) path"
  by (rule query_by_path_filter[OF assms])

lemma path_query_agrees_witness:
  "query_by_path simple_glob demo_registry ''pkg/db/x.go''
     = filter_by_path simple_glob (all_skills demo_registry) ''pkg/db/x.go'' \<and>
   map sk_path (query_by_path simple_glob demo_registry ''pkg/db/x.go'') = [''a.md'', ''b.md'']"
proof
  show "query_by_path simple_glob demo_registry ''pkg/db/x.go''
     = filter_by_path simple_glob (all_skills demo_registry) ''pkg/db/x.go''"
  proof (rule path_query_agrees[OF demo_registry_ok simple_glob_laws])
    show "\<forall>t \<in> set (rg_scopes demo_registry). indexable (sc_scope t)" by code_simp
  qed simp
  show "map sk_path (query_by_path simple_glob demo_registry ''pkg/db/x.go'') = [''a.md'', ''b.md'']"
    by code_simp
qed

text \<open>
  A scope with brace alternatives is classified as a literal path.  Whatever the glob
  compiler makes of \<^verbatim>\<open>src/{a,b}.ts\<close>, as long as the pattern matches
  \<^verbatim>\<open>src/a.ts\<close>, the scope applies to that file but the index of a registry that
  holds such a skill never reports it.
\<close>

theorem brace_scope_missed:
  assumes "glob ''src/{a,b}.ts'' = Some g" "g ''src/a.ts''"
  shows "let db = fst (insert_skill ''t'' empty_registry (demo_skill ''a.md'' [] [''src/{a,b}.ts'']))
     in query_by_path glob db ''src/a.ts'' = [] \<and>
        map sk_path (filter_by_path glob (all_skills db) ''src/a.ts'') = [''a.md'']"
proof -
  let ?db = "fst (insert_skill ''t'' empty_registry (demo_skill ''a.md'' [] [''src/{a,b}.ts'']))"
  have rows: "rg_scopes ?db = [\<lparr>sc_skill = 1, sc_scope = ''src/{a,b}.ts'', sc_prefix = ''src/{a,b}.ts'',
      sc_type = ExactPat\<rparr>]" by code_simp
  have pre: "''src/{a,b}.ts'' \<notin> set (path_prefixes (norm_path ''src/a.ts''))" by code_simp
  have "matched_ids glob ?db ''src/a.ts'' = []"
    unfolding matched_ids_def rows Let_def using pre by simp
  then have q: "query_by_path glob ?db ''src/a.ts'' = []" by (simp add: query_by_path_def)
  have all: "map (\<lambda>s. (sk_path s, sk_scopes s)) (all_skills ?db) = [(''a.md'', [''src/{a,b}.ts''])]"
    by code_simp
  then obtain s where s: "all_skills ?db = [s]" "sk_path s = ''a.md''" "sk_scopes s = [''src/{a,b}.ts'']"
    by auto
  have n: "norm_path ''src/a.ts'' = ''src/a.ts''" "norm_path ''src/{a,b}.ts'' = ''src/{a,b}.ts''"
    by code_simp+
  have "scopes_match_path glob [''src/{a,b}.ts''] ''src/a.ts''"
    using assms by (simp add: scopes_match_path_def n)
  with q s show ?thesis by (simp add: filter_by_path_def Let_def)
qed

lemma brace_scope_missed_witness:
  "\<exists>glob g. glob ''src/{a,b}.ts'' = Some g \<and> g ''src/a.ts'' \<and>
     query_by_path glob (fst (insert_skill ''t'' empty_registry
       (demo_skill ''a.md'' [] [''src/{a,b}.ts'']))) ''src/a.ts'' = []"
proof -
  let ?g = "\<lambda>p. p = ''src/a.ts'' \<or> p = ''src/b.ts''"
  have "query_by_path (\<lambda>_. Some ?g) (fst (insert_skill ''t'' empty_registry
       (demo_skill ''a.md'' [] [''src/{a,b}.ts'']))) ''src/a.ts'' = []"
    using brace_scope_missed[where glob = "\<lambda>_. Some ?g", OF refl] unfolding Let_def by blast
  then show ?thesis by (intro exI [of _ "\<lambda>_. Some ?g"] exI [of _ ?g] conjI refl disjI1)
qed

section \<open>Filters\<close>

text \<open>
  With at least one filter given and no topic or tag listed twice, Query returns exactly
  the skills that have all the requested topics, all the requested tags and the requested package.
\<close>

theorem filters_conjunctive:
  assumes "reg_ok db" "distinct topics" "distinct tags" "pkg \<noteq> [] \<or> topics \<noteq> [] \<or> tags \<noteq> []"
  shows "query db pkg topics tags = filter (passes_filters pkg topics tags) (table_skills db)"
  using assms query_conjunctive reg_ok_keys by blast

lemma filters_conjunctive_witness:
  "query demo_registry ''lib'' [''go'', ''sql''] []
     = filter (passes_filters ''lib'' [''go'', ''sql''] []) (table_skills demo_registry) \<and>
   map sk_path (query demo_registry ''lib'' [''go'', ''sql''] []) = [''a.md'']"
proof
  show "query demo_registry ''lib'' [''go'', ''sql''] []
     = filter (passes_filters ''lib'' [''go'', ''sql''] []) (table_skills demo_registry)"
    by (rule filters_conjunctive[OF demo_registry_ok]) simp_all
  show "map sk_path (query demo_registry ''lib'' [''go'', ''sql''] []) = [''a.md'']" by code_simp
qed

text \<open>
  A topic given twice makes the topic query empty, however many skills have it: the
  count of distinct matching topics is compared with the length of the argument list.
\<close>

theorem duplicate_topic_empty:
  assumes "\<not> distinct topics"
  shows "query_by_topic db topics = []"
  by (rule query_by_topic_dup[OF assms])

lemma duplicate_topic_empty_witness:
  "query_by_topic demo_registry [''go'', ''go''] = [] \<and>
   map sk_path (query_by_topic demo_registry [''go'']) = [''b.md'', ''a.md'']"
proof
  show "query_by_topic demo_registry [''go'', ''go''] = []" by (rule duplicate_topic_empty) simp
  show "map sk_path (query_by_topic demo_registry [''go'']) = [''b.md'', ''a.md'']" by code_simp
qed

section \<open>Test scenarios\<close>

text \<open>
  A stored test scenario reads back unchanged, after those the skill had before, with the next free
  id, provided its extra skills hold no comma, its criteria are non-empty and hold no newline.
\<close>

theorem scenario_roundtrip:
  assumes "insert_test_scenario db t = Inr db'" "scenario_storable t"
  shows "get_test_scenarios db' (ts_skill t) =
    get_test_scenarios db (ts_skill t) @ [t\<lparr>ts_id := Suc (rg_test_seq db)\<rparr>]"
  by (rule test_scenario_roundtrip[OF assms])

lemma scenario_roundtrip_witness:
  "\<exists>db'. insert_test_scenario demo_registry \<lparr>ts_id = 0, ts_skill = 1, ts_name = ''n'', ts_prompt = ''p'',
       ts_extra = [''x'', ''y''], ts_criteria = [''builds'', ''passes'']\<rparr> = Inr db' \<and>
     get_test_scenarios db' 1 = [\<lparr>ts_id = 1, ts_skill = 1, ts_name = ''n'', ts_prompt = ''p'',
       ts_extra = [''x'', ''y''], ts_criteria = [''builds'', ''passes'']\<rparr>]"
proof -
  let ?t = "\<lparr>ts_id = 0, ts_skill = 1, ts_name = ''n'', ts_prompt = ''p'',
       ts_extra = [''x'', ''y''], ts_criteria = [''builds'', ''passes'']\<rparr>"
  have "1 \<in> sr_id ` set (rg_skills demo_registry)" "get_test_scenarios demo_registry 1 = []"
    "rg_test_seq demo_registry = 0" by code_simp+
  then obtain db' where db': "insert_test_scenario demo_registry ?t = Inr db'"
    by (auto simp: insert_test_scenario_def)
  have "scenario_storable ?t" by code_simp
  from scenario_roundtrip[OF db' this]
  have "get_test_scenarios db' 1 = [?t\<lparr>ts_id := 1\<rparr>]"
    using \<open>get_test_scenarios demo_registry 1 = []\<close> \<open>rg_test_seq demo_registry = 0\<close> by simp
  with db' show ?thesis by auto
qed

end
