(* ===== verification/Tenant.thy ===== *)
theory Tenant
  imports Capability
begin

text \<open>
  internal/tenant/principal.go: the partition string under which a hosted principal's
  capability views are cached, and the per-tenant signing keys.  The MAC is the field
  \<^const>\<open>hmac\<close> of \<^typ>\<open>prims\<close>.
\<close>

type_synonym principal_kind = string

definition principal_user :: principal_kind where "principal_user = ''user''"
definition principal_workload :: principal_kind where "principal_workload = ''workload''"

record principal =
  tenant_id :: string
  subject :: string
  pr_kind :: principal_kind

datatype tenant_error = PrincipalInvalid | PartitionKeyTooShort | DeriveArgumentsInvalid

abbreviation nul :: char where "nul \<equiv> CHR 0x00"

definition validate_principal :: "principal \<Rightarrow> (tenant_error, unit) result" where
  "validate_principal p =
     (if tenant_id p = [] \<or> subject p = [] \<or>
         (pr_kind p \<noteq> principal_user \<and> pr_kind p \<noteq> principal_workload)
      then Inl PrincipalInvalid else Inr ())"

definition partition_message :: "principal \<Rightarrow> string" where
  "partition_message p = tenant_id p @ [nul] @ pr_kind p @ [nul] @ subject p"

definition tenant_partition :: "prims \<Rightarrow> string \<Rightarrow> principal \<Rightarrow> (tenant_error, string) result" where
  "tenant_partition pr key p =
     (if length key < 32 then Inl PartitionKeyTooShort
      else (case validate_principal p of
              Inl e \<Rightarrow> Inl e
            | Inr _ \<Rightarrow> Inr (''tenant:v1:'' @ b64_encode (hmac pr key (partition_message p)))))"

definition derive_message :: "string \<Rightarrow> string \<Rightarrow> string" where
  "derive_message tenant purpose = ''skillex-hosted-key:v1'' @ [nul] @ tenant @ [nul] @ purpose"

definition derive_signing_key :: "prims \<Rightarrow> string \<Rightarrow> string \<Rightarrow> string \<Rightarrow> (tenant_error, string) result" where
  "derive_signing_key pr master tenant purpose =
     (if length master < 32 \<or> tenant = [] \<or> purpose = [] then Inl DeriveArgumentsInvalid
      else Inr (hmac pr master (derive_message tenant purpose)))"

section \<open>The messages separate their fields\<close>

lemma nul_framing:
  assumes "nul \<notin> set a" "nul \<notin> set b" "a @ nul # s = b @ nul # t"
  shows "a = b \<and> s = t"
proof -
  have "split_on nul (a @ nul # s) = split_on nul (b @ nul # t)" using assms(3) by simp
  then have "a = b" using assms(1,2) by (simp add: split_on_append_sep)
  with assms(3) show ?thesis by simp
qed

lemma kind_no_nul: "validate_principal p = Inr u \<Longrightarrow> nul \<notin> set (pr_kind p)"
  by (auto simp: validate_principal_def principal_user_def principal_workload_def split: if_splits)

lemma partition_message_inj:
  assumes "validate_principal p = Inr u" "validate_principal q = Inr u"
    and "nul \<notin> set (tenant_id p)" "nul \<notin> set (tenant_id q)"
    and m: "partition_message p = partition_message q"
  shows "p = q"
proof -
  have "tenant_id p @ nul # pr_kind p @ nul # subject p = tenant_id q @ nul # pr_kind q @ nul # subject q"
    using m by (simp add: partition_message_def)
  with assms(3,4) have t: "tenant_id p = tenant_id q"
    and r: "pr_kind p @ nul # subject p = pr_kind q @ nul # subject q"
    using nul_framing by blast+
  with nul_framing[OF kind_no_nul[OF assms(1)] kind_no_nul[OF assms(2)] r]
  show ?thesis by (simp add: principal.equality)
qed

lemma tenant_partition_Ok_iff [result_simps]:
  "tenant_partition pr key p = Inr s \<longleftrightarrow>
     32 \<le> length key \<and> validate_principal p = Inr () \<and>
     s = ''tenant:v1:'' @ b64_encode (hmac pr key (partition_message p))"
  by (auto simp: tenant_partition_def split: sum.splits)

end
