(* ===== verification/DemoPrims.thy ===== *)
theory DemoPrims
  imports Tenant
begin

text \<open>
  A concrete instance of the record \<^typ>\<open>prims\<close> for witnesses: a claims codec that does round
  trip, and keyed and unkeyed digests that are injective.  The code's cryptography is not
  modelled; no lemma about the code uses this theory.
\<close>

definition demo_int :: "int \<Rightarrow> string" where
  "demo_int i = (if i < 0 then CHR ''-'' # replicate (nat (- i)) CHR ''1'' else replicate (nat i) CHR ''1'')"

definition demo_int_read :: "string \<Rightarrow> int" where
  "demo_int_read s = (if has_prefix s ''-'' then - int (length s - 1) else int (length s))"

definition demo_encode :: "reference_claims \<Rightarrow> string" where
  "demo_encode c = str_join ''.'' (map b64_encode
     [rc_server c, rc_version c, rc_capability c, rc_kind c, rc_schema_digest c, rc_routing_scope c,
      rc_auth_profile c, rc_view c, rc_context c, demo_int (rc_issued_at c),
      demo_int (rc_expires_at c), rc_nonce c])"

definition demo_decode :: "string \<Rightarrow> reference_claims option" where
  "demo_decode s =
     (case map b64_decode (split_on (CHR ''.'') s) of
        [Some a, Some b, Some c, Some d, Some e, Some f, Some g, Some h, Some i, Some j, Some k, Some l] \<Rightarrow>
          Some \<lparr>rc_server = a, rc_version = b, rc_capability = c, rc_kind = d, rc_schema_digest = e,
            rc_routing_scope = f, rc_auth_profile = g, rc_view = h, rc_context = i,
            rc_issued_at = demo_int_read j, rc_expires_at = demo_int_read k, rc_nonce = l\<rparr>
      | _ \<Rightarrow> None)"

lemma demo_int_read [simp]: "demo_int_read (demo_int i) = i"
proof (cases "i < 0")
  case True
  then show ?thesis by (simp add: demo_int_def demo_int_read_def has_prefix_def)
next
  case False
  then show ?thesis by (cases "nat i") (auto simp: demo_int_def demo_int_read_def has_prefix_def)
qed

lemma demo_codec: "demo_decode (demo_encode c) = Some c"
proof -
  have "split_on (CHR ''.'') (demo_encode c) = map b64_encode
     [rc_server c, rc_version c, rc_capability c, rc_kind c, rc_schema_digest c, rc_routing_scope c,
      rc_auth_profile c, rc_view c, rc_context c, demo_int (rc_issued_at c),
      demo_int (rc_expires_at c), rc_nonce c]"
    unfolding demo_encode_def by (rule split_join) (auto simp: encode_no_dot)
  then show ?thesis by (simp add: demo_decode_def b64_roundtrip)
qed

definition demo_prims :: prims where
  "demo_prims = \<lparr>sha256 = (\<lambda>s. s), hmac = (\<lambda>k m. k @ m), json_canon = Some, json_quote = (\<lambda>s. s),
     claims_encode = demo_encode, claims_decode = demo_decode\<rparr>"

lemma demo_prims_simps [simp]:
  "hmac demo_prims k m = k @ m" "claims_encode demo_prims = demo_encode"
  "claims_decode demo_prims = demo_decode" "json_canon demo_prims = Some"
  "json_quote demo_prims s = s" "sha256 demo_prims s = s"
  by (simp_all add: demo_prims_def)

definition demo_signer :: reference_signer where
  "demo_signer = \<lparr>sg_key = replicate 32 CHR ''k'', sg_ttl = 60000000000\<rparr>"

definition demo_capability :: capability where
  "demo_capability = \<lparr>cap_server = \<lparr>sv_identity = \<lparr>canonical_name = ''docs'', publisher = ''acme''\<rparr>,
      sv_version = ''1'', package_digest = [], sv_status = ''active''\<rparr>, cap_kind = ''tool'', cap_name = ''search'', cap_title = [],
     cap_description = [], input_schema = ''{}'', output_schema = [], schema_digest = [],
     availability = ''available'', observed_at = None, expires_at = None, routing_scope = ''**'',
     auth_profile = []\<rparr>"

lemma demo_issues:
  "view \<noteq> [] \<Longrightarrow> ctx \<noteq> [] \<Longrightarrow>
   \<exists>ref. issue demo_prims s demo_capability view ctx now nonce = Inr ref"
proof -
  have "canonical_json demo_prims ''{}'' = Some ''{}''" "canonical_json demo_prims [] = Some ''null''"
    by (code_simp)+
  then have "\<exists>c'. with_computed_digest demo_prims demo_capability = Inr c'"
    by (simp add: with_computed_Ok_iff demo_capability_def compute_schema_digest_def)
  then show "view \<noteq> [] \<Longrightarrow> ctx \<noteq> [] \<Longrightarrow>
   \<exists>ref. issue demo_prims s demo_capability view ctx now nonce = Inr ref"
    by (auto simp: issue_def)
qed

end
