(* ===== verification/AccessProps.thy ===== *)
theory AccessProps
  imports DemoPrims
begin

text \<open>
  The correctness of capability references and tenant partitions: acceptance characterised,
  issue and verify as a round trip, no two principals in one partition, and the corner cases
  where the code's checks let an unusable or ambiguous input through.
\<close>

section \<open>References\<close>

text \<open>
  C4: Verify accepts a reference exactly when it is the byte string the signer itself
  would build for some payload (so its MAC is right and its base64 is canonical), the payload
  decodes to complete claims with the issue time before the expiry, and the clock is before the
  expiry; the claims returned are the payload's.
\<close>

theorem verify_accepts_iff:
  "verify pr s now ref = Inr c \<longleftrightarrow>
     (\<exists>payload. ref = reference_of pr s payload \<and> claims_decode pr payload = Some c
        \<and> claims_wf c \<and> now < unix_time (rc_expires_at c))"
  using verify_sound[of pr s now ref c] by (auto simp: verify_reference_of)

text \<open>
  C20: A reference issued for a capability, with a time-to-live of at least a second and a clock that is
  at least a second after the start of 1970 and that the 64-bit time holds, where the names, the scope, the profile, the view and the context are UTF-8,
  verifies at every moment before its expiry second, and gives back the capability's server, version,
  name, kind, computed schema digest, routing scope, auth profile and the view and
  context it was issued for.
\<close>

theorem issue_then_verify:
  assumes "issue pr s c view ctx now nonce = Inr ref" "nonce \<noteq> []"
    and "1000000000 \<le> now" "1000000000 \<le> sg_ttl s" "now + sg_ttl s < 2 ^ 62 * 1000000000"
    and "claims_codec pr" "capability_text c" "utf8_valid view" "utf8_valid ctx"
    and "later < unix (now + sg_ttl s) * 1000000000"
  shows "\<exists>c'. with_computed_digest pr c = Inr c' \<and>
     verify pr s later ref = Inr (issue_claims s c' view ctx now nonce)"
proof -
  from assms(1) obtain c' where c': "with_computed_digest pr c = Inr c'" "view \<noteq> []" "ctx \<noteq> []"
    and ref: "ref = reference_of pr s (claims_encode pr (issue_claims s c' view ctx now nonce))"
    by (auto simp: issue_Ok_iff)
  have "capability_text c'" using with_computed_keeps[OF c'(1)] assms(7) by (simp add: capability_text_def)
  note utf = issued_claims_text[OF with_computed_complete[OF c'(1)] this assms(8,9,3) _ assms(5)]
  have "claims_wf (issue_claims s c' view ctx now nonce)"
    using issued_claims_wf[OF with_computed_complete[OF c'(1)] c'(2,3) assms(2-4)] .
  then have "verify pr s later ref = Inr (issue_claims s c' view ctx now nonce)"
    using assms(4,6,10) utf by (simp add: ref verify_reference_of claims_codec_def)
  with c'(1) show ?thesis by blast
qed

lemma demo_claims_codec [simp]: "claims_codec demo_prims"
  by (simp add: claims_codec_def demo_codec)

lemma demo_nonce: "''n'' \<noteq> []"
  by simp

lemma demo_times:
  "1000000000 \<le> (1000000000 :: int)" "1000000000 \<le> sg_ttl demo_signer" "1000000000 + sg_ttl demo_signer < 2 ^ 62 * 1000000000"
  by (simp_all add: demo_signer_def)

lemma demo_texts: "capability_text demo_capability" "utf8_valid ''v''" "utf8_valid ''x''"
  by code_simp+

lemma issue_then_verify_witness:
  "\<exists>c' ref. issue demo_prims demo_signer demo_capability ''v'' ''x'' 1000000000 ''n'' = Inr ref \<and>
     with_computed_digest demo_prims demo_capability = Inr c' \<and>
     verify demo_prims demo_signer 2000000000 ref
       = Inr (issue_claims demo_signer c' ''v'' ''x'' 1000000000 ''n'')"
proof -
  obtain ref where ref: "issue demo_prims demo_signer demo_capability ''v'' ''x'' 1000000000 ''n'' = Inr ref"
    using demo_issues[of "''v''" "''x''"] by blast
  have "\<exists>c'. with_computed_digest demo_prims demo_capability = Inr c' \<and>
     verify demo_prims demo_signer 2000000000 ref
       = Inr (issue_claims demo_signer c' ''v'' ''x'' 1000000000 ''n'')"
    by (rule issue_then_verify[OF ref demo_nonce demo_times demo_claims_codec demo_texts])
      (simp add: demo_signer_def unix_def)
  with ref show ?thesis by blast
qed

text \<open>
  A signer may be built with a positive time-to-live shorter than a second; when issue
  time and expiry fall in the same second, every reference it issues is rejected as invalid at any
  time, the moment of issue included.
\<close>

theorem subsecond_ttl_rejected:
  assumes "issue pr s c view ctx now nonce = Inr ref"
    and "1000000000 \<le> now" "0 \<le> sg_ttl s" "now + sg_ttl s < 2 ^ 62 * 1000000000"
    and "claims_codec pr" "capability_text c" "utf8_valid view" "utf8_valid ctx"
    and "unix (now + sg_ttl s) = unix now"
  shows "verify pr s later ref = Inl InvalidReference"
proof -
  from assms(1) obtain c' where c': "with_computed_digest pr c = Inr c'"
    and ref: "ref = reference_of pr s (claims_encode pr (issue_claims s c' view ctx now nonce))"
    by (auto simp: issue_Ok_iff)
  have "capability_text c'" using with_computed_keeps[OF c'] assms(6) by (simp add: capability_text_def)
  note utf = issued_claims_text(1)[OF with_computed_complete[OF c'] this assms(7,8,2-4)]
  have "\<not> claims_wf (issue_claims s c' view ctx now nonce)"
    using assms(9) by (simp add: claims_wf_def issue_claims_def)
  then show ?thesis using utf assms(5) by (simp add: ref verify_reference_of claims_codec_def)
qed

lemma subsecond_ttl_rejected_witness:
  "\<exists>s ref. new_reference_signer (replicate 32 CHR ''k'') 1000000 = Inr s \<and>
     issue demo_prims s demo_capability ''v'' ''x'' 5000000000 ''n'' = Inr ref \<and>
     verify demo_prims s 5000000000 ref = Inl InvalidReference"
proof -
  let ?s = "\<lparr>sg_key = replicate 32 CHR ''k'', sg_ttl = 1000000\<rparr>"
  obtain ref where ref: "issue demo_prims ?s demo_capability ''v'' ''x'' 5000000000 ''n'' = Inr ref"
    using demo_issues[of "''v''" "''x''"] by blast
  have "verify demo_prims ?s 5000000000 ref = Inl InvalidReference"
    by (rule subsecond_ttl_rejected[OF ref]) (simp_all add: demo_texts unix_def)
  moreover have "new_reference_signer (replicate 32 CHR ''k'') 1000000 = Inr ?s"
    by (simp add: new_reference_signer_def)
  ultimately show ?thesis using ref by blast
qed

section \<open>Tenants\<close>

text \<open>
  C35: Under one deployment key, two principals whose tenant ids hold no NUL byte share a
  partition only if they are the same principal, as long as the MAC does not collide on their two
  messages.  So one tenant never reads the capability view cached for another with such ids; with a NUL
  byte in a tenant id two tenants can share a partition, as \<open>nul_tenants_collide\<close> shows.
\<close>

theorem partition_separates:
  assumes "tenant_partition pr key p = Inr s" "tenant_partition pr key q = Inr s"
    and "nul \<notin> set (tenant_id p)" "nul \<notin> set (tenant_id q)"
    and "hmac pr key (partition_message p) = hmac pr key (partition_message q)
      \<longrightarrow> partition_message p = partition_message q"
  shows "p = q"
proof -
  from assms(1,2) have "validate_principal p = Inr ()" "validate_principal q = Inr ()"
    "b64_encode (hmac pr key (partition_message p)) = b64_encode (hmac pr key (partition_message q))"
    by (auto simp: tenant_partition_Ok_iff)
  with assms(3-5) show ?thesis
    using partition_message_inj by (metis b64_encode_inj)
qed

lemma partition_separates_witness:
  "\<exists>p s. tenant_partition demo_prims (replicate 32 CHR ''k'') p = Inr s \<and>
     (\<forall>q. nul \<notin> set (tenant_id q) \<longrightarrow> tenant_partition demo_prims (replicate 32 CHR ''k'') q = Inr s \<longrightarrow> p = q)"
proof -
  let ?p = "\<lparr>tenant_id = ''acme'', subject = ''u1'', pr_kind = principal_user\<rparr>"
  obtain s where s: "tenant_partition demo_prims (replicate 32 CHR ''k'') ?p = Inr s"
    by (auto simp: tenant_partition_def validate_principal_def principal_user_def)
  have "?p = q" if "nul \<notin> set (tenant_id q)"
    "tenant_partition demo_prims (replicate 32 CHR ''k'') q = Inr s" for q
    by (rule partition_separates[OF s that(2)]) (use that in simp_all)
  with s show ?thesis by blast
qed

text \<open>
  With NUL bytes in a tenant id the framing is ambiguous: these two valid principals of
  different tenants get the same partition, whatever the key and the MAC.
\<close>

theorem nul_tenants_collide:
  "tenant_partition pr key
     \<lparr>tenant_id = ''a'' @ [nul] @ ''user'' @ [nul] @ ''b'', subject = ''c'', pr_kind = principal_user\<rparr>
   = tenant_partition pr key
     \<lparr>tenant_id = ''a'', subject = ''b'' @ [nul] @ ''user'' @ [nul] @ ''c'', pr_kind = principal_user\<rparr>"
  by (simp add: tenant_partition_def validate_principal_def partition_message_def principal_user_def)

end
