(* ===== verification/Config.thy ===== *)
theory Config
  imports GoPath
begin

text \<open>
  internal/config: the project configuration, its validation and loading (config.go) and the
  command by which the project's pinned skillex runs (invocation.go).  Paths are Unix paths.  The
  JSON and YAML decoders are a parameter that reads the next document of a byte stream; the file
  system is a parameter that gives a file's content.
\<close>

section \<open>Data\<close>

record install_config =
  in_strategy :: string
  in_manager :: string
  in_binary :: string

record rule =
  rl_scope :: string
  rl_skills :: "string list"
  rl_boundary :: string

record mcp_catalog =
  ct_type :: string
  ct_path :: string
  ct_name :: string

record mcp_binding =
  bd_server :: string
  bd_version :: string
  bd_profile :: string
  bd_scope :: string

record mcp_config =
  mcp_on :: bool
  mcp_catalogs :: "mcp_catalog list"
  mcp_bindings :: "mcp_binding list"

text \<open>Of the free-form maps (policy, allow, deny) the code reads the number of entries only:
  they are lists of keys.\<close>

record pack_registry =
  pg_name :: string
  pg_url :: string
  pg_root :: string
  pg_allow :: "string list"
  pg_deny :: "string list"

record config =
  cf_install :: "install_config option"
  cf_version :: int
  cf_rules :: "rule list"
  cf_mcp :: "mcp_config option"
  cf_registries :: "pack_registry list"
  cf_policy :: "string list"

datatype config_error =
    GlobalTakesNoPackage | UnknownManager | BinaryNeedsSource | BinaryOutside | SourceTakesNoManager
  | UnknownStrategy | PolicyUnsupported | OneRegistryOnly | RegistryNeedsHttps | OnlyBundledRoot
  | RegistryPolicyUnsupported | McpNeedsVersion5 | UnsupportedVersion | DisabledBindings | MissingBindings
  | CatalogPathOutside nat | CatalogNameOnStatic nat | TrustedNeedsName nat | UnknownCatalogType nat
  | ServerRequired nat | VersionRequired nat | VersionNotExact nat | ScopeRequired nat | DuplicateBinding nat
  | BothFiles | NoConfigFile | ReadFailed | DecodeFailed | TrailingDocument

definition skills_only_version :: int where "skills_only_version = 4"
definition mcp_version :: int where "mcp_version = 5"

definition mcp_enabled :: "config option \<Rightarrow> bool" where
  "mcp_enabled c = (case c of None \<Rightarrow> False | Some c \<Rightarrow>
     cf_version c = mcp_version \<and> (case cf_mcp c of None \<Rightarrow> False | Some m \<Rightarrow> mcp_on m))"

section \<open>Installation\<close>

definition escapes :: "string \<Rightarrow> bool" where
  "escapes p \<longleftrightarrow> p = ''..'' \<or> has_prefix p ''../''"

definition validate_install :: "install_config option \<Rightarrow> (config_error, unit) result" where
  "validate_install io =
     (case io of
        None \<Rightarrow> Inr ()
      | Some i \<Rightarrow>
          (if in_strategy i = ''global'' then
             (if in_manager i \<noteq> [] \<or> in_binary i \<noteq> [] then Inl GlobalTakesNoPackage else Inr ())
           else if in_strategy i = ''local-dev-dependency'' then
             (if in_manager i \<notin> {''npm'', ''pnpm'', ''yarn-classic'', ''yarn-berry''} then Inl UnknownManager
              else if in_binary i \<noteq> [] then Inl BinaryNeedsSource else Inr ())
           else if in_strategy i = ''source'' then
             (let path = path_clean (in_binary i)
              in if in_binary i = [] \<or> is_abs path \<or> path = ''.'' \<or> escapes path \<or>
                    contains_any (in_binary i) [cr, nl] then Inl BinaryOutside
                 else if in_manager i \<noteq> [] then Inl SourceTakesNoManager else Inr ())
           else Inl UnknownStrategy))"

text \<open>\<^verbatim>\<open>Command\<close>; \<open>windows\<close> is \<^verbatim>\<open>runtime.GOOS == "windows"\<close>.\<close>

definition install_command :: "bool \<Rightarrow> install_config option \<Rightarrow> string \<times> string list" where
  "install_command windows io =
     (case io of
        None \<Rightarrow> (''skillex'', [])
      | Some i \<Rightarrow>
          (if in_strategy i = ''global'' then (''skillex'', [])
           else if in_strategy i = ''source'' then
             (let binary = path_clean (in_binary i);
                  binary = (if windows \<and> binary = ''.skillex/bin/skillex'' then binary @ ''.exe'' else binary)
              in (''./'' @ binary, []))
           else if in_manager i = ''npm'' \<or> in_manager i = ''pnpm'' then
             (''node'', [''./node_modules/@atheory-ai/skillex/bin/skillex.js''])
           else (''yarn'', [''run'', ''skillex''])))"

text \<open>The characters \<^verbatim>\<open>CLI\<close> quotes for, and the POSIX quoting of a single quote.\<close>

definition shell_special :: string where
  "shell_special = [sp, tab, CHR 0x27, CHR 0x22, CHR 0x24, CHR 0x60, CHR 0x3B, CHR 0x26, CHR 0x7C,
     CHR 0x3C, CHR 0x3E, CHR 0x28, CHR 0x29, CHR 0x2A, CHR 0x3F, CHR 0x21, CHR 0x5C]"

definition quoted_quote :: string where
  "quoted_quote = [CHR 0x27, CHR 0x5C, CHR 0x27, CHR 0x27]"

definition shell_quote :: "string \<Rightarrow> string" where
  "shell_quote s = [CHR 0x27] @ replace_all s [CHR 0x27] quoted_quote @ [CHR 0x27]"

definition install_cli :: "bool \<Rightarrow> install_config option \<Rightarrow> string" where
  "install_cli windows io =
     (case install_command windows io of (command, args) \<Rightarrow>
        (let command = (if contains_any command shell_special then shell_quote command else command)
         in str_join [sp] (command # args)))"

section \<open>Validation\<close>

definition catalog_name_chars :: string where
  "catalog_name_chars = ''abcdefghijklmnopqrstuvwxyzABCDEFGHIJKLMNOPQRSTUVWXYZ0123456789-_.''"

definition valid_catalog_name :: "string \<Rightarrow> bool" where
  "valid_catalog_name v \<longleftrightarrow>
     (if v = [] then False
      else if list_ex (\<lambda>c. c \<notin> set catalog_name_chars) v then False
      else v \<noteq> ''.'' \<and> v \<noteq> ''..'')"

definition validate_registry :: "nat \<Rightarrow> pack_registry \<Rightarrow> (config_error, unit) result" where
  "validate_registry i r =
     (if pg_name r = [] \<or> \<not> has_prefix (pg_url r) ''https://'' then Inl RegistryNeedsHttps
      else if pg_root r \<noteq> [] \<and> pg_root r \<noteq> ''bundled'' then Inl OnlyBundledRoot
      else if pg_allow r \<noteq> [] \<or> pg_deny r \<noteq> [] then Inl RegistryPolicyUnsupported
      else Inr ())"

definition validate_catalog :: "nat \<Rightarrow> mcp_catalog \<Rightarrow> (config_error, unit) result" where
  "validate_catalog i c =
     (if ct_type c = ''static'' then
        (let path = path_clean (trim_space (ct_path c))
         in if path = ''.'' \<or> is_abs path \<or> escapes path then Inl (CatalogPathOutside i)
            else if ct_name c \<noteq> [] then Inl (CatalogNameOnStatic i) else Inr ())
      else if ct_type c = ''trusted'' then
        (if \<not> valid_catalog_name (ct_name c) \<or> ct_path c \<noteq> [] then Inl (TrustedNeedsName i) else Inr ())
      else Inl (UnknownCatalogType i))"

definition range_chars :: string where
  "range_chars = [CHR 0x2A, CHR 0x5E, CHR 0x7E, CHR 0x3C, CHR 0x3E, CHR 0x3D, CHR 0x7C, CHR 0x2C, sp, tab, cr, nl]"

definition binding_key :: "mcp_binding \<Rightarrow> string" where
  "binding_key b = bd_server b @ [CHR 0x00] @ bd_version b @ [CHR 0x00] @ bd_scope b"

fun validate_bindings :: "string list \<Rightarrow> nat \<Rightarrow> mcp_binding list \<Rightarrow> (config_error, unit) result" where
  "validate_bindings seen i [] = Inr ()"
| "validate_bindings seen i (b # bs) =
     (if blank (bd_server b) then Inl (ServerRequired i)
      else if blank (bd_version b) then Inl (VersionRequired i)
      else if contains_any (bd_version b) range_chars then Inl (VersionNotExact i)
      else if blank (bd_scope b) then Inl (ScopeRequired i)
      else if binding_key b \<in> set seen then Inl (DuplicateBinding i)
      else validate_bindings (binding_key b # seen) (Suc i) bs)"

definition validate_mcp :: "mcp_config \<Rightarrow> (config_error, unit) result" where
  "validate_mcp m =
     (if \<not> mcp_on m then (if mcp_bindings m \<noteq> [] then Inl DisabledBindings else Inr ())
      else if mcp_bindings m = [] then Inl MissingBindings
      else (case check_each validate_catalog 0 (mcp_catalogs m) of
              Inl e \<Rightarrow> Inl e
            | Inr _ \<Rightarrow> validate_bindings [] 0 (mcp_bindings m)))"

definition validate_config :: "config \<Rightarrow> (config_error, unit) result" where
  "validate_config c =
     (case validate_install (cf_install c) of
        Inl e \<Rightarrow> Inl e
      | Inr _ \<Rightarrow>
          (if cf_policy c \<noteq> [] then Inl PolicyUnsupported
           else if length (cf_registries c) > 1 then Inl OneRegistryOnly
           else (case check_each validate_registry 0 (cf_registries c) of
                   Inl e \<Rightarrow> Inl e
                 | Inr _ \<Rightarrow>
                     (if cf_version c = skills_only_version then
                        (if cf_mcp c \<noteq> None then Inl McpNeedsVersion5 else Inr ())
                      else if cf_version c = mcp_version then
                        (case cf_mcp c of None \<Rightarrow> Inr () | Some m \<Rightarrow> validate_mcp m)
                      else Inl UnsupportedVersion))))"

section \<open>Loading\<close>

datatype config_format = FormatJSON | FormatYAML

text \<open>What a streaming decoder does with the rest of the stream.\<close>

datatype 'a decoded = Document 'a string | EndOfStream | Malformed

type_synonym decoder = "config_format \<Rightarrow> bool \<Rightarrow> string \<Rightarrow> config decoded"

definition json_filename :: string where "json_filename = ''skillex.json''"
definition yaml_filename :: string where "yaml_filename = ''skillex.yaml''"

definition resolve_path :: "(string \<Rightarrow> bool) \<Rightarrow> string \<Rightarrow> (config_error, string \<times> config_format) result" where
  "resolve_path exists root =
     (let json = path_join [root, json_filename]; yaml = path_join [root, yaml_filename]
      in if exists json \<and> exists yaml then Inl BothFiles
         else if exists json then Inr (json, FormatJSON)
         else if exists yaml then Inr (yaml, FormatYAML)
         else Inl NoConfigFile)"

text \<open>\<^verbatim>\<open>decodeConfig\<close>: exactly one document.\<close>

definition decode_config :: "decoder \<Rightarrow> config_format \<Rightarrow> bool \<Rightarrow> string \<Rightarrow> (config_error, config) result" where
  "decode_config next fmt strict data =
     (case next fmt strict data of
        EndOfStream \<Rightarrow> Inl DecodeFailed
      | Malformed \<Rightarrow> Inl DecodeFailed
      | Document cfg rest \<Rightarrow>
          (case next fmt strict rest of
             EndOfStream \<Rightarrow> Inr cfg
           | Document _ _ \<Rightarrow> Inl TrailingDocument
           | Malformed \<Rightarrow> Inl DecodeFailed))"

definition load_config :: "decoder \<Rightarrow> (string \<Rightarrow> bool) \<Rightarrow> (string \<Rightarrow> string option) \<Rightarrow> string
  \<Rightarrow> (config_error, config) result" where
  "load_config next exists readfile root =
     (case resolve_path exists root of
        Inl e \<Rightarrow> Inl e
      | Inr (path, fmt) \<Rightarrow>
          (case readfile path of
             None \<Rightarrow> Inl ReadFailed
           | Some data \<Rightarrow>
               (case decode_config next fmt False data of
                  Inl e \<Rightarrow> Inl e
                | Inr cfg \<Rightarrow>
                    (case (if cf_version cfg = mcp_version then decode_config next fmt True data else Inr cfg) of
                       Inl e \<Rightarrow> Inl e
                     | Inr cfg' \<Rightarrow>
                         (case validate_config cfg' of Inl e \<Rightarrow> Inl e | Inr _ \<Rightarrow> Inr cfg')))))"

definition default_config :: config where
  "default_config = \<lparr>cf_install = None, cf_version = skills_only_version,
     cf_rules = [\<lparr>rl_scope = ''**'', rl_skills = [''skills/repo.md''], rl_boundary = []\<rparr>],
     cf_mcp = None, cf_registries = [], cf_policy = []\<rparr>"

end
