(* ===== verification/ConfigProps.thy ===== *)
theory ConfigProps
  imports Config
begin

text \<open>
  What a validated configuration guarantees: exactly which configurations pass, that every path
  it names stays in the project, that MCP bindings exist only behind the explicit gate, and that
  loading a version 5 file is strict.
\<close>

section \<open>Inversion\<close>

definition binding_wf :: "mcp_binding \<Rightarrow> bool" where
  "binding_wf b \<longleftrightarrow> \<not> blank (bd_server b) \<and> \<not> blank (bd_version b)
     \<and> \<not> contains_any (bd_version b) range_chars \<and> \<not> blank (bd_scope b)"

lemma validate_bindings_Ok_iff [result_simps]:
  "validate_bindings seen i bs = Inr u \<longleftrightarrow>
     list_all binding_wf bs \<and> distinct (map binding_key bs) \<and> binding_key ` set bs \<inter> set seen = {}"
  by (induction bs arbitrary: seen i) (auto simp: binding_wf_def)

definition catalog_wf :: "mcp_catalog \<Rightarrow> bool" where
  "catalog_wf c \<longleftrightarrow>
     (ct_type c = ''static'' \<and> path_clean (trim_space (ct_path c)) \<noteq> ''.''
        \<and> \<not> is_abs (path_clean (trim_space (ct_path c)))
        \<and> stays_inside (path_clean (trim_space (ct_path c))) \<and> ct_name c = [])
     \<or> (ct_type c = ''trusted'' \<and> valid_catalog_name (ct_name c) \<and> ct_path c = [])"

lemma escapes_iff: "escapes p \<longleftrightarrow> \<not> stays_inside p"
  by (auto simp: escapes_def stays_inside_def)

lemma validate_catalog_Ok_iff [result_simps]: "validate_catalog i c = Inr u \<longleftrightarrow> catalog_wf c"
  by (auto simp: validate_catalog_def catalog_wf_def Let_def escapes_iff)

lemma check_each_const:
  "(\<And>i x. f i x = Inr () \<longleftrightarrow> P x) \<Longrightarrow> check_each f i xs = Inr u \<longleftrightarrow> list_all P xs"
  by (simp add: check_each_Ok_iff list_all_length)

definition mcp_wf :: "mcp_config \<Rightarrow> bool" where
  "mcp_wf m \<longleftrightarrow>
     (if mcp_on m then mcp_bindings m \<noteq> [] \<and> list_all catalog_wf (mcp_catalogs m)
        \<and> list_all binding_wf (mcp_bindings m) \<and> distinct (map binding_key (mcp_bindings m))
      else mcp_bindings m = [])"

lemma validate_mcp_Ok_iff [result_simps]: "validate_mcp m = Inr u \<longleftrightarrow> mcp_wf m"
proof -
  have "check_each validate_catalog 0 (mcp_catalogs m) = Inr v \<longleftrightarrow> list_all catalog_wf (mcp_catalogs m)" for v
    by (rule check_each_const) (simp add: validate_catalog_Ok_iff)
  then show ?thesis
    by (auto simp: validate_mcp_def mcp_wf_def result_simps simp del: check_each_Ok_iff split: sum.splits)
qed

definition registry_wf :: "pack_registry \<Rightarrow> bool" where
  "registry_wf r \<longleftrightarrow> pg_name r \<noteq> [] \<and> has_prefix (pg_url r) ''https://''
     \<and> pg_root r \<in> {[], ''bundled''} \<and> pg_allow r = [] \<and> pg_deny r = []"

lemma validate_registry_Ok_iff [result_simps]: "validate_registry i r = Inr u \<longleftrightarrow> registry_wf r"
  by (auto simp: validate_registry_def registry_wf_def)

definition install_wf :: "install_config \<Rightarrow> bool" where
  "install_wf i \<longleftrightarrow>
     (in_strategy i = ''global'' \<and> in_manager i = [] \<and> in_binary i = [])
     \<or> (in_strategy i = ''local-dev-dependency'' \<and> in_binary i = []
        \<and> in_manager i \<in> {''npm'', ''pnpm'', ''yarn-classic'', ''yarn-berry''})
     \<or> (in_strategy i = ''source'' \<and> in_manager i = [] \<and> in_binary i \<noteq> []
        \<and> path_clean (in_binary i) \<noteq> ''.'' \<and> \<not> is_abs (path_clean (in_binary i))
        \<and> stays_inside (path_clean (in_binary i)) \<and> \<not> contains_any (in_binary i) [cr, nl])"

lemma validate_install_Ok_iff [result_simps]:
  "validate_install io = Inr u \<longleftrightarrow> (case io of None \<Rightarrow> True | Some i \<Rightarrow> install_wf i)"
  by (cases io) (auto simp: validate_install_def install_wf_def Let_def escapes_iff split: if_splits)

definition config_wf :: "config \<Rightarrow> bool" where
  "config_wf c \<longleftrightarrow>
     (case cf_install c of None \<Rightarrow> True | Some i \<Rightarrow> install_wf i)
     \<and> cf_policy c = [] \<and> length (cf_registries c) \<le> 1 \<and> list_all registry_wf (cf_registries c)
     \<and> (cf_version c = skills_only_version \<and> cf_mcp c = None
        \<or> cf_version c = mcp_version \<and> (case cf_mcp c of None \<Rightarrow> True | Some m \<Rightarrow> mcp_wf m))"

lemma validate_config_iff: "validate_config c = Inr () \<longleftrightarrow> config_wf c"
proof -
  have "check_each validate_registry 0 (cf_registries c) = Inr v \<longleftrightarrow> list_all registry_wf (cf_registries c)" for v
    by (rule check_each_const) (simp add: validate_registry_Ok_iff)
  moreover have "validate_install (cf_install c) = Inr v \<longleftrightarrow>
      (case cf_install c of None \<Rightarrow> True | Some i \<Rightarrow> install_wf i)" for v
    by (rule validate_install_Ok_iff)
  moreover have "skills_only_version \<noteq> mcp_version"
    by (simp add: skills_only_version_def mcp_version_def)
  ultimately show ?thesis
    by (cases "validate_install (cf_install c)"; cases "check_each validate_registry 0 (cf_registries c)";
        cases "cf_mcp c")
      (auto simp: validate_config_def config_wf_def validate_mcp_Ok_iff simp del: check_each_Ok_iff)
qed

section \<open>Paths\<close>

lemma path_clean_rel_iff: "is_abs (path_clean p) \<longleftrightarrow> is_abs p"
proof (cases "is_abs p")
  case True
  then show ?thesis by (simp add: path_clean_rooted)
next
  case False
  let ?st = "clean_stack False [] (split_on slash p)"
  show ?thesis
  proof (cases "p = [] \<or> ?st = []")
    case True
    with False show ?thesis by (auto simp: path_clean_def)
  next
    case st: False
    with False have "path_clean p = str_join [slash] (rev ?st)" by (auto simp: path_clean_rel)
    with False st show ?thesis using join_not_abs(1)[OF clean_comps_ok] by metis
  qed
qed

lemma clean_rel_inside:
  assumes "is_abs root" "path_clean root = root" "path_clean p \<noteq> ''.''" "\<not> is_abs (path_clean p)"
    "stays_inside (path_clean p)"
  shows "below root (path_join [root, p])"
proof (rule path_join_inside[OF assms(1,2)])
  show "\<not> is_abs p" using assms(4) by (simp add: path_clean_rel_iff)
  show "p \<noteq> []" using assms(3) by (auto simp: path_clean_def)
qed (rule assms(5))

lemma path_clean_dot_slash:
  assumes "\<not> is_abs q" "q \<noteq> []"
  shows "path_clean (''./'' @ q) = path_clean q"
proof -
  have s: "split_on slash (''./'' @ q) = ''.'' # split_on slash q"
    using split_on_append_sep[of slash "''.''" q] by simp
  have "clean_stack False [] (split_on slash (''./'' @ q)) = clean_stack False [] (split_on slash q)"
    by (simp only: s clean_stack_Cons) (simp add: clean_step_def)
  moreover have "\<not> is_abs (''./'' @ q)" "''./'' @ q \<noteq> []" by simp_all
  ultimately show ?thesis using assms path_clean_rel by (metis (no_types, lifting))
qed

lemma source_command_inside:
  assumes "install_wf i" "in_strategy i = ''source''" "is_abs root" "path_clean root = root"
  shows "below root (path_join [root, fst (install_command False (Some i))])"
proof -
  let ?b = "path_clean (in_binary i)"
  have b: "?b \<noteq> ''.''" "\<not> is_abs ?b" "stays_inside ?b"
    using assms(1,2) by (auto simp: install_wf_def)
  have nb: "?b \<noteq> []"
    by (metis b(2,3) path_clean_idem path_clean_def b(1))
  have "path_clean (''./'' @ ?b) = ?b"
    using path_clean_dot_slash[OF b(2) nb] by (simp only: path_clean_idem)
  with b have "below root (path_join [root, ''./'' @ ?b])"
    by (intro clean_rel_inside assms(3,4)) simp_all
  then show ?thesis using assms(2) by (simp add: install_command_def)
qed

section \<open>Loading\<close>

lemma load_config_Ok:
  assumes "load_config next exists readfile root = Inr cfg"
  shows "\<exists>path fmt data cfg0. resolve_path exists root = Inr (path, fmt) \<and> readfile path = Some data
     \<and> decode_config next fmt False data = Inr cfg0
     \<and> (cf_version cfg0 = mcp_version \<longrightarrow> decode_config next fmt True data = Inr cfg)
     \<and> (cf_version cfg0 \<noteq> mcp_version \<longrightarrow> cfg = cfg0) \<and> config_wf cfg"
proof -
  from assms obtain path fmt where p: "resolve_path exists root = Inr (path, fmt)"
    by (cases "resolve_path exists root") (auto simp: load_config_def)
  with assms obtain data where d: "readfile path = Some data"
    by (cases "readfile path") (auto simp: load_config_def)
  with assms p obtain cfg0 where c: "decode_config next fmt False data = Inr cfg0"
    by (cases "decode_config next fmt False data") (auto simp: load_config_def)
  let ?r = "if cf_version cfg0 = mcp_version then decode_config next fmt True data else Inr cfg0"
  from assms p d c have r: "?r = Inr cfg" "validate_config cfg = Inr ()"
    by (auto simp: load_config_def split: sum.splits)
  from r(2) have "config_wf cfg" by (simp add: validate_config_iff)
  with p d c r(1) show ?thesis by (auto split: if_splits)
qed

section \<open>Properties\<close>

text \<open>
  C32: Validate accepts exactly the well-formed configurations: a known install
  strategy with only its own fields, no policy, at most one HTTPS registry with the bundled root,
  version 4 without MCP or version 5; with MCP on, at least one binding, safe catalogs, exact
  versions and no two bindings with the same key; with MCP off, no binding.
\<close>

theorem config_accepts_iff: "validate_config c = Inr () \<longleftrightarrow> config_wf c"
  by (rule validate_config_iff)

text \<open>
  Every static catalog of an accepted configuration with MCP on names a file below the
  project root, and so does the command of an accepted source installation.
\<close>

theorem config_paths_inside:
  assumes "validate_config c = Inr ()" "is_abs root" "path_clean root = root"
  shows "(\<forall>m ct. cf_mcp c = Some m \<and> mcp_on m \<and> ct \<in> set (mcp_catalogs m) \<and> ct_type ct = ''static''
            \<longrightarrow> below root (path_join [root, trim_space (ct_path ct)]))
     \<and> (\<forall>i. cf_install c = Some i \<and> in_strategy i = ''source''
            \<longrightarrow> below root (path_join [root, fst (install_command False (Some i))]))"
proof (intro conjI allI impI)
  have wf: "config_wf c" using assms(1) by (simp add: validate_config_iff)
  fix m ct
  assume m: "cf_mcp c = Some m \<and> mcp_on m \<and> ct \<in> set (mcp_catalogs m) \<and> ct_type ct = ''static''"
  with wf have "catalog_wf ct" by (auto simp: config_wf_def mcp_wf_def list_all_iff)
  with m show "below root (path_join [root, trim_space (ct_path ct)])"
    using clean_rel_inside[OF assms(2,3)] by (auto simp: catalog_wf_def)
next
  fix i
  assume "cf_install c = Some i \<and> in_strategy i = ''source''"
  moreover from this have "install_wf i"
    using assms(1) by (simp add: validate_config_iff config_wf_def)
  ultimately show "below root (path_join [root, fst (install_command False (Some i))])"
    using source_command_inside assms(2,3) by blast
qed

definition demo_config :: config where
  "demo_config = default_config\<lparr>cf_version := 5,
     cf_install := Some \<lparr>in_strategy = ''source'', in_manager = [], in_binary = ''bin/skillex''\<rparr>,
     cf_mcp := Some \<lparr>mcp_on = True,
       mcp_catalogs = [\<lparr>ct_type = ''static'', ct_path = '' mcp/catalog.json'', ct_name = []\<rparr>],
       mcp_bindings = [\<lparr>bd_server = ''docs'', bd_version = ''1.2.0'', bd_profile = [], bd_scope = ''**''\<rparr>]\<rparr>\<rparr>"

lemma config_paths_inside_witness:
  "below ''/repo'' (path_join [''/repo'', trim_space '' mcp/catalog.json'']) \<and>
   path_join [''/repo'', trim_space '' mcp/catalog.json''] = ''/repo/mcp/catalog.json''"
proof
  have "validate_config demo_config = Inr ()" "is_abs ''/repo''" "path_clean ''/repo'' = ''/repo''"
    by code_simp+
  from config_paths_inside[OF this]
  show "below ''/repo'' (path_join [''/repo'', trim_space '' mcp/catalog.json''])"
    by (auto simp: demo_config_def)
  show "path_join [''/repo'', trim_space '' mcp/catalog.json''] = ''/repo/mcp/catalog.json''"
    by code_simp
qed

text \<open>
  A configuration that loads was validated; if its first, permissive decoding reported
  version 5, the configuration used is the one of the strict decoding, which rejects unknown
  fields.  MCP is enabled for it only with version 5, the explicit switch and at least one binding.
\<close>

theorem load_is_strict:
  assumes "load_config next exists readfile root = Inr cfg"
  shows "validate_config cfg = Inr () \<and>
     (\<exists>path fmt data cfg0. resolve_path exists root = Inr (path, fmt) \<and> readfile path = Some data
        \<and> decode_config next fmt False data = Inr cfg0
        \<and> (cf_version cfg0 = mcp_version \<longrightarrow> decode_config next fmt True data = Inr cfg)) \<and>
     (mcp_enabled (Some cfg) \<longrightarrow> cf_version cfg = mcp_version
        \<and> (\<exists>m. cf_mcp cfg = Some m \<and> mcp_on m \<and> mcp_bindings m \<noteq> []))"
proof -
  from load_config_Ok[OF assms] obtain path fmt data cfg0 where
    l: "resolve_path exists root = Inr (path, fmt)" "readfile path = Some data"
      "decode_config next fmt False data = Inr cfg0"
      "cf_version cfg0 = mcp_version \<longrightarrow> decode_config next fmt True data = Inr cfg"
    and wf: "config_wf cfg" by blast
  have "mcp_enabled (Some cfg) \<longrightarrow> cf_version cfg = mcp_version
        \<and> (\<exists>m. cf_mcp cfg = Some m \<and> mcp_on m \<and> mcp_bindings m \<noteq> [])"
    using wf by (auto simp: mcp_enabled_def config_wf_def mcp_wf_def split: option.splits)
  with l wf show ?thesis using validate_config_iff by metis
qed

text \<open>A decoder that reads one document from a non-empty stream.\<close>

definition demo_decoder :: decoder where
  "demo_decoder fmt strict data = (if data = [] then EndOfStream else Document demo_config [])"

lemma load_is_strict_witness:
  "\<exists>cfg. load_config demo_decoder (\<lambda>p. p = ''/repo/skillex.json'') (\<lambda>p. Some ''{}'') ''/repo'' = Inr cfg \<and>
     mcp_enabled (Some cfg) \<and> cf_version cfg = mcp_version"
proof -
  let ?l = "load_config demo_decoder (\<lambda>p. p = ''/repo/skillex.json'') (\<lambda>p. Some ''{}'') ''/repo''"
  have v: "validate_config demo_config = Inr ()" "mcp_enabled (Some demo_config)" by code_simp+
  have "resolve_path (\<lambda>p. p = ''/repo/skillex.json'') ''/repo'' = Inr (''/repo/skillex.json'', FormatJSON)"
    by code_simp
  then have "?l = Inr demo_config"
    using v by (simp add: load_config_def decode_config_def demo_decoder_def)
  with load_is_strict[OF this] v(2) show ?thesis by blast
qed

end
