(* ===== verification/Frontmatter.thy ===== *)
theory Frontmatter
  imports GoStrings
begin

text \<open>
  internal/frontmatter/frontmatter.go: splitting a skill file into YAML frontmatter and Markdown
  body, the path filters, and the serialiser.  The YAML decoder is a parameter; \<open>yaml_node\<close>
  is the part of a YAML node that \<^verbatim>\<open>StringList.UnmarshalYAML\<close> looks at.
\<close>

section \<open>Definitions\<close>

record frontmatter =
  fm_name :: string
  fm_description :: string
  fm_topics :: "string list"
  fm_tags :: "string list"
  fm_source :: string
  fm_reviewed :: string
  fm_paths :: "string list"
  fm_globs :: "string list"

definition empty_frontmatter :: frontmatter where
  "empty_frontmatter = \<lparr>fm_name = [], fm_description = [], fm_topics = [], fm_tags = [],
     fm_source = [], fm_reviewed = [], fm_paths = [], fm_globs = []\<rparr>"

text \<open>A sequence node carries the result of decoding its items as strings.\<close>

datatype yaml_node = SequenceNode "string list option" | ScalarNode string | OtherNode

definition unmarshal_string_list :: "yaml_node \<Rightarrow> string list option" where
  "unmarshal_string_list v =
     (case v of
        SequenceNode items \<Rightarrow> items
      | ScalarNode s \<Rightarrow>
          (if blank s then Some []
           else Some (filter (\<lambda>p. p \<noteq> []) (map trim_space (split_on (CHR '','') s))))
      | OtherNode \<Rightarrow> None)"

definition path_globs :: "frontmatter \<Rightarrow> string list" where
  "path_globs f = (if fm_paths f \<noteq> [] then fm_paths f else if fm_globs f \<noteq> [] then fm_globs f else [])"

definition delim :: string where "delim = ''---''"

definition skip_newline :: "string \<Rightarrow> string" where
  "skip_newline s =
     (if has_prefix s [nl] then drop 1 s else if has_prefix s [cr, nl] then drop 2 s else s)"

text \<open>The split into the raw frontmatter and the body; \<open>None\<close> when the file has no frontmatter.\<close>

definition split_frontmatter :: "string \<Rightarrow> (string \<times> string) option" where
  "split_frontmatter s =
     (if \<not> has_prefix s delim then None
      else let rest = skip_newline (drop 3 s)
           in case str_index rest (nl # delim) of
                None \<Rightarrow> None
              | Some idx \<Rightarrow> Some (take idx rest, skip_newline (drop (idx + 4) rest)))"

text \<open>The error result carries the body too, as the code returns it.\<close>

definition parse_frontmatter :: "(string \<Rightarrow> frontmatter option) \<Rightarrow> string
  \<Rightarrow> (string, frontmatter \<times> string) result" where
  "parse_frontmatter yaml s =
     (case split_frontmatter s of
        None \<Rightarrow> Inr (empty_frontmatter, s)
      | Some (raw, body) \<Rightarrow>
          (case yaml raw of None \<Rightarrow> Inl s | Some fm \<Rightarrow> Inr (fm, body)))"

definition format_lines :: "frontmatter \<Rightarrow> string list" where
  "format_lines fm =
     (if fm_topics fm \<noteq> [] then [''topics: ['' @ str_join '', '' (fm_topics fm) @ '']''] else [])
     @ (if fm_tags fm \<noteq> [] then [''tags: ['' @ str_join '', '' (fm_tags fm) @ '']''] else [])
     @ (if fm_source fm \<noteq> [] then [''source: '' @ fm_source fm] else [])
     @ (if fm_reviewed fm \<noteq> [] then [''reviewed: '' @ fm_reviewed fm] else [])"

definition format_frontmatter :: "frontmatter \<Rightarrow> string" where
  "format_frontmatter fm =
     (if fm_topics fm = [] \<and> fm_tags fm = [] \<and> fm_source fm = [] then []
      else delim @ [nl] @ concat (map (\<lambda>l. l @ [nl]) (format_lines fm)) @ delim @ [nl])"

section \<open>Finding the delimiter\<close>

lemma prefix_of_delim_line:
  "nl \<notin> set l \<Longrightarrow> \<not> has_prefix l delim \<Longrightarrow> \<not> has_prefix (l @ nl # t) delim"
  by (cases l; cases "tl l"; cases "tl (tl l)")
    (auto simp: delim_def has_prefix_def)

lemma str_index_skip_line:
  assumes "nl \<notin> set l" "\<not> has_prefix t delim"
  shows "str_index (l @ nl # t) (nl # delim) = map_option (\<lambda>i. Suc (length l) + i) (str_index t (nl # delim))"
  using assms
proof (induction l)
  case Nil
  then show ?case by (cases "str_index t (nl # delim)") (auto simp: has_prefix_def)
next
  case (Cons x l)
  then show ?case by (cases "str_index t (nl # delim)") (auto simp: has_prefix_def)
qed

lemma str_index_line_end:
  "nl \<notin> set l \<Longrightarrow> str_index (l @ nl # delim @ t) (nl # delim) = Some (length l)"
  by (induction l) (auto simp: has_prefix_def)

lemma str_index_lines:
  "ls \<noteq> [] \<Longrightarrow> \<forall>l \<in> set ls. nl \<notin> set l \<Longrightarrow> \<forall>l \<in> set (tl ls). \<not> has_prefix l delim \<Longrightarrow>
   str_index (concat (map (\<lambda>l. l @ [nl]) ls) @ delim @ t) (nl # delim) = Some (length (str_join [nl] ls))"
proof (induction ls)
  case Nil
  then show ?case by simp
next
  case (Cons l ls)
  show ?case
  proof (cases ls)
    case Nil
    with Cons.prems show ?thesis by (simp add: str_index_line_end)
  next
    case (Cons k ks)
    let ?rest = "concat (map (\<lambda>l. l @ [nl]) ls) @ delim @ t"
    have np: "\<not> has_prefix ?rest delim"
      using Cons.prems Cons prefix_of_delim_line[of k] by simp
    have "str_index ?rest (nl # delim) = Some (length (str_join [nl] ls))"
      using Cons.IH Cons.prems Cons by simp
    then show ?thesis
      using str_index_skip_line[OF _ np, of l] Cons.prems Cons
      by (simp add: str_join_Cons)
  qed
qed

section \<open>Properties\<close>

lemma split_frontmatter_Some:
  assumes "split_frontmatter s = Some (raw, body)"
  shows "\<exists>a b. s = delim @ a @ raw @ nl # delim @ b @ body \<and> a \<in> {[], [nl], [cr, nl]}
     \<and> b \<in> {[], [nl], [cr, nl]}"
proof -
  have skip: "\<exists>p \<in> {[], [nl], [cr, nl]}. x = p @ skip_newline x" for x
  proof -
    have "has_prefix x [nl] \<Longrightarrow> x = [nl] @ drop 1 x" "has_prefix x [cr, nl] \<Longrightarrow> x = [cr, nl] @ drop 2 x"
      by (auto simp: has_prefix_iff)
    then show ?thesis unfolding skip_newline_def by auto
  qed
  from assms have p: "has_prefix s delim" by (auto simp: split_frontmatter_def split: if_splits)
  then obtain r where r: "s = delim @ r" by (auto simp: has_prefix_iff)
  then have d: "drop 3 s = r" by (simp add: delim_def)
  obtain a where a: "a \<in> {[], [nl], [cr, nl]}" "r = a @ skip_newline r" using skip[of r] by blast
  let ?rest = "skip_newline r"
  from assms p d obtain idx where i: "str_index ?rest (nl # delim) = Some idx"
    "raw = take idx ?rest" "body = skip_newline (drop (idx + 4) ?rest)"
    by (auto simp: split_frontmatter_def Let_def split: option.splits)
  from str_index_Some[OF i(1)] obtain t where t: "?rest = take idx ?rest @ (nl # delim) @ t" by blast
  have l: "length (take idx ?rest) = idx"
    using str_index_Some[OF i(1)] by auto
  have "drop (idx + 4) ?rest = t"
  proof -
    have "drop (idx + 4) (take idx ?rest @ (nl # delim) @ t) = t"
      using l by (simp add: delim_def)
    with arg_cong[OF t, of "drop (idx + 4)"] show ?thesis by (rule trans)
  qed
  with i(3) have body: "body = skip_newline t" by (simp only:)
  obtain b where b: "b \<in> {[], [nl], [cr, nl]}" "t = b @ body" using skip[of t] unfolding body by blast
  have "s = delim @ a @ raw @ nl # delim @ b @ body"
    using r a(2) t i(2) b(2) by (metis append_Cons append_assoc)
  with a(1) b(1) show ?thesis by blast
qed

lemma format_lines_clean:
  assumes "list_all (\<lambda>t. nl \<notin> set t) (fm_topics fm @ fm_tags fm @ [fm_source fm, fm_reviewed fm])"
    and "l \<in> set (format_lines fm)"
  shows "nl \<notin> set l \<and> \<not> has_prefix l delim"
proof -
  have j: "\<forall>t \<in> set ts. nl \<notin> set t \<Longrightarrow> nl \<notin> set (str_join '', '' ts)" for ts
  proof (induction ts)
    case Nil
    then show ?case by simp
  next
    case (Cons t ts)
    then show ?case by (cases "ts = []") (auto simp: str_join_Cons)
  qed
  from assms show ?thesis
    using j[of "fm_topics fm"] j[of "fm_tags fm"]
    by (auto simp: format_lines_def list_all_iff has_prefix_def delim_def split: if_splits)
qed

lemma split_format:
  assumes "format_frontmatter fm \<noteq> []"
    and "list_all (\<lambda>t. nl \<notin> set t) (fm_topics fm @ fm_tags fm @ [fm_source fm, fm_reviewed fm])"
  shows "split_frontmatter (format_frontmatter fm @ body) = Some (str_join [nl] (format_lines fm), body)"
proof -
  let ?ls = "format_lines fm"
  let ?rest = "concat (map (\<lambda>l. l @ [nl]) ?ls) @ delim @ [nl] @ body"
  from assms(1) have ne: "?ls \<noteq> []"
    by (auto simp: format_frontmatter_def format_lines_def split: if_splits)
  from assms(1) have f: "format_frontmatter fm @ body = delim @ nl # ?rest"
    by (auto simp: format_frontmatter_def split: if_splits)
  have "\<forall>l \<in> set ?ls. nl \<notin> set l" "\<forall>l \<in> set (tl ?ls). \<not> has_prefix l delim"
    using format_lines_clean[OF assms(2)] list.set_sel(2)[of ?ls] ne by blast+
  from str_index_lines[OF ne this, of "[nl] @ body"]
  have idx: "str_index ?rest (nl # delim) = Some (length (str_join [nl] ?ls))" by simp
  have c: "concat (map (\<lambda>l. l @ [nl]) ls) = str_join [nl] ls @ [nl]" if "ls \<noteq> []" for ls
    using that by (induction ls rule: list_nonempty_induct) (simp_all add: str_join_Cons)
  have rest: "?rest = str_join [nl] ?ls @ nl # delim @ nl # body" using c[OF ne] by simp
  have "skip_newline (drop 3 (format_frontmatter fm @ body)) = ?rest"
    unfolding f by (simp add: delim_def skip_newline_def has_prefix_def)
  moreover have "has_prefix (format_frontmatter fm @ body) delim" unfolding f by simp
  moreover have "take (length (str_join [nl] ?ls)) ?rest = str_join [nl] ?ls" unfolding rest by simp
  moreover have "skip_newline (drop (length (str_join [nl] ?ls) + 4) ?rest) = body"
    unfolding rest by (simp add: delim_def skip_newline_def has_prefix_def)
  ultimately show ?thesis using idx by (simp add: split_frontmatter_def Let_def)
qed

end
