(* ===== verification/Linker.thy ===== *)
theory Linker
  imports Config Frontmatter ScopeIndex
begin

text \<open>
  internal/linker/linker.go: resolving the scopes of the scanned skills, and the records of
  internal/scanner/scanner.go it works on.  A Go map from paths to scope slices is a function that
  gives \<open>[]\<close> for a missing key, as the Go lookup does.
\<close>

section \<open>Data\<close>

record skill_file =
  sf_verified :: "string option"
  sf_abs :: string
  sf_rel :: string
  sf_package :: string
  sf_version :: string
  sf_visibility :: string
  sf_source :: string
  sf_front :: frontmatter
  sf_body :: string
  sf_is_test :: bool
  sf_test_for :: string
  sf_boundary :: string
  sf_root :: string
  sf_scopes :: "string list"

record linked_skill =
  lk_file :: skill_file
  lk_scopes :: "string list"

type_synonym scope_map = "string \<Rightarrow> string list"

section \<open>Repository skills\<close>

text \<open>The two nested loops over rules and their skill references.\<close>

definition add_scopes :: "string \<Rightarrow> string list \<Rightarrow> scope_map \<Rightarrow> scope_map" where
  "add_scopes k scopes m = m(k := append_unique (m k) scopes)"

definition assign_rule :: "string set \<Rightarrow> rule \<Rightarrow> scope_map \<Rightarrow> scope_map" where
  "assign_rule known r m =
     fold (\<lambda>ref m. if ref \<in> known then add_scopes ref [rl_scope r] m else m) (rl_skills r) m"

definition resolve_repo_scopes :: "rule list \<Rightarrow> skill_file list \<Rightarrow> scope_map" where
  "resolve_repo_scopes rules skills = fold (assign_rule (set (map sf_rel skills))) rules (\<lambda>_. [])"

definition link_repo_skill :: "scope_map \<Rightarrow> skill_file \<Rightarrow> linked_skill" where
  "link_repo_skill scopes sf =
     \<lparr>lk_file = sf,
      lk_scopes = (if sf_is_test sf then []
                   else if sf_scopes sf \<noteq> [] then sf_scopes sf
                   else scopes (sf_rel sf))\<rparr>"

fun link_repo :: "scope_map \<Rightarrow> string list \<Rightarrow> skill_file list \<Rightarrow> linked_skill list" where
  "link_repo scopes seen [] = []"
| "link_repo scopes seen (sf # rest) =
     (if sf_rel sf \<in> set seen then link_repo scopes seen rest
      else link_repo_skill scopes sf # link_repo scopes (sf_rel sf # seen) rest)"

section \<open>Dependency skills\<close>

definition boundary_scopes :: "rule list \<Rightarrow> scope_map" where
  "boundary_scopes rules =
     fold (\<lambda>r m. if rl_boundary r = [] then m else add_scopes (rl_boundary r) [rl_scope r] m) rules (\<lambda>_. [])"

definition dep_step :: "scope_map \<Rightarrow> skill_file \<Rightarrow> scope_map \<Rightarrow> scope_map" where
  "dep_step bounds sf m =
     (if sf_is_test sf then m(sf_rel sf := [])
      else if sf_visibility sf = ''public'' then
        (if sf_scopes sf \<noteq> [] then add_scopes (sf_rel sf) (sf_scopes sf) m
         else if sf_boundary sf = [] then m
         else add_scopes (sf_rel sf) (bounds (sf_boundary sf)) m)
      else if sf_visibility sf = ''private'' then
        (if sf_scopes sf \<noteq> [] then add_scopes (sf_rel sf) (sf_scopes sf) m
         else if sf_root sf = [] then m
         else add_scopes (sf_rel sf) [path_join [sf_root sf, ''**'']] m)
      else m)"

definition resolve_dep_scopes :: "rule list \<Rightarrow> skill_file list \<Rightarrow> scope_map" where
  "resolve_dep_scopes rules skills = fold (dep_step (boundary_scopes rules)) skills (\<lambda>_. [])"

text \<open>The table \<^verbatim>\<open>depByPath\<close>, and the loop that emits and deletes its entries.\<close>

definition merge_dep :: "scope_map \<Rightarrow> skill_file \<Rightarrow> (string \<Rightarrow> linked_skill option)
  \<Rightarrow> string \<Rightarrow> linked_skill option" where
  "merge_dep scopes sf tbl =
     (case tbl (sf_rel sf) of
        Some ex \<Rightarrow> tbl(sf_rel sf \<mapsto> ex\<lparr>lk_scopes := append_unique (lk_scopes ex) (scopes (sf_rel sf))\<rparr>)
      | None \<Rightarrow> tbl(sf_rel sf \<mapsto> \<lparr>lk_file = sf, lk_scopes = scopes (sf_rel sf)\<rparr>))"

fun emit_deps :: "(string \<Rightarrow> linked_skill option) \<Rightarrow> skill_file list \<Rightarrow> linked_skill list" where
  "emit_deps tbl [] = []"
| "emit_deps tbl (sf # rest) =
     (case tbl (sf_rel sf) of
        None \<Rightarrow> emit_deps tbl rest
      | Some ls \<Rightarrow> ls # emit_deps (tbl(sf_rel sf := None)) rest)"

definition link_deps :: "rule list \<Rightarrow> skill_file list \<Rightarrow> linked_skill list" where
  "link_deps rules deps =
     emit_deps (fold (merge_dep (resolve_dep_scopes rules deps)) deps (\<lambda>_. None)) deps"

definition link :: "rule list \<Rightarrow> skill_file list \<Rightarrow> skill_file list \<Rightarrow> linked_skill list" where
  "link rules repo deps =
     link_repo (resolve_repo_scopes rules repo) [] repo @ link_deps rules deps"

definition scopes_for_path :: "globber \<Rightarrow> config \<Rightarrow> string \<Rightarrow> string list" where
  "scopes_for_path glob cfg path =
     fold (\<lambda>r acc. if matches_path glob (rl_scope r) path then append_unique acc [rl_scope r] else acc)
       (cf_rules cfg) []"

section \<open>Scope maps\<close>

lemma add_scopes_set [simp]:
  "set (add_scopes k xs m q) = (if q = k then set (m q) \<union> set xs else set (m q))"
  by (simp add: add_scopes_def au.add_set)

lemma add_scopes_distinct: "distinct (m q) \<Longrightarrow> distinct (add_scopes k xs m q)"
  by (auto simp: add_scopes_def intro: au.add_distinct)

lemma assign_rule_set:
  "set (assign_rule known r m q) = set (m q) \<union> (if q \<in> known \<and> q \<in> set (rl_skills r) then {rl_scope r} else {})"
proof -
  have "set (fold (\<lambda>ref m. if ref \<in> known then add_scopes ref [rl_scope r] m else m) refs m q)
      = set (m q) \<union> (if q \<in> known \<and> q \<in> set refs then {rl_scope r} else {})" for refs
    by (induction refs arbitrary: m) auto
  then show ?thesis by (simp add: assign_rule_def)
qed

lemma resolve_repo_set:
  "set (resolve_repo_scopes rules skills q) =
     {rl_scope r | r. r \<in> set rules \<and> q \<in> set (rl_skills r) \<and> q \<in> sf_rel ` set skills}"
proof -
  let ?k = "set (map sf_rel skills)"
  have "set (fold (assign_rule ?k) rs m q) = set (m q) \<union> {rl_scope r | r. r \<in> set rs \<and> q \<in> set (rl_skills r) \<and> q \<in> ?k}" for rs m
    by (induction rs arbitrary: m) (auto simp: assign_rule_set)
  then show ?thesis by (simp add: resolve_repo_scopes_def)
qed

lemma boundary_scopes_set:
  "set (boundary_scopes rules b) = {rl_scope r | r. r \<in> set rules \<and> rl_boundary r = b \<and> b \<noteq> []}"
proof -
  have "set (fold (\<lambda>r m. if rl_boundary r = [] then m else add_scopes (rl_boundary r) [rl_scope r] m) rs m b)
      = set (m b) \<union> {rl_scope r | r. r \<in> set rs \<and> rl_boundary r = b \<and> b \<noteq> []}" for rs m
    by (induction rs arbitrary: m) auto
  from this[of rules "\<lambda>_. []"] show ?thesis by (simp only: boundary_scopes_def) simp
qed

text \<open>What one discovery of a dependency skill may contribute.\<close>

definition dep_contribution :: "rule list \<Rightarrow> skill_file \<Rightarrow> string set" where
  "dep_contribution rules sf =
     (if sf_is_test sf then {}
      else if sf_visibility sf = ''public'' then
        (if sf_scopes sf \<noteq> [] then set (sf_scopes sf)
         else {rl_scope r | r. r \<in> set rules \<and> rl_boundary r = sf_boundary sf \<and> sf_boundary sf \<noteq> []})
      else if sf_visibility sf = ''private'' then
        (if sf_scopes sf \<noteq> [] then set (sf_scopes sf)
         else if sf_root sf = [] then {} else {path_join [sf_root sf, ''**'']})
      else {})"

lemma dep_step_set:
  "\<not> sf_is_test sf \<Longrightarrow>
   set (dep_step (boundary_scopes rules) sf m q) =
     set (m q) \<union> (if q = sf_rel sf then dep_contribution rules sf else {})"
  by (auto simp: dep_step_def dep_contribution_def boundary_scopes_set)

text \<open>A scanned file is a test exactly when its path says so.\<close>

definition tests_by_path :: "skill_file list \<Rightarrow> bool" where
  "tests_by_path skills \<longleftrightarrow>
     (\<forall>sf \<in> set skills. sf_is_test sf = has_suffix (sf_rel sf) ''.test.md'')"

lemma resolve_dep_set:
  assumes "tests_by_path skills"
  shows "set (resolve_dep_scopes rules skills q) = (\<Union>sf \<in> {sf \<in> set skills. sf_rel sf = q}. dep_contribution rules sf)"
proof -
  have t: "sf_is_test sf \<Longrightarrow> dep_contribution rules sf = {}" for sf
    by (simp add: dep_contribution_def)
  have "set (fold (dep_step (boundary_scopes rules)) sfs m q)
      = set (m q) \<union> (\<Union>sf \<in> {sf \<in> set sfs. sf_rel sf = q}. dep_contribution rules sf)"
    if "tests_by_path sfs" "has_suffix q ''.test.md'' \<longrightarrow> m q = []" for sfs m
    using that
  proof (induction sfs arbitrary: m)
    case Nil
    then show ?case by simp
  next
    case (Cons sf sfs)
    have tp: "tests_by_path sfs" "sf_is_test sf = has_suffix (sf_rel sf) ''.test.md''"
      using Cons.prems(1) by (simp_all add: tests_by_path_def)
    let ?m = "dep_step (boundary_scopes rules) sf m"
    have step: "set (?m q) = set (m q) \<union> (if sf_rel sf = q then dep_contribution rules sf else {})"
    proof (cases "sf_is_test sf")
      case True
      with tp Cons.prems(2) t show ?thesis by (auto simp: dep_step_def)
    next
      case False
      then show ?thesis by (simp add: dep_step_set)
    qed
    have "?m q = []" if "has_suffix q ''.test.md''"
    proof -
      have "sf_rel sf = q \<Longrightarrow> dep_contribution rules sf = {}" using tp(2) that t by simp
      with step Cons.prems(2) that have "set (?m q) = {}" by simp
      then show ?thesis by simp
    qed
    with Cons.IH[OF tp(1), of ?m] step show ?case by auto
  qed
  from this[OF assms, of "\<lambda>_. []"] show ?thesis by (simp add: resolve_dep_scopes_def)
qed

section \<open>The emitted lists\<close>

lemma link_repo_eq:
  "link_repo scopes seen repo = map (link_repo_skill scopes) (first_by sf_rel seen repo)"
  by (induction scopes seen repo rule: link_repo.induct) auto

definition dep_table :: "scope_map \<Rightarrow> skill_file list \<Rightarrow> string \<Rightarrow> linked_skill option" where
  "dep_table scopes deps = (\<lambda>q. map_option (\<lambda>sf. \<lparr>lk_file = sf, lk_scopes = scopes q\<rparr>)
     (List.find (\<lambda>sf. sf_rel sf = q) deps))"

lemma append_unique_same: "append_unique xs xs = xs"
proof -
  have "set ys \<subseteq> set xs \<Longrightarrow> append_unique xs ys = xs" for ys
    by (induction ys) auto
  then show ?thesis by simp
qed

lemma fold_merge_dep:
  "fold (merge_dep scopes) deps tbl q =
     (case tbl q of
        Some ex \<Rightarrow> Some (if q \<in> sf_rel ` set deps then ex\<lparr>lk_scopes := append_unique (lk_scopes ex) (scopes q)\<rparr> else ex)
      | None \<Rightarrow> dep_table scopes deps q)"
proof (induction deps arbitrary: tbl)
  case Nil
  then show ?case by (simp add: dep_table_def split: option.split)
next
  case (Cons sf deps)
  have again: "append_unique (append_unique xs ys) ys = append_unique xs ys" for xs ys :: "string list"
  proof -
    have "set zs \<subseteq> set ws \<Longrightarrow> append_unique ws zs = ws" for zs ws :: "string list"
      by (induction zs) auto
    then show ?thesis by (simp add: au.add_set)
  qed
  show ?case
  proof (cases "tbl q")
    case None
    then show ?thesis
      using Cons[of "merge_dep scopes sf tbl"]
      by (auto simp: merge_dep_def dep_table_def append_unique_same split: option.split)
  next
    case (Some ex)
    then show ?thesis
      using Cons[of "merge_dep scopes sf tbl"]
      by (auto simp: merge_dep_def again split: option.split)
  qed
qed

lemma emit_deps_eq:
  "(\<And>q. q \<notin> set seen \<Longrightarrow> q \<in> sf_rel ` set deps \<Longrightarrow> tbl q = Some (g q)) \<Longrightarrow>
   (\<And>q. q \<in> set seen \<Longrightarrow> tbl q = None) \<Longrightarrow>
   emit_deps tbl deps = map (\<lambda>sf. g (sf_rel sf)) (first_by sf_rel seen deps)"
proof (induction deps arbitrary: tbl seen)
  case Nil
  then show ?case by simp
next
  case (Cons sf deps)
  show ?case
  proof (cases "sf_rel sf \<in> set seen")
    case True
    with Cons.prems Cons.IH[of seen tbl] show ?thesis by simp
  next
    case False
    with Cons.prems(1)[of "sf_rel sf"] have t: "tbl (sf_rel sf) = Some (g (sf_rel sf))" by simp
    have "emit_deps (tbl(sf_rel sf := None)) deps
        = map (\<lambda>sf. g (sf_rel sf)) (first_by sf_rel (sf_rel sf # seen) deps)"
      using Cons.prems by (intro Cons.IH) auto
    with t False show ?thesis by simp
  qed
qed

text \<open>The first discovery of each path, with the scopes of all of them.\<close>

lemma link_deps_eq:
  "link_deps rules deps = map (\<lambda>sf. \<lparr>lk_file = sf, lk_scopes = resolve_dep_scopes rules deps (sf_rel sf)\<rparr>)
     (first_by sf_rel [] deps)"
proof -
  let ?s = "resolve_dep_scopes rules deps"
  define g where "g q = the (dep_table ?s deps q)" for q
  have some: "dep_table ?s deps q = Some (g q)" if "q \<in> sf_rel ` set deps" for q
  proof -
    have "List.find (\<lambda>sf. sf_rel sf = q) deps \<noteq> None"
      using that find_None_iff'[of "\<lambda>sf. sf_rel sf = q" deps] by blast
    then show ?thesis by (auto simp: g_def dep_table_def)
  qed
  have "emit_deps (fold (merge_dep ?s) deps (\<lambda>_. None)) deps
      = map (\<lambda>sf. g (sf_rel sf)) (first_by sf_rel [] deps)"
    by (rule emit_deps_eq) (simp_all add: fold_merge_dep some)
  also have "\<dots> = map (\<lambda>sf. \<lparr>lk_file = sf, lk_scopes = ?s (sf_rel sf)\<rparr>) (first_by sf_rel [] deps)"
  proof (rule map_cong[OF refl])
    fix sf assume sf: "sf \<in> set (first_by sf_rel [] deps)"
    have "List.find (\<lambda>x. sf_rel x = sf_rel sf) deps = Some sf" if "sf \<in> set (first_by sf_rel seen xs)"
      "\<forall>x \<in> set ys. sf_rel x \<in> set seen" "deps = ys @ xs" for seen xs ys
      using that
    proof (induction xs arbitrary: seen ys)
      case Nil
      then show ?case by simp
    next
      case (Cons x xs)
      show ?case
      proof (cases "sf_rel x \<in> set seen \<or> x \<noteq> sf")
        case True
        then show ?thesis
          using Cons.prems Cons.IH[of seen "ys @ [x]"] Cons.IH[of "sf_rel x # seen" "ys @ [x]"]
          by (auto split: if_splits)
      next
        case False
        then have "\<forall>y \<in> set ys. sf_rel y \<noteq> sf_rel sf" using Cons.prems(2) by auto
        then have "List.find (\<lambda>y. sf_rel y = sf_rel sf) ys = None" using find_None_iff' by fast
        moreover have "List.find P (as @ bs) = (case List.find P as of None \<Rightarrow> List.find P bs | Some v \<Rightarrow> Some v)"
          for P :: "skill_file \<Rightarrow> bool" and as bs by (induction as) auto
        ultimately show ?thesis using False Cons.prems(3) by simp
      qed
    qed
    from this[of "[]" deps "[]"] sf have "List.find (\<lambda>x. sf_rel x = sf_rel sf) deps = Some sf" by simp
    then show "g (sf_rel sf) = \<lparr>lk_file = sf, lk_scopes = ?s (sf_rel sf)\<rparr>"
      by (simp add: g_def dep_table_def)
  qed
  finally show ?thesis by (simp add: link_deps_def)
qed

end
