(* ===== verification/LinkerProps.thy ===== *)
theory LinkerProps
  imports Linker
begin

text \<open>
  What linking guarantees: every scanned path is linked once per part, a dependency skill is
  visible exactly where its discoveries say, a private skill stays inside its package, and which
  discovery of a duplicated repository skill counts.
\<close>

section \<open>Joining below a clean relative path\<close>

lemma path_join_child:
  assumes "path_clean r = r" "r \<noteq> ''.''" "\<not> is_abs r" "proper_comp c" "c \<noteq> ''..''"
  shows "path_join [r, c] = r @ [slash] @ c"
proof -
  let ?st = "clean_stack False [] (split_on slash r)"
  have ne: "r \<noteq> []" using assms(1) by (auto simp: path_clean_def)
  have st: "?st \<noteq> []"
  proof
    assume "?st = []"
    with assms(1,3) ne have "r = ''.''" by (simp add: path_clean_rel)
    with assms(2) show False by simp
  qed
  with assms(1,3) ne have r: "r = str_join [slash] (rev ?st)" by (simp add: path_clean_rel)
  have c: "c \<noteq> []" "c \<noteq> ''.''" "slash \<notin> set c" using assms(4) by (auto simp: proper_comp_def)
  have na: "\<not> is_abs (r @ slash # c)" "r @ slash # c \<noteq> []" using assms(3) ne by (cases r; simp)+
  have "clean_stack False [] (split_on slash (r @ slash # c)) = c # ?st"
    using c assms(5) by (simp add: split_on_append split_on_id clean_step_def)
  then have "path_clean (r @ slash # c) = str_join [slash] (rev ?st @ [c])"
    using path_clean_rel[OF na] by (simp add: Let_def)
  also have "\<dots> = r @ slash # c" using st r by (simp add: str_join_append)
  finally show ?thesis using ne c by (simp add: path_join_def)
qed

section \<open>Properties\<close>

text \<open>
  Link emits each repository path once and each dependency path once, and loses
  none: the paths of the two parts are exactly the scanned paths.
\<close>

theorem link_covers_paths:
  "distinct (map (sf_rel \<circ> lk_file) (link_repo (resolve_repo_scopes rules repo) [] repo)) \<and>
   distinct (map (sf_rel \<circ> lk_file) (link_deps rules deps)) \<and>
   (sf_rel \<circ> lk_file) ` set (link rules repo deps) = sf_rel ` set repo \<union> sf_rel ` set deps"
proof -
  have k: "(sf_rel \<circ> lk_file) \<circ> link_repo_skill s = sf_rel" for s
    by (rule ext) (simp add: link_repo_skill_def)
  have r: "map (sf_rel \<circ> lk_file) (link_repo (resolve_repo_scopes rules repo) [] repo) = map sf_rel (first_by sf_rel [] repo)"
    by (simp add: link_repo_eq k)
  have d: "map (sf_rel \<circ> lk_file) (link_deps rules deps) = map sf_rel (first_by sf_rel [] deps)"
    by (simp add: link_deps_eq o_def)
  have "(sf_rel \<circ> lk_file) ` set (link rules repo deps)
      = set (map (sf_rel \<circ> lk_file) (link_repo (resolve_repo_scopes rules repo) [] repo))
        \<union> set (map (sf_rel \<circ> lk_file) (link_deps rules deps))"
    by (simp only: link_def set_append image_Un set_map)
  also have "\<dots> = sf_rel ` set repo \<union> sf_rel ` set deps"
    unfolding r d by (simp add: first_by_keys)
  finally show ?thesis unfolding r d using first_by_distinct[of sf_rel] by blast
qed

text \<open>
  C19: The scopes of a linked dependency skill are exactly what the discoveries of its
  path contribute: nothing for a test, the explicit scopes of an activated pack skill, the scopes
  of the rules with the resolving boundary for a public skill, the package's own subtree for a
  private one.
\<close>

theorem dependency_scopes_exact:
  assumes "tests_by_path deps" "ls \<in> set (link_deps rules deps)"
  shows "set (lk_scopes ls) =
    (\<Union>sf \<in> {sf \<in> set deps. sf_rel sf = sf_rel (lk_file ls)}. dep_contribution rules sf)"
proof -
  from assms(2) obtain sf where "ls = \<lparr>lk_file = sf, lk_scopes = resolve_dep_scopes rules deps (sf_rel sf)\<rparr>"
    by (auto simp: link_deps_eq)
  then show ?thesis using resolve_dep_set[OF assms(1)] by simp
qed

definition demo_dep :: "string \<Rightarrow> string \<Rightarrow> string \<Rightarrow> string \<Rightarrow> skill_file" where
  "demo_dep rel vis boundary pkgroot =
     \<lparr>sf_verified = None, sf_abs = ''/r/'' @ rel, sf_rel = rel, sf_package = ''lib'', sf_version = ''1'',
      sf_visibility = vis, sf_source = ''dependency'', sf_front = empty_frontmatter, sf_body = [],
      sf_is_test = has_suffix rel ''.test.md'', sf_test_for = [], sf_boundary = boundary,
      sf_root = pkgroot, sf_scopes = []\<rparr>"

definition demo_deps :: "skill_file list" where
  "demo_deps = [demo_dep ''nm/lib/skillex/public/a.md'' ''public'' ''app'' ''nm/lib'',
     demo_dep ''nm/lib/skillex/private/b.md'' ''private'' ''app'' ''nm/lib'',
     demo_dep ''nm/lib/skillex/public/a.md'' ''public'' ''web'' ''nm/lib'']"

definition demo_rules :: "rule list" where
  "demo_rules = [\<lparr>rl_scope = ''app/**'', rl_skills = [], rl_boundary = ''app''\<rparr>,
     \<lparr>rl_scope = ''web/**'', rl_skills = [], rl_boundary = ''web''\<rparr>]"

lemma demo_link:
  "map (\<lambda>l. (sf_rel (lk_file l), lk_scopes l)) (link_deps demo_rules demo_deps) =
     [(''nm/lib/skillex/public/a.md'', [''app/**'', ''web/**'']),
      (''nm/lib/skillex/private/b.md'', [''nm/lib/**''])]"
  by code_simp

lemma dependency_scopes_exact_witness:
  "\<exists>ls \<in> set (link_deps demo_rules demo_deps). set (lk_scopes ls) =
     (\<Union>sf \<in> {sf \<in> set demo_deps. sf_rel sf = sf_rel (lk_file ls)}. dep_contribution demo_rules sf)"
proof -
  have t: "tests_by_path demo_deps" by code_simp
  have "link_deps demo_rules demo_deps \<noteq> []" using demo_link by auto
  then have "hd (link_deps demo_rules demo_deps) \<in> set (link_deps demo_rules demo_deps)" by simp
  from dependency_scopes_exact[OF t this] this show ?thesis by blast
qed

text \<open>
  C33: A dependency skill whose discoveries are all private, without explicit scopes, in
  packages with clean relative roots in UTF-8 free of glob syntax, is visible only to files below one of those package
  roots, whatever the rules say.
\<close>

theorem private_stays_in_package:
  assumes "tests_by_path deps" "ls \<in> set (link_deps rules deps)" "glob_laws glob"
    and "\<And>sf. sf \<in> set deps \<Longrightarrow> sf_rel sf = sf_rel (lk_file ls) \<Longrightarrow>
      sf_visibility sf = ''private'' \<and> sf_scopes sf = [] \<and> path_clean (sf_root sf) = sf_root sf \<and>
      sf_root sf \<noteq> ''.'' \<and> \<not> is_abs (sf_root sf) \<and> glob_plain (sf_root sf)"
    and "scope \<in> set (lk_scopes ls)" "matches_path glob scope path"
  shows "\<exists>sf \<in> set deps. sf_rel sf = sf_rel (lk_file ls) \<and> has_prefix path (sf_root sf @ [slash])"
proof -
  from assms(5) dependency_scopes_exact[OF assms(1,2)] obtain sf where
    sf: "sf \<in> set deps" "sf_rel sf = sf_rel (lk_file ls)" "scope \<in> dep_contribution rules sf" by auto
  note p = assms(4)[OF sf(1,2)]
  have "scope = path_join [sf_root sf, ''**'']"
    using sf(3) p by (auto simp: dep_contribution_def split: if_splits)
  also have "\<dots> = sf_root sf @ [slash] @ ''**''"
    by (rule path_join_child) (use p in \<open>simp_all add: proper_comp_def\<close>)
  finally have s: "scope = sf_root sf @ ''/**''" by simp
  have "sf_root sf \<noteq> ''**''" using p by (auto simp: glob_plain_def contains_any_def)
  moreover have "sf_root sf \<noteq> []" using p by (auto simp: path_clean_def)
  ultimately have "scope \<noteq> ''**''" "scope \<noteq> ''**/**''"
    using s by (auto simp: Cons_eq_append_conv)
  moreover have "glob scope = Some (\<lambda>x. has_prefix x (sf_root sf @ [slash]))"
    using assms(3) p s by (simp add: glob_laws_def)
  ultimately have "has_prefix path (sf_root sf @ [slash])"
    using assms(6) by (simp add: matches_path_def)
  with sf show ?thesis by blast
qed

lemma private_stays_in_package_witness:
  "\<exists>ls \<in> set (link_deps demo_rules demo_deps). ''nm/lib/**'' \<in> set (lk_scopes ls) \<and>
     (\<forall>path. matches_path simple_glob ''nm/lib/**'' path \<longrightarrow> has_prefix path ''nm/lib/'')"
proof -
  have t: "tests_by_path demo_deps" by code_simp
  have "(''nm/lib/skillex/private/b.md'', [''nm/lib/**'']) \<in>
      set (map (\<lambda>l. (sf_rel (lk_file l), lk_scopes l)) (link_deps demo_rules demo_deps))"
    unfolding demo_link by simp
  then obtain ls where ls: "ls \<in> set (link_deps demo_rules demo_deps)"
    "sf_rel (lk_file ls) = ''nm/lib/skillex/private/b.md''" "lk_scopes ls = [''nm/lib/**'']" by auto
  have only: "list_all (\<lambda>sf. sf_rel sf = ''nm/lib/skillex/private/b.md'' \<longrightarrow>
      sf_visibility sf = ''private'' \<and> sf_scopes sf = [] \<and> path_clean (sf_root sf) = sf_root sf \<and>
      sf_root sf \<noteq> ''.'' \<and> \<not> is_abs (sf_root sf) \<and> glob_plain (sf_root sf) \<and> sf_root sf = ''nm/lib'') demo_deps"
    by code_simp
  have "has_prefix path ''nm/lib/''" if "matches_path simple_glob ''nm/lib/**'' path" for path
  proof -
    have "\<exists>sf \<in> set demo_deps. sf_rel sf = sf_rel (lk_file ls) \<and> has_prefix path (sf_root sf @ [slash])"
      using only by (intro private_stays_in_package[OF t ls(1) simple_glob_laws _ _ that])
        (auto simp: ls(2,3) list_all_iff)
    then show ?thesis using only by (auto simp: ls(2) list_all_iff)
  qed
  moreover have "''nm/lib/**'' \<in> set (lk_scopes ls)" using ls(3) by simp
  ultimately show ?thesis using ls(1) by blast
qed

text \<open>
  When a repository path is discovered twice, its first discovery decides: the
  scopes of a later activation with explicit scopes are dropped.

\<close>

theorem later_activation_dropped:
  assumes "sf_rel a = sf_rel b" "\<not> sf_is_test a"
  shows "link rules [a, b] [] =
    [\<lparr>lk_file = a, lk_scopes = (if sf_scopes a \<noteq> [] then sf_scopes a
       else resolve_repo_scopes rules [a, b] (sf_rel a))\<rparr>]"
  using assms by (simp add: link_def link_deps_def link_repo_skill_def)

lemma later_activation_dropped_witness:
  "\<exists>a b. sf_scopes b = [''pkg/**''] \<and> map lk_scopes (link demo_rules [a, b] []) = [[''docs/**'']]"
proof -
  let ?a = "(demo_dep ''packs/p/a.md'' ''repo'' [] [])\<lparr>sf_scopes := [''docs/**'']\<rparr>"
  let ?b = "(demo_dep ''packs/p/a.md'' ''repo'' [] [])\<lparr>sf_scopes := [''pkg/**'']\<rparr>"
  have "sf_rel ?a = sf_rel ?b" "\<not> sf_is_test ?a" by code_simp+
  from later_activation_dropped[OF this, of demo_rules] show ?thesis
    by (intro exI [of _ ?a] exI [of _ ?b]) simp
qed

end
