(* ===== verification/Broker.thy ===== *)
theory Broker
  imports Capability Config
begin

text \<open>
  internal/broker/broker.go: discovery, description and invocation of capabilities.  The broker's
  collaborators are the Go interfaces: a catalog, a policy, a connector factory with the connectors
  it opens, the JSON-Schema validator and the signer's primitives; they are fields of records, as the Go
  struct holds them.  What the broker does to the outside is the list of \<open>event\<close>s it leaves: usage
  events given to the observer, policy evaluations, connections attempted, downstream calls and closes.
  Durations are not part of a usage event here.
\<close>

section \<open>Data\<close>

datatype json =
    JNull | JBool bool | JNumber string | JString string | JArray "json list" | JObject "(string \<times> json) list"

type_synonym arguments = "(string \<times> json) list"

datatype broker_error =
    ContextMismatch | ViewMismatch | CapabilityChanged | PolicyDenied | ApprovalRequired
  | CapabilityNotReady availability_status | McpDisabled | ToolArgumentInvalid | CapabilityNotCallable
  | BrokerParts | BadConfiguration config_error | ContextAndViewRequired
  | RefError ref_error | CapError cap_error | CatalogError string | PolicyError string
  | UnknownEffect string | OpenError string | CallError string

record broker_query =
  bq_path :: string
  bq_search :: string
  bq_server :: string
  bq_kind :: capability_kind
  bq_availability :: availability_status
  bq_context :: string
  bq_view :: string
  bq_limit :: int
  bq_offset :: int

record summary =
  su_ref :: string
  su_server :: server_identity
  su_version :: string
  su_kind :: capability_kind
  su_name :: string
  su_title :: string
  su_description :: string
  su_availability :: availability_status

record facet =
  fc_value :: string
  fc_count :: nat

record discovery_facets =
  df_servers :: "facet list"
  df_kinds :: "facet list"
  df_availability :: "facet list"

record catalog_page =
  cp_capabilities :: "capability list"
  cp_count :: nat
  cp_facets :: discovery_facets

record discovery_page =
  dp_summaries :: "summary list"
  dp_count :: nat
  dp_facets :: discovery_facets

record request_context =
  rq_context :: string
  rq_view :: string

type_synonym policy_effect = string

definition policy_allow :: policy_effect where "policy_allow = ''allow''"
definition policy_deny :: policy_effect where "policy_deny = ''deny''"
definition policy_approval :: policy_effect where "policy_approval = ''approval-required''"

lemmas policy_defs = policy_allow_def policy_deny_def policy_approval_def

text \<open>The result of a downstream call: an error message or a JSON value.\<close>

type_synonym call_outcome = "(string, json) result"

text \<open>
  A connector: the mandatory tool call and, as Go type assertions find them, the optional
  interfaces.  The \<open>round\<close> calls take the host's input responses and the opaque request state.
\<close>

record connector =
  cn_tool :: "string \<Rightarrow> arguments \<Rightarrow> call_outcome"
  cn_tool_round :: "(string \<Rightarrow> arguments \<Rightarrow> arguments \<Rightarrow> string \<Rightarrow> call_outcome) option"
  cn_prompt :: "(string \<Rightarrow> arguments \<Rightarrow> call_outcome) option"
  cn_prompt_round :: "(string \<Rightarrow> arguments \<Rightarrow> arguments \<Rightarrow> string \<Rightarrow> call_outcome) option"
  cn_resource :: "(string \<Rightarrow> call_outcome) option"
  cn_resource_round :: "(string \<Rightarrow> arguments \<Rightarrow> string \<Rightarrow> call_outcome) option"

record usage_event =
  ue_operation :: string
  ue_server :: string
  ue_version :: string
  ue_kind :: capability_kind
  ue_capability :: string
  ue_availability :: availability_status
  ue_outcome :: string
  ue_tenant :: string
  ue_principal :: string

datatype event =
    Recorded usage_event
  | Evaluated capability
  | Opened capability
  | Invoked capability
  | Closed

record broker =
  bk_prims :: prims
  bk_signer :: reference_signer
  bk_search :: "broker_query \<Rightarrow> (string, catalog_page) result"
  bk_resolve :: "reference_claims \<Rightarrow> (string, capability) result"
  bk_policy :: "capability \<Rightarrow> arguments \<Rightarrow> (string, policy_effect) result"
  bk_open :: "capability \<Rightarrow> (string, connector) result"
  bk_schema :: "string \<Rightarrow> arguments \<Rightarrow> bool"
  bk_observed :: bool
  bk_tenant :: string
  bk_principal :: string

section \<open>Construction\<close>

text \<open>\<^verbatim>\<open>New\<close>: nil collaborators are rejected; \<^verbatim>\<open>NewConfigured\<close> adds the project's gate.\<close>

definition new_broker :: "broker option \<Rightarrow> (broker_error, broker) result" where
  "new_broker parts = (case parts of None \<Rightarrow> Inl BrokerParts | Some b \<Rightarrow> Inr b)"

definition new_configured :: "config option \<Rightarrow> broker option \<Rightarrow> (broker_error, broker) result" where
  "new_configured cfg parts =
     (if \<not> mcp_enabled cfg then Inl McpDisabled
      else (case validate_config (the cfg) of
              Inl e \<Rightarrow> Inl (BadConfiguration e)
            | Inr _ \<Rightarrow> new_broker parts))"

section \<open>Usage events\<close>

definition usage :: "broker \<Rightarrow> string \<Rightarrow> capability option \<Rightarrow> string \<Rightarrow> event list" where
  "usage b op sel outcome =
     (if bk_observed b
      then [Recorded (case sel of
              None \<Rightarrow> \<lparr>ue_operation = op, ue_server = [], ue_version = [], ue_kind = [], ue_capability = [],
                 ue_availability = [], ue_outcome = outcome, ue_tenant = bk_tenant b, ue_principal = bk_principal b\<rparr>
            | Some c \<Rightarrow> \<lparr>ue_operation = op, ue_server = server_name c, ue_version = server_ver c,
                 ue_kind = cap_kind c, ue_capability = cap_name c, ue_availability = availability c,
                 ue_outcome = outcome, ue_tenant = bk_tenant b, ue_principal = bk_principal b\<rparr>)]
      else [])"

section \<open>Discovery\<close>

definition summary_of :: "string \<Rightarrow> capability \<Rightarrow> summary" where
  "summary_of ref c = \<lparr>su_ref = ref, su_server = sv_identity (cap_server c), su_version = server_ver c,
     su_kind = cap_kind c, su_name = cap_name c, su_title = cap_title c,
     su_description = cap_description c, su_availability = availability c\<rparr>"

text \<open>The loop over the capabilities of a page; \<open>rs i\<close> is the clock and the nonce the i-th
  issue reads.\<close>

fun summarize :: "broker \<Rightarrow> broker_query \<Rightarrow> (nat \<Rightarrow> int \<times> string) \<Rightarrow> nat \<Rightarrow> capability list
  \<Rightarrow> event list \<times> (broker_error, summary list) result" where
  "summarize b q rs i [] = ([], Inr [])"
| "summarize b q rs i (c # cs) =
     (case with_computed_digest (bk_prims b) c of
        Inl e \<Rightarrow> ([], Inl (CapError e))
      | Inr c' \<Rightarrow>
          (case issue (bk_prims b) (bk_signer b) c' (bq_view q) (bq_context q) (fst (rs i)) (snd (rs i)) of
             Inl e \<Rightarrow> ([], Inl (RefError e))
           | Inr ref \<Rightarrow>
               (case summarize b q rs (Suc i) cs of (ev, r) \<Rightarrow>
                  (usage b ''discover'' (Some c') ''returned'' @ ev,
                   map_sum id ((#) (summary_of ref c')) r))))"

definition query_page :: "broker \<Rightarrow> (nat \<Rightarrow> int \<times> string) \<Rightarrow> broker_query
  \<Rightarrow> event list \<times> (broker_error, discovery_page) result" where
  "query_page b rs q =
     (if bq_context q = [] \<or> bq_view q = [] then ([], Inl ContextAndViewRequired)
      else (case bk_search b q of
              Inl e \<Rightarrow> ([], Inl (CatalogError e))
            | Inr page \<Rightarrow>
                (let count = (if cp_count page = 0 \<and> cp_capabilities page \<noteq> []
                              then length (cp_capabilities page) else cp_count page);
                     caps = (if bq_limit q > 0 \<and> int (length (cp_capabilities page)) > bq_limit q
                             then take (nat (bq_limit q)) (cp_capabilities page) else cp_capabilities page)
                 in (case summarize b q rs 0 caps of (ev, r) \<Rightarrow>
                       (ev, map_sum id (\<lambda>s. \<lparr>dp_summaries = s, dp_count = count, dp_facets = cp_facets page\<rparr>) r)))))"

section \<open>Description\<close>

definition claims_match :: "reference_claims \<Rightarrow> capability \<Rightarrow> bool" where
  "claims_match cl c \<longleftrightarrow>
     \<not> (rc_server cl \<noteq> server_name c \<or> rc_version cl \<noteq> server_ver c \<or> rc_kind cl \<noteq> cap_kind c \<or>
        rc_capability cl \<noteq> cap_name c \<or> rc_schema_digest cl \<noteq> schema_digest c) \<and>
     \<not> (rc_routing_scope cl \<noteq> routing_scope c \<or> rc_auth_profile cl \<noteq> auth_profile c)"

definition describe :: "broker \<Rightarrow> int \<Rightarrow> string \<Rightarrow> request_context
  \<Rightarrow> event list \<times> (broker_error, capability) result" where
  "describe b now ref req =
     (case verify (bk_prims b) (bk_signer b) now ref of
        Inl e \<Rightarrow> ([], Inl (RefError e))
      | Inr claims \<Rightarrow>
          (if rc_context claims \<noteq> rq_context req then ([], Inl ContextMismatch)
           else if rc_view claims \<noteq> rq_view req then ([], Inl ViewMismatch)
           else (case bk_resolve b claims of
                   Inl e \<Rightarrow> ([], Inl (CatalogError e))
                 | Inr c \<Rightarrow>
                     (case with_computed_digest (bk_prims b) c of
                        Inl e \<Rightarrow> ([], Inl (CapError e))
                      | Inr c' \<Rightarrow>
                          (if \<not> claims_match claims c' then ([], Inl CapabilityChanged)
                           else (usage b ''describe'' (Some c') ''success'', Inr c'))))))"

section \<open>Invocation\<close>

definition string_arg :: "string \<Rightarrow> arguments \<Rightarrow> string option" where
  "string_arg k args = (case map_of args k of Some (JString s) \<Rightarrow> Some s | _ \<Rightarrow> None)"

text \<open>
  The dispatch on the capability kind; the \<^verbatim>\<open>None\<close> outcome is
  \<^verbatim>\<open>ErrCapabilityNotCallable\<close>, decided without a downstream call.
\<close>

definition invoke :: "connector \<Rightarrow> capability \<Rightarrow> arguments \<Rightarrow> arguments \<Rightarrow> string \<Rightarrow> call_outcome option" where
  "invoke cn c args responses state =
     (if cap_kind c = kind_tool then
        (case cn_tool_round cn of
           Some f \<Rightarrow> Some (f (cap_name c) args responses state)
         | None \<Rightarrow> Some (cn_tool cn (cap_name c) args))
      else if cap_kind c = kind_prompt then
        (case cn_prompt cn of
           None \<Rightarrow> None
         | Some f \<Rightarrow> (case cn_prompt_round cn of
                        Some g \<Rightarrow> Some (g (cap_name c) args responses state)
                      | None \<Rightarrow> Some (f (cap_name c) args)))
      else if cap_kind c = kind_template then
        (case (cn_resource cn, string_arg ''uri'' args) of
           (Some f, Some uri) \<Rightarrow>
             (if uri = [] then None
              else (case cn_resource_round cn of
                      Some g \<Rightarrow> Some (g uri responses state)
                    | None \<Rightarrow> Some (f uri)))
         | _ \<Rightarrow> None)
      else None)"

record call_result =
  cl_server :: server_version
  cl_kind :: capability_kind
  cl_name :: string
  cl_result :: json

definition run_connector :: "broker \<Rightarrow> capability \<Rightarrow> arguments \<Rightarrow> arguments \<Rightarrow> string
  \<Rightarrow> event list \<times> (broker_error, call_result) result" where
  "run_connector b c args responses state =
     (case bk_open b c of
        Inl e \<Rightarrow> (Opened c # usage b ''call'' (Some c) ''connector-error'', Inl (OpenError e))
      | Inr cn \<Rightarrow>
          (case invoke cn c args responses state of
             None \<Rightarrow> (Opened c # usage b ''call'' (Some c) ''tool-error'' @ [Closed], Inl CapabilityNotCallable)
           | Some (Inl e) \<Rightarrow>
               (Opened c # Invoked c # usage b ''call'' (Some c) ''tool-error'' @ [Closed], Inl (CallError e))
           | Some (Inr v) \<Rightarrow>
               (Opened c # Invoked c # usage b ''call'' (Some c) ''success'' @ [Closed],
                Inr \<lparr>cl_server = cap_server c, cl_kind = cap_kind c, cl_name = cap_name c, cl_result = v\<rparr>)))"

definition call_selected :: "broker \<Rightarrow> capability \<Rightarrow> arguments \<Rightarrow> arguments \<Rightarrow> string
  \<Rightarrow> event list \<times> (broker_error, call_result) result" where
  "call_selected b c args responses state =
     (if availability c \<noteq> av_ready
      then (usage b ''call'' (Some c) ''not-ready'', Inl (CapabilityNotReady (availability c)))
      else if \<not> bk_schema b (input_schema c) args
      then (usage b ''call'' (Some c) ''arguments-invalid'', Inl ToolArgumentInvalid)
      else (case bk_policy b c args of
              Inl e \<Rightarrow> (Evaluated c # usage b ''call'' (Some c) ''policy-error'', Inl (PolicyError e))
            | Inr effect \<Rightarrow>
                (if effect = policy_allow then
                   (case run_connector b c args responses state of (ev, r) \<Rightarrow> (Evaluated c # ev, r))
                 else if effect = policy_deny then
                   (Evaluated c # usage b ''call'' (Some c) ''policy-denied'', Inl PolicyDenied)
                 else if effect = policy_approval then
                   (Evaluated c # usage b ''call'' (Some c) ''approval-required'', Inl ApprovalRequired)
                 else (Evaluated c # usage b ''call'' (Some c) ''policy-error'', Inl (UnknownEffect effect)))))"

definition call_with_input :: "broker \<Rightarrow> int \<Rightarrow> string \<Rightarrow> arguments \<Rightarrow> arguments \<Rightarrow> string
  \<Rightarrow> request_context \<Rightarrow> event list \<times> (broker_error, call_result) result" where
  "call_with_input b now ref args responses state req =
     (case describe b now ref req of
        (ev, Inl e) \<Rightarrow> (ev @ usage b ''call'' None ''reference-rejected'', Inl e)
      | (ev, Inr c) \<Rightarrow>
          (case call_selected b c args responses state of (ev', r) \<Rightarrow> (ev @ ev', r)))"

definition call :: "broker \<Rightarrow> int \<Rightarrow> string \<Rightarrow> arguments \<Rightarrow> request_context
  \<Rightarrow> event list \<times> (broker_error, call_result) result" where
  "call b now ref args req = call_with_input b now ref args [] [] req"

end
