(* ===== verification/BrokerProps.thy ===== *)
theory BrokerProps
  imports Broker DemoPrims
begin

text \<open>
  The safety of the broker: no connection without a valid, matching, unchanged, ready, validated
  and allowed capability; the shape of the event trace of a call; what discovery returns.
\<close>

section \<open>Events\<close>

fun is_opened :: "event \<Rightarrow> bool" where
  "is_opened (Opened c) = True" | "is_opened _ = False"

fun is_recorded :: "event \<Rightarrow> bool" where
  "is_recorded (Recorded u) = True" | "is_recorded _ = False"

fun is_call_record :: "event \<Rightarrow> bool" where
  "is_call_record (Recorded u) = (ue_operation u = ''call'')" | "is_call_record _ = False"

lemma usage_only_recorded: "e \<in> set (usage b op sel outcome) \<Longrightarrow> is_recorded e"
  by (auto simp: usage_def split: if_splits)

lemma usage_no_effect [simp]:
  "Opened c \<notin> set (usage b op sel outcome)" "Invoked c \<notin> set (usage b op sel outcome)"
  "Evaluated c \<notin> set (usage b op sel outcome)" "Closed \<notin> set (usage b op sel outcome)"
  using usage_only_recorded by fastforce+

lemma usage_call_count:
  "length (filter is_call_record (usage b op sel outcome)) = (if bk_observed b \<and> op = ''call'' then 1 else 0)"
  by (auto simp: usage_def split: option.splits)

section \<open>Description\<close>

lemma describe_OkD:
  assumes "describe b now ref req = (ev, Inr c)"
  shows "\<exists>claims c0. verify (bk_prims b) (bk_signer b) now ref = Inr claims
     \<and> rc_context claims = rq_context req \<and> rc_view claims = rq_view req
     \<and> bk_resolve b claims = Inr c0 \<and> with_computed_digest (bk_prims b) c0 = Inr c
     \<and> claims_match claims c \<and> ev = usage b ''describe'' (Some c) ''success''"
  using assms by (auto simp: describe_def split: sum.splits if_splits)

lemma describe_events: "describe b now ref req = (ev, r) \<Longrightarrow> e \<in> set ev \<Longrightarrow> is_recorded e"
  by (auto simp: describe_def usage_only_recorded split: sum.splits if_splits)

lemma describe_no_call: "describe b now ref req = (ev, r) \<Longrightarrow> filter is_call_record ev = []"
  by (auto simp: describe_def usage_def split: sum.splits if_splits)

section \<open>Invocation\<close>

lemma run_connector_Opened:
  "run_connector b c args rs st = (ev, r) \<Longrightarrow> Opened d \<in> set ev \<Longrightarrow> d = c"
  by (auto simp: run_connector_def split: sum.splits option.splits)

lemma call_selected_Opened:
  assumes "call_selected b c args rs st = (ev, r)" "Opened d \<in> set ev"
  shows "d = c \<and> availability c = av_ready \<and> bk_schema b (input_schema c) args
     \<and> bk_policy b c args = Inr policy_allow"
  using assms run_connector_Opened[of b c args rs st]
  by (auto simp: call_selected_def split: if_splits sum.splits prod.splits)

lemma run_connector_shape:
  assumes "run_connector b c args rs st = (ev, r)" "Invoked d \<in> set ev"
  shows "\<exists>u. ev = Opened c # Invoked c # u @ [Closed] \<and> list_all is_recorded u"
  using assms usage_only_recorded[of _ b "''call''" "Some c"]
  by (auto simp: run_connector_def list_all_iff split: sum.splits option.splits)

lemma call_selected_shape:
  assumes "call_selected b c args rs st = (ev, r)" "Invoked d \<in> set ev"
  shows "\<exists>u. ev = Evaluated c # Opened c # Invoked c # u @ [Closed] \<and> list_all is_recorded u"
proof -
  from assms have "bk_policy b c args = Inr policy_allow"
    by (auto simp: call_selected_def split: if_splits sum.splits prod.splits)
  with assms obtain ev' where "run_connector b c args rs st = (ev', r)" "ev = Evaluated c # ev'"
    by (auto simp: call_selected_def split: if_splits prod.splits)
  with run_connector_shape assms(2) show ?thesis by fastforce
qed

lemma run_connector_calls:
  assumes "bk_observed b" "run_connector b c args rs st = (ev, r)"
  shows "\<exists>u. filter is_call_record ev = [Recorded u] \<and> (ue_outcome u = ''success'' \<longleftrightarrow> (\<exists>x. r = Inr x))"
  using assms by (auto simp: run_connector_def usage_def split: sum.splits option.splits)

lemma call_selected_calls:
  assumes "bk_observed b" "call_selected b c args rs st = (ev, r)"
  shows "\<exists>u. filter is_call_record ev = [Recorded u] \<and> (ue_outcome u = ''success'' \<longleftrightarrow> (\<exists>x. r = Inr x))"
proof (cases "availability c = av_ready \<and> bk_schema b (input_schema c) args \<and> bk_policy b c args = Inr policy_allow")
  case True
  with assms(2) obtain ev' where "run_connector b c args rs st = (ev', r)" "ev = Evaluated c # ev'"
    by (auto simp: call_selected_def split: prod.splits)
  with run_connector_calls[OF assms(1)] show ?thesis by auto
next
  case False
  with assms show ?thesis
    by (auto simp: call_selected_def usage_def split: if_splits sum.splits)
qed

lemma call_Opened:
  assumes "Opened c \<in> set (fst (call_with_input b now ref args responses state req))"
  shows "(\<exists>ev. describe b now ref req = (ev, Inr c)) \<and> availability c = av_ready
     \<and> bk_schema b (input_schema c) args \<and> bk_policy b c args = Inr policy_allow"
proof -
  obtain ev r where d: "describe b now ref req = (ev, r)" by force
  have no: "Opened c \<notin> set ev" using describe_events[OF d, of "Opened c"] by auto
  obtain c1 ev' r' where c1: "r = Inr c1" "call_selected b c1 args responses state = (ev', r')" "Opened c \<in> set ev'"
    using assms d no by (cases r) (auto simp: call_with_input_def split: prod.splits)
  from call_selected_Opened[OF c1(2,3)] d c1(1) show ?thesis by blast
qed

section \<open>Discovery\<close>

definition summary_valid :: "broker \<Rightarrow> broker_query \<Rightarrow> summary \<Rightarrow> bool" where
  "summary_valid b q s \<longleftrightarrow> (\<exists>c c' now nonce.
     with_computed_digest (bk_prims b) c = Inr c' \<and>
     issue (bk_prims b) (bk_signer b) c' (bq_view q) (bq_context q) now nonce = Inr (su_ref s) \<and>
     s = summary_of (su_ref s) c')"

lemma summarize_props:
  "summarize b q rs i cs = (ev, r) \<Longrightarrow>
   (\<forall>e \<in> set ev. is_recorded e) \<and>
   (\<forall>ss. r = Inr ss \<longrightarrow> length ss = length cs \<and> (\<forall>s \<in> set ss. summary_valid b q s))"
proof (induction cs arbitrary: i ev r)
  case Nil
  then show ?case by auto
next
  case (Cons c cs)
  show ?case
  proof (cases "with_computed_digest (bk_prims b) c")
    case (Inl e)
    with Cons.prems show ?thesis by auto
  next
    case c': (Inr c')
    show ?thesis
    proof (cases "issue (bk_prims b) (bk_signer b) c' (bq_view q) (bq_context q) (fst (rs i)) (snd (rs i))")
      case (Inl e)
      with Cons.prems c' show ?thesis by auto
    next
      case (Inr ref)
      obtain ev' r' where rec: "summarize b q rs (Suc i) cs = (ev', r')" by force
      have "summary_valid b q (summary_of ref c')"
        using c' Inr by (auto simp: summary_valid_def summary_of_def)
      then show ?thesis
        using Cons.prems c' Inr rec Cons.IH[OF rec]
        by (cases r') (auto dest: usage_only_recorded)
    qed
  qed
qed

lemma query_page_props:
  assumes "query_page b rs q = (ev, r)"
  shows "(\<forall>e \<in> set ev. is_recorded e) \<and>
    (\<forall>page. r = Inr page \<longrightarrow> (bq_limit q > 0 \<longrightarrow> int (length (dp_summaries page)) \<le> bq_limit q)
       \<and> (\<forall>s \<in> set (dp_summaries page). summary_valid b q s))"
proof (cases "bq_context q = [] \<or> bq_view q = [] \<or> (\<exists>e. bk_search b q = Inl e)")
  case True
  with assms show ?thesis by (auto simp: query_page_def split: sum.splits if_splits)
next
  case False
  then obtain page where p: "bq_context q \<noteq> []" "bq_view q \<noteq> []" "bk_search b q = Inr page"
    by (cases "bk_search b q") auto
  let ?caps = "if bq_limit q > 0 \<and> int (length (cp_capabilities page)) > bq_limit q
     then take (nat (bq_limit q)) (cp_capabilities page) else cp_capabilities page"
  obtain ev' r' where s: "summarize b q rs 0 ?caps = (ev', r')" by force
  have "bq_limit q > 0 \<longrightarrow> int (length ?caps) \<le> bq_limit q" by simp
  with assms p s summarize_props[OF s] show ?thesis
    by (cases r') (auto simp: query_page_def Let_def)
qed

section \<open>A broker for witnesses\<close>

definition demo_connector :: connector where
  "demo_connector = \<lparr>cn_tool = (\<lambda>n a. Inr (JString n)), cn_tool_round = None, cn_prompt = None,
     cn_prompt_round = None, cn_resource = None, cn_resource_round = None\<rparr>"

definition demo_ready :: capability where
  "demo_ready = demo_capability\<lparr>availability := av_ready\<rparr>"

definition demo_broker :: broker where
  "demo_broker = \<lparr>bk_prims = demo_prims, bk_signer = demo_signer,
     bk_search = (\<lambda>q. Inr \<lparr>cp_capabilities = [demo_ready], cp_count = 1,
       cp_facets = \<lparr>df_servers = [], df_kinds = [], df_availability = []\<rparr>\<rparr>),
     bk_resolve = (\<lambda>cl. Inr demo_ready), bk_policy = (\<lambda>c a. Inr policy_allow),
     bk_open = (\<lambda>c. Inr demo_connector), bk_schema = (\<lambda>s a. True), bk_observed = True,
     bk_tenant = [], bk_principal = []\<rparr>"

definition demo_request :: request_context where
  "demo_request = \<lparr>rq_context = ''x'', rq_view = ''v''\<rparr>"

lemma issue_computed:
  assumes "with_computed_digest pr c = Inr c'"
  shows "issue pr sg c' view ctx now nonce = issue pr sg c view ctx now nonce"
  using assms with_computed_fixpoint[OF with_computed_complete[OF assms]] by (simp add: issue_def)

lemma demo_ready_issues:
  "\<exists>ref c'. issue demo_prims demo_signer demo_ready ''v'' ''x'' 1000000000 ''n'' = Inr ref
     \<and> with_computed_digest demo_prims demo_ready = Inr c'
     \<and> verify demo_prims demo_signer 2000000000 ref
         = Inr (issue_claims demo_signer c' ''v'' ''x'' 1000000000 ''n'')"
proof -
  have "canonical_json demo_prims ''{}'' = Some ''{}''" "canonical_json demo_prims [] = Some ''null''"
    by (code_simp)+
  then obtain c' where c': "with_computed_digest demo_prims demo_ready = Inr c'"
    by (auto simp: with_computed_Ok_iff demo_ready_def demo_capability_def compute_schema_digest_def)
  then have i: "issue demo_prims demo_signer demo_ready ''v'' ''x'' 1000000000 ''n''
      = Inr (reference_of demo_prims demo_signer (demo_encode (issue_claims demo_signer c' ''v'' ''x'' 1000000000 ''n'')))"
    by (simp add: issue_def)
  have "claims_wf (issue_claims demo_signer c' ''v'' ''x'' 1000000000 ''n'')"
    by (rule issued_claims_wf[OF with_computed_complete[OF c']]) (simp_all add: demo_signer_def)
  moreover have "2000000000 < unix_time (rc_expires_at (issue_claims demo_signer c' ''v'' ''x'' 1000000000 ''n''))"
    by (simp add: issue_claims_def demo_signer_def unix_def unix_time_id)
  ultimately have "verify demo_prims demo_signer 2000000000
      (reference_of demo_prims demo_signer (demo_encode (issue_claims demo_signer c' ''v'' ''x'' 1000000000 ''n'')))
      = Inr (issue_claims demo_signer c' ''v'' ''x'' 1000000000 ''n'')"
    by (simp add: verify_reference_of demo_codec)
  with i c' show ?thesis by blast
qed

lemma demo_call_runs:
  "\<exists>ref c. Opened c \<in> set (fst (call demo_broker 2000000000 ref [] demo_request)) \<and>
     Invoked c \<in> set (fst (call demo_broker 2000000000 ref [] demo_request)) \<and>
     (\<exists>x. snd (call demo_broker 2000000000 ref [] demo_request) = Inr x)"
proof -
  from demo_ready_issues obtain ref c' where r: "with_computed_digest demo_prims demo_ready = Inr c'"
    "verify demo_prims demo_signer 2000000000 ref = Inr (issue_claims demo_signer c' ''v'' ''x'' 1000000000 ''n'')"
    by blast
  have keep: "availability c' = av_ready" "cap_kind c' = kind_tool"
    using with_computed_keeps[OF r(1)] by (simp_all add: demo_ready_def demo_capability_def kind_defs)
  have "describe demo_broker 2000000000 ref demo_request = (usage demo_broker ''describe'' (Some c') ''success'', Inr c')"
    using r by (simp add: describe_def demo_broker_def demo_request_def claims_match_def) (simp add: issue_claims_def)
  then have "Opened c' \<in> set (fst (call demo_broker 2000000000 ref [] demo_request)) \<and>
     Invoked c' \<in> set (fst (call demo_broker 2000000000 ref [] demo_request)) \<and>
     (\<exists>x. snd (call demo_broker 2000000000 ref [] demo_request) = Inr x)"
    using keep
    by (simp add: call_def call_with_input_def call_selected_def run_connector_def invoke_def
        demo_broker_def demo_connector_def)
  then show ?thesis by blast
qed

section \<open>Properties\<close>

text \<open>
  C1: The broker attempts a downstream connection only for a capability whose reference
  verifies now, was issued for this context and view, still resolves in the catalog to a definition with
  the same server, version, kind, name, computed schema digest, scope and profile, is ready, accepts the
  arguments, and was allowed by the policy for these arguments.
\<close>

theorem open_only_when_allowed:
  assumes "Opened c \<in> set (fst (call_with_input b now ref args responses state req))"
  shows "\<exists>claims c0. verify (bk_prims b) (bk_signer b) now ref = Inr claims
     \<and> rc_context claims = rq_context req \<and> rc_view claims = rq_view req
     \<and> bk_resolve b claims = Inr c0 \<and> with_computed_digest (bk_prims b) c0 = Inr c
     \<and> claims_match claims c \<and> availability c = av_ready
     \<and> bk_schema b (input_schema c) args \<and> bk_policy b c args = Inr policy_allow"
using call_Opened[OF assms] describe_OkD by blast

lemma open_only_when_allowed_witness:
  "\<exists>ref c. Opened c \<in> set (fst (call_with_input demo_broker 2000000000 ref [] [] [] demo_request)) \<and>
     availability c = av_ready \<and> bk_policy demo_broker c [] = Inr policy_allow"
proof -
  from demo_call_runs obtain ref c where
    o: "Opened c \<in> set (fst (call_with_input demo_broker 2000000000 ref [] [] [] demo_request))"
    by (auto simp: call_def)
  with open_only_when_allowed[OF o] show ?thesis by blast
qed

text \<open>
  C18: A call that reaches the downstream server does so as policy evaluation, open, one
  invocation, usage records, close, in this order, all for one capability; and close is its last event.
\<close>

theorem invocation_is_bracketed:
  assumes "Invoked c \<in> set (fst (call_with_input b now ref args responses state req))"
  shows "\<exists>d pre u. fst (call_with_input b now ref args responses state req)
      = pre @ [Evaluated d, Opened d, Invoked d] @ u @ [Closed]
     \<and> list_all is_recorded pre \<and> list_all is_recorded u"
proof -
  obtain ev r where d: "describe b now ref req = (ev, r)" by force
  have no: "Invoked c \<notin> set ev" using describe_events[OF d, of "Invoked c"] by auto
  obtain c1 ev' r' where c1: "r = Inr c1" "call_selected b c1 args responses state = (ev', r')" "Invoked c \<in> set ev'"
    using assms d no by (cases r) (auto simp: call_with_input_def split: prod.splits)
  obtain u where u: "ev' = Evaluated c1 # Opened c1 # Invoked c1 # u @ [Closed]" "list_all is_recorded u"
    using call_selected_shape[OF c1(2,3)] by blast
  have "fst (call_with_input b now ref args responses state req)
      = ev @ [Evaluated c1, Opened c1, Invoked c1] @ u @ [Closed]"
    using d c1(1,2) u by (simp add: call_with_input_def)
  moreover have "list_all is_recorded ev" using describe_events[OF d] by (simp add: list_all_iff)
  ultimately show ?thesis using u(2) by blast
qed

lemma invocation_is_bracketed_witness:
  "\<exists>ref d pre u. fst (call_with_input demo_broker 2000000000 ref [] [] [] demo_request)
      = pre @ [Evaluated d, Opened d, Invoked d] @ u @ [Closed]"
proof -
  from demo_call_runs obtain ref c where
    i: "Invoked c \<in> set (fst (call_with_input demo_broker 2000000000 ref [] [] [] demo_request))"
    by (auto simp: call_def)
  with invocation_is_bracketed[OF i] show ?thesis by blast
qed

text \<open>
  With an observer, every call leaves exactly one call record, whatever branch it takes,
  and the record says success exactly when the call returned a result.
\<close>

theorem one_record_per_call:
  assumes "bk_observed b"
  shows "\<exists>u. filter is_call_record (fst (call_with_input b now ref args responses state req)) = [Recorded u] \<and>
     (ue_outcome u = ''success'' \<longleftrightarrow> (\<exists>x. snd (call_with_input b now ref args responses state req) = Inr x))"
proof -
  obtain ev r where d: "describe b now ref req = (ev, r)" by force
  note nc = describe_no_call[OF d]
  show ?thesis
  proof (cases r)
    case (Inl e)
    with d nc assms show ?thesis by (simp add: call_with_input_def usage_def)
  next
    case (Inr c)
    obtain ev' r' where "call_selected b c args responses state = (ev', r')" by force
    with d nc Inr call_selected_calls[OF assms this] show ?thesis by (simp add: call_with_input_def)
  qed
qed

lemma one_record_per_call_witness:
  "\<exists>u. filter is_call_record (fst (call_with_input demo_broker 0 ''bogus'' [] [] [] demo_request)) = [Recorded u] \<and>
     ue_outcome u \<noteq> ''success''"
proof -
  have "snd (call_with_input demo_broker 0 ''bogus'' [] [] [] demo_request) = Inl (RefError InvalidReference)"
    by code_simp
  with one_record_per_call[of demo_broker 0 "''bogus''" "[]" "[]" "[]" demo_request]
  show ?thesis by (auto simp: demo_broker_def)
qed

text \<open>
  Discovery never evaluates the policy, connects or calls, returns at most the
  requested number of summaries, and each summary carries a reference issued for the query's own view and
  context and the fields of that capability.
\<close>

theorem discovery_is_offline:
  "(\<forall>e \<in> set (fst (query_page b rs q)). is_recorded e) \<and>
   (\<forall>page. snd (query_page b rs q) = Inr page \<longrightarrow>
      (bq_limit q > 0 \<longrightarrow> int (length (dp_summaries page)) \<le> bq_limit q) \<and>
      (\<forall>s \<in> set (dp_summaries page). summary_valid b q s))"
  using query_page_props[of b rs q "fst (query_page b rs q)" "snd (query_page b rs q)"] by simp

definition demo_query :: broker_query where
  "demo_query = \<lparr>bq_path = [], bq_search = ''s'', bq_server = [], bq_kind = [], bq_availability = [],
     bq_context = ''x'', bq_view = ''v'', bq_limit = 5, bq_offset = 0\<rparr>"

lemma discovery_is_offline_witness:
  "list_all is_recorded (fst (query_page demo_broker (\<lambda>i. (1000000000, ''n'')) demo_query)) \<and>
   (\<exists>page. snd (query_page demo_broker (\<lambda>i. (1000000000, ''n'')) demo_query) = Inr page \<and>
      int (length (dp_summaries page)) \<le> 5 \<and> list_all (summary_valid demo_broker demo_query) (dp_summaries page))"
proof -
  from demo_ready_issues obtain ref c' where i: "issue demo_prims demo_signer c' ''v'' ''x'' 1000000000 ''n'' = Inr ref"
    "with_computed_digest demo_prims demo_ready = Inr c'" by (metis issue_computed)
  then obtain page where p: "snd (query_page demo_broker (\<lambda>i. (1000000000, ''n'')) demo_query) = Inr page"
    by (simp add: query_page_def demo_query_def demo_broker_def)
  have l: "bq_limit demo_query > 0" "bq_limit demo_query = 5" by (simp_all add: demo_query_def)
  note d = discovery_is_offline[of demo_broker "\<lambda>i. (1000000000, ''n'')" demo_query]
  from conjunct2[OF d] p l(1) have v: "int (length (dp_summaries page)) \<le> bq_limit demo_query"
    "list_all (summary_valid demo_broker demo_query) (dp_summaries page)"
    unfolding list_all_iff by blast+
  from conjunct1[OF d] have "list_all is_recorded (fst (query_page demo_broker (\<lambda>i. (1000000000, ''n'')) demo_query))"
    unfolding list_all_iff .
  with p v l(2) show ?thesis by metis
qed

end
