(* ===== verification/Tables.thy ===== *)
theory Tables
  imports Prelude
begin

text \<open>
  A table with an integer primary key and a unique column tuple, as the statements
  \<^verbatim>\<open>INSERT ... ON CONFLICT(key) DO UPDATE\<close> and the lookup of the id by key use it.  The
  state is the last id handed out and the rows in insertion order.
\<close>

definition upsert :: "('r \<Rightarrow> 'k) \<Rightarrow> (nat \<Rightarrow> 'r) \<Rightarrow> ('r \<Rightarrow> 'r) \<Rightarrow> 'k \<Rightarrow> nat \<times> 'r list \<Rightarrow> nat \<times> 'r list" where
  "upsert key mk upd k t =
     (if k \<in> key ` set (snd t) then (fst t, map (\<lambda>r. if key r = k then upd r else r) (snd t))
      else (Suc (fst t), snd t @ [mk (Suc (fst t))]))"

definition id_of :: "('r \<Rightarrow> nat) \<Rightarrow> ('r \<Rightarrow> 'k) \<Rightarrow> 'k \<Rightarrow> 'r list \<Rightarrow> nat option" where
  "id_of pk key k rows = map_option pk (List.find (\<lambda>r. key r = k) rows)"

definition by_id :: "('r \<Rightarrow> nat) \<Rightarrow> nat \<Rightarrow> 'r list \<Rightarrow> 'r option" where
  "by_id pk i rows = List.find (\<lambda>r. pk r = i) rows"

definition table_ok :: "('r \<Rightarrow> nat) \<Rightarrow> ('r \<Rightarrow> 'k) \<Rightarrow> nat \<times> 'r list \<Rightarrow> bool" where
  "table_ok pk key t \<longleftrightarrow> distinct (map pk (snd t)) \<and> distinct (map key (snd t))
     \<and> (\<forall>r \<in> set (snd t). pk r \<le> fst t)"

lemma table_ok_empty [simp]: "table_ok pk key (n, [])"
  by (simp add: table_ok_def)

lemma find_first: "distinct (map f xs) \<Longrightarrow> x \<in> set xs \<Longrightarrow> List.find (\<lambda>y. f y = f x) xs = Some x"
  by (induction xs) (auto simp: image_iff)

lemma by_id_row: "table_ok pk key t \<Longrightarrow> r \<in> set (snd t) \<Longrightarrow> by_id pk (pk r) (snd t) = Some r"
  by (simp add: by_id_def table_ok_def find_first)

lemma by_id_SomeD: "by_id pk i rows = Some r \<Longrightarrow> r \<in> set rows \<and> pk r = i"
  unfolding by_id_def using find_Some_iff' by fast

lemma id_of_row: "table_ok pk key t \<Longrightarrow> r \<in> set (snd t) \<Longrightarrow> id_of pk key (key r) (snd t) = Some (pk r)"
  by (simp add: id_of_def table_ok_def find_first)

text \<open>The contract of an upsert: which row the key leads to afterwards, and what stays.\<close>

lemma upsert_table_ok:
  assumes "table_ok pk key t" "\<And>i. pk (mk i) = i" "\<And>i. key (mk i) = k"
    and "\<And>r. pk (upd r) = pk r" "\<And>r. key (upd r) = key r"
  shows "table_ok pk key (upsert key mk upd k t)"
proof (cases "k \<in> key ` set (snd t)")
  case True
  have "map pk (snd (upsert key mk upd k t)) = map pk (snd t)"
    "map key (snd (upsert key mk upd k t)) = map key (snd t)"
    using True assms(4,5) by (simp_all add: upsert_def)
  moreover have "\<forall>r \<in> set (snd (upsert key mk upd k t)). pk r \<le> fst (upsert key mk upd k t)"
    using True assms(1,4) by (auto simp: upsert_def table_ok_def)
  ultimately show ?thesis using assms(1) by (simp add: table_ok_def)
next
  case False
  have "Suc (fst t) \<notin> pk ` set (snd t)" using assms(1) by (fastforce simp: table_ok_def)
  with False assms show ?thesis by (auto simp: upsert_def table_ok_def)
qed

lemma upsert_row:
  assumes "\<And>i. key (mk i) = k" "\<And>r. key (upd r) = key r"
  shows "\<exists>r \<in> set (snd (upsert key mk upd k t)). key r = k
    \<and> ((\<exists>i. r = mk i) \<or> (\<exists>old \<in> set (snd t). key old = k \<and> r = upd old))"
proof (cases "k \<in> key ` set (snd t)")
  case True
  then obtain old where o: "old \<in> set (snd t)" "key old = k" by auto
  with True have "upd old \<in> set (snd (upsert key mk upd k t))" by (force simp: upsert_def)
  with o assms(2) show ?thesis by metis
next
  case False
  with assms(1) show ?thesis by (auto simp: upsert_def)
qed

lemma upsert_rowI:
  assumes "\<And>i. key (mk i) = k" "\<And>r. key (upd r) = key r"
    and "\<And>i. P (mk i)" "\<And>old. old \<in> set (snd t) \<Longrightarrow> key old = k \<Longrightarrow> P (upd old)"
  shows "\<exists>r \<in> set (snd (upsert key mk upd k t)). P r"
  using upsert_row[of key mk k upd t, OF assms(1,2)] assms(3,4) by blast

lemma upsert_others:
  assumes "\<And>i. key (mk i) = k" "\<And>r. key (upd r) = key r"
  shows "{r \<in> set (snd (upsert key mk upd k t)). key r \<noteq> k} = {r \<in> set (snd t). key r \<noteq> k}"
  using assms by (auto simp: upsert_def image_iff)

lemma upsert_ids:
  assumes "\<And>r. pk (upd r) = pk r"
  shows "pk ` set (snd t) \<subseteq> pk ` set (snd (upsert key mk upd k t))"
proof (cases "k \<in> key ` set (snd t)")
  case True
  have "map pk (snd (upsert key mk upd k t)) = map pk (snd t)"
    using True assms by (simp add: upsert_def)
  then show ?thesis by (metis list.set_map order_refl)
next
  case False
  then show ?thesis by (auto simp: upsert_def)
qed

end
