(* ===== verification/GoRel.thy ===== *)
theory GoRel
  imports GoPath
begin

text \<open>
  \<^verbatim>\<open>filepath.Rel\<close> between absolute Unix paths: drop the common components, one
  \<^verbatim>\<open>..\<close> for each component left of the base.
\<close>

definition path_comps :: "string \<Rightarrow> string list" where
  "path_comps p = filter (\<lambda>c. c \<noteq> []) (split_on slash (path_clean p))"

fun strip_common :: "string list \<Rightarrow> string list \<Rightarrow> string list \<times> string list" where
  "strip_common (a # as) (b # bs) = (if a = b then strip_common as bs else (a # as, b # bs))"
| "strip_common as bs = (as, bs)"

definition path_rel :: "string \<Rightarrow> string \<Rightarrow> string option" where
  "path_rel base targ =
     (if \<not> is_abs base \<or> \<not> is_abs targ then None
      else if path_clean base = path_clean targ then Some ''.''
      else (case strip_common (path_comps base) (path_comps targ) of (bs, ts) \<Rightarrow>
              Some (str_join [slash] (map (\<lambda>_. ''..'') bs @ ts))))"

lemma strip_common_spec:
  "strip_common as bs = (x, y) \<Longrightarrow> \<exists>c. as = c @ x \<and> bs = c @ y"
proof (induction as bs arbitrary: x y rule: strip_common.induct)
  case (1 a as b bs)
  show ?case
  proof (cases "a = b")
    case True
    with 1 obtain c where "as = c @ x" "bs = c @ y" by auto
    with True have "a # as = (a # c) @ x \<and> b # bs = (a # c) @ y" by simp
    then show ?thesis by blast
  next
    case False
    with 1 show ?thesis by auto
  qed
qed auto

lemma path_comps_rooted:
  assumes "is_abs p"
  shows "path_clean p = slash # str_join [slash] (path_comps p)" "\<forall>c \<in> set (path_comps p). proper_comp c"
proof -
  let ?st = "clean_stack True [] (split_on slash p)"
  have ok: "stack_ok True ?st" by (rule clean_comps_ok)
  have pc: "path_clean p = slash # str_join [slash] (rev ?st)" by (rule path_clean_rooted[OF assms])
  have c: "path_comps p = rev ?st"
  proof (cases "?st = []")
    case True
    then show ?thesis by (simp add: path_comps_def pc)
  next
    case False
    have "split_on slash (slash # str_join [slash] (rev ?st)) = [] # rev ?st"
      using split_join_stack[OF ok False] by simp
    moreover have "filter (\<lambda>c. c \<noteq> []) (rev ?st) = rev ?st"
      using ok by (auto simp: stack_ok_def proper_comp_def filter_id_conv)
    ultimately show ?thesis by (simp add: path_comps_def pc)
  qed
  show "path_clean p = slash # str_join [slash] (path_comps p)" by (simp add: pc c)
  show "\<forall>c \<in> set (path_comps p). proper_comp c" using ok by (simp add: c stack_ok_def)
qed

text \<open>A relative path that does not start by leaving the base means the target is below it.\<close>

lemma path_rel_below:
  assumes "path_rel base targ = Some rel" "stays_inside rel"
  shows "below (path_clean base) (path_clean targ)"
proof -
  from assms(1) have a: "is_abs base" "is_abs targ" by (auto simp: path_rel_def split: if_splits)
  show ?thesis
  proof (cases "path_clean base = path_clean targ")
    case True
    then show ?thesis by (simp add: below_def)
  next
    case False
    obtain bs ts where s: "strip_common (path_comps base) (path_comps targ) = (bs, ts)" by force
    from assms(1) a False s have rel: "rel = str_join [slash] (map (\<lambda>_. ''..'') bs @ ts)"
      by (simp add: path_rel_def)
    have bs: "bs = []"
    proof (rule ccontr)
      assume "bs \<noteq> []"
      then obtain x xs where "bs = x # xs" by (cases bs) auto
      then have "rel = ''..'' \<or> has_prefix rel ''../''"
        by (cases "map (\<lambda>_. ''..'') xs @ ts = []") (auto simp: rel str_join_Cons has_prefix_def)
      with assms(2) show False by (auto simp: stays_inside_def)
    qed
    obtain c where c: "path_comps base = c @ bs" "path_comps targ = c @ ts"
      using strip_common_spec[OF s] by blast
    with bs have t: "path_comps targ = path_comps base @ ts" by simp
    have ts: "ts \<noteq> []" using False t path_comps_rooted(1)[OF a(1)] path_comps_rooted(1)[OF a(2)] by auto
    show ?thesis
    proof (cases "path_comps base = []")
      case True
      then show ?thesis
        using path_comps_rooted(1)[OF a(1)] path_comps_rooted(1)[OF a(2)]
        by (simp add: below_def has_prefix_def)
    next
      case ne: False
      have eq: "path_clean targ = path_clean base @ [slash] @ str_join [slash] ts"
        using path_comps_rooted(1)[OF a(1)] path_comps_rooted(1)[OF a(2)] t
          str_join_append[OF ne ts, of "[slash]"] by simp
      have "path_clean base \<noteq> [slash]"
      proof -
        have "\<forall>c \<in> set (path_comps base). c \<noteq> []"
          using path_comps_rooted(2)[OF a(1)] by (simp add: proper_comp_def)
        then have "str_join [slash] (path_comps base) \<noteq> []" by (rule str_join_ne[OF ne])
        then show ?thesis using path_comps_rooted(1)[OF a(1)] by simp
      qed
      moreover have "has_prefix (path_clean targ) (path_clean base @ [slash])"
        unfolding eq append_assoc[symmetric] by (rule has_prefix_append)
      ultimately show ?thesis by (simp add: below_def)
    qed
  qed
qed

end
