(* ===== verification/CapabilityIndex.thy ===== *)
theory CapabilityIndex
  imports Registry Tables Config GoRel
begin

text \<open>
  internal/registry/capability.go: loading static capability catalogs, overlaying pack
  suggestions, the insertion of a capability (one transaction: an error leaves the tables as they
  were), the filtered, ranked and paged query, and the resolution of one exact capability.

  Parameters: the digest and JSON primitives (\<^typ>\<open>prims\<close>), \<open>raw_of\<close> for
  \<^verbatim>\<open>json.Marshal\<close> of a capability, the decoder of a catalog file, the file system, the
  full-text engine and the glob compiler.  \<open>now\<close> is the clock in nanoseconds.
\<close>

type_synonym raw_encoder = "capability \<Rightarrow> string option"

datatype index_error =
    IndexCapability cap_error | SourceRequired | RawEncoding | TransportMismatch | DuplicateRow
  | NegativeBounds | RootUnresolved | CatalogUnresolved | CatalogEscapes | CatalogOpen
  | CatalogTooLarge | CatalogParse | CatalogTrailing

section \<open>Pack suggestions\<close>

record capability_suggestion =
  cs_server :: string
  cs_version :: string
  cs_relationship :: string
  cs_capabilities :: "string list"
  cs_scopes :: "string list"
  cs_source_type :: string
  cs_source_ref :: string

definition append_unique_binding :: "capability_binding list \<Rightarrow> capability_binding \<Rightarrow> capability_binding list" where
  "append_unique_binding bs cand = (if cand \<in> set bs then bs else bs @ [cand])"

definition suggestion_binding :: "capability_suggestion \<Rightarrow> string \<Rightarrow> capability_binding" where
  "suggestion_binding g scope = \<lparr>cb_scope = scope, cb_relationship = cs_relationship g, cb_profile = []\<rparr>"

definition suggestion_hits :: "capability_suggestion \<Rightarrow> capability_record \<Rightarrow> bool" where
  "suggestion_hits g r \<longleftrightarrow>
     server_name (cr_capability r) = cs_server g \<and> server_ver (cr_capability r) = cs_version g \<and>
     (cs_capabilities g = [] \<or> cap_name (cr_capability r) \<in> set (cs_capabilities g))"

definition overlay :: "capability_suggestion \<Rightarrow> capability_record \<Rightarrow> capability_record" where
  "overlay g r =
     (if suggestion_hits g r
      then r\<lparr>cr_capability := (cr_capability r)\<lparr>availability := av_suggested\<rparr>,
             cr_bindings := foldl append_unique_binding (cr_bindings r) (map (suggestion_binding g) (cs_scopes g))\<rparr>
      else r)"

definition placeholder_capability :: "capability_suggestion \<Rightarrow> string \<Rightarrow> capability" where
  "placeholder_capability g name =
     \<lparr>cap_server = \<lparr>sv_identity = \<lparr>canonical_name = cs_server g, publisher = []\<rparr>, sv_version = cs_version g,
        package_digest = [], sv_status = []\<rparr>,
      cap_kind = kind_tool, cap_name = name, cap_title = [],
      cap_description = ''Suggested by '' @ cs_source_ref g @ ''; full metadata is not yet indexed.'',
      input_schema = [], output_schema = [], schema_digest = [], availability = av_suggested,
      observed_at = None, expires_at = None, routing_scope = [], auth_profile = []\<rparr>"

definition placeholder :: "prims \<Rightarrow> raw_encoder \<Rightarrow> capability_suggestion \<Rightarrow> string
  \<Rightarrow> (index_error, capability_record) result" where
  "placeholder pr raw_of g name =
     (case with_computed_digest pr (placeholder_capability g name) of
        Inl e \<Rightarrow> Inl (IndexCapability e)
      | Inr c \<Rightarrow>
          (case raw_of c of
             None \<Rightarrow> Inl RawEncoding
           | Some raw \<Rightarrow>
               Inr \<lparr>cr_id = 0, cr_capability = c, cr_visibility = ''public'', cr_partition = ''public'',
                  cr_cache_scope = ''public'', cr_source_type = cs_source_type g,
                  cr_source_ref = cs_source_ref g, cr_risk = [],
                  cr_bindings = map (suggestion_binding g) (cs_scopes g), cr_raw = raw, cr_transports = []\<rparr>))"

definition apply_suggestion :: "prims \<Rightarrow> raw_encoder \<Rightarrow> capability_record list \<Rightarrow> capability_suggestion
  \<Rightarrow> (index_error, capability_record list) result" where
  "apply_suggestion pr raw_of records g =
     (let matched = map (\<lambda>r. cap_name (cr_capability r)) (filter (suggestion_hits g) records);
          missing = filter (\<lambda>n. n \<notin> set matched) (cs_capabilities g)
      in (case map_res (placeholder pr raw_of g) missing of
            Inl e \<Rightarrow> Inl e
          | Inr new \<Rightarrow> Inr (map (overlay g) records @ new)))"

fun apply_suggestions :: "prims \<Rightarrow> raw_encoder \<Rightarrow> capability_record list \<Rightarrow> capability_suggestion list
  \<Rightarrow> (index_error, capability_record list) result" where
  "apply_suggestions pr raw_of records [] = Inr records"
| "apply_suggestions pr raw_of records (g # gs) =
     (case apply_suggestion pr raw_of records g of
        Inl e \<Rightarrow> Inl e
      | Inr records' \<Rightarrow> apply_suggestions pr raw_of records' gs)"

section \<open>Static catalogs\<close>

record static_catalog =
  sc_capabilities :: "capability list"
  sc_transports :: "transport_record list"

definition max_static_bytes :: nat where "max_static_bytes = 16 * 1024 * 1024"

text \<open>\<open>evalsym\<close> is \<^verbatim>\<open>filepath.EvalSymlinks\<close>; \<open>root\<close> is absolute.\<close>

definition resolve_catalog_path :: "(string \<Rightarrow> string option) \<Rightarrow> string \<Rightarrow> string \<Rightarrow> (index_error, string) result" where
  "resolve_catalog_path evalsym root configured =
     (case evalsym root of
        None \<Rightarrow> Inl RootUnresolved
      | Some root_abs \<Rightarrow>
          (case evalsym (path_join [root_abs, path_clean configured]) of
             None \<Rightarrow> Inl CatalogUnresolved
           | Some resolved \<Rightarrow>
               (case path_rel root_abs resolved of
                  None \<Rightarrow> Inl CatalogEscapes
                | Some rel \<Rightarrow> (if escapes rel then Inl CatalogEscapes else Inr resolved))))"

definition static_record :: "prims \<Rightarrow> raw_encoder \<Rightarrow> string \<Rightarrow> transport_record list \<Rightarrow> mcp_binding list
  \<Rightarrow> capability \<Rightarrow> (index_error, capability_record) result" where
  "static_record pr raw_of ref transports bindings c =
     (case with_computed_digest pr c of
        Inl e \<Rightarrow> Inl (IndexCapability e)
      | Inr c1 \<Rightarrow>
          (let c2 = c1\<lparr>availability := av_discovered\<rparr>
           in (case raw_of c2 of
                 None \<Rightarrow> Inl RawEncoding
               | Some raw \<Rightarrow>
                   (let bs = map (\<lambda>b. \<lparr>cb_scope = bd_scope b, cb_relationship = ''available'', cb_profile = bd_profile b\<rparr>)
                          (filter (\<lambda>b. bd_server b = server_name c2 \<and> bd_version b = server_ver c2) bindings)
                    in Inr \<lparr>cr_id = 0,
                       cr_capability = (if bs = [] then c2 else c2\<lparr>availability := av_setup_required\<rparr>),
                       cr_visibility = ''public'', cr_partition = ''public'', cr_cache_scope = ''public'',
                       cr_source_type = ''static'', cr_source_ref = ref, cr_risk = [],
                       cr_bindings = (if bs = [] then [\<lparr>cb_scope = ''**'', cb_relationship = ''discovered'', cb_profile = []\<rparr>] else bs),
                       cr_raw = raw,
                       cr_transports = filter (\<lambda>x. tp_server x = server_name c2 \<and> tp_version x = server_ver c2) transports\<rparr>))))"

text \<open>\<open>next\<close> reads one JSON value of the stream, rejecting unknown fields.\<close>

definition load_static_catalog ::
  "prims \<Rightarrow> raw_encoder \<Rightarrow> (string \<Rightarrow> static_catalog decoded) \<Rightarrow> (string \<Rightarrow> string option) \<Rightarrow> (string \<Rightarrow> string option)
   \<Rightarrow> string \<Rightarrow> mcp_catalog \<Rightarrow> mcp_binding list \<Rightarrow> (index_error, capability_record list) result" where
  "load_static_catalog pr raw_of next evalsym readfile root source bindings =
     (case resolve_catalog_path evalsym root (ct_path source) of
        Inl e \<Rightarrow> Inl e
      | Inr path \<Rightarrow>
          (case readfile path of
             None \<Rightarrow> Inl CatalogOpen
           | Some data \<Rightarrow>
               (if length data > max_static_bytes then Inl CatalogTooLarge
                else (case next data of
                        EndOfStream \<Rightarrow> Inl CatalogParse
                      | Malformed \<Rightarrow> Inl CatalogParse
                      | Document doc rest \<Rightarrow>
                          (case next rest of
                             Document _ _ \<Rightarrow> Inl CatalogTrailing
                           | Malformed \<Rightarrow> Inl CatalogParse
                           | EndOfStream \<Rightarrow>
                               map_res (static_record pr raw_of (ct_path source) (sc_transports doc) bindings)
                                 (sc_capabilities doc))))))"

section \<open>Insertion\<close>

definition default_string :: "string \<Rightarrow> string \<Rightarrow> string" where
  "default_string v fallback = (if v = [] then fallback else v)"

definition schema_search_text :: "capability \<Rightarrow> string" where
  "schema_search_text c = input_schema c @ [sp] @ output_schema c"

definition version_key :: "mcp_version_row \<Rightarrow> nat \<times> string" where
  "version_key r = (mv_server r, mv_version r)"

definition view_key :: "mcp_view_row \<Rightarrow> nat \<times> string" where
  "view_key r = (vw_version r, vw_partition r)"

definition cap_key :: "mcp_cap_row \<Rightarrow> nat \<times> string \<times> string" where
  "cap_key r = (mc_view r, mc_kind r, mc_name r)"

definition transport_key :: "mcp_transport_row \<Rightarrow> nat \<times> string \<times> string \<times> string" where
  "transport_key r = (mx_version_id r, mx_kind r, mx_package r, mx_endpoint r)"

definition binding_row_key :: "mcp_binding_row \<Rightarrow> nat \<times> string \<times> string" where
  "binding_row_key r = (mb_cap r, mb_scope r, mb_profile r)"

definition put_server :: "capability \<Rightarrow> string \<Rightarrow> string \<Rightarrow> nat \<times> mcp_server_row list \<Rightarrow> nat \<times> mcp_server_row list" where
  "put_server c stype sref =
     upsert ms_name
       (\<lambda>i. \<lparr>ms_id = i, ms_name = server_name c, ms_publisher = publisher (sv_identity (cap_server c)),
             ms_source_type = stype, ms_source_ref = sref\<rparr>)
       (\<lambda>r. r\<lparr>ms_publisher := publisher (sv_identity (cap_server c)), ms_source_type := stype, ms_source_ref := sref\<rparr>)
       (server_name c)"

definition put_version :: "capability \<Rightarrow> nat \<Rightarrow> nat \<times> mcp_version_row list \<Rightarrow> nat \<times> mcp_version_row list" where
  "put_version c sid =
     upsert version_key
       (\<lambda>i. \<lparr>mv_id = i, mv_server = sid, mv_version = server_ver c, mv_digest = package_digest (cap_server c),
             mv_status = default_string (sv_status (cap_server c)) ''active''\<rparr>)
       (\<lambda>r. r\<lparr>mv_digest := package_digest (cap_server c),
              mv_status := default_string (sv_status (cap_server c)) ''active''\<rparr>)
       (sid, server_ver c)"

definition put_transport :: "nat \<Rightarrow> transport_record \<Rightarrow> mcp_transport_row list \<Rightarrow> mcp_transport_row list" where
  "put_transport vid x rows =
     (let new = \<lparr>mx_version_id = vid, mx_kind = tp_kind x, mx_registry = tp_registry x, mx_package = tp_package x,
         mx_package_version = tp_package_version x, mx_digest = tp_digest x, mx_endpoint = tp_endpoint x,
         mx_command = tp_command x, mx_origin = tp_origin x\<rparr>
      in if transport_key new \<in> transport_key ` set rows
         then map (\<lambda>r. if transport_key r = transport_key new
                       then r\<lparr>mx_registry := tp_registry x, mx_package_version := tp_package_version x,
                              mx_digest := tp_digest x, mx_command := tp_command x, mx_origin := tp_origin x\<rparr>
                       else r) rows
         else rows @ [new])"

fun put_transports :: "capability \<Rightarrow> nat \<Rightarrow> transport_record list \<Rightarrow> mcp_transport_row list
  \<Rightarrow> (index_error, mcp_transport_row list) result" where
  "put_transports c vid [] rows = Inr rows"
| "put_transports c vid (x # xs) rows =
     (if tp_server x \<noteq> server_name c \<or> tp_version x \<noteq> server_ver c \<or> tp_kind x = [] then Inl TransportMismatch
      else put_transports c vid xs (put_transport vid x rows))"

text \<open>
  \<^verbatim>\<open>formatOptionalTime\<close> and then \<^verbatim>\<open>parseOptionalTime\<close>: RFC 3339 writes a year in
  four digits, so that a time outside the years 0 to 9999 is stored as a text that reads back as the zero
  time, and that SQLite's \<^verbatim>\<open>datetime\<close> does not read either.
\<close>

definition stored_time :: "gotime \<Rightarrow> gotime" where
  "stored_time t =
     (case t of None \<Rightarrow> None
      | Some n \<Rightarrow> (if - 62167219200000000000 \<le> n \<and> n < 253402300800000000000 then Some n else None))"

definition put_view :: "capability_record \<Rightarrow> nat \<Rightarrow> nat \<times> mcp_view_row list \<Rightarrow> nat \<times> mcp_view_row list" where
  "put_view r vid =
     upsert view_key
       (\<lambda>i. \<lparr>vw_id = i, vw_version = vid, vw_visibility = cr_visibility r, vw_partition = cr_partition r,
             vw_cache_scope = cr_cache_scope r, vw_observed = stored_time (observed_at (cr_capability r)),
             vw_expires = stored_time (expires_at (cr_capability r))\<rparr>)
       (\<lambda>w. w\<lparr>vw_visibility := cr_visibility r, vw_cache_scope := cr_cache_scope r,
              vw_observed := stored_time (observed_at (cr_capability r)),
              vw_expires := stored_time (expires_at (cr_capability r))\<rparr>)
       (vid, cr_partition r)"

definition put_cap :: "capability_record \<Rightarrow> nat \<Rightarrow> nat \<Rightarrow> nat \<times> mcp_cap_row list \<Rightarrow> nat \<times> mcp_cap_row list" where
  "put_cap r vid wid =
     (let c = cr_capability r
      in upsert cap_key
       (\<lambda>i. \<lparr>mc_id = i, mc_version = vid, mc_view = wid, mc_kind = cap_kind c, mc_name = cap_name c,
             mc_title = cap_title c, mc_description = cap_description c, mc_input = input_schema c,
             mc_output = output_schema c, mc_digest = schema_digest c, mc_risk = cr_risk r,
             mc_availability = availability c, mc_raw = cr_raw r\<rparr>)
       (\<lambda>x. x\<lparr>mc_title := cap_title c, mc_description := cap_description c, mc_input := input_schema c,
              mc_output := output_schema c, mc_digest := schema_digest c, mc_risk := cr_risk r,
              mc_availability := availability c, mc_raw := cr_raw r\<rparr>)
       (wid, cap_kind c, cap_name c))"

definition binding_row :: "nat \<Rightarrow> capability_binding \<Rightarrow> mcp_binding_row" where
  "binding_row i b =
     (case classify_scope (cb_scope b) of (pt, pp) \<Rightarrow>
        \<lparr>mb_cap = i, mb_scope = cb_scope b, mb_prefix = pp, mb_type = pt,
         mb_relationship = cb_relationship b, mb_profile = cb_profile b\<rparr>)"

fun put_bindings :: "nat \<Rightarrow> capability_binding list \<Rightarrow> mcp_binding_row list
  \<Rightarrow> (index_error, mcp_binding_row list) result" where
  "put_bindings i [] rows = Inr rows"
| "put_bindings i (b # bs) rows =
     (if binding_row_key (binding_row i b) \<in> binding_row_key ` set rows then Inl DuplicateRow
      else put_bindings i bs (rows @ [binding_row i b]))"

definition search_document :: "nat \<Rightarrow> capability_record \<Rightarrow> mcp_search_row" where
  "search_document i r =
     (let c = cr_capability r
      in \<lparr>mf_cap = i, mf_server = server_name c, mf_name = cap_name c, mf_title = cap_title c,
          mf_description = cap_description c, mf_schema = schema_search_text c,
          mf_binding = str_join [sp] (concat (map (\<lambda>b. [cb_relationship b, cb_scope b, cb_profile b]) (cr_bindings r)))\<rparr>)"

text \<open>The defaults of a record before it is written.\<close>

definition complete_record :: "prims \<Rightarrow> raw_encoder \<Rightarrow> capability_record \<Rightarrow> (index_error, capability_record) result" where
  "complete_record pr raw_of r =
     (case with_computed_digest pr (cr_capability r) of
        Inl e \<Rightarrow> Inl (IndexCapability e)
      | Inr c \<Rightarrow>
          (let vis = default_string (cr_visibility r) ''public'';
               r1 = r\<lparr>cr_capability := c, cr_visibility := vis,
                      cr_partition := default_string (cr_partition r) ''public'',
                      cr_cache_scope := default_string (cr_cache_scope r) vis\<rparr>
           in if cr_source_type r1 = [] \<or> cr_source_ref r1 = [] then Inl SourceRequired
              else if cr_raw r1 \<noteq> [] then Inr r1
              else (case raw_of c of None \<Rightarrow> Inl RawEncoding | Some raw \<Rightarrow> Inr (r1\<lparr>cr_raw := raw\<rparr>))))"

text \<open>
  The transaction.  The look-ups of the ids just written cannot fail; their \<^verbatim>\<open>None\<close>
  branches are the Go error returns.
\<close>

definition write_capability :: "capability_record \<Rightarrow> mcp_tables \<Rightarrow> (index_error, mcp_tables \<times> nat) result" where
  "write_capability r t =
     (let c = cr_capability r;
          servers = put_server c (cr_source_type r) (cr_source_ref r) (mt_servers t)
      in case id_of ms_id ms_name (server_name c) (snd servers) of
           None \<Rightarrow> Inl SourceRequired
         | Some sid \<Rightarrow>
      (let versions = put_version c sid (mt_versions t)
       in case id_of mv_id version_key (sid, server_ver c) (snd versions) of
            None \<Rightarrow> Inl SourceRequired
          | Some vid \<Rightarrow>
      (case put_transports c vid (cr_transports r) (mt_transports t) of
         Inl e \<Rightarrow> Inl e
       | Inr transports \<Rightarrow>
      (let views = put_view r vid (mt_views t)
       in case id_of vw_id view_key (vid, cr_partition r) (snd views) of
            None \<Rightarrow> Inl SourceRequired
          | Some wid \<Rightarrow>
      (let caps = put_cap r vid wid (mt_caps t)
       in case id_of mc_id cap_key (wid, cap_kind c, cap_name c) (snd caps) of
            None \<Rightarrow> Inl SourceRequired
          | Some cid \<Rightarrow>
      (case put_bindings cid (cr_bindings r) (filter (\<lambda>b. mb_cap b \<noteq> cid) (mt_bindings t)) of
         Inl e \<Rightarrow> Inl e
       | Inr bindings \<Rightarrow>
           Inr (\<lparr>mt_servers = servers, mt_versions = versions, mt_transports = transports, mt_views = views,
                 mt_caps = caps, mt_bindings = bindings,
                 mt_search = filter (\<lambda>d. mf_cap d \<noteq> cid) (mt_search t) @ [search_document cid r]\<rparr>, cid)))))))"

definition insert_capability :: "prims \<Rightarrow> raw_encoder \<Rightarrow> capability_record \<Rightarrow> mcp_tables
  \<Rightarrow> (index_error, mcp_tables \<times> nat) result" where
  "insert_capability pr raw_of r t =
     (case complete_record pr raw_of r of Inl e \<Rightarrow> Inl e | Inr r' \<Rightarrow> write_capability r' t)"

section \<open>Reading\<close>

text \<open>One row of the join of capabilities, versions, servers and views.\<close>

type_synonym joined = "mcp_cap_row \<times> mcp_version_row \<times> mcp_server_row \<times> mcp_view_row"

definition join_row :: "mcp_tables \<Rightarrow> mcp_cap_row \<Rightarrow> joined option" where
  "join_row t c =
     (case by_id mv_id (mc_version c) (snd (mt_versions t)) of
        None \<Rightarrow> None
      | Some v \<Rightarrow>
          (case by_id ms_id (mv_server v) (snd (mt_servers t)) of
             None \<Rightarrow> None
           | Some s \<Rightarrow>
               (case by_id vw_id (mc_view c) (snd (mt_views t)) of
                  None \<Rightarrow> None
                | Some w \<Rightarrow> Some (c, v, s, w))))"

definition joined_rows :: "mcp_tables \<Rightarrow> joined list" where
  "joined_rows t = List.map_filter (join_row t) (snd (mt_caps t))"

definition canonical_order :: "joined list \<Rightarrow> joined list" where
  "canonical_order rows =
     sort_key (\<lambda>(c, v, s, w). ms_name s) (sort_key (\<lambda>(c, v, s, w). mv_version v)
       (sort_key (\<lambda>(c, v, s, w). mc_kind c) (sort_key (\<lambda>(c, v, s, w). mc_name c) rows)))"

definition capability_bindings :: "mcp_tables \<Rightarrow> nat \<Rightarrow> capability_binding list" where
  "capability_bindings t i =
     map (\<lambda>b. \<lparr>cb_scope = mb_scope b, cb_relationship = mb_relationship b, cb_profile = mb_profile b\<rparr>)
       (sort_key mb_scope (sort_key mb_relationship (sort_key mb_profile
         (filter (\<lambda>b. mb_cap b = i) (mt_bindings t)))))"

definition hydrate :: "int \<Rightarrow> mcp_tables \<Rightarrow> joined \<Rightarrow> capability_record" where
  "hydrate now t j =
     (case j of (c, v, s, w) \<Rightarrow>
        \<lparr>cr_id = mc_id c,
         cr_capability =
           \<lparr>cap_server = \<lparr>sv_identity = \<lparr>canonical_name = ms_name s, publisher = ms_publisher s\<rparr>,
              sv_version = mv_version v, package_digest = mv_digest v, sv_status = mv_status v\<rparr>,
            cap_kind = mc_kind c, cap_name = mc_name c, cap_title = mc_title c,
            cap_description = mc_description c, input_schema = mc_input c, output_schema = mc_output c,
            schema_digest = mc_digest c,
            availability = (case vw_expires w of
                 None \<Rightarrow> mc_availability c
               | Some e \<Rightarrow> (if now > e then av_stale else mc_availability c)),
            observed_at = vw_observed w, expires_at = vw_expires w, routing_scope = [], auth_profile = []\<rparr>,
         cr_visibility = vw_visibility w, cr_partition = vw_partition w, cr_cache_scope = vw_cache_scope w,
         cr_source_type = ms_source_type s, cr_source_ref = ms_source_ref s, cr_risk = mc_risk c,
         cr_bindings = capability_bindings t (mc_id c), cr_raw = mc_raw c, cr_transports = []\<rparr>)"

definition capability_count :: "mcp_tables \<Rightarrow> nat" where
  "capability_count t = length (snd (mt_caps t))"

definition all_capabilities :: "int \<Rightarrow> mcp_tables \<Rightarrow> capability_record list" where
  "all_capabilities now t = map (hydrate now t) (canonical_order (joined_rows t))"

definition names_capability :: "string \<Rightarrow> string \<Rightarrow> capability_kind \<Rightarrow> string \<Rightarrow> joined \<Rightarrow> bool" where
  "names_capability server version kind name j =
     (case j of (c, v, s, w) \<Rightarrow> ms_name s = server \<and> mv_version v = version \<and> mc_kind c = kind \<and> mc_name c = name)"

definition resolve_capability :: "int \<Rightarrow> mcp_tables \<Rightarrow> string \<Rightarrow> string \<Rightarrow> capability_kind \<Rightarrow> string
  \<Rightarrow> capability_record option" where
  "resolve_capability now t server version kind name =
     (case sort_key (\<lambda>(c, v, s, w). vw_visibility w) (sort_key (\<lambda>(c, v, s, w). vw_partition w)
        (filter (names_capability server version kind name) (joined_rows t))) of
        [] \<Rightarrow> None
      | j # _ \<Rightarrow> Some (hydrate now t j))"

definition visible_to :: "string \<Rightarrow> joined \<Rightarrow> bool" where
  "visible_to view j = (case j of (c, v, s, w) \<Rightarrow> vw_partition w = ''public'' \<or> vw_partition w = view)"

definition resolve_capability_view :: "int \<Rightarrow> mcp_tables \<Rightarrow> string \<Rightarrow> string \<Rightarrow> capability_kind \<Rightarrow> string \<Rightarrow> string
  \<Rightarrow> capability_record option" where
  "resolve_capability_view now t server version kind name view =
     (case sort_key (\<lambda>(c, v, s, w). if vw_partition w = view then 0 else 1 :: nat)
        (filter (\<lambda>j. names_capability server version kind name j \<and> visible_to view j) (joined_rows t)) of
        [] \<Rightarrow> None
      | j # _ \<Rightarrow> Some (hydrate now t j))"

end
