(* ===== verification/CapabilityStore.thy ===== *)
theory CapabilityStore
  imports CapabilityIndex
begin

text \<open>
  The invariant of the capability tables, that an insertion keeps it, and that an inserted
  capability is the one its exact resolution returns.
\<close>

section \<open>Invariant\<close>

definition mcp_ok :: "mcp_tables \<Rightarrow> bool" where
  "mcp_ok t \<longleftrightarrow>
     table_ok ms_id ms_name (mt_servers t) \<and> table_ok mv_id version_key (mt_versions t) \<and>
     table_ok vw_id view_key (mt_views t) \<and> table_ok mc_id cap_key (mt_caps t) \<and>
     (\<forall>v \<in> set (snd (mt_versions t)). mv_server v \<in> ms_id ` set (snd (mt_servers t))) \<and>
     (\<forall>w \<in> set (snd (mt_views t)). vw_version w \<in> mv_id ` set (snd (mt_versions t))) \<and>
     (\<forall>c \<in> set (snd (mt_caps t)). \<exists>w \<in> set (snd (mt_views t)). vw_id w = mc_view c \<and> vw_version w = mc_version c)"

lemma mcp_ok_empty: "mcp_ok mcp_empty"
  by (simp add: mcp_ok_def mcp_empty_def)

lemma mcp_ok_clear: "mcp_ok (mcp_clear t)"
  by (simp add: mcp_ok_def mcp_clear_def)

text \<open>Under the invariant every capability joins, and a name within a partition is unique.\<close>

lemma join_row_total:
  assumes ok: "mcp_ok t" and c: "c \<in> set (snd (mt_caps t))"
  shows "\<exists>v s w. join_row t c = Some (c, v, s, w)"
proof -
  obtain w where w: "w \<in> set (snd (mt_views t))" "vw_id w = mc_view c" "vw_version w = mc_version c"
    using ok c unfolding mcp_ok_def by blast
  obtain v where v: "v \<in> set (snd (mt_versions t))" "mv_id v = vw_version w"
    using ok w(1) unfolding mcp_ok_def by force
  obtain s where s: "s \<in> set (snd (mt_servers t))" "ms_id s = mv_server v"
    using ok v(1) unfolding mcp_ok_def by force
  have "by_id mv_id (mc_version c) (snd (mt_versions t)) = Some v"
    using by_id_row[of mv_id version_key "mt_versions t" v] ok v w by (simp add: mcp_ok_def)
  moreover have "by_id ms_id (mv_server v) (snd (mt_servers t)) = Some s"
    using by_id_row[of ms_id ms_name "mt_servers t" s] ok s by (simp add: mcp_ok_def)
  moreover have "by_id vw_id (mc_view c) (snd (mt_views t)) = Some w"
    using by_id_row[of vw_id view_key "mt_views t" w] ok w by (simp add: mcp_ok_def)
  ultimately show ?thesis by (simp add: join_row_def)
qed

lemma join_row_parts:
  assumes "join_row t c = Some (c', v, s, w)"
  shows "c' = c" "v \<in> set (snd (mt_versions t))" "mv_id v = mc_version c"
    "s \<in> set (snd (mt_servers t))" "ms_id s = mv_server v"
    "w \<in> set (snd (mt_views t))" "vw_id w = mc_view c"
  using assms by (auto simp: join_row_def dest!: by_id_SomeD split: option.splits)

lemma set_map_filter: "set (List.map_filter f xs) = {y. \<exists>x \<in> set xs. f x = Some y}"
  by (induction xs) (auto simp: map_filter_simps split: option.splits)

lemma joined_rows_iff: "j \<in> set (joined_rows t) \<longleftrightarrow> (\<exists>c \<in> set (snd (mt_caps t)). join_row t c = Some j)"
  by (simp add: joined_rows_def set_map_filter)

lemma view_of_cap:
  assumes "mcp_ok t" "c \<in> set (snd (mt_caps t))" "w \<in> set (snd (mt_views t))" "vw_id w = mc_view c"
  shows "vw_version w = mc_version c"
proof -
  obtain w' where "w' \<in> set (snd (mt_views t))" "vw_id w' = mc_view c" "vw_version w' = mc_version c"
    using assms(1,2) unfolding mcp_ok_def by blast
  moreover from this assms have "w' = w"
    unfolding mcp_ok_def table_ok_def by (metis distinct_map inj_onD)
  ultimately show ?thesis by simp
qed

lemma same_key_same_row:
  "table_ok pk key t \<Longrightarrow> x \<in> set (snd t) \<Longrightarrow> y \<in> set (snd t) \<Longrightarrow> key x = key y \<Longrightarrow> x = y"
  unfolding table_ok_def by (metis distinct_map inj_onD)

lemma joined_unique:
  assumes ok: "mcp_ok t" and j1: "(c1, v1, s1, w1) \<in> set (joined_rows t)" and j2: "(c2, v2, s2, w2) \<in> set (joined_rows t)"
    and eq: "ms_name s1 = ms_name s2" "mv_version v1 = mv_version v2" "mc_kind c1 = mc_kind c2"
      "mc_name c1 = mc_name c2" "vw_partition w1 = vw_partition w2"
  shows "c1 = c2"
proof -
  from j1 obtain d1 where d1: "d1 \<in> set (snd (mt_caps t))" "join_row t d1 = Some (c1, v1, s1, w1)"
    by (auto simp: joined_rows_iff)
  from j2 obtain d2 where d2: "d2 \<in> set (snd (mt_caps t))" "join_row t d2 = Some (c2, v2, s2, w2)"
    by (auto simp: joined_rows_iff)
  note p1 = join_row_parts[OF d1(2)] and p2 = join_row_parts[OF d2(2)]
  have tabs: "table_ok ms_id ms_name (mt_servers t)" "table_ok mv_id version_key (mt_versions t)"
    "table_ok vw_id view_key (mt_views t)" "table_ok mc_id cap_key (mt_caps t)"
    using ok by (simp_all add: mcp_ok_def)
  have s: "s1 = s2" by (rule same_key_same_row[OF tabs(1) p1(4) p2(4) eq(1)])
  have v: "v1 = v2"
    by (rule same_key_same_row[OF tabs(2) p1(2) p2(2)]) (simp add: version_key_def eq(2) s p1(5)[symmetric] p2(5)[symmetric])
  have w: "w1 = w2"
  proof (rule same_key_same_row[OF tabs(3) p1(6) p2(6)])
    show "view_key w1 = view_key w2"
      using view_of_cap[OF ok d1(1) p1(6,7)] view_of_cap[OF ok d2(1) p2(6,7)] p1(3) p2(3) v eq(5)
      by (simp add: view_key_def)
  qed
  have "d1 = d2"
    by (rule same_key_same_row[OF tabs(4) d1(1) d2(1)])
      (use p1(1,7) p2(1,7) w eq(3,4) in \<open>simp add: cap_key_def\<close>)
  with p1(1) p2(1) show ?thesis by simp
qed

section \<open>Upserts of the four tables\<close>

lemma put_server_ok: "table_ok ms_id ms_name tb \<Longrightarrow> table_ok ms_id ms_name (put_server c a b tb)"
  unfolding put_server_def by (rule upsert_table_ok) simp_all

lemma put_version_ok: "table_ok mv_id version_key tb \<Longrightarrow> table_ok mv_id version_key (put_version c sid tb)"
  unfolding put_version_def by (rule upsert_table_ok) (simp_all add: version_key_def)

lemma put_view_ok: "table_ok vw_id view_key tb \<Longrightarrow> table_ok vw_id view_key (put_view r vid tb)"
  unfolding put_view_def by (rule upsert_table_ok) (simp_all add: view_key_def)

lemma put_cap_ok: "table_ok mc_id cap_key tb \<Longrightarrow> table_ok mc_id cap_key (put_cap r vid wid tb)"
  unfolding put_cap_def Let_def by (rule upsert_table_ok) (simp_all add: cap_key_def)

lemma put_server_row:
  "\<exists>s \<in> set (snd (put_server c a b tb)). ms_name s = server_name c
     \<and> ms_publisher s = publisher (sv_identity (cap_server c)) \<and> ms_source_type s = a \<and> ms_source_ref s = b"
  unfolding put_server_def
  by (rule upsert_rowI) simp_all

lemma put_version_row:
  "\<exists>v \<in> set (snd (put_version c sid tb)). mv_server v = sid \<and> mv_version v = server_ver c
     \<and> mv_digest v = package_digest (cap_server c)
     \<and> mv_status v = default_string (sv_status (cap_server c)) ''active''"
  unfolding put_version_def
  by (rule upsert_rowI) (auto simp: version_key_def)

lemma put_view_row:
  "\<exists>w \<in> set (snd (put_view r vid tb)). vw_version w = vid \<and> vw_partition w = cr_partition r
     \<and> vw_visibility w = cr_visibility r \<and> vw_cache_scope w = cr_cache_scope r
     \<and> vw_observed w = stored_time (observed_at (cr_capability r))
     \<and> vw_expires w = stored_time (expires_at (cr_capability r))"
  unfolding put_view_def
  by (rule upsert_rowI) (auto simp: view_key_def)

lemma put_cap_row:
  assumes "\<And>x. x \<in> set (snd tb) \<Longrightarrow> mc_view x = wid \<Longrightarrow> mc_version x = vid"
  shows "\<exists>x \<in> set (snd (put_cap r vid wid tb)). mc_view x = wid \<and> mc_version x = vid
     \<and> mc_kind x = cap_kind (cr_capability r) \<and> mc_name x = cap_name (cr_capability r)
     \<and> mc_title x = cap_title (cr_capability r) \<and> mc_description x = cap_description (cr_capability r)
     \<and> mc_input x = input_schema (cr_capability r) \<and> mc_output x = output_schema (cr_capability r)
     \<and> mc_digest x = schema_digest (cr_capability r) \<and> mc_risk x = cr_risk r
     \<and> mc_availability x = availability (cr_capability r) \<and> mc_raw x = cr_raw r"
  unfolding put_cap_def Let_def
  by (rule upsert_rowI) (use assms in \<open>auto simp: cap_key_def\<close>)

lemma upsert_members:
  "x \<in> set (snd (upsert key mk upd k tb)) \<Longrightarrow>
   x \<in> set (snd tb) \<or> (\<exists>i. x = mk i) \<or> (\<exists>y \<in> set (snd tb). x = upd y)"
  by (auto simp: upsert_def split: if_splits)

section \<open>Writing\<close>

text \<open>The steps of a successful transaction, by name.\<close>

lemma write_capability_OkD:
  assumes "write_capability r t = Inr (t', cid)"
  shows "\<exists>sid vid wid. let c = cr_capability r in
     mt_servers t' = put_server c (cr_source_type r) (cr_source_ref r) (mt_servers t)
     \<and> id_of ms_id ms_name (server_name c) (snd (mt_servers t')) = Some sid
     \<and> mt_versions t' = put_version c sid (mt_versions t)
     \<and> id_of mv_id version_key (sid, server_ver c) (snd (mt_versions t')) = Some vid
     \<and> mt_views t' = put_view r vid (mt_views t)
     \<and> id_of vw_id view_key (vid, cr_partition r) (snd (mt_views t')) = Some wid
     \<and> mt_caps t' = put_cap r vid wid (mt_caps t)
     \<and> id_of mc_id cap_key (wid, cap_kind c, cap_name c) (snd (mt_caps t')) = Some cid
     \<and> put_bindings cid (cr_bindings r) (filter (\<lambda>b. mb_cap b \<noteq> cid) (mt_bindings t)) = Inr (mt_bindings t')"
  using assms by (auto simp: write_capability_def Let_def split: option.splits sum.splits)

lemma id_ofD:
  "id_of pk key k rows = Some i \<Longrightarrow> \<exists>r \<in> set rows. key r = k \<and> pk r = i"
  unfolding id_of_def using find_Some_iff' by fastforce

lemma put_server_ids: "ms_id ` set (snd tb) \<subseteq> ms_id ` set (snd (put_server c a b tb))"
  unfolding put_server_def by (rule upsert_ids) simp

lemma put_version_ids: "mv_id ` set (snd tb) \<subseteq> mv_id ` set (snd (put_version c sid tb))"
  unfolding put_version_def by (rule upsert_ids) simp

lemma put_version_server:
  "v \<in> set (snd (put_version c sid tb)) \<Longrightarrow> mv_server v = sid \<or> mv_server v \<in> mv_server ` set (snd tb)"
  unfolding put_version_def by (drule upsert_members) auto

lemma put_view_pairs:
  "(\<lambda>w. (vw_id w, vw_version w)) ` set (snd tb) \<subseteq> (\<lambda>w. (vw_id w, vw_version w)) ` set (snd (put_view r vid tb))"
  unfolding put_view_def by (rule upsert_ids) simp

lemma put_view_version:
  "w \<in> set (snd (put_view r vid tb)) \<Longrightarrow> vw_version w = vid \<or> vw_version w \<in> vw_version ` set (snd tb)"
  unfolding put_view_def by (drule upsert_members) auto

lemma put_cap_pairs:
  "c \<in> set (snd (put_cap r vid wid tb)) \<Longrightarrow>
   (mc_view c, mc_version c) = (wid, vid) \<or> (mc_view c, mc_version c) \<in> (\<lambda>c. (mc_view c, mc_version c)) ` set (snd tb)"
  unfolding put_cap_def Let_def by (drule upsert_members) auto

lemma write_capability_ok:
  assumes ok: "mcp_ok t" and w: "write_capability r t = Inr (t', cid)"
  shows "mcp_ok t'"
proof -
  from write_capability_OkD[OF w] obtain sid vid wid where st:
    "mt_servers t' = put_server (cr_capability r) (cr_source_type r) (cr_source_ref r) (mt_servers t)"
    "id_of ms_id ms_name (server_name (cr_capability r)) (snd (mt_servers t')) = Some sid"
    "mt_versions t' = put_version (cr_capability r) sid (mt_versions t)"
    "id_of mv_id version_key (sid, server_ver (cr_capability r)) (snd (mt_versions t')) = Some vid"
    "mt_views t' = put_view r vid (mt_views t)"
    "id_of vw_id view_key (vid, cr_partition r) (snd (mt_views t')) = Some wid"
    "mt_caps t' = put_cap r vid wid (mt_caps t)"
    unfolding Let_def by blast
  have old: "\<forall>v \<in> set (snd (mt_versions t)). mv_server v \<in> ms_id ` set (snd (mt_servers t))"
    "\<forall>w \<in> set (snd (mt_views t)). vw_version w \<in> mv_id ` set (snd (mt_versions t))"
    "\<forall>c \<in> set (snd (mt_caps t)). \<exists>w \<in> set (snd (mt_views t)). vw_id w = mc_view c \<and> vw_version w = mc_version c"
    using ok by (simp_all add: mcp_ok_def)
  have tabs: "table_ok ms_id ms_name (mt_servers t')" "table_ok mv_id version_key (mt_versions t')"
    "table_ok vw_id view_key (mt_views t')" "table_ok mc_id cap_key (mt_caps t')"
    using ok unfolding st(1,3,5,7) mcp_ok_def
    by (blast intro: put_server_ok put_version_ok put_view_ok put_cap_ok)+
  have sid: "sid \<in> ms_id ` set (snd (mt_servers t'))" using id_ofD[OF st(2)] by blast
  have vid: "vid \<in> mv_id ` set (snd (mt_versions t'))" using id_ofD[OF st(4)] by blast
  have wid: "(wid, vid) \<in> (\<lambda>w. (vw_id w, vw_version w)) ` set (snd (mt_views t'))"
    using id_ofD[OF st(6)] by (force simp: view_key_def)
  have sub: "ms_id ` set (snd (mt_servers t)) \<subseteq> ms_id ` set (snd (mt_servers t'))"
    "mv_id ` set (snd (mt_versions t)) \<subseteq> mv_id ` set (snd (mt_versions t'))"
    unfolding st(1,3) by (rule put_server_ids, rule put_version_ids)
  have "mv_server v \<in> ms_id ` set (snd (mt_servers t'))" if v: "v \<in> set (snd (mt_versions t'))" for v
  proof -
    have "mv_server v = sid \<or> mv_server v \<in> mv_server ` set (snd (mt_versions t))"
      using v put_version_server unfolding st(3) by blast
    then show ?thesis
    proof
      assume "mv_server v \<in> mv_server ` set (snd (mt_versions t))"
      then obtain v0 where "v0 \<in> set (snd (mt_versions t))" "mv_server v = mv_server v0" by (elim imageE) simp
      then have "mv_server v \<in> ms_id ` set (snd (mt_servers t))" using old(1) by simp
      with sub(1) show ?thesis by (rule subsetD)
    qed (use sid in simp)
  qed
  moreover have "vw_version w \<in> mv_id ` set (snd (mt_versions t'))" if w: "w \<in> set (snd (mt_views t'))" for w
  proof -
    have "vw_version w = vid \<or> vw_version w \<in> vw_version ` set (snd (mt_views t))"
      using w put_view_version unfolding st(5) by blast
    then show ?thesis
    proof
      assume "vw_version w \<in> vw_version ` set (snd (mt_views t))"
      then obtain w0 where "w0 \<in> set (snd (mt_views t))" "vw_version w = vw_version w0" by (elim imageE) simp
      then have "vw_version w \<in> mv_id ` set (snd (mt_versions t))" using old(2) by simp
      with sub(2) show ?thesis by (rule subsetD)
    qed (use vid in simp)
  qed
  moreover have "(mc_view c, mc_version c) \<in> (\<lambda>w. (vw_id w, vw_version w)) ` set (snd (mt_views t'))"
    if "c \<in> set (snd (mt_caps t'))" for c
  proof -
    from put_cap_pairs that have "(mc_view c, mc_version c) = (wid, vid)
        \<or> (mc_view c, mc_version c) \<in> (\<lambda>c. (mc_view c, mc_version c)) ` set (snd (mt_caps t))"
      unfolding st(7) by blast
    then show ?thesis
    proof
      assume "(mc_view c, mc_version c) = (wid, vid)"
      with wid show ?thesis by simp
    next
      assume "(mc_view c, mc_version c) \<in> (\<lambda>c. (mc_view c, mc_version c)) ` set (snd (mt_caps t))"
      then obtain c0 where "c0 \<in> set (snd (mt_caps t))" "mc_view c0 = mc_view c" "mc_version c0 = mc_version c"
        by auto
      with old(3) obtain w0 where "w0 \<in> set (snd (mt_views t))" "vw_id w0 = mc_view c" "vw_version w0 = mc_version c"
        by metis
      then have "(mc_view c, mc_version c) \<in> (\<lambda>w. (vw_id w, vw_version w)) ` set (snd (mt_views t))"
        by (intro image_eqI [where x = w0]) simp_all
      with put_view_pairs[of "mt_views t" r vid] show ?thesis unfolding st(5) by blast
    qed
  qed
  then have "\<exists>w \<in> set (snd (mt_views t')). vw_id w = mc_view c \<and> vw_version w = mc_version c"
    if "c \<in> set (snd (mt_caps t'))" for c
    using that by fastforce
  ultimately show ?thesis using tabs by (simp add: mcp_ok_def)
qed

section \<open>Bindings\<close>

lemma put_bindings_Ok:
  "put_bindings i bs rows = Inr rows' \<Longrightarrow> rows' = rows @ map (binding_row i) bs"
  by (induction i bs rows rule: put_bindings.induct) (auto split: if_splits)

lemma binding_row_simps [simp]:
  "mb_cap (binding_row i b) = i" "mb_scope (binding_row i b) = cb_scope b"
  "mb_relationship (binding_row i b) = cb_relationship b" "mb_profile (binding_row i b) = cb_profile b"
  by (simp_all add: binding_row_def split: prod.split)

lemma capability_bindings_after:
  assumes "mt_bindings t' = filter (\<lambda>b. mb_cap b \<noteq> i) old @ map (binding_row i) bs"
  shows "set (capability_bindings t' i) = set bs"
proof -
  have "set (filter (\<lambda>b. mb_cap b = i) (mt_bindings t')) = binding_row i ` set bs"
    by (auto simp: assms)
  then have "set (capability_bindings t' i)
      = (\<lambda>b. \<lparr>cb_scope = mb_scope b, cb_relationship = mb_relationship b, cb_profile = mb_profile b\<rparr>) ` binding_row i ` set bs"
    by (simp add: capability_bindings_def)
  also have "\<dots> = (\<lambda>b. b) ` set bs"
    unfolding image_image by (rule image_cong) simp_all
  also have "\<dots> = set bs" by simp
  finally show ?thesis .
qed

section \<open>Resolution\<close>

lemma sort_key_hd:
  assumes "sort_key f xs = x # rest"
  shows "x \<in> set xs" "\<forall>y \<in> set xs. f x \<le> f y"
proof -
  have "sorted (map f (x # rest))" "set (x # rest) = set xs"
    using assms sorted_sort_key[of f xs] set_sort[of f xs] by simp_all
  then show "x \<in> set xs" "\<forall>y \<in> set xs. f x \<le> f y" by auto
qed

lemma resolve_view_Some:
  assumes "resolve_capability_view now t server version kind name view = Some r"
  shows "\<exists>j \<in> set (joined_rows t). r = hydrate now t j \<and> names_capability server version kind name j
     \<and> visible_to view j"
  using assms sort_key_hd(1)
  by (fastforce simp: resolve_capability_view_def split: list.splits)

text \<open>The row of the caller's own partition wins over the public one.\<close>

lemma resolve_view_own:
  assumes ok: "mcp_ok t" and j: "(c, v, s, w) \<in> set (joined_rows t)" "vw_partition w = view"
    and n: "names_capability server version kind name (c, v, s, w)"
  shows "resolve_capability_view now t server version kind name view = Some (hydrate now t (c, v, s, w))"
proof -
  let ?f = "\<lambda>(c, v, s, w). if vw_partition w = view then 0 else 1 :: nat"
  let ?xs = "filter (\<lambda>j. names_capability server version kind name j \<and> visible_to view j) (joined_rows t)"
  have mem: "(c, v, s, w) \<in> set ?xs" using j n by (simp add: visible_to_def)
  obtain k rest where s: "sort_key ?f ?xs = k # rest"
    using mem set_sort[of ?f ?xs] by (cases "sort_key ?f ?xs") auto
  obtain c' v' s' w' where k: "k = (c', v', s', w')" by (cases k) auto
  from sort_key_hd[OF s] mem k j(2) have own: "vw_partition w' = view" "k \<in> set ?xs"
    by (auto split: if_splits)
  then have n': "names_capability server version kind name k" "k \<in> set (joined_rows t)" by simp_all
  have cc: "c' = c"
    by (rule joined_unique[OF ok _ j(1), of c' v' s' w'])
      (use n n' k own(1) j(2) in \<open>simp_all add: names_capability_def\<close>)
  obtain d d' where "join_row t d = Some (c, v, s, w)" "join_row t d' = Some k"
    using j(1) n'(2) by (auto simp: joined_rows_iff)
  with cc k have "k = (c, v, s, w)" using join_row_parts(1) by (metis option.inject)
  with s show ?thesis by (simp add: resolve_capability_view_def)
qed

end
