(* ===== verification/CapabilityQuery.thy ===== *)
theory CapabilityQuery
  imports CapabilityIndex
begin

text \<open>
  \<^verbatim>\<open>QueryCapabilityPage\<close> of internal/registry/capability.go and
  \<^verbatim>\<open>matchingCapabilityGlobIDs\<close> of internal/registry/path.go: the WHERE clause as a
  predicate on joined rows, counts and facets over all matches, order and page.  SQLite's
  \<^verbatim>\<open>LIKE\<close> (percent and underscore wildcards, ASCII case ignored) is spelled out.
\<close>

section \<open>LIKE\<close>

definition ascii_lower :: "char \<Rightarrow> char" where
  "ascii_lower c = (let n = of_char c :: nat in if 65 \<le> n \<and> n \<le> 90 then char_of (n + 32) else c)"

text \<open>An underscore matches one UTF-8 encoded character: a lead byte takes its continuation bytes along.\<close>

fun drop_cont :: "string \<Rightarrow> string" where
  "drop_cont [] = []"
| "drop_cont (c # cs) = (let n = of_char c :: nat in if 128 \<le> n \<and> n < 192 then drop_cont cs else c # cs)"

lemma drop_cont_length: "length (drop_cont s) \<le> length s"
  by (induction s rule: drop_cont.induct) (auto simp: Let_def le_Suc_eq)

definition skip_char :: "char \<Rightarrow> string \<Rightarrow> string" where
  "skip_char c cs = (if 192 \<le> (of_char c :: nat) then drop_cont cs else cs)"

lemma skip_char_length: "length (skip_char c cs) \<le> length cs"
  by (simp add: skip_char_def drop_cont_length)

function like :: "string \<Rightarrow> string \<Rightarrow> bool" where
  "like [] s = (s = [])"
| "like (p # ps) s =
     (if p = CHR 0x25 then like ps s \<or> (case s of [] \<Rightarrow> False | c # cs \<Rightarrow> like (p # ps) cs)
      else (case s of
              [] \<Rightarrow> False
            | c # cs \<Rightarrow>
                (if p = CHR 0x5F then like ps (skip_char c cs)
                 else ascii_lower p = ascii_lower c \<and> like ps cs)))"
  by pat_completeness auto
termination
  by (relation "measure (\<lambda>(p, s). length p + length s)")
    (auto simp: less_Suc_eq_le intro: le_trans [OF skip_char_length])

definition like_below :: "string \<Rightarrow> string \<Rightarrow> bool" where
  "like_below path prefix = like (prefix @ [CHR 0x25]) path"

lemma like_percent: "like [CHR 0x25] s"
  by (induction s) simp_all

lemma like_below_literal:
  "CHR 0x25 \<notin> set p \<Longrightarrow> CHR 0x5F \<notin> set p \<Longrightarrow>
   like_below s p \<longleftrightarrow> length p \<le> length s \<and> map ascii_lower (take (length p) s) = map ascii_lower p"
  unfolding like_below_def
proof (induction p arbitrary: s)
  case Nil
  then show ?case by (simp add: like_percent del: like.simps(2))
next
  case (Cons c p)
  then show ?case by (cases s) auto
qed

lemma like_below_prefix:
  "CHR 0x25 \<notin> set p \<Longrightarrow> CHR 0x5F \<notin> set p \<Longrightarrow> has_prefix s p \<Longrightarrow> like_below s p"
  by (auto simp: like_below_literal has_prefix_iff)

section \<open>The query\<close>

record cap_facet =
  ft_value :: string
  ft_count :: nat

record cap_facets =
  fs_servers :: "cap_facet list"
  fs_kinds :: "cap_facet list"
  fs_availability :: "cap_facet list"

record cap_query =
  cq_search :: string
  cq_path :: string
  cq_server :: string
  cq_kind :: capability_kind
  cq_availability :: availability_status
  cq_view :: string
  cq_limit :: int
  cq_offset :: int
  cq_all_views :: bool

record cap_page =
  pg_records :: "capability_record list"
  pg_match_count :: nat
  pg_facets :: cap_facets

type_synonym mcp_fts = "mcp_search_row list \<Rightarrow> string \<Rightarrow> mcp_search_row \<Rightarrow> int option"

definition matching_glob_ids :: "globber \<Rightarrow> mcp_tables \<Rightarrow> string \<Rightarrow> nat list" where
  "matching_glob_ids glob t path =
     map mb_cap (filter (\<lambda>b. mb_type b = GlobPat \<and> (mb_prefix b = [] \<or> like_below path (mb_prefix b))
        \<and> glob_match_path glob (mb_scope b) path) (mt_bindings t))"

definition bound_to_path :: "globber \<Rightarrow> mcp_tables \<Rightarrow> string \<Rightarrow> nat \<Rightarrow> bool" where
  "bound_to_path glob t path i \<longleftrightarrow>
     (let ids = matching_glob_ids glob t path
      in list_ex (\<lambda>b. mb_cap b = i \<and>
           (mb_type b = UniversalPat
            \<or> (mb_type b = ExactPat \<and> mb_prefix b = path)
            \<or> (mb_type b = PrefixPat \<and> like_below path (mb_prefix b))
            \<or> (ids \<noteq> [] \<and> mb_type b = GlobPat \<and> mb_cap b \<in> set ids))) (mt_bindings t))"

text \<open>The SQL expression for the availability compares whole seconds.\<close>

definition sql_availability :: "int \<Rightarrow> joined \<Rightarrow> availability_status" where
  "sql_availability now j =
     (case j of (c, v, s, w) \<Rightarrow>
        (case vw_expires w of
           None \<Rightarrow> mc_availability c
         | Some e \<Rightarrow> (if unix e < unix now then av_stale else mc_availability c)))"

definition query_path :: "string \<Rightarrow> string" where
  "query_path p = trim_prefix p ''./''"

definition cap_filter :: "globber \<Rightarrow> int \<Rightarrow> mcp_tables \<Rightarrow> cap_query \<Rightarrow> joined \<Rightarrow> bool" where
  "cap_filter glob now t q j \<longleftrightarrow>
     (case j of (c, v, s, w) \<Rightarrow>
        (cq_all_views q \<or> visible_to (cq_view q) j) \<and>
        (cq_server q = [] \<or> ms_name s = cq_server q) \<and>
        (cq_kind q = [] \<or> mc_kind c = cq_kind q) \<and>
        (cq_availability q = [] \<or> sql_availability now j = cq_availability q) \<and>
        (cq_path q = [] \<or> bound_to_path glob t (query_path (cq_path q)) (mc_id c)))"

text \<open>With search terms the rows are joined with their search documents and carry the rank.\<close>

definition search_expression :: "string list \<Rightarrow> string" where
  "search_expression tokens = str_join '' OR '' (map quote_term tokens)"

definition candidates :: "mcp_fts \<Rightarrow> globber \<Rightarrow> int \<Rightarrow> mcp_tables \<Rightarrow> cap_query \<Rightarrow> (int \<times> joined) list" where
  "candidates fts glob now t q =
     (let rows = filter (cap_filter glob now t q) (joined_rows t);
          tokens = search_tokens (cq_search q)
      in if tokens = [] then map (Pair 0) rows
         else concat (map (\<lambda>j. concat (map (\<lambda>d.
                 (case fts (mt_search t) (search_expression tokens) d of
                    None \<Rightarrow> []
                  | Some rank \<Rightarrow> (if mf_cap d = mc_id (fst j) then [(rank, j)] else []))) (mt_search t))) rows))"

definition count_values :: "string list \<Rightarrow> cap_facet list" where
  "count_values vs = map (\<lambda>v. \<lparr>ft_value = v, ft_count = count_list vs v\<rparr>) (sort (remdups vs))"

definition candidate_facets :: "int \<Rightarrow> (int \<times> joined) list \<Rightarrow> cap_facets" where
  "candidate_facets now cs =
     \<lparr>fs_servers = count_values (map (\<lambda>(rank, c, v, s, w). ms_name s) cs),
      fs_kinds = count_values (map (\<lambda>(rank, c, v, s, w). mc_kind c) cs),
      fs_availability = count_values (map (\<lambda>(rank, j). sql_availability now j) cs)\<rparr>"

definition ranked :: "(int \<times> joined) list \<Rightarrow> (int \<times> joined) list" where
  "ranked cs =
     sort_key fst (sort_key (\<lambda>(rank, c, v, s, w). ms_name s) (sort_key (\<lambda>(rank, c, v, s, w). mv_version v)
       (sort_key (\<lambda>(rank, c, v, s, w). mc_kind c) (sort_key (\<lambda>(rank, c, v, s, w). mc_name c) cs))))"

definition page_of :: "int \<Rightarrow> int \<Rightarrow> 'a list \<Rightarrow> 'a list" where
  "page_of limit offset xs =
     (if limit > 0 then take (nat limit) (drop (nat offset) xs) else drop (nat offset) xs)"

definition query_capability_page :: "mcp_fts \<Rightarrow> globber \<Rightarrow> int \<Rightarrow> mcp_tables \<Rightarrow> cap_query
  \<Rightarrow> (index_error, cap_page) result" where
  "query_capability_page fts glob now t q =
     (if cq_offset q < 0 \<or> cq_limit q < 0 then Inl NegativeBounds
      else (let cs = candidates fts glob now t q;
                page = \<lparr>pg_records = [], pg_match_count = length cs, pg_facets = candidate_facets now cs\<rparr>
            in if cq_offset q \<ge> int (length cs) then Inr page
               else Inr (page\<lparr>pg_records := map (\<lambda>(rank, j). hydrate now t j)
                      (page_of (cq_limit q) (cq_offset q) (ranked cs))\<rparr>)))"

definition capabilities_by_search :: "mcp_fts \<Rightarrow> globber \<Rightarrow> int \<Rightarrow> mcp_tables \<Rightarrow> string
  \<Rightarrow> (index_error, capability_record list) result" where
  "capabilities_by_search fts glob now t search =
     map_sum id pg_records (query_capability_page fts glob now t
       \<lparr>cq_search = search, cq_path = [], cq_server = [], cq_kind = [], cq_availability = [],
        cq_view = [], cq_limit = 0, cq_offset = 0, cq_all_views = True\<rparr>)"

section \<open>What a page holds\<close>

lemma ranked_set [simp]: "set (ranked cs) = set cs"
  by (simp add: ranked_def)

lemma ranked_length [simp]: "length (ranked cs) = length cs"
  by (simp add: ranked_def)

lemma candidates_filter:
  "(rank, j) \<in> set (candidates fts glob now t q) \<Longrightarrow> j \<in> set (joined_rows t) \<and> cap_filter glob now t q j"
  by (auto simp: candidates_def Let_def split: if_splits option.splits)

lemma page_of_subset: "set (page_of l off xs) \<subseteq> set xs"
  by (auto simp: page_of_def dest: in_set_takeD in_set_dropD)

lemma query_page_records:
  assumes "query_capability_page fts glob now t q = Inr page" "r \<in> set (pg_records page)"
  shows "\<exists>j \<in> set (joined_rows t). r = hydrate now t j \<and> cap_filter glob now t q j"
proof -
  let ?cs = "candidates fts glob now t q"
  from assms obtain rank j where "(rank, j) \<in> set (page_of (cq_limit q) (cq_offset q) (ranked ?cs))"
    "r = hydrate now t j"
    by (auto simp: query_capability_page_def Let_def split: if_splits)
  moreover from this(1) have "(rank, j) \<in> set ?cs" using page_of_subset by fastforce
  ultimately show ?thesis using candidates_filter by blast
qed

lemma page_of_map: "page_of l off (map f xs) = map f (page_of l off xs)"
  by (simp add: page_of_def take_map drop_map)

lemma query_page_eq:
  assumes "0 \<le> cq_offset q" "0 \<le> cq_limit q"
  shows "query_capability_page fts glob now t q =
    Inr \<lparr>pg_records = map (\<lambda>(rank, j). hydrate now t j)
           (page_of (cq_limit q) (cq_offset q) (ranked (candidates fts glob now t q))),
         pg_match_count = length (candidates fts glob now t q),
         pg_facets = candidate_facets now (candidates fts glob now t q)\<rparr>"
proof (cases "cq_offset q \<ge> int (length (candidates fts glob now t q))")
  case True
  then have "length (ranked (candidates fts glob now t q)) \<le> nat (cq_offset q)" by simp
  then have "page_of (cq_limit q) (cq_offset q) (ranked (candidates fts glob now t q)) = []"
    unfolding page_of_def by (metis drop_all take_Nil)
  with True assms show ?thesis by (simp add: query_capability_page_def Let_def)
next
  case False
  with assms show ?thesis by (simp add: query_capability_page_def Let_def)
qed

text \<open>Pages laid end to end give the whole result.\<close>

lemma pages_concat:
  assumes "l > 0"
  shows "concat (map (\<lambda>k. page_of (int l) (int (k * l)) xs) [0..<n]) = take (n * l) xs"
proof (induction n)
  case 0
  then show ?case by simp
next
  case (Suc n)
  have "page_of (int l) (int (n * l)) xs = take l (drop (n * l) xs)"
    using assms by (simp only: page_of_def) (simp add: nat_mult_distrib)
  then show ?case using Suc by (simp add: take_add [symmetric] add.commute)
qed

end
