(* ===== verification/CapabilityClaims.thy ===== *)
theory CapabilityClaims
  imports CapabilityProps
begin

text \<open>
  The properties of internal/registry/capability.go, and two inputs on which it departs from what
  its callers expect: a suggestion that makes a capability unstorable, and the path filter of
  the query, which is \<^verbatim>\<open>LIKE\<close> and not a prefix test.
\<close>

section \<open>A small index for witnesses\<close>

definition demo_raw :: raw_encoder where "demo_raw c = Some ''{}''"

definition demo_record :: "string \<Rightarrow> capability_binding list \<Rightarrow> capability_record" where
  "demo_record part bs =
     \<lparr>cr_id = 0, cr_capability = demo_capability, cr_visibility = [], cr_partition = part,
      cr_cache_scope = [], cr_source_type = ''static'', cr_source_ref = ''mcp.json'', cr_risk = [],
      cr_bindings = bs, cr_raw = [], cr_transports = []\<rparr>"

definition demo_binding :: "string \<Rightarrow> string \<Rightarrow> capability_binding" where
  "demo_binding scope rel = \<lparr>cb_scope = scope, cb_relationship = rel, cb_profile = []\<rparr>"

lemma demo_record_completes:
  "\<exists>r'. complete_record demo_prims demo_raw (demo_record p bs) = Inr r' \<and> cr_bindings r' = bs
     \<and> cr_transports r' = [] \<and> cr_partition r' = default_string p ''public''"
proof -
  have "canonical_json demo_prims ''{}'' = Some ''{}''" "canonical_json demo_prims [] = Some ''null''"
    by (code_simp)+
  then obtain c' where "with_computed_digest demo_prims demo_capability = Inr c'"
    by (auto simp: with_computed_Ok_iff demo_capability_def compute_schema_digest_def)
  then show ?thesis
    by (simp add: complete_record_def demo_record_def demo_raw_def Let_def)
qed

lemma demo_inserts:
  assumes "distinct (map binding_key' bs)"
  shows "\<exists>r' t i. complete_record demo_prims demo_raw (demo_record p bs) = Inr r' \<and>
     cr_partition r' = default_string p ''public'' \<and> cr_bindings r' = bs \<and>
     insert_capability demo_prims demo_raw (demo_record p bs) mcp_empty = Inr (t, i)"
proof -
  obtain r' where r': "complete_record demo_prims demo_raw (demo_record p bs) = Inr r'" "cr_bindings r' = bs"
    "cr_transports r' = []" "cr_partition r' = default_string p ''public''"
    using demo_record_completes by blast
  obtain t i where "write_capability r' mcp_empty = Inr (t, i)"
    using write_capability_Ok_iff[of r' mcp_empty] assms r' by auto
  with r' show ?thesis by (auto simp: insert_capability_def)
qed

lemma demo_names:
  assumes "complete_record demo_prims demo_raw (demo_record p bs) = Inr r'"
  shows "server_name (cr_capability r') = ''docs''" "server_ver (cr_capability r') = ''1''"
    "cap_kind (cr_capability r') = ''tool''" "cap_name (cr_capability r') = ''search''"
  using assms by (auto simp: complete_record_def demo_record_def demo_raw_def Let_def demo_capability_def
      with_computed_Ok_iff split: sum.splits)

section \<open>Insertion\<close>

text \<open>
  C15: From a consistent index, an inserted capability is what the exact resolution in its
  own partition returns: every field of the definition with the computed digest, status defaulted,
  marked stale once it has expired, with exactly the bindings given; and the index stays
  consistent.
\<close>

theorem resolve_after_insert:
  assumes "mcp_ok t" "complete_record pr raw_of r = Inr r'" "insert_capability pr raw_of r t = Inr (t', i)"
  shows "mcp_ok t' \<and> (\<exists>q. resolve_capability_view now t' (server_name (cr_capability r')) (server_ver (cr_capability r'))
       (cap_kind (cr_capability r')) (cap_name (cr_capability r')) (cr_partition r') = Some q
     \<and> cr_id q = i \<and> cr_capability q = stored_capability now (cr_capability r')
     \<and> cr_partition q = cr_partition r' \<and> set (cr_bindings q) = set (cr_bindings r'))"
proof -
  have "write_capability r' t = Inr (t', i)" using assms(2,3) by (simp add: insert_capability_def)
  from write_capability_ok[OF assms(1) this] insert_then_resolve[OF assms] show ?thesis by blast
qed

lemma resolve_after_insert_witness:
  "\<exists>t i. insert_capability demo_prims demo_raw (demo_record [] [demo_binding ''**'' ''available'']) mcp_empty = Inr (t, i)
     \<and> mcp_ok t \<and> (\<exists>q. resolve_capability_view 0 t ''docs'' ''1'' ''tool'' ''search'' ''public'' = Some q \<and> cr_id q = i)"
proof -
  have "distinct (map binding_key' [demo_binding ''**'' ''available''])" by simp
  from demo_inserts[OF this, of "[]"] obtain r' t i where
    r: "complete_record demo_prims demo_raw (demo_record [] [demo_binding ''**'' ''available'']) = Inr r'"
      "cr_partition r' = ''public''"
      "insert_capability demo_prims demo_raw (demo_record [] [demo_binding ''**'' ''available'']) mcp_empty = Inr (t, i)"
    by (auto simp: default_string_def)
  from resolve_after_insert[OF mcp_ok_empty r(1,3), of 0] have "mcp_ok t \<and>
     (\<exists>q. resolve_capability_view 0 t ''docs'' ''1'' ''tool'' ''search'' ''public'' = Some q \<and> cr_id q = i)"
    unfolding r(2) demo_names[OF r(1)] by blast
  with r(3) show ?thesis by blast
qed

text \<open>
  InsertCapability fails, leaving the index as it was, exactly when the record cannot
  be completed (digest, source or encoding), a transport names another server version or no kind, or two
  bindings have the same scope and auth profile.
\<close>

theorem insert_succeeds_iff:
  "(\<exists>t' i. insert_capability pr raw_of r t = Inr (t', i)) \<longleftrightarrow>
     (\<exists>r'. complete_record pr raw_of r = Inr r' \<and>
        list_all (transport_fits (cr_capability r')) (cr_transports r') \<and>
        distinct (map binding_key' (cr_bindings r')))"
proof (cases "complete_record pr raw_of r")
  case (Inl e)
  then show ?thesis by (simp add: insert_capability_def)
next
  case (Inr r')
  then show ?thesis using write_capability_Ok_iff[of r' t] by (simp add: insert_capability_def)
qed

section \<open>Isolation\<close>

text \<open>
  C16: An exact resolution, and every record of a page that is not an all-views query,
  belongs to the public partition or to the caller's own view; no other tenant's cached view is
  returned.
\<close>

theorem tenant_isolation:
  "(\<forall>r. resolve_capability_view now t server version kind name view = Some r \<longrightarrow> cr_partition r \<in> {''public'', view}) \<and>
   (\<forall>page. query_capability_page fts glob now t q = Inr page \<and> \<not> cq_all_views q \<longrightarrow>
      (\<forall>r \<in> set (pg_records page). cr_partition r \<in> {''public'', cq_view q}))"
proof (intro conjI allI impI ballI)
  fix r
  assume "resolve_capability_view now t server version kind name view = Some r"
  from resolve_view_Some[OF this] show "cr_partition r \<in> {''public'', view}"
    by (auto simp: visible_to_def hydrate_def)
next
  fix page r
  assume p: "query_capability_page fts glob now t q = Inr page \<and> \<not> cq_all_views q" "r \<in> set (pg_records page)"
  then have "query_capability_page fts glob now t q = Inr page" by simp
  from query_page_records[OF this p(2)] p(1) show "cr_partition r \<in> {''public'', cq_view q}"
    by (auto simp: cap_filter_def visible_to_def hydrate_def)
qed

lemma tenant_isolation_witness:
  "\<exists>t i. insert_capability demo_prims demo_raw (demo_record ''tenant:v1:a'' []) mcp_empty = Inr (t, i) \<and>
     (\<exists>r. resolve_capability_view 0 t ''docs'' ''1'' ''tool'' ''search'' ''tenant:v1:a'' = Some r) \<and>
     resolve_capability_view 0 t ''docs'' ''1'' ''tool'' ''search'' ''tenant:v1:b'' = None"
proof -
  from demo_inserts[of "[]" "''tenant:v1:a''"] obtain r' t i where
    r: "complete_record demo_prims demo_raw (demo_record ''tenant:v1:a'' []) = Inr r'"
      "cr_partition r' = ''tenant:v1:a''"
      "insert_capability demo_prims demo_raw (demo_record ''tenant:v1:a'' []) mcp_empty = Inr (t, i)"
    by (auto simp: default_string_def)
  note c = demo_names[OF r(1)]
  from insert_then_resolve[OF mcp_ok_empty r(1,3), of 0] c r(2) obtain q where
    q: "resolve_capability_view 0 t ''docs'' ''1'' ''tool'' ''search'' ''tenant:v1:a'' = Some q" by auto
  have w: "write_capability r' mcp_empty = Inr (t, i)" using r(1,3) by (simp add: insert_capability_def)
  have only: "vw_partition w = ''tenant:v1:a''" if "w \<in> set (snd (mt_views t))" for w
  proof -
    from write_capability_OkD[OF w] obtain vid where "mt_views t = put_view r' vid (mt_views mcp_empty)"
      unfolding Let_def by blast
    with that r(2) show ?thesis by (auto simp: put_view_def mcp_empty_def upsert_def)
  qed
  have "cr_partition b = ''tenant:v1:a''"
    if "resolve_capability_view 0 t ''docs'' ''1'' ''tool'' ''search'' ''tenant:v1:b'' = Some b" for b
  proof -
    from resolve_view_Some[OF that] obtain j where j: "j \<in> set (joined_rows t)" "b = hydrate 0 t j" by blast
    obtain x v s w where jj: "j = (x, v, s, w)" by (cases j) auto
    from j(1) jj have "w \<in> set (snd (mt_views t))" using join_row_parts(6) by (auto simp: joined_rows_iff)
    with only j(2) jj show ?thesis by (simp add: hydrate_def)
  qed
  then have "resolve_capability_view 0 t ''docs'' ''1'' ''tool'' ''search'' ''tenant:v1:b'' = None"
    using tenant_isolation[of 0 t "''docs''" "''1''" "''tool''" "''search''" "''tenant:v1:b''"]
    by (cases "resolve_capability_view 0 t ''docs'' ''1'' ''tool'' ''search'' ''tenant:v1:b''") auto
  with r(3) q show ?thesis by blast
qed

section \<open>Pages\<close>

text \<open>
  C31: Paging loses and repeats nothing: the records of the first n pages of a positive
  size, laid end to end, are the first records of the unlimited query, and every page
  reports the same total.
\<close>

theorem pages_cover:
  assumes "l > 0" "query_capability_page fts glob now t (q\<lparr>cq_limit := 0, cq_offset := 0\<rparr>) = Inr full"
    and "\<And>k. k < n \<Longrightarrow> query_capability_page fts glob now t (q\<lparr>cq_limit := int l, cq_offset := int (k * l)\<rparr>) = Inr (page k)"
  shows "concat (map (\<lambda>k. pg_records (page k)) [0..<n]) = take (n * l) (pg_records full) \<and>
     (\<forall>k < n. pg_match_count (page k) = length (pg_records full))"
proof -
  let ?cs = "candidates fts glob now t q"
  let ?h = "\<lambda>(rank, j). hydrate now t j"
  have same: "candidates fts glob now t (q\<lparr>cq_limit := a, cq_offset := b\<rparr>) = ?cs" for a b
    by (simp add: candidates_def cap_filter_def cong: filter_cong)
  have full: "pg_records full = map ?h (ranked ?cs)"
    using assms(2)[symmetric] by (simp add: query_page_eq same page_of_def)
  have page: "pg_records (page k) = page_of (int l) (int (k * l)) (map ?h (ranked ?cs)) \<and>
      pg_match_count (page k) = length ?cs" if "k < n" for k
    using assms(3)[OF that, symmetric]
    by (simp add: query_page_eq same page_of_map del: of_nat_mult)
  have "map (\<lambda>k. pg_records (page k)) [0..<n] = map (\<lambda>k. page_of (int l) (int (k * l)) (map ?h (ranked ?cs))) [0..<n]"
    by (rule map_cong[OF refl]) (use page in simp)
  then have "concat (map (\<lambda>k. pg_records (page k)) [0..<n]) = take (n * l) (pg_records full)"
    unfolding full using pages_concat[OF assms(1), of "map ?h (ranked ?cs)" n] by (rule ssubst)
  with page full show ?thesis by simp
qed

lemma pages_cover_witness:
  "\<exists>t i p. insert_capability demo_prims demo_raw (demo_record [] []) mcp_empty = Inr (t, i) \<and>
     query_capability_page (\<lambda>ds s d. None) simple_glob 0 t \<lparr>cq_search = [], cq_path = [], cq_server = [],
       cq_kind = [], cq_availability = [], cq_view = [], cq_limit = 1, cq_offset = 0, cq_all_views = True\<rparr> = Inr p \<and>
     length (pg_records p) \<le> 1"
proof -
  from demo_inserts[of "[]" "[]"] obtain t i where
    ins: "insert_capability demo_prims demo_raw (demo_record [] []) mcp_empty = Inr (t, i)" by auto
  let ?q = "\<lparr>cq_search = [], cq_path = [], cq_server = [], cq_kind = [], cq_availability = [],
     cq_view = [], cq_limit = 0, cq_offset = 0, cq_all_views = True\<rparr>"
  let ?f = "\<lambda>ds s d. None :: int option"
  have "\<exists>full. query_capability_page ?f simple_glob 0 t (?q\<lparr>cq_limit := 0, cq_offset := 0\<rparr>) = Inr full"
    "\<exists>p. query_capability_page ?f simple_glob 0 t (?q\<lparr>cq_limit := int 1, cq_offset := int (0 * 1)\<rparr>) = Inr p"
    by (simp_all add: query_capability_page_def Let_def)
  then obtain full p where full: "query_capability_page ?f simple_glob 0 t (?q\<lparr>cq_limit := 0, cq_offset := 0\<rparr>) = Inr full"
    and p: "query_capability_page ?f simple_glob 0 t (?q\<lparr>cq_limit := int 1, cq_offset := int (0 * 1)\<rparr>) = Inr p"
    by blast
  have "concat (map (\<lambda>k. pg_records p) [0..<1]) = take (1 * 1) (pg_records full) \<and>
     (\<forall>k < 1 :: nat. pg_match_count p = length (pg_records full))"
    by (rule pages_cover[where l = 1 and page = "\<lambda>_. p", OF _ full]) (use p in simp_all)
  with ins p show ?thesis by auto
qed

section \<open>Static catalogs\<close>

text \<open>
  C34: A static catalog is read only from a file below the project root: for any file
  system, whatever symbolic links the configured path goes through, the resolved path is
  below the resolved root or the load fails.
\<close>

theorem catalog_stays_inside:
  assumes "resolve_catalog_path evalsym root configured = Inr resolved"
  shows "\<exists>root_abs. evalsym root = Some root_abs \<and> below (path_clean root_abs) (path_clean resolved)"
proof -
  from assms obtain root_abs rel where "evalsym root = Some root_abs" "path_rel root_abs resolved = Some rel"
    "stays_inside rel"
    by (auto simp: resolve_catalog_path_def escapes_iff split: option.splits if_splits)
  with path_rel_below show ?thesis by blast
qed

lemma catalog_stays_inside_witness:
  "resolve_catalog_path Some ''/repo'' ''mcp/c.json'' = Inr ''/repo/mcp/c.json'' \<and>
   below (path_clean ''/repo'') (path_clean ''/repo/mcp/c.json'') \<and>
   resolve_catalog_path (\<lambda>p. Some (if p = ''/repo/link'' then ''/etc/passwd'' else p)) ''/repo'' ''link'' = Inl CatalogEscapes"
proof -
  have r: "resolve_catalog_path Some ''/repo'' ''mcp/c.json'' = Inr ''/repo/mcp/c.json''" by code_simp
  moreover have "resolve_catalog_path (\<lambda>p. Some (if p = ''/repo/link'' then ''/etc/passwd'' else p)) ''/repo'' ''link'' = Inl CatalogEscapes"
    by code_simp
  ultimately show ?thesis using catalog_stays_inside[OF r] by simp
qed

section \<open>Two mishandled inputs\<close>

text \<open>
  When a pack suggests, under another relationship, a scope to which a capability
  is already bound without an auth profile, the overlay keeps both bindings and the capability can no longer be
  inserted: it is lost from the index.
\<close>

theorem suggestion_drops_capability:
  assumes "suggestion_hits g r" "scope \<in> set (cs_scopes g)"
    and "\<lparr>cb_scope = scope, cb_relationship = rel, cb_profile = []\<rparr> \<in> set (cr_bindings r)" "rel \<noteq> cs_relationship g"
  shows "\<nexists>t' i. insert_capability pr raw_of (overlay g r) t = Inr (t', i)"
proof
  assume "\<exists>t' i. insert_capability pr raw_of (overlay g r) t = Inr (t', i)"
  then obtain r' where r': "complete_record pr raw_of (overlay g r) = Inr r'" "distinct (map binding_key' (cr_bindings r'))"
    using write_capability_Ok_iff by (fastforce simp: insert_capability_def split: sum.splits)
  have same: "cr_bindings r' = cr_bindings (overlay g r)"
    using r'(1) by (auto simp: complete_record_def Let_def split: sum.splits if_splits option.splits)
  have fold: "set (foldl append_unique_binding xs ys) = set xs \<union> set ys" for xs ys
    by (induction ys arbitrary: xs) (auto simp: append_unique_binding_def)
  let ?old = "\<lparr>cb_scope = scope, cb_relationship = rel, cb_profile = []\<rparr>"
  have "?old \<in> set (cr_bindings r')" "suggestion_binding g scope \<in> set (cr_bindings r')"
    using assms(1-3) by (auto simp: same overlay_def fold)
  moreover have "binding_key' ?old = binding_key' (suggestion_binding g scope)" "?old \<noteq> suggestion_binding g scope"
    using assms(4) by (auto simp: binding_key'_def suggestion_binding_def)
  ultimately show False using r'(2) by (metis distinct_map inj_onD)
qed

lemma suggestion_drops_capability_witness:
  "(\<exists>t i. insert_capability demo_prims demo_raw (demo_record [] [demo_binding ''**'' ''discovered'']) mcp_empty = Inr (t, i)) \<and>
   (\<exists>g. \<nexists>t i. insert_capability demo_prims demo_raw (overlay g (demo_record [] [demo_binding ''**'' ''discovered''])) mcp_empty = Inr (t, i))"
proof
  show "\<exists>t i. insert_capability demo_prims demo_raw (demo_record [] [demo_binding ''**'' ''discovered'']) mcp_empty = Inr (t, i)"
    using demo_inserts[of "[demo_binding ''**'' ''discovered'']" "[]"] by auto
  let ?g = "\<lparr>cs_server = ''docs'', cs_version = ''1'', cs_relationship = ''recommended'', cs_capabilities = [],
     cs_scopes = [''**''], cs_source_type = ''project-pack'', cs_source_ref = ''p''\<rparr>"
  have "\<nexists>t i. insert_capability demo_prims demo_raw (overlay ?g (demo_record [] [demo_binding ''**'' ''discovered''])) mcp_empty = Inr (t, i)"
    by (rule suggestion_drops_capability[where scope = "''**''" and rel = "''discovered''"])
      (simp_all add: suggestion_hits_def demo_record_def demo_capability_def demo_binding_def)
  then show "\<exists>g. \<nexists>t i. insert_capability demo_prims demo_raw (overlay g (demo_record [] [demo_binding ''**'' ''discovered''])) mcp_empty = Inr (t, i)"
    by blast
qed

text \<open>
  The path filter of a capability query tests the indexed prefix with LIKE, in which
  an underscore matches any character and ASCII case is ignored: a capability bound to
  \<^verbatim>\<open>my_pkg/**\<close> is reported for files in \<^verbatim>\<open>my-pkg\<close> and
  \<^verbatim>\<open>MY_PKG\<close>, where its scope does not match.
\<close>

theorem like_overmatches:
  assumes "binding_row i b \<in> set (mt_bindings t)" "cb_scope b = ''my_pkg/**''" "glob_laws glob"
  shows "bound_to_path glob t ''my-pkg/a.go'' i \<and> bound_to_path glob t ''MY_PKG/a.go'' i \<and>
     \<not> glob_match_path glob (cb_scope b) ''my-pkg/a.go'' \<and> \<not> glob_match_path glob (cb_scope b) ''MY_PKG/a.go''"
proof -
  have c: "classify_scope ''my_pkg/**'' = (PrefixPat, ''my_pkg/'')" by code_simp
  have row: "mb_type (binding_row i b) = PrefixPat" "mb_prefix (binding_row i b) = ''my_pkg/''"
    by (simp_all add: binding_row_def assms(2) c)
  have l: "like_below ''my-pkg/a.go'' ''my_pkg/''" "like_below ''MY_PKG/a.go'' ''my_pkg/''" by code_simp+
  have "bound_to_path glob t p i" if "like_below p ''my_pkg/''" for p
    unfolding bound_to_path_def Let_def list_ex_iff
    using assms(1) row that by (intro bexI[where x = "binding_row i b"]) simp_all
  moreover have pl: "glob_plain ''my_pkg''" and nm: "norm_path ''my_pkg/**'' = ''my_pkg'' @ ''/**''"
    "norm_path ''my_pkg/**'' \<noteq> ''**''"
    and no: "\<not> has_prefix ''my-pkg/a.go'' (''my_pkg'' @ [slash])" "\<not> has_prefix ''MY_PKG/a.go'' (''my_pkg'' @ [slash])"
    by code_simp+
  have "glob (''my_pkg'' @ ''/**'') = Some (\<lambda>s. has_prefix s (''my_pkg'' @ [slash]))"
    using assms(3) pl unfolding glob_laws_def by blast
  then have "glob (norm_path ''my_pkg/**'') = Some (\<lambda>s. has_prefix s (''my_pkg'' @ [slash]))"
    unfolding nm(1) .
  then have "glob_match_path glob (cb_scope b) p = has_prefix p (''my_pkg'' @ [slash])" for p
    unfolding glob_match_path_def assms(2) Let_def using nm(2) by simp
  ultimately show ?thesis using l no by simp
qed

lemma like_overmatches_witness:
  "\<exists>t. binding_row 1 (demo_binding ''my_pkg/**'' ''available'') \<in> set (mt_bindings t) \<and>
     bound_to_path simple_glob t ''my-pkg/a.go'' 1 \<and>
     \<not> glob_match_path simple_glob ''my_pkg/**'' ''my-pkg/a.go''"
proof -
  let ?b = "demo_binding ''my_pkg/**'' ''available''"
  let ?t = "mcp_empty\<lparr>mt_bindings := [binding_row 1 ?b]\<rparr>"
  have m: "binding_row 1 ?b \<in> set (mt_bindings ?t)" by simp
  have s: "cb_scope ?b = ''my_pkg/**''" by (simp add: demo_binding_def)
  from like_overmatches[OF m s simple_glob_laws] have "bound_to_path simple_glob ?t ''my-pkg/a.go'' 1"
    "\<not> glob_match_path simple_glob ''my_pkg/**'' ''my-pkg/a.go''"
    unfolding s by blast+
  with m show ?thesis by blast
qed

end
