(* ===== verification/Catalog.thy ===== *)
theory Catalog
  imports BrokerProps CapabilityProps
begin

text \<open>
  internal/catalog/registry.go: the capability index as the broker's catalog, and the contract
  \<open>discoverable_catalog\<close> between broker and catalog: what a search lists, a later
  resolution of its claims finds unchanged.  Error messages are short names of the Go messages.
\<close>

section \<open>Definitions\<close>

definition binding_matches :: "globber \<Rightarrow> string \<Rightarrow> capability_binding \<Rightarrow> bool" where
  "binding_matches glob path b \<longleftrightarrow>
     cb_scope b = ''**'' \<or> cb_scope b = ''*'' \<or>
     (path \<noteq> [] \<and> (case glob (cb_scope b) of None \<Rightarrow> False | Some g \<Rightarrow> g path))"

definition matching_binding :: "globber \<Rightarrow> capability_record \<Rightarrow> string \<Rightarrow> capability_binding option" where
  "matching_binding glob r p =
     (let path = query_path p
      in case List.find (binding_matches glob path) (cr_bindings r) of
           Some b \<Rightarrow> Some b
         | None \<Rightarrow> (if path = [] \<and> cr_bindings r \<noteq> [] then Some (hd (cr_bindings r)) else None))"

definition select_binding :: "capability \<Rightarrow> capability_binding option \<Rightarrow> capability" where
  "select_binding c bo =
     (case bo of None \<Rightarrow> c | Some b \<Rightarrow> c\<lparr>routing_scope := cb_scope b, auth_profile := cb_profile b\<rparr>)"

definition to_facets :: "cap_facet list \<Rightarrow> facet list" where
  "to_facets fs = map (\<lambda>f. \<lparr>fc_value = ft_value f, fc_count = ft_count f\<rparr>) fs"

definition to_cap_query :: "broker_query \<Rightarrow> cap_query" where
  "to_cap_query q =
     \<lparr>cq_search = bq_search q, cq_path = bq_path q, cq_server = bq_server q, cq_kind = bq_kind q,
      cq_availability = bq_availability q, cq_view = bq_view q, cq_limit = bq_limit q,
      cq_offset = bq_offset q, cq_all_views = False\<rparr>"

definition catalog_search :: "mcp_fts \<Rightarrow> globber \<Rightarrow> int \<Rightarrow> mcp_tables \<Rightarrow> broker_query
  \<Rightarrow> (string, catalog_page) result" where
  "catalog_search fts glob now t q =
     (case query_capability_page fts glob now t (to_cap_query q) of
        Inl e \<Rightarrow> Inl ''negative limit or offset''
      | Inr page \<Rightarrow>
          Inr \<lparr>cp_capabilities = map (\<lambda>r. select_binding (cr_capability r) (matching_binding glob r (bq_path q))) (pg_records page),
             cp_count = pg_match_count page,
             cp_facets = \<lparr>df_servers = to_facets (fs_servers (pg_facets page)),
                df_kinds = to_facets (fs_kinds (pg_facets page)),
                df_availability = to_facets (fs_availability (pg_facets page))\<rparr>\<rparr>)"

definition catalog_resolve :: "int \<Rightarrow> mcp_tables \<Rightarrow> reference_claims \<Rightarrow> (string, capability) result" where
  "catalog_resolve now t cl =
     (case resolve_capability_view now t (rc_server cl) (rc_version cl) (rc_kind cl) (rc_capability cl) (rc_view cl) of
        None \<Rightarrow> Inl ''not found''
      | Some r \<Rightarrow>
          (case List.find (\<lambda>b. cb_scope b = rc_routing_scope cl \<and> cb_profile b = rc_auth_profile cl) (cr_bindings r) of
             Some b \<Rightarrow> Inr (select_binding (cr_capability r) (Some b))
           | None \<Rightarrow>
               (if rc_routing_scope cl \<noteq> [] \<or> rc_auth_profile cl \<noteq> [] then Inl ''binding is no longer available''
                else Inr (cr_capability r))))"

section \<open>The contract\<close>

text \<open>The claims a reference to \<open>c\<close> in a view carries, as far as the broker compares them.\<close>

definition claims_for :: "capability \<Rightarrow> string \<Rightarrow> reference_claims \<Rightarrow> bool" where
  "claims_for c view cl \<longleftrightarrow> claims_match cl c \<and> rc_view cl = view"

locale discoverable_catalog =
  fixes pr :: prims
    and search :: "'t \<Rightarrow> broker_query \<Rightarrow> (string, catalog_page) result"
    and resolve :: "'t \<Rightarrow> reference_claims \<Rightarrow> (string, capability) result"
    and inv :: "'t \<Rightarrow> bool"
  assumes resolves: "inv t \<Longrightarrow> search t q = Inr page \<Longrightarrow> c \<in> set (cp_capabilities page) \<Longrightarrow>
      with_computed_digest pr c = Inr c' \<Longrightarrow> claims_for c' (bq_view q) cl \<Longrightarrow>
      \<exists>c0 c1. resolve t cl = Inr c0 \<and> with_computed_digest pr c0 = Inr c1 \<and> claims_match cl c1"
begin

lemma listed_can_be_described:
  assumes "inv t" "search t q = Inr page" "c \<in> set (cp_capabilities page)"
    and "with_computed_digest pr c = Inr c'" "bk_prims b = pr" "bk_resolve b = resolve t"
    and "verify pr (bk_signer b) now ref = Inr cl" "claims_for c' (bq_view q) cl"
    and "rc_context cl = rq_context req" "rq_view req = bq_view q"
  shows "\<exists>c1. snd (describe b now ref req) = Inr c1 \<and> claims_match cl c1"
proof -
  from resolves[OF assms(1-4,8)] obtain c0 c1 where
    "resolve t cl = Inr c0" "with_computed_digest pr c0 = Inr c1" "claims_match cl c1" by blast
  then show ?thesis using assms by (simp add: describe_def claims_for_def)
qed

lemma listed_same_view:
  assumes "inv t" "search t q = Inr page" "c \<in> set (cp_capabilities page)"
    and "with_computed_digest pr c = Inr c'" "claims_for c' (bq_view q) cl"
  shows "\<exists>c0. resolve t cl = Inr c0"
  using resolves[OF assms] by blast

end

section \<open>The index keeps the contract\<close>

text \<open>No capability of a public view is shadowed by a private one of the same name.\<close>

definition unshadowed :: "mcp_tables \<Rightarrow> bool" where
  "unshadowed t \<longleftrightarrow>
     (\<forall>(c, v, s, w) \<in> set (joined_rows t). \<forall>(c', v', s', w') \<in> set (joined_rows t).
        ms_name s = ms_name s' \<and> mv_version v = mv_version v' \<and> mc_kind c = mc_kind c' \<and> mc_name c = mc_name c'
        \<and> vw_partition w = ''public'' \<longrightarrow> vw_partition w' = ''public'')"

lemma joined_same:
  assumes ok: "mcp_ok t" and j: "(c1, v1, s1, w1) \<in> set (joined_rows t)" "(c2, v2, s2, w2) \<in> set (joined_rows t)"
    and eq: "ms_name s1 = ms_name s2" "mv_version v1 = mv_version v2" "mc_kind c1 = mc_kind c2"
      "mc_name c1 = mc_name c2" "vw_partition w1 = vw_partition w2"
  shows "(c1, v1, s1, w1) = (c2, v2, s2, w2)"
proof -
  have c: "c1 = c2" by (rule joined_unique[OF ok j eq])
  obtain d1 d2 where "join_row t d1 = Some (c1, v1, s1, w1)" "join_row t d2 = Some (c2, v2, s2, w2)"
    using j by (auto simp: joined_rows_iff)
  with c join_row_parts(1) show ?thesis by (metis option.inject)
qed

lemma resolve_visible:
  assumes ok: "mcp_ok t" "unshadowed t" and j: "(c, v, s, w) \<in> set (joined_rows t)" "visible_to view (c, v, s, w)"
  shows "resolve_capability_view now t (ms_name s) (mv_version v) (mc_kind c) (mc_name c) view
     = Some (hydrate now t (c, v, s, w))"
proof -
  let ?P = "\<lambda>j. names_capability (ms_name s) (mv_version v) (mc_kind c) (mc_name c) j \<and> visible_to view j"
  let ?xs = "filter ?P (joined_rows t)"
  let ?f = "\<lambda>(c, v, s, w). if vw_partition w = view then 0 else 1 :: nat"
  have only: "k = (c, v, s, w)" if "k \<in> set ?xs" for k
  proof -
    obtain c' v' s' w' where k: "k = (c', v', s', w')" by (cases k) auto
    from that k have m: "(c', v', s', w') \<in> set (joined_rows t)" "ms_name s' = ms_name s" "mv_version v' = mv_version v"
      "mc_kind c' = mc_kind c" "mc_name c' = mc_name c" "vw_partition w' = ''public'' \<or> vw_partition w' = view"
      by (auto simp: names_capability_def visible_to_def)
    have "vw_partition w' = vw_partition w"
      using ok(2) j m unfolding unshadowed_def visible_to_def by fastforce
    with joined_same[OF ok(1) m(1) j(1)] m k show ?thesis by simp
  qed
  have "(c, v, s, w) \<in> set ?xs" using j by (simp add: names_capability_def)
  then obtain k rest where "sort_key ?f ?xs = k # rest"
    using set_sort[of ?f ?xs] by (cases "sort_key ?f ?xs") auto
  moreover from this have "k \<in> set ?xs" by (rule sort_key_hd(1))
  ultimately show ?thesis using only[of k] by (simp add: resolve_capability_view_def)
qed

lemma matching_binding_member:
  "matching_binding glob r p = Some b \<Longrightarrow> b \<in> set (cr_bindings r)"
  by (auto simp: matching_binding_def Let_def dest!: find_Some_iff' split: option.splits if_splits)

lemma hydrate_bindings: "cr_bindings (hydrate now t j) = cr_bindings (hydrate now' t j)"
  by (cases j) (simp add: hydrate_def)

lemma digest_of_hydrate:
  assumes "with_computed_digest pr (select_binding (cr_capability (hydrate now t j)) bo) = Inr c'"
  shows "\<exists>c1. with_computed_digest pr (select_binding (cr_capability (hydrate now' t j)) bo') = Inr c1
     \<and> server_name c1 = server_name c' \<and> server_ver c1 = server_ver c' \<and> cap_kind c1 = cap_kind c'
     \<and> cap_name c1 = cap_name c' \<and> schema_digest c1 = schema_digest c'
     \<and> routing_scope c1 = routing_scope (select_binding (cr_capability (hydrate now' t j)) bo')
     \<and> auth_profile c1 = auth_profile (select_binding (cr_capability (hydrate now' t j)) bo')"
  using assms
  by (cases j) (auto simp: with_computed_Ok_iff select_binding_def hydrate_def split: option.splits)

lemma catalog_resolves:
  assumes inv: "mcp_ok t" "unshadowed t" and s: "catalog_search fts glob now t q = Inr page"
    and c: "c \<in> set (cp_capabilities page)" "with_computed_digest pr c = Inr c'"
    and cl: "claims_for c' (bq_view q) cl"
  shows "\<exists>c0 c1. catalog_resolve now' t cl = Inr c0 \<and> with_computed_digest pr c0 = Inr c1 \<and> claims_match cl c1"
proof -
  from s c(1) obtain pg r where pg: "query_capability_page fts glob now t (to_cap_query q) = Inr pg"
    "r \<in> set (pg_records pg)" "c = select_binding (cr_capability r) (matching_binding glob r (bq_path q))"
    by (auto simp: catalog_search_def split: sum.splits)
  from query_page_records[OF pg(1,2)] obtain j where j: "j \<in> set (joined_rows t)" "r = hydrate now t j"
    "cap_filter glob now t (to_cap_query q) j" by blast
  obtain x v s w where jj: "j = (x, v, s, w)" by (cases j) auto
  have vis: "visible_to (bq_view q) (x, v, s, w)"
    using j(3) jj by (simp add: cap_filter_def to_cap_query_def)
  have names: "rc_server cl = ms_name s" "rc_version cl = mv_version v" "rc_kind cl = mc_kind x" "rc_capability cl = mc_name x"
    using cl c(2) pg(3) j(2) jj
    by (auto simp: claims_for_def claims_match_def with_computed_Ok_iff select_binding_def hydrate_def split: option.splits)
  have res: "resolve_capability_view now' t (rc_server cl) (rc_version cl) (rc_kind cl) (rc_capability cl) (rc_view cl)
      = Some (hydrate now' t j)"
    using resolve_visible[OF inv _ vis] j(1) jj cl names by (simp add: claims_for_def)
  let ?bo = "matching_binding glob r (bq_path q)"
  let ?P = "\<lambda>b. cb_scope b = rc_routing_scope cl \<and> cb_profile b = rc_auth_profile cl"
  have rs: "rc_routing_scope cl = routing_scope c" "rc_auth_profile cl = auth_profile c"
    using cl c(2) by (auto simp: claims_for_def claims_match_def with_computed_Ok_iff)
  note dig = digest_of_hydrate[of pr now t j ?bo c' now', folded j(2), folded pg(3), OF c(2)]
  have base: "routing_scope (cr_capability (hydrate now' t j)) = []" "auth_profile (cr_capability (hydrate now' t j)) = []"
    "routing_scope (cr_capability r) = []" "auth_profile (cr_capability r) = []"
    by (simp_all add: j(2) jj hydrate_def)
  obtain bo' where bo': "catalog_resolve now' t cl = Inr (select_binding (cr_capability (hydrate now' t j)) bo')"
    "routing_scope (select_binding (cr_capability (hydrate now' t j)) bo') = rc_routing_scope cl"
    "auth_profile (select_binding (cr_capability (hydrate now' t j)) bo') = rc_auth_profile cl"
  proof (cases "List.find ?P (cr_bindings (hydrate now' t j))")
    case (Some b)
    then have "?P b" using find_Some_iff' by fastforce
    with Some res that[of "Some b"] show ?thesis by (simp add: catalog_resolve_def select_binding_def)
  next
    case None
    then have no: "\<forall>b \<in> set (cr_bindings r). \<not> ?P b"
      using find_None_iff'[THEN iffD1, OF None] by (simp add: j(2) hydrate_bindings[of now t j now'])
    have "?bo = None"
    proof (cases ?bo)
      case (Some b)
      with no matching_binding_member[OF Some] rs pg(3) show ?thesis by (auto simp: select_binding_def)
    qed simp
    then have "rc_routing_scope cl = []" "rc_auth_profile cl = []"
      using rs pg(3) base by (simp_all add: select_binding_def)
    with None res base that[of None] show ?thesis by (simp add: catalog_resolve_def select_binding_def)
  qed
  from dig[of bo'] obtain c1 where c1: "with_computed_digest pr (select_binding (cr_capability (hydrate now' t j)) bo') = Inr c1"
    "server_name c1 = server_name c'" "server_ver c1 = server_ver c'" "cap_kind c1 = cap_kind c'"
    "cap_name c1 = cap_name c'" "schema_digest c1 = schema_digest c'"
    "routing_scope c1 = rc_routing_scope cl" "auth_profile c1 = rc_auth_profile cl"
    using bo'(2,3) by auto
  have "claims_match cl c1" using cl c1 by (simp add: claims_for_def claims_match_def)
  with bo'(1) c1(1) show ?thesis by blast
qed

interpretation indexed: discoverable_catalog pr "catalog_search fts glob t0" "catalog_resolve t1"
  "\<lambda>t. mcp_ok t \<and> unshadowed t"
  for pr fts glob t0 t1
proof
  fix t :: mcp_tables and q page c c' cl
  assume "mcp_ok t \<and> unshadowed t" "catalog_search fts glob t0 t q = Inr page" "c \<in> set (cp_capabilities page)"
    "with_computed_digest pr c = Inr c'" "claims_for c' (bq_view q) cl"
  then show "\<exists>c0 c1. catalog_resolve t1 t cl = Inr c0 \<and> with_computed_digest pr c0 = Inr c1 \<and> claims_match cl c1"
    using catalog_resolves by blast
qed

end
