(* ===== verification/CatalogClaims.thy ===== *)
theory CatalogClaims
  imports Catalog CapabilityClaims
begin

text \<open>
  Discovery and description together: what the broker lists from the index can be described for
  as long as its reference lives, unless a private view shadows a public capability.
\<close>

lemma summarize_from:
  "summarize b q rs i cs = (ev, Inr ss) \<Longrightarrow> s \<in> set ss \<Longrightarrow>
   \<exists>k c c'. c \<in> set cs \<and> with_computed_digest (bk_prims b) c = Inr c' \<and> s = summary_of (su_ref s) c' \<and>
     issue (bk_prims b) (bk_signer b) c' (bq_view q) (bq_context q) (fst (rs k)) (snd (rs k)) = Inr (su_ref s)"
proof (induction cs arbitrary: i ev ss)
  case Nil
  then show ?case by simp
next
  case (Cons c cs)
  from Cons.prems(1) obtain c' where c': "with_computed_digest (bk_prims b) c = Inr c'"
    by (cases "with_computed_digest (bk_prims b) c") auto
  with Cons.prems(1) obtain ref where ref:
    "issue (bk_prims b) (bk_signer b) c' (bq_view q) (bq_context q) (fst (rs i)) (snd (rs i)) = Inr ref"
    by (cases "issue (bk_prims b) (bk_signer b) c' (bq_view q) (bq_context q) (fst (rs i)) (snd (rs i))") auto
  obtain ev' r' where rec: "summarize b q rs (Suc i) cs = (ev', r')" by force
  with Cons.prems(1) c' ref obtain ss' where ss: "r' = Inr ss'" "ss = summary_of ref c' # ss'"
    by (cases r') auto
  show ?case
  proof (cases "s = summary_of ref c'")
    case True
    with c' ref show ?thesis
      by (intro exI [of _ i] exI [of _ c] exI [of _ c']) (simp add: summary_of_def)
  next
    case False
    with ss Cons.prems(2) have "s \<in> set ss'" by simp
    with Cons.IH[OF rec[unfolded ss(1)]] show ?thesis by auto
  qed
qed

lemma query_page_from:
  assumes "query_page b rs q = (ev, Inr page)" "s \<in> set (dp_summaries page)"
  shows "\<exists>k c c' cpage. bk_search b q = Inr cpage \<and> c \<in> set (cp_capabilities cpage)
     \<and> with_computed_digest (bk_prims b) c = Inr c' \<and> s = summary_of (su_ref s) c'
     \<and> issue (bk_prims b) (bk_signer b) c' (bq_view q) (bq_context q) (fst (rs k)) (snd (rs k)) = Inr (su_ref s)"
proof -
  from assms(1) obtain cpage where p: "bq_context q \<noteq> []" "bq_view q \<noteq> []" "bk_search b q = Inr cpage"
    by (cases "bk_search b q") (auto simp: query_page_def split: if_splits)
  let ?caps = "if bq_limit q > 0 \<and> int (length (cp_capabilities cpage)) > bq_limit q
     then take (nat (bq_limit q)) (cp_capabilities cpage) else cp_capabilities cpage"
  obtain ev' r' where s: "summarize b q rs 0 ?caps = (ev', r')" by force
  with assms p obtain ss where ss: "r' = Inr ss" "s \<in> set ss"
    by (cases r') (auto simp: query_page_def Let_def)
  from summarize_from[OF s[unfolded ss(1)] ss(2)] obtain k c c' where
    f: "c \<in> set ?caps" "with_computed_digest (bk_prims b) c = Inr c'" "s = summary_of (su_ref s) c'"
    "issue (bk_prims b) (bk_signer b) c' (bq_view q) (bq_context q) (fst (rs k)) (snd (rs k)) = Inr (su_ref s)"
    by blast
  have "set ?caps \<subseteq> set (cp_capabilities cpage)" using set_take_subset by (simp add: subset_iff) fast
  with f p(3) show ?thesis by blast
qed

section \<open>Properties\<close>

text \<open>
  C17: For a broker whose references live for at least a second, over a consistent index without
  shadowed capabilities (\<open>unshadowed\<close>: no private view names a capability another view names too)
  and with a clock the 64-bit time holds: every summary of a discovery page whose names, scopes,
  profiles, view and context are UTF-8 can be described with its reference, in the same context and
  view, at any time before the reference expires, and the described capability has the server,
  version, kind and name of the summary.  \<open>shadowed_public_rejected\<close> shows that the condition
  on the index is needed.
\<close>

theorem discovered_is_describable:
  assumes "mcp_ok t" "unshadowed t" "bk_search b = catalog_search fts glob now t"
    and "bk_resolve b = catalog_resolve now' t"
    and "query_page b rs q = (ev, Inr page)" "s \<in> set (dp_summaries page)"
    and "claims_codec (bk_prims b)" "utf8_valid (bq_view q)" "utf8_valid (bq_context q)"
    and "\<And>cpage c. bk_search b q = Inr cpage \<Longrightarrow> c \<in> set (cp_capabilities cpage) \<Longrightarrow> capability_text c"
    and "\<And>k. snd (rs k) \<noteq> [] \<and> 1000000000 \<le> fst (rs k) \<and> fst (rs k) + sg_ttl (bk_signer b) < 2 ^ 62 * 1000000000"
    and "\<And>k. later < unix (fst (rs k) + sg_ttl (bk_signer b)) * 1000000000"
    and "1000000000 \<le> sg_ttl (bk_signer b)"
  shows "\<exists>c. snd (describe b later (su_ref s) \<lparr>rq_context = bq_context q, rq_view = bq_view q\<rparr>) = Inr c
     \<and> server_name c = canonical_name (su_server s) \<and> server_ver c = su_version s
     \<and> cap_kind c = su_kind s \<and> cap_name c = su_name s"
proof -
  from query_page_from[OF assms(5,6)] obtain k c c' cpage where
    f: "bk_search b q = Inr cpage" "c \<in> set (cp_capabilities cpage)"
    "with_computed_digest (bk_prims b) c = Inr c'" "s = summary_of (su_ref s) c'"
    "issue (bk_prims b) (bk_signer b) c' (bq_view q) (bq_context q) (fst (rs k)) (snd (rs k)) = Inr (su_ref s)"
    by blast
  have fx: "with_computed_digest (bk_prims b) c' = Inr c'"
    by (rule with_computed_fixpoint[OF with_computed_complete[OF f(3)]])
  let ?cl = "issue_claims (bk_signer b) c' (bq_view q) (bq_context q) (fst (rs k)) (snd (rs k))"
  from f(5) fx have v: "bq_view q \<noteq> []" "bq_context q \<noteq> []"
    "su_ref s = reference_of (bk_prims b) (bk_signer b) (claims_encode (bk_prims b) ?cl)"
    by (auto simp: issue_Ok_iff)
  have "capability_text c'"
    using with_computed_keeps[OF f(3)] assms(10)[OF f(1,2)] by (simp add: capability_text_def)
  note utf = issued_claims_text[OF with_computed_complete[OF f(3)] this assms(8,9), where s = "bk_signer b"
    and now = "fst (rs k)" and nonce = "snd (rs k)"]
  have "claims_wf ?cl"
    using issued_claims_wf[OF with_computed_complete[OF f(3)] v(1,2)] assms(11)[of k] assms(13) by blast
  then have ver: "verify (bk_prims b) (bk_signer b) later (su_ref s) = Inr ?cl"
    using utf assms(7,13) assms(11,12)[of k] by (simp add: v(3) verify_reference_of claims_codec_def)
  have cf: "claims_for c' (bq_view q) ?cl" by (simp add: claims_for_def claims_match_def issue_claims_def)
  have "\<exists>c1. snd (describe b later (su_ref s) \<lparr>rq_context = bq_context q, rq_view = bq_view q\<rparr>) = Inr c1
      \<and> claims_match ?cl c1"
    by (rule indexed.listed_can_be_described[where t = t and q = q and page = cpage and c = c and c' = c'
          and fts = fts and glob = glob and ?t0.0 = now and ?t1.0 = now'])
      (use assms(1-4) f ver cf in \<open>simp_all add: issue_claims_def\<close>)
  then show ?thesis
    by (subst (1 2 3 4) f(4)) (auto simp: claims_match_def issue_claims_def summary_of_def)
qed

text \<open>A broker over a small index.\<close>

definition index_broker :: "mcp_tables \<Rightarrow> broker" where
  "index_broker t = demo_broker\<lparr>bk_search := catalog_search (\<lambda>ds s d. None) simple_glob 0 t,
     bk_resolve := catalog_resolve 0 t\<rparr>"

definition browse :: broker_query where
  "browse = \<lparr>bq_path = [], bq_search = [], bq_server = [], bq_kind = [], bq_availability = [],
     bq_context = ''x'', bq_view = ''v'', bq_limit = 8, bq_offset = 0\<rparr>"

lemma demo_index_lists:
  "case insert_capability demo_prims demo_raw (demo_record [] []) mcp_empty of Inl e \<Rightarrow> False | Inr (t, i) \<Rightarrow>
     (case catalog_search (\<lambda>ds s d. None) simple_glob 0 t browse of Inl e \<Rightarrow> False
      | Inr p \<Rightarrow> (case cp_capabilities p of [c] \<Rightarrow>
          (case with_computed_digest demo_prims c of Inl e \<Rightarrow> False | Inr c' \<Rightarrow> capability_text c) | _ \<Rightarrow> False))"
  by code_simp

lemma demo_index_page:
  obtains t i ev page s where
    "insert_capability demo_prims demo_raw (demo_record [] []) mcp_empty = Inr (t, i)"
    "query_page (index_broker t) (\<lambda>k. (1000000000, ''n'')) browse = (ev, Inr page)" "s \<in> set (dp_summaries page)"
    "\<And>p c. catalog_search (\<lambda>ds s d. None) simple_glob 0 t browse = Inr p \<Longrightarrow> c \<in> set (cp_capabilities p) \<Longrightarrow> capability_text c"
proof -
  from demo_index_lists obtain t i p c c' where
    h: "insert_capability demo_prims demo_raw (demo_record [] []) mcp_empty = Inr (t, i)"
      "catalog_search (\<lambda>ds s d. None) simple_glob 0 t browse = Inr p" "cp_capabilities p = [c]"
      "with_computed_digest demo_prims c = Inr c'" "capability_text c"
    by (auto split: sum.splits prod.splits list.splits)
  have "issue demo_prims demo_signer c' ''v'' ''x'' 1000000000 ''n''
      = Inr (reference_of demo_prims demo_signer (demo_encode (issue_claims demo_signer c' ''v'' ''x'' 1000000000 ''n'')))"
    unfolding issue_computed[OF h(4)] by (simp add: issue_def h(4))
  then have "\<exists>ev page s. query_page (index_broker t) (\<lambda>k. (1000000000, ''n'')) browse = (ev, Inr page)
      \<and> s \<in> set (dp_summaries page)"
    using h(2-4)
    by (simp add: query_page_def browse_def[symmetric] index_broker_def demo_broker_def)
      (simp add: browse_def)
  with h(1-3,5) that show ?thesis by fastforce
qed

lemma discovered_is_describable_witness:
  "\<exists>t i ev page s c. insert_capability demo_prims demo_raw (demo_record [] []) mcp_empty = Inr (t, i) \<and>
     query_page (index_broker t) (\<lambda>k. (1000000000, ''n'')) browse = (ev, Inr page) \<and>
     s \<in> set (dp_summaries page) \<and> snd (describe (index_broker t) 2000000000 (su_ref s) demo_request) = Inr c"
proof -
  from demo_index_page obtain t i ev page s where
    r: "insert_capability demo_prims demo_raw (demo_record [] []) mcp_empty = Inr (t, i)"
    and p: "query_page (index_broker t) (\<lambda>k. (1000000000, ''n'')) browse = (ev, Inr page)" "s \<in> set (dp_summaries page)"
    and tx: "\<And>p c. catalog_search (\<lambda>ds s d. None) simple_glob 0 t browse = Inr p \<Longrightarrow> c \<in> set (cp_capabilities p) \<Longrightarrow> capability_text c"
    by blast
  from demo_inserts[of "[]" "[]"] r obtain r' where
    r': "complete_record demo_prims demo_raw (demo_record [] []) = Inr r'" "cr_partition r' = ''public''"
    by (auto simp: default_string_def)
  with r have w: "write_capability r' mcp_empty = Inr (t, i)" by (simp add: insert_capability_def)
  have ok: "mcp_ok t" by (rule write_capability_ok[OF mcp_ok_empty w])
  have only: "vw_partition vw = ''public''" if "vw \<in> set (snd (mt_views t))" for vw
  proof -
    from write_capability_OkD[OF w] obtain vid where "mt_views t = put_view r' vid (mt_views mcp_empty)"
      unfolding Let_def by blast
    with that r'(2) show ?thesis by (auto simp: put_view_def mcp_empty_def upsert_def)
  qed
  have un: "unshadowed t"
    unfolding unshadowed_def using only join_row_parts(6) by (fastforce simp: joined_rows_iff)
  have rq: "demo_request = \<lparr>rq_context = bq_context browse, rq_view = bq_view browse\<rparr>"
    by (simp add: demo_request_def browse_def)
  have br: "bk_prims (index_broker t) = demo_prims" "bk_signer (index_broker t) = demo_signer"
    "bk_search (index_broker t) = catalog_search (\<lambda>ds s d. None) simple_glob 0 t"
    "bk_resolve (index_broker t) = catalog_resolve 0 t"
    by (simp_all add: index_broker_def demo_broker_def)
  have "\<exists>c. snd (describe (index_broker t) 2000000000 (su_ref s) demo_request) = Inr c"
    unfolding rq
    using discovered_is_describable[OF ok un br(3,4) p, where later = 2000000000] tx demo_codec
    unfolding br by (auto simp: claims_codec_def demo_signer_def unix_def browse_def utf8_valid_ascii)
  with r p show ?thesis by blast
qed

text \<open>
  When a tenant's private view holds a capability of the same name as a public one but
  with another definition, a reference to the public one, which that tenant's searches list
  too, never describes: resolution picks the private definition and the broker reports a change.
\<close>

theorem shadowed_public_rejected:
  assumes "mcp_ok t" "bk_resolve b = catalog_resolve now' t"
    and "verify (bk_prims b) (bk_signer b) now ref = Inr cl"
    and "(c, v, s, w) \<in> set (joined_rows t)" "vw_partition w = rc_view cl"
    and "names_capability (rc_server cl) (rc_version cl) (rc_kind cl) (rc_capability cl) (c, v, s, w)"
    and "compute_schema_digest (bk_prims b) (mc_kind c) (mc_name c) (mc_input c) (mc_output c) \<noteq> Inr (rc_schema_digest cl)"
  shows "\<exists>e. snd (describe b now ref req) = Inl e"
proof -
  have res: "resolve_capability_view now' t (rc_server cl) (rc_version cl) (rc_kind cl) (rc_capability cl) (rc_view cl)
      = Some (hydrate now' t (c, v, s, w))"
    by (rule resolve_view_own[OF assms(1,4-6)])
  have "\<not> claims_match cl c1" if c1: "catalog_resolve now' t cl = Inr c0" "with_computed_digest (bk_prims b) c0 = Inr c1" for c0 c1
  proof -
    have "c0 = select_binding (cr_capability (hydrate now' t (c, v, s, w))) None
        \<or> (\<exists>d. c0 = select_binding (cr_capability (hydrate now' t (c, v, s, w))) (Some d))"
      using c1(1) res by (auto simp: catalog_resolve_def select_binding_def split: option.splits if_splits)
    then obtain bo where "c0 = select_binding (cr_capability (hydrate now' t (c, v, s, w))) bo" by blast
    then have "compute_schema_digest (bk_prims b) (mc_kind c) (mc_name c) (mc_input c) (mc_output c) = Inr (schema_digest c1)"
      using c1(2) by (auto simp: with_computed_Ok_iff select_binding_def hydrate_def split: option.splits)
    with assms(7) show ?thesis by (auto simp: claims_match_def)
  qed
  then show ?thesis
    using assms(2,3) by (auto simp: describe_def split: sum.splits)
qed

lemma shadowed_public_rejected_witness:
  "\<exists>t i ref e. insert_capability demo_prims demo_raw (demo_record ''v'' []) mcp_empty = Inr (t, i) \<and>
     snd (describe (index_broker t) 2000000000 ref demo_request) = Inl e"
proof -
  from demo_inserts[of "[]" "''v''"] obtain r' t i where
    r: "complete_record demo_prims demo_raw (demo_record ''v'' []) = Inr r'" "cr_partition r' = ''v''"
      "insert_capability demo_prims demo_raw (demo_record ''v'' []) mcp_empty = Inr (t, i)"
    by (auto simp: default_string_def)
  then have w: "write_capability r' mcp_empty = Inr (t, i)" by (simp add: insert_capability_def)
  have ok: "mcp_ok t" by (rule write_capability_ok[OF mcp_ok_empty w])
  from written_row[OF mcp_ok_empty w, of 0] obtain x v s vw where
    j: "(x, v, s, vw) \<in> set (joined_rows t)" "vw_partition vw = ''v''"
      "names_capability ''docs'' ''1'' ''tool'' ''search'' (x, v, s, vw)"
    unfolding demo_names[OF r(1)] r(2) by blast
  let ?cl = "\<lparr>rc_server = ''docs'', rc_version = ''1'', rc_capability = ''search'', rc_kind = ''tool'',
     rc_schema_digest = ''old'', rc_routing_scope = [], rc_auth_profile = [], rc_view = ''v'', rc_context = ''x'',
     rc_issued_at = 1, rc_expires_at = 60, rc_nonce = ''n''\<rparr>"
  let ?ref = "reference_of demo_prims demo_signer (demo_encode ?cl)"
  have v: "verify (bk_prims (index_broker t)) (bk_signer (index_broker t)) 2000000000 ?ref = Inr ?cl"
    by (simp add: index_broker_def demo_broker_def verify_reference_of demo_codec claims_wf_def unix_time_id)
  have "compute_schema_digest demo_prims k n a b \<noteq> Inr ''old''" for k n a b
    by (auto simp: compute_schema_digest_def split: option.splits)
  then have "\<exists>e. snd (describe (index_broker t) 2000000000 ?ref demo_request) = Inl e"
    using j by (intro shadowed_public_rejected[OF ok _ v j(1), of 0])
      (simp_all add: index_broker_def demo_broker_def)
  with r(3) show ?thesis by blast
qed

end
