(* ===== verification/Sections.thy ===== *)
theory Sections
  imports GoStrings
begin

text \<open>
  internal/query/sections.go: the ATX headings of a skill and the text under one of them, and the
  cuts at rune boundaries of internal/query/query.go.  \<open>lower\<close> is \<^verbatim>\<open>strings.ToLower\<close>
  (the Unicode case tables); every result holds for any such function.
\<close>

section \<open>Cuts at rune boundaries\<close>

definition cont_byte :: "char \<Rightarrow> bool" where
  "cont_byte c \<longleftrightarrow> 128 \<le> (of_char c :: nat) \<and> (of_char c :: nat) < 192"

text \<open>\<^verbatim>\<open>for end > 0 && (s[end]&0xc0) == 0x80 { end-- }\<close>\<close>

fun rune_start :: "string \<Rightarrow> nat \<Rightarrow> nat" where
  "rune_start s 0 = 0"
| "rune_start s (Suc n) = (if cont_byte (s ! Suc n) then rune_start s n else Suc n)"

definition ellipsis :: string where "ellipsis = [CHR 0xE2, CHR 0x80, CHR 0xA6]"

definition compact_text :: "string \<Rightarrow> nat \<Rightarrow> string" where
  "compact_text s max_len =
     (if length s \<le> max_len then s else take (rune_start s max_len) s @ ellipsis)"

lemma rune_start_le: "rune_start s n \<le> n"
  by (induction s n rule: rune_start.induct) auto

lemma rune_start_boundary: "rune_start s n > 0 \<Longrightarrow> \<not> cont_byte (s ! rune_start s n)"
  by (induction s n rule: rune_start.induct) auto

lemma rune_start_skips: "rune_start s n < k \<Longrightarrow> k \<le> n \<Longrightarrow> cont_byte (s ! k)"
  by (induction s n rule: rune_start.induct) (auto simp: le_Suc_eq split: if_splits)

lemma compact_text_bounded: "length (compact_text s n) \<le> n + 3"
  using rune_start_le[of s n] by (auto simp: compact_text_def ellipsis_def)

section \<open>Headings\<close>

text \<open>
  The regular expression \<^verbatim>\<open>^(#{1,6})[ \t]+(.+?)[ \t]*#*[ \t]*$\<close> on one line: the marks
  and the blanks are greedy, the title is the shortest that leaves only closing marks, and when
  the line holds only blanks after the marks the last of them is the title.
\<close>

definition hblank :: "char \<Rightarrow> bool" where "hblank c \<longleftrightarrow> c = sp \<or> c = tab"

definition closing :: "string \<Rightarrow> bool" where
  "closing s \<longleftrightarrow> dropWhile hblank (dropWhile (\<lambda>c. c = CHR ''#'') (dropWhile hblank s)) = []"

fun lazy_title :: "string \<Rightarrow> string" where
  "lazy_title [] = []"
| "lazy_title (c # cs) = (if closing cs then [c] else c # lazy_title cs)"

definition heading_match :: "string \<Rightarrow> (nat \<times> string) option" where
  "heading_match line =
     (let marks = takeWhile (\<lambda>c. c = CHR ''#'') line;
          rest = drop (length marks) line;
          blanks = takeWhile hblank rest;
          body = drop (length blanks) rest
      in if marks = [] \<or> length marks > 6 \<or> blanks = [] then None
         else if body \<noteq> [] then Some (length marks, lazy_title body)
         else if length blanks > 1 then Some (length marks, [last blanks]) else None)"

definition fence_line :: "string \<Rightarrow> bool" where
  "fence_line line \<longleftrightarrow>
     has_prefix (trim_space line) (replicate 3 (CHR 0x60)) \<or> has_prefix (trim_space line) ''~~~''"

section \<open>Identifiers\<close>

text \<open>
  The Go loop runs over runes; the bytes of a rune outside ASCII give the one dash the rune
  gives, as a dash is never written twice in a row.
\<close>

definition slug_char :: "char \<Rightarrow> bool" where
  "slug_char c \<longleftrightarrow>
     (CHR ''a'' \<le> c \<and> c \<le> CHR ''z'') \<or> (CHR ''0'' \<le> c \<and> c \<le> CHR ''9'') \<or> c = CHR ''-''"

fun slug_from :: "bool \<Rightarrow> string \<Rightarrow> string" where
  "slug_from dash [] = []"
| "slug_from dash (c # cs) =
     (if slug_char c then c # slug_from False cs
      else if dash then slug_from dash cs
      else CHR ''-'' # slug_from True cs)"

definition trim_char :: "char \<Rightarrow> string \<Rightarrow> string" where
  "trim_char c s = rev (dropWhile (\<lambda>x. x = c) (rev (dropWhile (\<lambda>x. x = c) s)))"

definition slug :: "(string \<Rightarrow> string) \<Rightarrow> string \<Rightarrow> string" where
  "slug lower s = trim_char (CHR ''-'') (slug_from False (lower (trim_space s)))"

fun itoa_loop :: "nat \<Rightarrow> string \<Rightarrow> string" where
  "itoa_loop n acc = (if n = 0 then acc else itoa_loop (n div 10) (char_of (48 + n mod 10) # acc))"

declare itoa_loop.simps [simp del]

definition strconv_itoa :: "nat \<Rightarrow> string" where
  "strconv_itoa n = (if n = 0 then ''0'' else itoa_loop n [])"

definition next_id :: "(string \<Rightarrow> string) \<Rightarrow> (string \<Rightarrow> nat) \<Rightarrow> string \<Rightarrow> string \<times> (string \<Rightarrow> nat)" where
  "next_id lower seen title =
     (let base = slug lower title; n = Suc (seen base)
      in ((if n > 1 then base @ CHR ''-'' # strconv_itoa (n - 1) else base), seen(base := n)))"

section \<open>The two loops\<close>

record section_ref =
  se_id :: string
  se_title :: string
  se_level :: nat

fun sections_loop :: "(string \<Rightarrow> string) \<Rightarrow> bool \<Rightarrow> (string \<Rightarrow> nat) \<Rightarrow> section_ref list \<Rightarrow> string list
  \<Rightarrow> section_ref list" where
  "sections_loop lower fence seen out [] = out"
| "sections_loop lower fence seen out (line # lines) =
     (if fence_line line then sections_loop lower (\<not> fence) seen out lines
      else if fence then sections_loop lower fence seen out lines
      else (case heading_match line of
              None \<Rightarrow> sections_loop lower fence seen out lines
            | Some (level, m2) \<Rightarrow>
                (let full = trim_space m2; (i, seen') = next_id lower seen full;
                     out' = out @ [\<lparr>se_id = i, se_title = compact_text full 160, se_level = level\<rparr>]
                 in if length out' = 8 then out' else sections_loop lower fence seen' out' lines)))"

definition sections :: "(string \<Rightarrow> string) \<Rightarrow> string \<Rightarrow> section_ref list" where
  "sections lower content = sections_loop lower False (\<lambda>_. 0) [] (split_on nl content)"

text \<open>\<open>st\<close> is the pair \<^verbatim>\<open>start, level\<close>, \<open>i\<close> the index of the line.\<close>

fun select_loop :: "(string \<Rightarrow> string) \<Rightarrow> string list \<Rightarrow> string \<Rightarrow> bool \<Rightarrow> (string \<Rightarrow> nat) \<Rightarrow> nat
  \<Rightarrow> (nat \<times> nat) option \<Rightarrow> string list \<Rightarrow> string option" where
  "select_loop lower lines target fence seen i st [] =
     map_option (\<lambda>(start, level). str_join [nl] (drop start lines)) st"
| "select_loop lower lines target fence seen i st (line # rest) =
     (if fence_line line then select_loop lower lines target (\<not> fence) seen (Suc i) st rest
      else if fence then select_loop lower lines target fence seen (Suc i) st rest
      else (case heading_match line of
              None \<Rightarrow> select_loop lower lines target fence seen (Suc i) st rest
            | Some (current, m2) \<Rightarrow>
                (case next_id lower seen (trim_space m2) of (ident, seen') \<Rightarrow>
                   (case st of
                      Some (start, level) \<Rightarrow>
                        (if current \<le> level
                         then Some (str_join [nl] (take (i - start) (drop start lines)))
                         else select_loop lower lines target fence seen' (Suc i)
                                (if ident = target then Some (i, current) else st) rest)
                    | None \<Rightarrow> select_loop lower lines target fence seen' (Suc i)
                                (if ident = target then Some (i, current) else None) rest))))"

definition select_section :: "(string \<Rightarrow> string) \<Rightarrow> string \<Rightarrow> string \<Rightarrow> string option" where
  "select_section lower content target =
     (let lines = split_on nl content in select_loop lower lines target False (\<lambda>_. 0) 0 None lines)"

end
