(* ===== verification/QueryEngine.thy ===== *)
theory QueryEngine
  imports RegistryQueries CapabilityQuery Broker Sections
begin

text \<open>
  internal/query/query.go: one discovery query over skills and capabilities, its pages and
  cursors, the vocabulary answers, and the bounded read of one skill.

  Parameters (\<open>query_lib\<close>): the glob compiler, the full-text engine, \<^verbatim>\<open>strings.ToLower\<close>
  and the JSON decoder of a cursor.  The capability side of the engine is the
  function \<^verbatim>\<open>QueryPage\<close> of the interface \<^verbatim>\<open>CapabilityDiscoverer\<close>.
  A slice expression out of range is a Go run-time panic and a branch of its own.
\<close>

section \<open>Data\<close>

record query_lib =
  ql_glob :: globber
  ql_fts :: fts_engine
  ql_lower :: "string \<Rightarrow> string"
  ql_cursor :: "string \<Rightarrow> (int \<times> int) option"

record query_params =
  qp_path :: string
  qp_topics :: "string list"
  qp_tags :: "string list"
  qp_package :: string
  qp_search :: string
  qp_server :: string
  qp_kind :: string
  qp_availability :: string
  qp_limit :: int
  qp_cursor :: string

record query_engine =
  en_registry :: registry
  en_discover :: "(broker_query \<Rightarrow> (broker_error, discovery_page) result) option"
  en_context :: string
  en_view :: string

record query_result =
  rs_ref :: string
  rs_path :: string
  rs_name :: string
  rs_desc :: string
  rs_package :: string
  rs_version :: string
  rs_visibility :: string
  rs_source :: string
  rs_topics :: "string list"
  rs_tags :: "string list"
  rs_scopes :: "string list"
  rs_bytes :: nat
  rs_score :: int
  rs_sections :: "section_ref list"
  rs_matched :: "string list"
  rs_excerpt :: string

record package_entry =
  pe_name :: string
  pe_version :: string
  pe_count :: nat

record vocabulary =
  vo_topics :: "(string \<times> nat) list"
  vo_tags :: "(string \<times> nat) list"
  vo_packages :: "package_entry list"
  vo_total :: nat
  vo_capabilities :: nat

record query_echo =
  ec_path :: string
  ec_topics :: "string list"
  ec_tags :: "string list"
  ec_package :: string
  ec_search :: string
  ec_server :: string
  ec_kind :: string
  ec_availability :: string

record narrow_with =
  nw_topics :: "facet list"
  nw_tags :: "facet list"
  nw_packages :: "facet list"
  nw_paths :: "facet list"
  nw_servers :: "facet list"
  nw_kinds :: "facet list"
  nw_availability :: "facet list"

datatype response_type = ResultsResponse | VocabularyResponse | NoMatchResponse

record query_response =
  rp_type :: response_type
  rp_results :: "query_result list"
  rp_capabilities :: "summary list"
  rp_vocabulary :: "vocabulary option"
  rp_echo :: "query_echo option"
  rp_match_count :: nat
  rp_returned :: nat
  rp_cap_match :: nat
  rp_cap_returned :: nat
  rp_too_broad :: bool
  rp_next :: string
  rp_narrow :: "narrow_with option"

datatype query_error =
  UnsupportedKind string | UnsupportedAvailability string | DiscoverError broker_error | SlicePanic

definition empty_response :: "response_type \<Rightarrow> query_response" where
  "empty_response ty = \<lparr>rp_type = ty, rp_results = [], rp_capabilities = [], rp_vocabulary = None, rp_echo = None,
     rp_match_count = 0, rp_returned = 0, rp_cap_match = 0, rp_cap_returned = 0, rp_too_broad = False,
     rp_next = [], rp_narrow = None\<rparr>"

section \<open>Cursors\<close>

record discovery_cursor =
  cu_skills :: int
  cu_capabilities :: int

definition zero_cursor :: discovery_cursor where
  "zero_cursor = \<lparr>cu_skills = 0, cu_capabilities = 0\<rparr>"

definition marshal_cursor :: "nat \<Rightarrow> nat \<Rightarrow> string" where
  "marshal_cursor s c = [CHR ''{'', dq] @ ''s'' @ [dq, CHR '':''] @ strconv_itoa s
     @ [CHR '','', dq] @ ''c'' @ [dq, CHR '':''] @ strconv_itoa c @ ''}''"

text \<open>The engine only encodes cursors of two slice bounds, which are natural numbers.\<close>

definition encode_cursor :: "nat \<Rightarrow> nat \<Rightarrow> string" where
  "encode_cursor s c = b64_encode (marshal_cursor s c)"

definition is_digit :: "char \<Rightarrow> bool" where
  "is_digit c \<longleftrightarrow> CHR ''0'' \<le> c \<and> c \<le> CHR ''9''"

fun digits_value :: "nat \<Rightarrow> string \<Rightarrow> nat" where
  "digits_value acc [] = acc"
| "digits_value acc (c # cs) = digits_value (10 * acc + (of_char c - 48)) cs"

text \<open>\<^verbatim>\<open>strconv.Atoi\<close>: an optional sign, decimal digits, a value of 64 bits.\<close>

definition strconv_atoi :: "string \<Rightarrow> int option" where
  "strconv_atoi s =
     (let neg = has_prefix s ''-'';
          digits = (if neg \<or> has_prefix s ''+'' then tl s else s);
          v = int (digits_value 0 digits)
      in if digits = [] \<or> \<not> list_all is_digit digits then None
         else if neg then (if v \<le> 2 ^ 63 then Some (- v) else None)
         else (if v < 2 ^ 63 then Some v else None))"

definition decode_cursor :: "(string \<Rightarrow> (int \<times> int) option) \<Rightarrow> string \<Rightarrow> discovery_cursor" where
  "decode_cursor unjson cursor =
     (case b64_decode cursor of
        None \<Rightarrow> zero_cursor
      | Some b \<Rightarrow>
          (let legacy = (case strconv_atoi b of
                           None \<Rightarrow> zero_cursor
                         | Some n \<Rightarrow> (if n < 0 then zero_cursor else \<lparr>cu_skills = n, cu_capabilities = 0\<rparr>))
           in (case unjson b of
                 None \<Rightarrow> legacy
               | Some (s, c) \<Rightarrow> (if s \<ge> 0 \<and> c \<ge> 0 then \<lparr>cu_skills = s, cu_capabilities = c\<rparr> else legacy))))"

section \<open>Match details\<close>

definition headings :: "(string \<Rightarrow> string) \<Rightarrow> string \<Rightarrow> string" where
  "headings lower content = concat (map (\<lambda>s. se_title s @ [nl]) (sections lower content))"

text \<open>\<^verbatim>\<open>s.Content[start:end]\<close> with \<open>start\<close> and \<open>end\<close> computed from an index into the lower-case text.\<close>

definition excerpt_at :: "string \<Rightarrow> nat \<Rightarrow> (query_error, string) result" where
  "excerpt_at content idx =
     (let start = idx - 120; stop = min (idx + 220) (length content)
      in if start > stop then Inl SlicePanic
         else Inr ((if start > 0 then ellipsis else [])
                @ trim_space (take (stop - start) (drop start content))
                @ (if stop < length content then ellipsis else [])))"

fun first_hit :: "string \<Rightarrow> string list \<Rightarrow> nat option" where
  "first_hit text [] = None"
| "first_hit text (t # ts) = (case str_index text t of None \<Rightarrow> first_hit text ts | Some i \<Rightarrow> Some i)"

definition match_details :: "(string \<Rightarrow> string) \<Rightarrow> skill \<Rightarrow> string \<Rightarrow> (query_error, string list \<times> string) result" where
  "match_details lower s search =
     (let tokens = fields_of [sp, tab, nl, CHR '',''] (lower search);
          hit = (\<lambda>v. list_ex (\<lambda>t. str_contains (lower v) t) tokens);
          fields = (if hit (sk_name s) then [''name''] else [])
                 @ (if hit (sk_desc s) then [''description''] else [])
                 @ (if hit (headings lower (sk_content s)) then [''heading''] else [])
                 @ (if hit (sk_content s) then [''body''] else [])
      in (case first_hit (lower (sk_content s)) tokens of
            None \<Rightarrow> Inr (fields, [])
          | Some idx \<Rightarrow> map_sum id (Pair fields) (excerpt_at (sk_content s) idx)))"

section \<open>References\<close>

definition skill_ref :: "string \<Rightarrow> string" where
  "skill_ref path = ''skill:'' @ b64_encode path"

definition path_from_ref :: "string \<Rightarrow> string option" where
  "path_from_ref ref =
     (if \<not> has_prefix ref ''skill:'' then None
      else (case b64_decode (trim_prefix ref ''skill:'') of
              None \<Rightarrow> None
            | Some b \<Rightarrow> (if b = [] then None else Some b)))"

section \<open>Vocabulary and facets\<close>

text \<open>A Go map of counters, listed in the order the code sorts it to.\<close>

definition counted :: "string list \<Rightarrow> (string \<times> nat) list" where
  "counted vs = map (\<lambda>v. (v, count_list vs v)) (sort (remdups vs))"

definition top_facets :: "(skill \<Rightarrow> string list) \<Rightarrow> skill list \<Rightarrow> facet list" where
  "top_facets values skills =
     (let vs = filter (\<lambda>v. v \<noteq> []) (concat (map values skills))
      in take 8 (map (\<lambda>(v, n). \<lparr>fc_value = v, fc_count = n\<rparr>) (sort_key (\<lambda>(v, n). - int n) (counted vs))))"

definition build_narrow_with :: "skill list \<Rightarrow> discovery_facets \<Rightarrow> narrow_with" where
  "build_narrow_with skills facets =
     \<lparr>nw_topics = top_facets sk_topics skills, nw_tags = top_facets sk_tags skills,
      nw_packages = top_facets (\<lambda>s. [sk_pkg s]) skills, nw_paths = top_facets sk_scopes skills,
      nw_servers = df_servers facets, nw_kinds = df_kinds facets, nw_availability = df_availability facets\<rparr>"

definition build_vocabulary :: "skill list \<Rightarrow> vocabulary" where
  "build_vocabulary skills =
     (let named = filter (\<lambda>s. sk_pkg s \<noteq> []) skills
      in \<lparr>vo_topics = counted (concat (map sk_topics skills)), vo_tags = counted (concat (map sk_tags skills)),
          vo_packages = map (\<lambda>(p, n). \<lparr>pe_name = p,
             pe_version = (case List.find (\<lambda>s. sk_pkg s = p) named of None \<Rightarrow> [] | Some s \<Rightarrow> sk_ver s),
             pe_count = n\<rparr>) (counted (map sk_pkg named)),
          vo_total = length skills, vo_capabilities = 0\<rparr>)"

definition with_capability_count :: "query_engine \<Rightarrow> vocabulary \<Rightarrow> vocabulary" where
  "with_capability_count en v =
     (if en_discover en = None then v else v\<lparr>vo_capabilities := capability_count (rg_mcp (en_registry en))\<rparr>)"

definition vocabulary_response :: "query_engine \<Rightarrow> query_response" where
  "vocabulary_response en =
     (empty_response VocabularyResponse)\<lparr>rp_vocabulary :=
        Some (with_capability_count en (build_vocabulary (all_skills (en_registry en))))\<rparr>"

definition no_match_response :: "query_lib \<Rightarrow> query_engine \<Rightarrow> query_params \<Rightarrow> query_response" where
  "no_match_response lib en p =
     (let scoped = (if qp_path p \<noteq> [] then query_by_path (ql_glob lib) (en_registry en) (qp_path p) else []);
          vocab = (if scoped \<noteq> [] then scoped else all_skills (en_registry en))
      in (empty_response NoMatchResponse)\<lparr>
           rp_echo := Some \<lparr>ec_path = qp_path p, ec_topics = qp_topics p, ec_tags = qp_tags p,
             ec_package = qp_package p, ec_search = qp_search p, ec_server = qp_server p,
             ec_kind = qp_kind p, ec_availability = qp_availability p\<rparr>,
           rp_vocabulary := Some (with_capability_count en (build_vocabulary vocab))\<rparr>)"

section \<open>Execution\<close>

definition has_filters :: "query_params \<Rightarrow> bool" where
  "has_filters p \<longleftrightarrow> qp_path p \<noteq> [] \<or> qp_topics p \<noteq> [] \<or> qp_tags p \<noteq> [] \<or> qp_package p \<noteq> []
     \<or> qp_search p \<noteq> [] \<or> qp_server p \<noteq> [] \<or> qp_kind p \<noteq> [] \<or> qp_availability p \<noteq> []"

definition has_classic_filters :: "query_params \<Rightarrow> bool" where
  "has_classic_filters p \<longleftrightarrow> qp_topics p \<noteq> [] \<or> qp_tags p \<noteq> [] \<or> qp_package p \<noteq> []"

definition valid_kind :: "string \<Rightarrow> bool" where
  "valid_kind k \<longleftrightarrow> k \<in> {kind_tool, kind_prompt, kind_template, kind_server}"

definition valid_availability :: "string \<Rightarrow> bool" where
  "valid_availability v \<longleftrightarrow> v \<in> {av_discovered, av_suggested, av_setup_required, av_credential_missing,
     av_login_required, av_scope_required, av_ready, av_unsupported_auth, av_policy_denied, av_unreachable, av_stale}"

definition clamp_limit :: "int \<Rightarrow> nat" where
  "clamp_limit limit = nat (min 20 (if limit \<le> 0 then 8 else limit))"

definition narrow_path :: "query_lib \<Rightarrow> query_params \<Rightarrow> skill list \<Rightarrow> skill list" where
  "narrow_path lib p skills = (if qp_path p \<noteq> [] then filter_by_path (ql_glob lib) skills (qp_path p) else skills)"

definition select_skills :: "query_lib \<Rightarrow> registry \<Rightarrow> query_params \<Rightarrow> skill list" where
  "select_skills lib db p =
     (let classic = narrow_path lib p (Registry.query db (qp_package p) (qp_topics p) (qp_tags p));
          found = query_by_search (ql_fts lib) db (qp_search p)
      in if qp_search p \<noteq> []
         then (if has_classic_filters p then filter (\<lambda>s. sk_id s \<in> sk_id ` set classic) found
               else narrow_path lib p found)
         else (if has_classic_filters p then classic
               else query_by_path (ql_glob lib) db (qp_path p)))"

definition wants_capabilities :: "query_params \<Rightarrow> bool" where
  "wants_capabilities p \<longleftrightarrow> qp_search p \<noteq> [] \<or> qp_path p \<noteq> [] \<or> qp_server p \<noteq> [] \<or> qp_kind p \<noteq> []
     \<or> qp_availability p \<noteq> []"

definition empty_facets :: discovery_facets where
  "empty_facets = \<lparr>df_servers = [], df_kinds = [], df_availability = []\<rparr>"

definition discover :: "query_engine \<Rightarrow> query_params \<Rightarrow> nat \<Rightarrow> int \<Rightarrow> (query_error, discovery_page) result" where
  "discover en p limit offset =
     (case en_discover en of
        None \<Rightarrow> Inr \<lparr>dp_summaries = [], dp_count = 0, dp_facets = empty_facets\<rparr>
      | Some next_page \<Rightarrow>
          (if wants_capabilities p
           then map_sum DiscoverError id (next_page
                  \<lparr>bq_path = qp_path p, bq_search = qp_search p, bq_server = qp_server p, bq_kind = qp_kind p,
                   bq_availability = qp_availability p, bq_context = en_context en, bq_view = en_view en,
                   bq_limit = int limit, bq_offset = offset\<rparr>)
           else Inr \<lparr>dp_summaries = [], dp_count = 0, dp_facets = empty_facets\<rparr>))"

definition result_of :: "query_lib \<Rightarrow> string \<Rightarrow> skill \<Rightarrow> (query_error, query_result) result" where
  "result_of lib search s =
     (case (if search \<noteq> [] then match_details (ql_lower lib) s search else Inr ([], [])) of
        Inl e \<Rightarrow> Inl e
      | Inr (matched, excerpt) \<Rightarrow>
          Inr \<lparr>rs_ref = skill_ref (sk_path s), rs_path = sk_path s, rs_name = compact_text (sk_name s) 200,
            rs_desc = compact_text (sk_desc s) 600, rs_package = sk_pkg s, rs_version = sk_ver s,
            rs_visibility = sk_vis s, rs_source = sk_src s, rs_topics = sk_topics s, rs_tags = sk_tags s,
            rs_scopes = sk_scopes s, rs_bytes = length (sk_content s), rs_score = sk_score s,
            rs_sections = sections (ql_lower lib) (sk_content s), rs_matched = matched, rs_excerpt = excerpt\<rparr>)"

definition results_response :: "query_lib \<Rightarrow> query_params \<Rightarrow> nat \<Rightarrow> discovery_cursor \<Rightarrow> discovery_page \<Rightarrow> skill list
  \<Rightarrow> (query_error, query_response) result" where
  "results_response lib p limit cursor page found =
     (let skills = (if qp_search p = [] then sort_key sk_path found else found);
          match_count = length skills;
          from = nat (min (cu_skills cursor) (int match_count));
          stop = min (from + limit) match_count;
          cap_match = dp_count page;
          cap_from = nat (min (cu_capabilities cursor) (int cap_match));
          cap_stop = cap_from + length (dp_summaries page)
      in (case map_res (result_of lib (qp_search p)) (take (stop - from) (drop from skills)) of
            Inl e \<Rightarrow> Inl e
          | Inr results \<Rightarrow>
              (let broad = (match_count > limit \<or> cap_match > limit)
               in Inr \<lparr>rp_type = ResultsResponse, rp_results = results, rp_capabilities = dp_summaries page,
                    rp_vocabulary = None, rp_echo = None, rp_match_count = match_count,
                    rp_returned = length results, rp_cap_match = cap_match,
                    rp_cap_returned = length (dp_summaries page), rp_too_broad = broad,
                    rp_next = (if stop < match_count \<or> cap_stop < cap_match then encode_cursor stop cap_stop else []),
                    rp_narrow = (if broad then Some (build_narrow_with skills (dp_facets page)) else None)\<rparr>)))"

definition execute :: "query_lib \<Rightarrow> query_engine \<Rightarrow> query_params \<Rightarrow> (query_error, query_response) result" where
  "execute lib en p =
     (if qp_kind p \<noteq> [] \<and> \<not> valid_kind (qp_kind p) then Inl (UnsupportedKind (qp_kind p))
      else if qp_availability p \<noteq> [] \<and> \<not> valid_availability (qp_availability p)
      then Inl (UnsupportedAvailability (qp_availability p))
      else if \<not> has_filters p then Inr (vocabulary_response en)
      else (let cursor = decode_cursor (ql_cursor lib) (qp_cursor p);
                limit = clamp_limit (qp_limit p)
            in (case discover en p limit (cu_capabilities cursor) of
                  Inl e \<Rightarrow> Inl e
                | Inr page \<Rightarrow>
                    (let found = select_skills lib (en_registry en) p
                     in if found = [] \<and> dp_count page = 0 then Inr (no_match_response lib en p)
                        else results_response lib p limit cursor page found))))"

section \<open>Reading\<close>

record read_response =
  rd_ref :: string
  rd_path :: string
  rd_section :: "section_ref option"
  rd_content :: string
  rd_bytes :: nat
  rd_truncated :: bool

datatype read_error = InvalidSkillRef | SkillNotFound | SectionNotFound string

definition clamp_bytes :: "int \<Rightarrow> nat" where
  "clamp_bytes max_bytes = nat (min (64 * 1024) (if max_bytes \<le> 0 then 24 * 1024 else max_bytes))"

definition read_bounded :: "string \<Rightarrow> string \<Rightarrow> section_ref option \<Rightarrow> string \<Rightarrow> int \<Rightarrow> read_response" where
  "read_bounded ref path selected content max_bytes =
     (let full = length content; limit = clamp_bytes max_bytes
      in \<lparr>rd_ref = ref, rd_path = path, rd_section = selected,
          rd_content = (if full > limit then take (rune_start content limit) content else content),
          rd_bytes = full, rd_truncated = (full > limit)\<rparr>)"

definition read_skill :: "query_lib \<Rightarrow> registry \<Rightarrow> string \<Rightarrow> string \<Rightarrow> int \<Rightarrow> (read_error, read_response) result" where
  "read_skill lib db ref section_id max_bytes =
     (case path_from_ref ref of
        None \<Rightarrow> Inl InvalidSkillRef
      | Some path \<Rightarrow>
          (case get_skill_by_path db path of
             None \<Rightarrow> Inl SkillNotFound
           | Some s \<Rightarrow>
               (if section_id = [] then Inr (read_bounded ref (sk_path s) None (sk_content s) max_bytes)
                else (case select_section (ql_lower lib) (sk_content s) section_id of
                        None \<Rightarrow> Inl (SectionNotFound section_id)
                      | Some body \<Rightarrow>
                          Inr (read_bounded ref (sk_path s)
                            (List.find (\<lambda>h. se_id h = section_id) (sections (ql_lower lib) (sk_content s)))
                            body max_bytes)))))"

definition content_string :: "string list \<Rightarrow> string" where
  "content_string contents =
     str_join ([nl, nl] @ ''---'' @ [nl, nl]) (filter (\<lambda>c. c \<noteq> []) contents)"

end
