(* ===== verification/SectionProps.thy ===== *)
theory SectionProps
  imports Sections
begin

text \<open>
  The list of all headings of a text as the common reference of the two loops of
  internal/query/sections.go: \<open>sections\<close> shows its first eight, \<open>select_section\<close> cuts the text at
  its entries.
\<close>

record heading =
  hd_line :: nat
  hd_id :: string
  hd_title :: string
  hd_level :: nat

fun headings_from :: "(string \<Rightarrow> string) \<Rightarrow> bool \<Rightarrow> (string \<Rightarrow> nat) \<Rightarrow> nat \<Rightarrow> string list \<Rightarrow> heading list" where
  "headings_from lower fence seen i [] = []"
| "headings_from lower fence seen i (line # lines) =
     (if fence_line line then headings_from lower (\<not> fence) seen (Suc i) lines
      else if fence then headings_from lower fence seen (Suc i) lines
      else (case heading_match line of
              None \<Rightarrow> headings_from lower fence seen (Suc i) lines
            | Some (level, m2) \<Rightarrow>
                (case next_id lower seen (trim_space m2) of (ident, seen') \<Rightarrow>
                   \<lparr>hd_line = i, hd_id = ident, hd_title = trim_space m2, hd_level = level\<rparr>
                   # headings_from lower fence seen' (Suc i) lines)))"

definition headings_of :: "(string \<Rightarrow> string) \<Rightarrow> string \<Rightarrow> heading list" where
  "headings_of lower content = headings_from lower False (\<lambda>_. 0) 0 (split_on nl content)"

definition to_section :: "heading \<Rightarrow> section_ref" where
  "to_section h = \<lparr>se_id = hd_id h, se_title = compact_text (hd_title h) 160, se_level = hd_level h\<rparr>"

lemma to_section_id [simp]: "se_id (to_section h) = hd_id h"
  by (simp add: to_section_def)

lemma headings_lines:
  "h \<in> set (headings_from lower fence seen i lines) \<Longrightarrow> i \<le> hd_line h \<and> hd_line h < i + length lines"
proof (induction lower fence seen i lines rule: headings_from.induct)
  case (2 lower fence seen i line lines)
  then show ?case by (fastforce split: if_splits option.splits prod.splits)
qed simp

lemma headings_sorted: "sorted_wrt (\<lambda>a b. hd_line a < hd_line b) (headings_from lower fence seen i lines)"
proof (induction lower fence seen i lines rule: headings_from.induct)
  case (2 lower fence seen i line lines)
  then show ?case by (auto split: option.splits prod.splits dest: headings_lines)
qed simp

section \<open>Sections\<close>

lemma line_cases:
  obtains (fence) "fence_line line" | (inside) "\<not> fence_line line" "fence"
    | (plain) "\<not> fence_line line" "\<not> fence" "heading_match line = None"
    | (heading) level m2 ident seen' where "\<not> fence_line line" "\<not> fence" "heading_match line = Some (level, m2)"
        "next_id lower seen (trim_space m2) = (ident, seen')"
  by (cases "heading_match line") (auto, metis surj_pair)

lemma sections_loop_take:
  "length out < 8 \<Longrightarrow> sections_loop lower fence seen out lines
     = out @ map to_section (take (8 - length out) (headings_from lower fence seen i lines))"
proof (induction lines arbitrary: fence seen out i)
  case (Cons line lines)
  show ?case
  proof (cases rule: line_cases[where line = line and fence = fence and lower = lower and seen = seen])
    case (heading level m2 ident seen')
    let ?s = "\<lparr>se_id = ident, se_title = compact_text (trim_space m2) 160, se_level = level\<rparr>"
    show ?thesis
    proof (cases "length (out @ [?s]) = 8")
      case True
      then show ?thesis using heading by (simp add: to_section_def Let_def)
    next
      case False
      with Cons.prems have "length (out @ [?s]) < 8" by simp
      from Cons.IH[OF this, of fence seen' "Suc i"] False heading Cons.prems show ?thesis
        by (simp add: to_section_def take_Cons' Let_def)
    qed
  qed (use Cons in simp_all)
qed simp

lemma sections_headings: "sections lower content = map to_section (take 8 (headings_of lower content))"
  unfolding sections_def headings_of_def by (subst sections_loop_take[of _ _ _ _ _ 0]) simp_all

section \<open>Selection\<close>

fun pick :: "string list \<Rightarrow> string \<Rightarrow> (nat \<times> nat) option \<Rightarrow> heading list \<Rightarrow> string option" where
  "pick lines target st [] = map_option (\<lambda>(start, level). str_join [nl] (drop start lines)) st"
| "pick lines target st (h # hs) =
     (case st of
        Some (start, level) \<Rightarrow>
          (if hd_level h \<le> level then Some (str_join [nl] (take (hd_line h - start) (drop start lines)))
           else pick lines target (if hd_id h = target then Some (hd_line h, hd_level h) else st) hs)
      | None \<Rightarrow> pick lines target (if hd_id h = target then Some (hd_line h, hd_level h) else None) hs)"

lemma select_loop_pick:
  "select_loop lower lines target fence seen i st rest = pick lines target st (headings_from lower fence seen i rest)"
proof (induction rest arbitrary: fence seen i st)
  case (Cons line rest)
  show ?case
    by (cases rule: line_cases[where line = line and fence = fence and lower = lower and seen = seen]; cases st) (simp_all add: Cons split_beta)
qed simp

lemma select_section_pick:
  "select_section lower content target = pick (split_on nl content) target None (headings_of lower content)"
  by (simp add: select_section_def headings_of_def select_loop_pick Let_def)

lemma pick_found: "st \<noteq> None \<or> (\<exists>h \<in> set hs. hd_id h = target) \<Longrightarrow> pick lines target st hs \<noteq> None"
proof (induction hs arbitrary: st)
  case (Cons h hs)
  show ?case
  proof (cases st)
    case None
    with Cons.prems have "hd_id h = target \<or> (\<exists>h \<in> set hs. hd_id h = target)" by auto
    with Cons.IH[of "if hd_id h = target then Some (hd_line h, hd_level h) else None"] None show ?thesis
      by (cases "hd_id h = target") simp_all
  next
    case (Some p)
    with Cons.IH[of "if hd_id h = target then Some (hd_line h, hd_level h) else st"] show ?thesis
      by (cases p; cases "hd_id h = target") auto
  qed
qed auto

text \<open>What \<open>pick\<close> returns: the lines from a heading with the identifier up to the next heading that is not deeper.\<close>

definition block_at :: "heading list \<Rightarrow> string list \<Rightarrow> nat \<Rightarrow> nat \<Rightarrow> string \<Rightarrow> bool" where
  "block_at hs lines start level body \<longleftrightarrow>
     (\<exists>end. start < end \<and> end \<le> length lines \<and> body = str_join [nl] (take (end - start) (drop start lines)) \<and>
        (\<forall>h \<in> set hs. start < hd_line h \<and> hd_line h < end \<longrightarrow> level < hd_level h) \<and>
        (end = length lines \<or> (\<exists>h \<in> set hs. hd_line h = end \<and> hd_level h \<le> level)))"

lemma block_at_Cons:
  assumes "block_at hs lines start level body" "hd_line h \<le> start \<or> level < hd_level h"
  shows "block_at (h # hs) lines start level body"
proof -
  from assms(1) obtain k where k: "start < k" "k \<le> length lines"
    "body = str_join [nl] (take (k - start) (drop start lines))"
    "\<forall>h \<in> set hs. start < hd_line h \<and> hd_line h < k \<longrightarrow> level < hd_level h"
    "k = length lines \<or> (\<exists>h \<in> set hs. hd_line h = k \<and> hd_level h \<le> level)"
    unfolding block_at_def by blast
  with assms(2) show ?thesis unfolding block_at_def by (intro exI[of _ k]) auto
qed

lemma pick_block:
  "sorted_wrt (\<lambda>a b. hd_line a < hd_line b) hs \<Longrightarrow> (\<forall>h \<in> set hs. hd_line h < length lines) \<Longrightarrow>
   (\<forall>start level. st = Some (start, level) \<longrightarrow> start < length lines \<and> (\<forall>h \<in> set hs. start < hd_line h)) \<Longrightarrow>
   pick lines target st hs = Some body \<Longrightarrow>
   (\<exists>start level. (st = Some (start, level) \<or> (\<exists>h \<in> set hs. hd_id h = target \<and> hd_line h = start \<and> hd_level h = level))
      \<and> block_at hs lines start level body)"
proof (induction hs arbitrary: st)
  case Nil
  then show ?case by (auto simp: block_at_def)
next
  case (Cons h hs)
  let ?st = "if hd_id h = target then Some (hd_line h, hd_level h) else st"
  show ?case
  proof (cases "\<exists>start level. st = Some (start, level) \<and> hd_level h \<le> level")
    case True
    then obtain start level where s: "st = Some (start, level)" "hd_level h \<le> level" by blast
    with Cons.prems have "block_at (h # hs) lines start level body"
      unfolding block_at_def by (intro exI[of _ "hd_line h"]) auto
    with s show ?thesis by blast
  next
    case False
    then have step: "pick lines target ?st hs = Some body"
      using Cons.prems(4) by (cases st) (auto split: if_splits)
    have pre: "\<forall>start level. ?st = Some (start, level) \<longrightarrow> start < length lines \<and> (\<forall>h \<in> set hs. start < hd_line h)"
      using Cons.prems(1-3) by auto
    from Cons.IH[OF _ _ pre step] Cons.prems(1,2) obtain start level where
      r: "?st = Some (start, level) \<or> (\<exists>h \<in> set hs. hd_id h = target \<and> hd_line h = start \<and> hd_level h = level)"
        "block_at hs lines start level body" by auto
    have "hd_line h \<le> start \<or> level < hd_level h"
      using r(1) False Cons.prems(1) by (auto split: if_splits)
    note b = block_at_Cons[OF r(2) this]
    from r(1) show ?thesis
    proof
      assume "?st = Some (start, level)"
      with b show ?thesis by (auto split: if_splits)
    next
      assume "\<exists>h \<in> set hs. hd_id h = target \<and> hd_line h = start \<and> hd_level h = level"
      with b show ?thesis by auto
    qed
  qed
qed

lemma select_section_block:
  assumes "select_section lower content target = Some body"
  shows "\<exists>h \<in> set (headings_of lower content). hd_id h = target \<and>
    block_at (headings_of lower content) (split_on nl content) (hd_line h) (hd_level h) body"
proof -
  have "hd_line h < length (split_on nl content)" if "h \<in> set (headings_of lower content)" for h
    using headings_lines[of h lower False "\<lambda>_. 0" 0 "split_on nl content"] that by (simp add: headings_of_def)
  with pick_block[OF _ _ _ assms[unfolded select_section_pick]] headings_sorted
  show ?thesis by (auto simp: headings_of_def)
qed

lemma select_section_found:
  "h \<in> set (headings_of lower content) \<Longrightarrow> \<exists>body. select_section lower content (hd_id h) = Some body"
  unfolding select_section_pick using pick_found by blast

end
