(* ===== verification/QueryProps.thy ===== *)
theory QueryProps
  imports QueryEngine SectionProps
begin

text \<open>
  Lemmas on internal/query/query.go: references and cursors read back, cut texts, one page of a
  query as a slice of its two match lists, and the loop of a client that follows the cursors.
\<close>

section \<open>Decimal numbers\<close>

lemma digits_value_itoa_loop: "digits_value 0 (itoa_loop n acc) = digits_value n acc"
proof (induction n acc rule: itoa_loop.induct)
  case (1 n acc)
  have "of_char (char_of (48 + n mod 10) :: char) = 48 + n mod 10" by simp
  with 1 show ?case by (subst itoa_loop.simps) simp
qed

lemma digits_value_itoa: "digits_value 0 (strconv_itoa n) = n"
  by (simp add: strconv_itoa_def digits_value_itoa_loop)

lemma itoa_loop_digits: "list_all is_digit acc \<Longrightarrow> list_all is_digit (itoa_loop n acc)"
proof (induction n acc rule: itoa_loop.induct)
  case (1 n acc)
  have "is_digit (char_of (48 + n mod 10))" by (simp add: is_digit_def less_eq_char_def)
  with 1 show ?case by (subst itoa_loop.simps) simp
qed

lemma itoa_digits: "list_all is_digit (strconv_itoa n)"
  by (simp add: strconv_itoa_def itoa_loop_digits) (simp add: is_digit_def less_eq_char_def)

lemma itoa_nonempty: "strconv_itoa n \<noteq> []"
proof
  assume e: "strconv_itoa n = []"
  with digits_value_itoa[of n] have "n = 0" by simp
  with e show False by (simp add: strconv_itoa_def)
qed

section \<open>References and cursors\<close>

lemma path_from_skill_ref: "path \<noteq> [] \<Longrightarrow> path_from_ref (skill_ref path) = Some path"
  unfolding path_from_ref_def skill_ref_def trim_prefix_append
  using has_prefix_append[of "''skill:''" "b64_encode path"] by (simp add: b64_roundtrip del: has_prefix_append)

lemma marshal_nonempty [simp]: "marshal_cursor s c \<noteq> []"
  by (simp add: marshal_cursor_def)

lemma encode_cursor_nonempty [simp]: "encode_cursor s c \<noteq> []"
  by (simp add: encode_cursor_def b64_encode_Nil_iff)

text \<open>What the engine relies on of encoding/json: a cursor it marshalled reads back, the empty text is an error.\<close>

definition cursor_laws :: "query_lib \<Rightarrow> bool" where
  "cursor_laws lib \<longleftrightarrow>
     ql_cursor lib [] = None \<and> (\<forall>s c. ql_cursor lib (marshal_cursor s c) = Some (int s, int c))"

lemma decode_encode:
  "cursor_laws lib \<Longrightarrow> decode_cursor (ql_cursor lib) (encode_cursor s c) = \<lparr>cu_skills = int s, cu_capabilities = int c\<rparr>"
  by (simp add: cursor_laws_def decode_cursor_def encode_cursor_def b64_roundtrip)

lemma decode_empty: "cursor_laws lib \<Longrightarrow> decode_cursor (ql_cursor lib) [] = zero_cursor"
  by (simp add: cursor_laws_def decode_cursor_def b64_decode_def strconv_atoi_def zero_cursor_def has_prefix_def)

lemma clamp_limit_bounds: "1 \<le> clamp_limit l" "clamp_limit l \<le> 20"
  by (auto simp: clamp_limit_def)

section \<open>Excerpts\<close>

lemma first_hit_bound: "first_hit text ts = Some i \<Longrightarrow> i \<le> length text"
  by (induction ts) (auto split: option.splits dest: str_index_Some)

lemma excerpt_panics_iff: "excerpt_at content idx = Inl e \<longleftrightarrow> e = SlicePanic \<and> length content + 120 < idx"
  by (auto simp: excerpt_at_def Let_def min_def)

lemma match_details_total:
  assumes "length (lower (sk_content s)) \<le> length (sk_content s) + 120"
  shows "\<exists>d. match_details lower s search = Inr d"
proof -
  let ?tokens = "fields_of [sp, tab, nl, CHR '',''] (lower search)"
  show ?thesis
  proof (cases "first_hit (lower (sk_content s)) ?tokens")
    case None
    then show ?thesis by (simp add: match_details_def Let_def)
  next
    case (Some i)
    from first_hit_bound[OF this] assms excerpt_panics_iff[of "sk_content s" i]
    obtain x where "excerpt_at (sk_content s) i = Inr x" by (cases "excerpt_at (sk_content s) i") auto
    with Some show ?thesis by (simp add: match_details_def Let_def)
  qed
qed

text \<open>The search of a query can be shown for a skill: cutting its excerpt does not panic.\<close>

definition excerpt_safe :: "query_lib \<Rightarrow> string \<Rightarrow> skill \<Rightarrow> bool" where
  "excerpt_safe lib search s \<longleftrightarrow> search = [] \<or> match_details (ql_lower lib) s search \<noteq> Inl SlicePanic"

lemma match_details_error: "match_details lower s search = Inl e \<Longrightarrow> e = SlicePanic"
  by (auto simp: match_details_def Let_def map_sum_Err_iff excerpt_panics_iff split: option.splits)

lemma excerpt_safe_short:
  "length (ql_lower lib (sk_content s)) \<le> length (sk_content s) + 120 \<Longrightarrow> excerpt_safe lib search s"
  using match_details_total[of "ql_lower lib" s search] by (auto simp: excerpt_safe_def)

lemma result_of_total:
  assumes "excerpt_safe lib search s"
  shows "\<exists>r. result_of lib search s = Inr r \<and> rs_path r = sk_path s \<and> rs_ref r = skill_ref (sk_path s)"
  using assms match_details_error[of "ql_lower lib" s search]
  by (auto simp: result_of_def excerpt_safe_def split: sum.splits)

lemma results_of_total:
  assumes "\<forall>s \<in> set skills. excerpt_safe lib search s"
  shows "\<exists>rs. map_res (result_of lib search) skills = Inr rs \<and> map rs_path rs = map sk_path skills"
  using assms
proof (induction skills)
  case (Cons s skills)
  from Cons.prems result_of_total[of lib search s] obtain r where "result_of lib search s = Inr r" "rs_path r = sk_path s"
    by auto
  with Cons show ?case by auto
qed simp

section \<open>One page\<close>

text \<open>A summary without its reference, which carries a fresh nonce and expiry.\<close>

definition anon :: "summary \<Rightarrow> summary" where
  "anon s = s\<lparr>su_ref := []\<rparr>"

text \<open>The matches of the skill side in the order of the pages.\<close>

definition ordered_skills :: "query_lib \<Rightarrow> query_engine \<Rightarrow> query_params \<Rightarrow> skill list" where
  "ordered_skills lib en p =
     (let found = select_skills lib (en_registry en) p in if qp_search p = [] then sort_key sk_path found else found)"

definition readable :: "query_lib \<Rightarrow> query_engine \<Rightarrow> query_params \<Rightarrow> bool" where
  "readable lib en p \<longleftrightarrow> (\<forall>s \<in> set (select_skills lib (en_registry en) p). excerpt_safe lib (qp_search p) s)"

text \<open>The capability side serves the slices of one list.\<close>

definition serves :: "query_engine \<Rightarrow> query_params \<Rightarrow> summary list \<Rightarrow> bool" where
  "serves en p caps \<longleftrightarrow> (\<forall>l off. l > 0 \<longrightarrow> (\<exists>page. discover en p l (int off) = Inr page
     \<and> map anon (dp_summaries page) = take l (drop off caps) \<and> dp_count page = length caps))"

definition accepted :: "query_params \<Rightarrow> bool" where
  "accepted p \<longleftrightarrow> has_filters p \<and> (qp_kind p \<noteq> [] \<longrightarrow> valid_kind (qp_kind p))
     \<and> (qp_availability p \<noteq> [] \<longrightarrow> valid_availability (qp_availability p))"

lemma cursor_irrelevant [simp]:
  "has_filters (p\<lparr>qp_cursor := c\<rparr>) = has_filters p"
  "accepted (p\<lparr>qp_cursor := c\<rparr>) = accepted p"
  "select_skills lib db (p\<lparr>qp_cursor := c\<rparr>) = select_skills lib db p"
  "discover en (p\<lparr>qp_cursor := c\<rparr>) l off = discover en p l off"
  by (simp_all add: has_filters_def accepted_def select_skills_def narrow_path_def has_classic_filters_def
      discover_def wants_capabilities_def Let_def split: option.split)

lemma execute_page:
  assumes acc: "accepted p" and some: "select_skills lib (en_registry en) p \<noteq> [] \<or> caps \<noteq> []"
    and "serves en p caps" "readable lib en p"
    and c: "decode_cursor (ql_cursor lib) cur = \<lparr>cu_skills = int a, cu_capabilities = int k\<rparr>"
    and le: "a \<le> length (ordered_skills lib en p)" "k \<le> length caps"
  defines "l \<equiv> clamp_limit (qp_limit p)"
  shows "\<exists>r. execute lib en (p\<lparr>qp_cursor := cur\<rparr>) = Inr r \<and> rp_type r = ResultsResponse
    \<and> map rs_path (rp_results r) = map sk_path (take l (drop a (ordered_skills lib en p)))
    \<and> map anon (rp_capabilities r) = take l (drop k caps)
    \<and> rp_match_count r = length (ordered_skills lib en p) \<and> rp_cap_match r = length caps
    \<and> rp_next r = (if a + l < length (ordered_skills lib en p) \<or> k + l < length caps
        then encode_cursor (min (a + l) (length (ordered_skills lib en p))) (min (k + l) (length caps)) else [])"
proof -
  let ?S = "ordered_skills lib en p"
  have l: "l > 0" using clamp_limit_bounds(1)[of "qp_limit p"] by (simp add: l_def)
  obtain page where page: "discover en p l (int k) = Inr page" "map anon (dp_summaries page) = take l (drop k caps)"
    "dp_count page = length caps"
    using assms(3) l unfolding serves_def by blast
  have served: "length (dp_summaries page) = min l (length caps - k)"
    using arg_cong[OF page(2), of length] by (simp add: min.commute)
  have S: "?S = (if qp_search p = [] then sort_key sk_path (select_skills lib (en_registry en) p)
      else select_skills lib (en_registry en) p)"
    by (simp add: ordered_skills_def Let_def)
  have "set (take l (drop a ?S)) \<subseteq> set (select_skills lib (en_registry en) p)"
    using order.trans[OF set_take_subset set_drop_subset, of l a ?S] by (auto simp: S split: if_splits)
  with assms(4) obtain rs where rs: "map_res (result_of lib (qp_search p)) (take l (drop a ?S)) = Inr rs"
    "map rs_path rs = map sk_path (take l (drop a ?S))"
    using results_of_total[of "take l (drop a ?S)" lib "qp_search p"] unfolding readable_def by blast
  have bounds: "nat (min (int a) (int (length ?S))) = a" "nat (min (int k) (int (length caps))) = k"
    using le by simp_all
  have cut: "take (min (a + l) (length ?S) - a) (drop a ?S) = take l (drop a ?S)"
    by (simp add: min_def)
  have stop: "k + min l (length caps - k) = min (k + l) (length caps)" using le(2) by simp
  let ?p = "p\<lparr>qp_cursor := cur\<rparr>" and ?cur = "\<lparr>cu_skills = int a, cu_capabilities = int k\<rparr>"
  let ?found = "select_skills lib (en_registry en) p" and ?m = "length ?S"
  have run: "execute lib en ?p = results_response lib ?p l ?cur page ?found"
    using acc some page(1,3) c by (auto simp: execute_def accepted_def l_def[symmetric] Let_def)
  have order: "(if qp_search ?p = [] then sort_key sk_path ?found else ?found) = ?S" by (simp add: S)
  obtain broad narrow where "results_response lib ?p l ?cur page ?found
      = Inr \<lparr>rp_type = ResultsResponse, rp_results = rs, rp_capabilities = dp_summaries page,
          rp_vocabulary = None, rp_echo = None, rp_match_count = ?m, rp_returned = length rs,
          rp_cap_match = length caps, rp_cap_returned = length (dp_summaries page), rp_too_broad = broad,
          rp_next = (if min (a + l) ?m < ?m \<or> min (k + l) (length caps) < length caps
            then encode_cursor (min (a + l) ?m) (min (k + l) (length caps)) else []), rp_narrow = narrow\<rparr>"
    unfolding results_response_def order Let_def discovery_cursor.simps bounds page(3) cut served stop
    using rs(1) by (auto simp: cut)
  with run rs(2) page(2) show ?thesis by (simp add: min_less_iff_disj)
qed

section \<open>Following the cursors\<close>

text \<open>
  A client repeats the query with the cursor of the last answer until there is none.  The engine
  of each round may differ: references carry fresh nonces.  \<open>None\<close> is an error or
  fuel that runs out.
\<close>

fun follow :: "nat \<Rightarrow> query_lib \<Rightarrow> (nat \<Rightarrow> query_engine) \<Rightarrow> query_params \<Rightarrow> query_response list option" where
  "follow 0 lib ens p = None"
| "follow (Suc n) lib ens p =
     (case execute lib (ens 0) p of
        Inl e \<Rightarrow> None
      | Inr r \<Rightarrow> (if rp_next r = [] then Some [r]
                  else map_option ((#) r) (follow n lib (\<lambda>i. ens (Suc i)) (p\<lparr>qp_cursor := rp_next r\<rparr>))))"

lemma take_then_rest: "take l (drop i xs) @ drop (min (i + l) (length xs)) xs = drop i xs"
proof -
  have "drop (min (i + l) (length xs)) xs = drop l (drop i xs)" by (simp add: min_def add.commute)
  then show ?thesis by (simp only: append_take_drop_id)
qed

lemma follow_from:
  assumes "cursor_laws lib" "accepted p" "S \<noteq> [] \<or> caps \<noteq> []"
    and "\<And>i. ordered_skills lib (ens i) p = S" "\<And>i. serves (ens i) p caps" "\<And>i. readable lib (ens i) p"
    and "decode_cursor (ql_cursor lib) cur = \<lparr>cu_skills = int a, cu_capabilities = int k\<rparr>"
    and "a \<le> length S" "k \<le> length caps" "(length S - a) + (length caps - k) < n"
  shows "\<exists>rs. follow n lib ens (p\<lparr>qp_cursor := cur\<rparr>) = Some rs
    \<and> concat (map (\<lambda>r. map rs_path (rp_results r)) rs) = map sk_path (drop a S)
    \<and> concat (map (\<lambda>r. map anon (rp_capabilities r)) rs) = drop k caps
    \<and> list_all (\<lambda>r. length (rp_results r) \<le> 20 \<and> length (rp_capabilities r) \<le> 20) rs"
  using assms(4-)
proof (induction n arbitrary: ens cur a k)
  case 0
  then show ?case by simp
next
  case (Suc n)
  let ?l = "clamp_limit (qp_limit p)"
  have l: "1 \<le> ?l" "?l \<le> 20" using clamp_limit_bounds by blast+
  have "select_skills lib (en_registry (ens 0)) p \<noteq> [] \<or> caps \<noteq> []"
    using assms(3) Suc.prems(1)[of 0] by (auto simp: ordered_skills_def Let_def split: if_splits)
  from execute_page[OF assms(2) this Suc.prems(2,3,4)] Suc.prems(1,5,6)
  obtain r where r: "execute lib (ens 0) (p\<lparr>qp_cursor := cur\<rparr>) = Inr r"
    "map rs_path (rp_results r) = map sk_path (take ?l (drop a S))" "map anon (rp_capabilities r) = take ?l (drop k caps)"
    "rp_next r = (if a + ?l < length S \<or> k + ?l < length caps
        then encode_cursor (min (a + ?l) (length S)) (min (k + ?l) (length caps)) else [])"
    by auto
  have sizes: "length (rp_results r) \<le> 20" "length (rp_capabilities r) \<le> 20"
    using arg_cong[OF r(2), of length] arg_cong[OF r(3), of length] l by auto
  show ?case
  proof (cases "a + ?l < length S \<or> k + ?l < length caps")
    case False
    then have "follow (Suc n) lib ens (p\<lparr>qp_cursor := cur\<rparr>) = Some [r]" using r by simp
    with False r sizes show ?thesis by auto
  next
    case True
    let ?a = "min (a + ?l) (length S)" and ?k = "min (k + ?l) (length caps)"
    have nxt: "rp_next r = encode_cursor ?a ?k" using True r(4) by simp
    have less: "(length S - ?a) + (length caps - ?k) < n" using True Suc.prems(5-7) l(1) by linarith
    from Suc.IH[of "\<lambda>i. ens (Suc i)", OF Suc.prems(1,2,3) decode_encode[OF assms(1)] _ _ less]
    obtain rs where rs: "follow n lib (\<lambda>i. ens (Suc i)) (p\<lparr>qp_cursor := encode_cursor ?a ?k\<rparr>) = Some rs"
      "concat (map (\<lambda>r. map rs_path (rp_results r)) rs) = map sk_path (drop ?a S)"
      "concat (map (\<lambda>r. map anon (rp_capabilities r)) rs) = drop ?k caps"
      "list_all (\<lambda>r. length (rp_results r) \<le> 20 \<and> length (rp_capabilities r) \<le> 20) rs"
      by auto
    have "follow (Suc n) lib ens (p\<lparr>qp_cursor := cur\<rparr>) = Some (r # rs)"
      using r(1) nxt rs(1) by simp
    moreover have "map sk_path (take ?l (drop a S)) @ map sk_path (drop ?a S) = map sk_path (drop a S)"
      by (metis take_then_rest map_append)
    ultimately show ?thesis using r(2,3) rs(2-4) sizes take_then_rest[of ?l k caps] by auto
  qed
qed

end
