(* ===== verification/QueryPages.thy ===== *)
theory QueryPages
  imports QueryProps Catalog
begin

text \<open>
  The contract between the query engine and its capability side, and the broker over the
  capability index as its provider: for a fixed index the pages are the slices of one list.
\<close>

section \<open>The contract\<close>

definition first_query :: "query_engine \<Rightarrow> query_params \<Rightarrow> broker_query" where
  "first_query en p =
     \<lparr>bq_path = qp_path p, bq_search = qp_search p, bq_server = qp_server p, bq_kind = qp_kind p,
      bq_availability = qp_availability p, bq_context = en_context en, bq_view = en_view en,
      bq_limit = 1, bq_offset = 0\<rparr>"

locale paged_source =
  fixes fetch :: "broker_query \<Rightarrow> (broker_error, discovery_page) result"
    and items :: "broker_query \<Rightarrow> summary list"
    and answers :: "broker_query \<Rightarrow> bool"
  assumes total: "answers q \<Longrightarrow> bq_limit q > 0 \<Longrightarrow> bq_offset q \<ge> 0 \<Longrightarrow> \<exists>page. fetch q = Inr page"
    and slices: "bq_limit q > 0 \<Longrightarrow> bq_offset q \<ge> 0 \<Longrightarrow> fetch q = Inr page \<Longrightarrow>
      map anon (dp_summaries page) = take (nat (bq_limit q)) (drop (nat (bq_offset q)) (items q))
      \<and> dp_count page = length (items q)"
    and stable: "items (q\<lparr>bq_limit := l, bq_offset := off\<rparr>) = items q"
      "answers (q\<lparr>bq_limit := l, bq_offset := off\<rparr>) = answers q"
begin

lemma serves_slices:
  assumes "en_discover en = Some fetch" "answers (first_query en p)" "wants_capabilities p"
  shows "serves en p (items (first_query en p))"
  unfolding serves_def
proof (intro allI impI)
  fix l off :: nat
  assume l: "l > 0"
  let ?q = "first_query en p\<lparr>bq_limit := int l, bq_offset := int off\<rparr>"
  have same: "items ?q = items (first_query en p)" "answers ?q" using stable assms(2) by simp_all
  from total[OF same(2)] l obtain page where page: "fetch ?q = Inr page" by auto
  from slices[OF _ _ page] l same have
    "map anon (dp_summaries page) = take l (drop off (items (first_query en p)))"
    "dp_count page = length (items (first_query en p))" by simp_all
  moreover have "discover en p l (int off) = Inr page"
    using assms(1,3) page by (simp add: discover_def first_query_def)
  ultimately show "\<exists>page. discover en p l (int off) = Inr page
      \<and> map anon (dp_summaries page) = take l (drop off (items (first_query en p)))
      \<and> dp_count page = length (items (first_query en p))" by blast
qed

end

section \<open>The broker over the index\<close>

definition catalog_matches :: "mcp_fts \<Rightarrow> globber \<Rightarrow> int \<Rightarrow> mcp_tables \<Rightarrow> broker_query \<Rightarrow> capability list" where
  "catalog_matches fts glob now t q =
     map (\<lambda>(rank, j). let r = hydrate now t j in select_binding (cr_capability r) (matching_binding glob r (bq_path q)))
       (ranked (candidates fts glob now t (to_cap_query q)))"

definition describable :: "prims \<Rightarrow> mcp_fts \<Rightarrow> globber \<Rightarrow> int \<Rightarrow> mcp_tables \<Rightarrow> broker_query \<Rightarrow> bool" where
  "describable pr fts glob now t q \<longleftrightarrow> bq_context q \<noteq> [] \<and> bq_view q \<noteq> [] \<and>
     list_all (\<lambda>c. case with_computed_digest pr c of Inl e \<Rightarrow> False | Inr c' \<Rightarrow> True) (catalog_matches fts glob now t q)"

lemma cap_filter_bounds:
  "cap_filter glob now t (to_cap_query (q\<lparr>bq_limit := l, bq_offset := off\<rparr>)) = cap_filter glob now t (to_cap_query q)"
  by (rule ext) (simp add: cap_filter_def to_cap_query_def)

lemma candidates_bounds [simp]:
  "candidates fts glob now t (to_cap_query (q\<lparr>bq_limit := l, bq_offset := off\<rparr>)) = candidates fts glob now t (to_cap_query q)"
  unfolding candidates_def cap_filter_bounds by (simp add: to_cap_query_def)

lemma catalog_matches_bounds [simp]:
  "catalog_matches fts glob now t (q\<lparr>bq_limit := l, bq_offset := off\<rparr>) = catalog_matches fts glob now t q"
  by (simp add: catalog_matches_def)

lemma catalog_search_slice:
  assumes "bq_limit q > 0" "bq_offset q \<ge> 0"
  shows "\<exists>cp. catalog_search fts glob now t q = Inr cp \<and> cp_count cp = length (catalog_matches fts glob now t q)
    \<and> cp_capabilities cp = take (nat (bq_limit q)) (drop (nat (bq_offset q)) (catalog_matches fts glob now t q))"
proof -
  have "0 \<le> cq_offset (to_cap_query q)" "0 \<le> cq_limit (to_cap_query q)" "cq_limit (to_cap_query q) > 0"
    using assms by (simp_all add: to_cap_query_def)
  note eq = query_page_eq[OF this(1,2), of fts glob now t]
  have "cq_limit (to_cap_query q) = bq_limit q" "cq_offset (to_cap_query q) = bq_offset q"
    by (simp_all add: to_cap_query_def)
  with assms show ?thesis
    unfolding catalog_search_def eq
    by (simp add: page_of_def catalog_matches_def take_map drop_map Let_def split_beta)
qed

lemma summary_of_computed: "with_computed_digest pr c = Inr c' \<Longrightarrow> anon (summary_of ref c') = summary_of [] c"
  by (auto simp: with_computed_Ok_iff summary_of_def anon_def)

lemma summarize_anon: "summarize b q rs i cs = (ev, Inr ss) \<Longrightarrow> map anon ss = map (summary_of []) cs"
proof (induction cs arbitrary: i ev ss)
  case (Cons c cs)
  from Cons.prems obtain c' where c': "with_computed_digest (bk_prims b) c = Inr c'"
    by (cases "with_computed_digest (bk_prims b) c") auto
  with Cons.prems obtain ref where ref:
    "issue (bk_prims b) (bk_signer b) c' (bq_view q) (bq_context q) (fst (rs i)) (snd (rs i)) = Inr ref"
    by (cases "issue (bk_prims b) (bk_signer b) c' (bq_view q) (bq_context q) (fst (rs i)) (snd (rs i))") auto
  obtain ev' r' where rec: "summarize b q rs (Suc i) cs = (ev', r')" by force
  with Cons.prems c' ref obtain ss' where ss: "r' = Inr ss'" "ss = summary_of ref c' # ss'" by (cases r') auto
  with Cons.IH[OF rec[unfolded ss(1)]] summary_of_computed[OF c'] show ?case by simp
qed simp

lemma summarize_total:
  assumes "bq_context q \<noteq> []" "bq_view q \<noteq> []"
    and "list_all (\<lambda>c. case with_computed_digest (bk_prims b) c of Inl e \<Rightarrow> False | Inr c' \<Rightarrow> True) cs"
  shows "\<exists>ss. snd (summarize b q rs i cs) = Inr ss"
  using assms(3)
proof (induction cs arbitrary: i)
  case (Cons c cs)
  from Cons.prems obtain c' where c': "with_computed_digest (bk_prims b) c = Inr c'"
    by (cases "with_computed_digest (bk_prims b) c") auto
  with assms(1,2) obtain ref where ref:
    "issue (bk_prims b) (bk_signer b) c' (bq_view q) (bq_context q) (fst (rs i)) (snd (rs i)) = Inr ref"
    using with_computed_fixpoint[OF with_computed_complete[OF c']] by (simp add: issue_def)
  from Cons obtain ss where "snd (summarize b q rs (Suc i) cs) = Inr ss" by auto
  with c' ref show ?case by (simp add: split_beta)
qed simp

lemma query_page_slice:
  assumes "bq_limit q > 0" "bq_offset q \<ge> 0" "bk_search b = catalog_search fts glob now t"
    and "snd (query_page b rs q) = Inr page"
  shows "map anon (dp_summaries page)
      = take (nat (bq_limit q)) (drop (nat (bq_offset q)) (map (summary_of []) (catalog_matches fts glob now t q)))
    \<and> dp_count page = length (catalog_matches fts glob now t q)"
proof -
  from catalog_search_slice[OF assms(1,2)] obtain cp where cp: "catalog_search fts glob now t q = Inr cp"
    "cp_count cp = length (catalog_matches fts glob now t q)"
    "cp_capabilities cp = take (nat (bq_limit q)) (drop (nat (bq_offset q)) (catalog_matches fts glob now t q))" by blast
  have fit: "\<not> (bq_limit q > 0 \<and> int (length (cp_capabilities cp)) > bq_limit q)" using cp(3) assms(1) by simp
  have count: "\<not> (cp_count cp = 0 \<and> cp_capabilities cp \<noteq> [])" using cp by auto
  obtain ev r where s: "summarize b q rs 0 (cp_capabilities cp) = (ev, r)" by force
  from assms(3,4) cp(1) fit count s obtain ss where ss: "r = Inr ss" "dp_summaries page = ss" "dp_count page = cp_count cp"
    by (cases r) (auto simp: query_page_def Let_def split: if_splits)
  from summarize_anon[OF s[unfolded ss(1)]] ss cp show ?thesis by (simp add: take_map drop_map)
qed

lemma query_page_total:
  assumes "bq_limit q > 0" "bq_offset q \<ge> 0" "bk_search b = catalog_search fts glob now t"
    and "describable (bk_prims b) fts glob now t q"
  shows "\<exists>page. snd (query_page b rs q) = Inr page"
proof -
  from catalog_search_slice[OF assms(1,2)] obtain cp where cp: "catalog_search fts glob now t q = Inr cp"
    "cp_capabilities cp = take (nat (bq_limit q)) (drop (nat (bq_offset q)) (catalog_matches fts glob now t q))" by blast
  have fit: "\<not> bq_limit q < int (length (cp_capabilities cp))" using cp(2) assms(1) by simp
  have "set (cp_capabilities cp) \<subseteq> set (catalog_matches fts glob now t q)"
    unfolding cp(2) by (rule order.trans[OF set_take_subset set_drop_subset])
  with assms(4) have "list_all (\<lambda>c. case with_computed_digest (bk_prims b) c of Inl e \<Rightarrow> False | Inr c' \<Rightarrow> True) (cp_capabilities cp)"
    by (auto simp: describable_def list_all_iff)
  with summarize_total[of q b "cp_capabilities cp" rs 0] assms(4) obtain ss where
    "snd (summarize b q rs 0 (cp_capabilities cp)) = Inr ss" by (auto simp: describable_def)
  with assms(3,4) cp(1) fit show ?thesis by (simp add: query_page_def describable_def split_beta Let_def)
qed

interpretation bp: paged_source
  "\<lambda>q. snd (query_page (b0\<lparr>bk_search := catalog_search fts0 glob0 now0 t0\<rparr>) rs0 q)"
  "\<lambda>q. map (summary_of []) (catalog_matches fts0 glob0 now0 t0 q)"
  "describable (bk_prims b0) fts0 glob0 now0 t0"
  for b0 fts0 glob0 now0 t0 rs0
  by unfold_locales
    (auto simp: describable_def intro!: query_page_total query_page_slice
      dest: query_page_slice[where fts = fts0 and glob = glob0 and now = now0 and t = t0, rotated 2, rotated 1])

end
