(* ===== verification/QueryClaims.thy ===== *)
theory QueryClaims
  imports QueryPages RegistryClaims CatalogClaims
begin

text \<open>
  The properties of internal/query: pages lose nothing, reads are bounded, every listed section can
  be read, and two inputs the code mishandles.
\<close>

section \<open>Pages\<close>

definition engine_at :: "registry \<Rightarrow> string \<Rightarrow> string \<Rightarrow> broker \<Rightarrow> (nat \<Rightarrow> int \<times> string) \<Rightarrow> mcp_fts \<Rightarrow> globber \<Rightarrow> int
  \<Rightarrow> mcp_tables \<Rightarrow> query_engine" where
  "engine_at db ctx view b rs fts glob now t =
     \<lparr>en_registry = db,
      en_discover = Some (\<lambda>q. snd (query_page (b\<lparr>bk_search := catalog_search fts glob now t\<rparr>) rs q)),
      en_context = ctx, en_view = view\<rparr>"

lemma engine_at_simps [simp]:
  "en_registry (engine_at db ctx view b rs fts glob now t) = db"
  "en_context (engine_at db ctx view b rs fts glob now t) = ctx"
  "en_view (engine_at db ctx view b rs fts glob now t) = view"
  by (simp_all add: engine_at_def)

lemma first_query_engine [simp]:
  "first_query (engine_at db ctx view b rs fts glob now t) p =
     \<lparr>bq_path = qp_path p, bq_search = qp_search p, bq_server = qp_server p, bq_kind = qp_kind p,
      bq_availability = qp_availability p, bq_context = ctx, bq_view = view, bq_limit = 1, bq_offset = 0\<rparr>"
  by (simp add: first_query_def)

definition matching_capabilities :: "query_engine \<Rightarrow> query_params \<Rightarrow> mcp_fts \<Rightarrow> globber \<Rightarrow> int \<Rightarrow> mcp_tables \<Rightarrow> summary list" where
  "matching_capabilities en p fts glob now t =
     (if wants_capabilities p then map (summary_of []) (catalog_matches fts glob now t (first_query en p)) else [])"

text \<open>
  C5: A client starts a query of filters the code accepts without a cursor and repeats it with each
  answer's cursor.  When something matches, no matching skill's excerpt panics (a search text is
  present and its first hit in the lower-cased content lies more than 120 bytes behind the end of the
  content, as in \<open>search_panics\<close>) and, when capabilities are searched too, the engine has a context
  and a view and every matching capability has a digest, so that it can be described, the client gets, after finitely many answers of at most twenty skills and twenty
  capabilities, every matching skill exactly once in the order of the query, and every matching
  capability of the index exactly once in its order; the last answer has no cursor.  The registry and
  the index do not change meanwhile, and the JSON decoder reads the cursors the encoder writes.
\<close>

theorem paging_complete:
  fixes bs :: "nat \<Rightarrow> broker" and rss db ctx view fts glob now t lib p
  defines "ens \<equiv> \<lambda>i. engine_at db ctx view (bs i) (rss i) fts glob now t"
  defines "skills \<equiv> ordered_skills lib (ens 0) p" and "caps \<equiv> matching_capabilities (ens 0) p fts glob now t"
  assumes "cursor_laws lib" "accepted p" "qp_cursor p = []" "skills \<noteq> [] \<or> caps \<noteq> []"
    and "\<And>s. s \<in> set skills \<Longrightarrow> excerpt_safe lib (qp_search p) s"
    and "\<And>i. wants_capabilities p \<Longrightarrow> describable (bk_prims (bs i)) fts glob now t (first_query (ens 0) p)"
  shows "\<exists>rs. follow (length skills + length caps + 1) lib ens p = Some rs
    \<and> concat (map (\<lambda>r. map rs_path (rp_results r)) rs) = map sk_path skills
    \<and> concat (map (\<lambda>r. map anon (rp_capabilities r)) rs) = caps
    \<and> list_all (\<lambda>r. length (rp_results r) \<le> 20 \<and> length (rp_capabilities r) \<le> 20) rs"
proof -
  have fq: "first_query (ens i) p = first_query (ens 0) p" for i by (simp add: ens_def)
  have serves: "serves (ens i) p caps" for i
  proof (cases "wants_capabilities p")
    case True
    have "en_discover (ens i) = Some (\<lambda>q. snd (query_page ((bs i)\<lparr>bk_search := catalog_search fts glob now t\<rparr>) (rss i) q))"
      by (simp add: ens_def engine_at_def)
    from bp.serves_slices[OF this _ True] assms(9)[OF True, of i] True show ?thesis
      unfolding fq[of i] caps_def matching_capabilities_def by simp
  next
    case False
    then show ?thesis by (simp add: serves_def discover_def caps_def matching_capabilities_def split: option.split)
  qed
  have same: "ordered_skills lib (ens i) p = skills" for i
    unfolding skills_def ens_def ordered_skills_def engine_at_simps ..
  have "set skills = set (select_skills lib db p)"
    by (simp add: skills_def ens_def ordered_skills_def Let_def)
  then have readable: "readable lib (ens i) p" for i using assms(8) by (auto simp: readable_def ens_def)
  have start: "decode_cursor (ql_cursor lib) [] = \<lparr>cu_skills = int 0, cu_capabilities = int 0\<rparr>"
    using decode_empty[OF assms(4)] by (simp add: zero_cursor_def)
  have "p = p\<lparr>qp_cursor := []\<rparr>" using assms(6) by (simp add: query_params.surjective)
  with follow_from[where ens = ens, OF assms(4,5,7) same serves readable start, of "length skills + length caps + 1"]
  show ?thesis by simp
qed

text \<open>A library for witnesses: a cursor decoder that reads exactly what the encoder writes.\<close>

definition demo_unjson :: "string \<Rightarrow> (int \<times> int) option" where
  "demo_unjson b =
     (case split_on (CHR '':'') b of
        [x, y, z] \<Rightarrow>
          (case split_on (CHR '','') y of
             [s, w] \<Rightarrow> Some (int (digits_value 0 s), int (digits_value 0 (butlast z)))
           | _ \<Rightarrow> None)
      | _ \<Rightarrow> None)"

definition demo_lib :: query_lib where
  "demo_lib = \<lparr>ql_glob = simple_glob, ql_fts = (\<lambda>ds q d. Some 0), ql_lower = (\<lambda>s. s), ql_cursor = demo_unjson\<rparr>"

lemma itoa_no_sep: "\<not> is_digit c \<Longrightarrow> c \<notin> set (strconv_itoa n)"
  using itoa_digits[of n] by (auto simp: list_all_iff)

lemma demo_lib_laws: "cursor_laws demo_lib"
proof -
  have nd: "\<not> is_digit (CHR '':'')" "\<not> is_digit (CHR '','')" by (simp_all add: is_digit_def less_eq_char_def)
  have "split_on (CHR '':'') (marshal_cursor s c)
      = [[CHR ''{'', dq] @ ''s'' @ [dq], strconv_itoa s @ [CHR '','', dq] @ ''c'' @ [dq], strconv_itoa c @ ''}'']" for s c
  proof -
    have m: "marshal_cursor s c = str_join '':''
        [[CHR ''{'', dq] @ ''s'' @ [dq], strconv_itoa s @ [CHR '','', dq] @ ''c'' @ [dq], strconv_itoa c @ ''}'']"
      by (simp add: marshal_cursor_def)
    show ?thesis unfolding m by (rule split_join) (use nd itoa_no_sep in auto)
  qed
  moreover have "split_on (CHR '','') (strconv_itoa s @ [CHR '','', dq] @ ''c'' @ [dq])
      = [strconv_itoa s, [dq] @ ''c'' @ [dq]]" for s
    using split_on_append_sep[OF itoa_no_sep[OF nd(2)], of s "[dq] @ ''c'' @ [dq]"] by simp
  ultimately have "demo_unjson (marshal_cursor s c) = Some (int s, int c)" for s c
    by (simp add: demo_unjson_def digits_value_itoa)
  moreover have "demo_unjson [] = None" by code_simp
  ultimately show ?thesis by (simp add: cursor_laws_def demo_lib_def)
qed

definition demo_params :: query_params where
  "demo_params = \<lparr>qp_path = ''pkg/db/x.go'', qp_topics = [], qp_tags = [], qp_package = [], qp_search = [],
     qp_server = [], qp_kind = [], qp_availability = [], qp_limit = 1, qp_cursor = []\<rparr>"

lemma demo_params_index:
  "case insert_capability demo_prims demo_raw (demo_record [] [demo_binding ''**'' ''available'']) mcp_empty of
     Inl e \<Rightarrow> False
   | Inr (t, i) \<Rightarrow>
       describable demo_prims (\<lambda>ds s d. Some 0) simple_glob 0 t \<lparr>bq_path = ''pkg/db/x.go'', bq_search = ''Go'', bq_server = [],
         bq_kind = [], bq_availability = [], bq_context = ''x'', bq_view = ''v'', bq_limit = 1, bq_offset = 0\<rparr> \<and>
       length (catalog_matches (\<lambda>ds s d. Some 0) simple_glob 0 t \<lparr>bq_path = ''pkg/db/x.go'', bq_search = ''Go'', bq_server = [],
         bq_kind = [], bq_availability = [], bq_context = ''x'', bq_view = ''v'', bq_limit = 1, bq_offset = 0\<rparr>) = 1"
  by code_simp

definition demo_search :: query_params where
  "demo_search = demo_params\<lparr>qp_search := ''Go''\<rparr>"

definition demo_found :: "skill list" where
  "demo_found = select_skills demo_lib demo_registry demo_search"

lemma demo_search_skills:
  "map sk_path demo_found = [''a.md'', ''b.md'']"
  "list_all (excerpt_safe demo_lib (qp_search demo_search)) demo_found"
  by code_simp+

lemma paging_complete_witness:
  "\<exists>t i rs. insert_capability demo_prims demo_raw (demo_record [] [demo_binding ''**'' ''available'']) mcp_empty = Inr (t, i)
     \<and> follow 4 demo_lib (\<lambda>k. engine_at demo_registry ''x'' ''v'' demo_broker (\<lambda>j. (1000000000, ''n''))
         (\<lambda>ds s d. Some 0) simple_glob 0 t) demo_search = Some rs
     \<and> concat (map (\<lambda>r. map rs_path (rp_results r)) rs) = [''a.md'', ''b.md'']
     \<and> length (concat (map rp_capabilities rs)) = 1"
proof -
  let ?q = "\<lparr>bq_path = ''pkg/db/x.go'', bq_search = ''Go'', bq_server = [],
         bq_kind = [], bq_availability = [], bq_context = ''x'', bq_view = ''v'', bq_limit = 1, bq_offset = 0\<rparr>"
  let ?en = "\<lambda>t (k :: nat). engine_at demo_registry ''x'' ''v'' demo_broker (\<lambda>j. (1000000000, ''n''))
         (\<lambda>ds s d. Some 0) simple_glob 0 t"
  from demo_params_index obtain t i where
    t: "insert_capability demo_prims demo_raw (demo_record [] [demo_binding ''**'' ''available'']) mcp_empty = Inr (t, i)"
      "describable demo_prims (\<lambda>ds s d. Some 0) simple_glob 0 t ?q"
      "length (catalog_matches (\<lambda>ds s d. Some 0) simple_glob 0 t ?q) = 1"
    by (auto split: sum.splits prod.splits)
  have p: "accepted demo_search" "qp_cursor demo_search = []" "wants_capabilities demo_search" "qp_search demo_search = ''Go''"
    by (simp_all add: demo_search_def demo_params_def accepted_def has_filters_def wants_capabilities_def)
  have order: "ordered_skills demo_lib (?en t 0) demo_search = demo_found"
    by (simp add: ordered_skills_def p(4) Let_def demo_found_def)
  have two: "map sk_path (ordered_skills demo_lib (?en t 0) demo_search) = [''a.md'', ''b.md'']"
    unfolding order by (rule demo_search_skills(1))
  have safe: "excerpt_safe demo_lib (qp_search demo_search) s" if "s \<in> set (ordered_skills demo_lib (?en t 0) demo_search)" for s
    using demo_search_skills(2) that unfolding order by (simp add: list_all_iff)
  have fq: "first_query (?en t 0) demo_search = ?q" by (simp add: demo_search_def demo_params_def)
  have one: "length (matching_capabilities (?en t 0) demo_search (\<lambda>ds s d. Some 0) simple_glob 0 t) = 1"
    unfolding matching_capabilities_def fq using p(3) t(3) by simp
  have len: "length (ordered_skills demo_lib (?en t 0) demo_search) = 2"
    using arg_cong[OF two, of length] by simp
  have pr: "bk_prims demo_broker = demo_prims" by (simp add: demo_broker_def)
  have ne: "ordered_skills demo_lib (?en t 0) demo_search \<noteq> []
      \<or> matching_capabilities (?en t 0) demo_search (\<lambda>ds s d. Some 0) simple_glob 0 t \<noteq> []" using len by auto
  have d: "describable (bk_prims demo_broker) (\<lambda>ds s d. Some 0) simple_glob 0 t (first_query (?en t 0) demo_search)"
    unfolding fq pr by (rule t(2))
  from paging_complete[where bs = "\<lambda>k. demo_broker" and rss = "\<lambda>k j. (1000000000, ''n'')", OF demo_lib_laws p(1,2) ne safe d]
  obtain rs where rs: "follow 4 demo_lib (?en t) demo_search = Some rs"
    "concat (map (\<lambda>r. map rs_path (rp_results r)) rs) = [''a.md'', ''b.md'']"
    "concat (map (\<lambda>r. map anon (rp_capabilities r)) rs) = matching_capabilities (?en t 0) demo_search (\<lambda>ds s d. Some 0) simple_glob 0 t"
    unfolding two one len by auto
  have "length (concat (map rp_capabilities rs)) = length (concat (map (\<lambda>r. map anon (rp_capabilities r)) rs))"
    by (simp add: length_concat o_def)
  with rs t(1) one show ?thesis by metis
qed

section \<open>Reading\<close>

text \<open>
  C36: A read returns at most 64 KiB and at most the requested number of bytes: the skill's
  content, or the text of the selected section, or a proper prefix of it that ends at a
  character boundary and is marked as truncated; the reported size is that of the full text.
\<close>

theorem read_is_bounded:
  assumes "read_skill lib db ref section_id max_bytes = Inr r"
  shows "length (rd_content r) \<le> 65536 \<and> (max_bytes > 0 \<longrightarrow> int (length (rd_content r)) \<le> max_bytes) \<and>
    (\<exists>path s body rest. path_from_ref ref = Some path \<and> get_skill_by_path db path = Some s \<and>
       (section_id = [] \<and> body = sk_content s \<or>
        section_id \<noteq> [] \<and> select_section (ql_lower lib) (sk_content s) section_id = Some body) \<and>
       body = rd_content r @ rest \<and> rd_bytes r = length body \<and> (rd_truncated r \<longleftrightarrow> rest \<noteq> []) \<and>
       (rest \<noteq> [] \<longrightarrow> rd_content r = [] \<or> \<not> cont_byte (hd rest)))"
proof -
  from assms obtain path s body sel where b: "path_from_ref ref = Some path" "get_skill_by_path db path = Some s"
    "r = read_bounded ref (sk_path s) sel body max_bytes"
    "section_id = [] \<and> body = sk_content s \<or>
        section_id \<noteq> [] \<and> select_section (ql_lower lib) (sk_content s) section_id = Some body"
    by (auto simp: read_skill_def split: option.splits if_splits)
  have cut: "rune_start body n \<le> n" for n by (rule rune_start_le)
  have clamp: "clamp_bytes max_bytes \<le> 65536" "max_bytes > 0 \<Longrightarrow> int (clamp_bytes max_bytes) \<le> max_bytes"
    by (auto simp: clamp_bytes_def)
  show ?thesis
  proof (cases "length body > clamp_bytes max_bytes")
    case True
    let ?n = "rune_start body (clamp_bytes max_bytes)"
    have n: "?n < length body" "?n \<le> clamp_bytes max_bytes" using cut[of "clamp_bytes max_bytes"] True by linarith+
    then have r: "rd_content r = take ?n body" "rd_bytes r = length body" "rd_truncated r" "length (take ?n body) = ?n"
      using b(3) True by (simp_all add: read_bounded_def Let_def)
    have "rd_content r = [] \<or> \<not> cont_byte (hd (drop ?n body))"
      using rune_start_boundary[of body "clamp_bytes max_bytes"] n(1) r(1) by (cases "?n = 0") (auto simp: hd_drop_conv_nth)
    moreover have "drop ?n body \<noteq> []" using n by simp
    moreover have "body = rd_content r @ drop ?n body" using r(1) by simp
    ultimately have "\<exists>path s body rest. path_from_ref ref = Some path \<and> get_skill_by_path db path = Some s \<and>
       (section_id = [] \<and> body = sk_content s \<or>
        section_id \<noteq> [] \<and> select_section (ql_lower lib) (sk_content s) section_id = Some body) \<and>
       body = rd_content r @ rest \<and> rd_bytes r = length body \<and> (rd_truncated r \<longleftrightarrow> rest \<noteq> []) \<and>
       (rest \<noteq> [] \<longrightarrow> rd_content r = [] \<or> \<not> cont_byte (hd rest))"
      using b(1,2,4) r(2,3) by (intro exI[of _ path] exI[of _ s] exI[of _ body] exI[of _ "drop ?n body"] conjI) simp_all
    moreover have "length (rd_content r) \<le> clamp_bytes max_bytes" using r(1,4) n(2) by simp
    then have "length (rd_content r) \<le> 65536" "max_bytes > 0 \<Longrightarrow> int (length (rd_content r)) \<le> max_bytes"
      using clamp by linarith+
    ultimately show ?thesis by blast
  next
    case False
    then have "rd_content r = body" "rd_bytes r = length body" "\<not> rd_truncated r"
      using b(3) by (simp_all add: read_bounded_def Let_def)
    with b(1,2,4) clamp False show ?thesis by fastforce
  qed
qed

text \<open>A skill of one heading with a part and a second heading.\<close>

definition demo_text :: string where
  "demo_text = str_join [nl] [''# Use'', ''go'', ''## Part'', ''x'', ''# End'']"

definition text_registry :: registry where
  "text_registry = fst (insert_skill ''t'' empty_registry ((demo_skill ''t.md'' [] [''**''])\<lparr>sk_content := demo_text\<rparr>))"

lemma demo_text_sections:
  "map (\<lambda>r. (se_id r, se_level r)) (sections (\<lambda>s. s) demo_text) = [(''se'', 1), (''art'', 2), (''nd'', 1)]"
  by code_simp

lemma text_registry_skill: "map_option sk_content (get_skill_by_path text_registry ''t.md'') = Some demo_text"
  by code_simp

definition read_at :: "query_lib \<Rightarrow> registry \<Rightarrow> string \<Rightarrow> string \<Rightarrow> string \<Rightarrow> int \<Rightarrow> (string \<times> nat \<times> bool) option" where
  "read_at lib db path ref section_id max_bytes =
     map_option (\<lambda>s. let body = (if section_id = [] then sk_content s
                       else (case select_section (ql_lower lib) (sk_content s) section_id of None \<Rightarrow> [] | Some b \<Rightarrow> b));
                    r = read_bounded ref (sk_path s) None body max_bytes
                in (rd_content r, rd_bytes r, rd_truncated r)) (get_skill_by_path db path)"

lemma read_at:
  assumes "path \<noteq> []" "read_at lib db path ref section_id max_bytes = Some v"
    and "read_skill lib db (skill_ref path) section_id max_bytes = Inr r"
  shows "(rd_content r, rd_bytes r, rd_truncated r) = v"
proof -
  obtain s where s: "get_skill_by_path db path = Some s"
    using assms(2) by (cases "get_skill_by_path db path") (simp_all add: read_at_def)
  note run = assms(3)[unfolded read_skill_def path_from_skill_ref[OF assms(1)] option.case s]
  note v = assms(2)[unfolded read_at_def s option.map Let_def]
  show ?thesis
  proof (cases "section_id = []")
    case True
    with run v show ?thesis by (auto simp: read_bounded_def Let_def)
  next
    case False
    with run v show ?thesis
      by (cases "select_section (ql_lower lib) (sk_content s) section_id") (auto simp: read_bounded_def Let_def)
  qed
qed

lemma demo_read: "read_at demo_lib text_registry ''t.md'' [] [] 2 = Some (''# '', 24, True)"
proof -
  from text_registry_skill obtain s where s: "get_skill_by_path text_registry ''t.md'' = Some s" "sk_content s = demo_text"
    by (cases "get_skill_by_path text_registry ''t.md''") auto
  have t: "demo_text = ''# Use'' @ [nl] @ ''go'' @ [nl] @ ''## Part'' @ [nl] @ ''x'' @ [nl] @ ''# End''"
    by (simp add: demo_text_def)
  have "rune_start demo_text 2 = 2" "length demo_text = 24" "take 2 demo_text = ''# ''"
    unfolding t by (simp_all add: numeral_2_eq_2 cont_byte_def)
  with s show ?thesis by (simp add: read_at_def read_bounded_def clamp_bytes_def Let_def)
qed

lemma read_is_bounded_witness:
  "\<exists>r. read_skill demo_lib text_registry (skill_ref ''t.md'') [] 2 = Inr r \<and> int (length (rd_content r)) \<le> 2
     \<and> rd_truncated r \<and> rd_bytes r = 24"
proof -
  from demo_read obtain s where "get_skill_by_path text_registry ''t.md'' = Some s" by (auto simp: read_at_def)
  then obtain r where "read_skill demo_lib text_registry (skill_ref ''t.md'') [] 2 = Inr r"
    using path_from_skill_ref[of "''t.md''"] by (simp add: read_skill_def)
  with read_at[OF _ demo_read this] have r: "read_skill demo_lib text_registry (skill_ref ''t.md'') [] 2 = Inr r"
    "rd_bytes r = 24" "rd_truncated r" by simp_all
  from read_is_bounded[OF r(1)] have "int (length (rd_content r)) \<le> 2" by simp
  with r show ?thesis by blast
qed

text \<open>
  Every section a query lists for a skill can be read by its identifier, unless the
  identifier is empty: the read is of the block of lines from a heading with this identifier to
  the next heading that is not deeper, so all headings inside are strictly deeper.
\<close>

theorem listed_sections_readable:
  assumes "get_skill_by_path db path = Some s" "path \<noteq> []"
    and "se \<in> set (sections (ql_lower lib) (sk_content s))" "se_id se \<noteq> []"
  shows "\<exists>r h body. read_skill lib db (skill_ref path) (se_id se) max_bytes = Inr r
    \<and> h \<in> set (headings_of (ql_lower lib) (sk_content s)) \<and> hd_id h = se_id se
    \<and> block_at (headings_of (ql_lower lib) (sk_content s)) (split_on nl (sk_content s)) (hd_line h) (hd_level h) body
    \<and> rd_bytes r = length body \<and> (rd_content r = body \<or> rd_truncated r \<and> has_prefix body (rd_content r))"
proof -
  let ?hs = "headings_of (ql_lower lib) (sk_content s)"
  from assms(3) obtain h0 where h0: "h0 \<in> set ?hs" "se_id se = hd_id h0"
    unfolding sections_headings by (auto dest: in_set_takeD)
  from select_section_found[OF h0(1)] h0(2) obtain body where
    body: "select_section (ql_lower lib) (sk_content s) (se_id se) = Some body" by auto
  from select_section_block[OF body] obtain h where
    h: "h \<in> set ?hs" "hd_id h = se_id se" "block_at ?hs (split_on nl (sk_content s)) (hd_line h) (hd_level h) body" by blast
  let ?r = "read_bounded (skill_ref path) (sk_path s)
      (List.find (\<lambda>h. se_id h = se_id se) (sections (ql_lower lib) (sk_content s))) body max_bytes"
  have "read_skill lib db (skill_ref path) (se_id se) max_bytes = Inr ?r"
    using assms(1,2,4) body path_from_skill_ref[OF assms(2)] by (simp add: read_skill_def)
  moreover have "rd_bytes ?r = length body" "rd_content ?r = body \<or> rd_truncated ?r \<and> has_prefix body (rd_content ?r)"
    using has_prefix_append[of "take n body" "drop n body" for n] by (auto simp: read_bounded_def Let_def)
  ultimately show ?thesis using h by blast
qed

lemma listed_sections_readable_witness:
  "\<exists>r. read_skill demo_lib text_registry (skill_ref ''t.md'') ''se'' 0 = Inr r
     \<and> rd_content r = str_join [nl] [''# Use'', ''go'', ''## Part'', ''x''] \<and> rd_bytes r = 18"
proof -
  from text_registry_skill obtain s where s: "get_skill_by_path text_registry ''t.md'' = Some s" "sk_content s = demo_text"
    by (cases "get_skill_by_path text_registry ''t.md''") auto
  have l: "ql_lower demo_lib = (\<lambda>s. s)" by (simp add: demo_lib_def)
  have "''se'' \<in> set (map fst (map (\<lambda>r. (se_id r, se_level r)) (sections (\<lambda>s. s) demo_text)))"
    unfolding demo_text_sections by simp
  then obtain se where se: "se \<in> set (sections (\<lambda>s. s) demo_text)" "se_id se = ''se''" by auto
  from listed_sections_readable[where lib = demo_lib and max_bytes = 0, OF s(1)] se s(2) l obtain r where
    r: "read_skill demo_lib text_registry (skill_ref ''t.md'') ''se'' 0 = Inr r" by fastforce
  have v: "read_at demo_lib text_registry ''t.md'' [] ''se'' 0
      = Some (str_join [nl] [''# Use'', ''go'', ''## Part'', ''x''], 18, False)" by code_simp
  from read_at[OF _ v r] r show ?thesis by simp
qed

section \<open>A search that panics\<close>

lemma match_details_Err:
  assumes "match_details lower s search = Inl e"
  shows "e = SlicePanic"
proof (cases "first_hit (lower (sk_content s)) (fields_of [sp, tab, nl, CHR '',''] (lower search))")
  case None
  with assms show ?thesis by (simp add: match_details_def Let_def)
next
  case (Some i)
  with assms have "excerpt_at (sk_content s) i = Inl e"
    by (cases "excerpt_at (sk_content s) i") (simp_all add: match_details_def Let_def)
  then show ?thesis unfolding excerpt_panics_iff by (rule conjunct1)
qed

lemma result_of_Err:
  assumes "result_of lib search s = Inl e"
  shows "e = SlicePanic"
proof (cases "search = []")
  case True
  with assms show ?thesis by (simp add: result_of_def)
next
  case False
  with assms have "match_details (ql_lower lib) s search = Inl e"
    by (cases "match_details (ql_lower lib) s search") (simp_all add: result_of_def split_beta)
  then show ?thesis by (rule match_details_Err)
qed

lemma map_res_Err:
  "(\<And>x e'. f x = Inl e' \<Longrightarrow> e' = e) \<Longrightarrow> x \<in> set xs \<Longrightarrow> f x = Inl e \<Longrightarrow> map_res f xs = Inl e"
proof (induction xs)
  case Nil
  from Nil.prems(2) show ?case by simp
next
  case (Cons y ys)
  show ?case
  proof (cases "f y")
    case (Inl e')
    with Cons.prems(1)[OF Inl] show ?thesis by simp
  next
    case (Inr z)
    with Cons.prems(2,3) have "x \<in> set ys" by auto
    with Cons.IH[OF Cons.prems(1) _ Cons.prems(3)] Inr show ?thesis by simp
  qed
qed

text \<open>
  A search panics when a skill of its first page has a match that lies, in the
  lower-case text, more than 120 bytes beyond the length of the original text: the excerpt is cut
  from the original with an index into the lower-case copy, which is longer whenever lower
  case needs more bytes (U+023A, or a byte that is not UTF-8).
\<close>

theorem search_panics:
  assumes "cursor_laws lib" "accepted p" "qp_cursor p = []" "qp_search p \<noteq> []"
    and "discover en p (clamp_limit (qp_limit p)) 0 = Inr page"
    and "s \<in> set (take (clamp_limit (qp_limit p)) (select_skills lib (en_registry en) p))"
    and "first_hit (ql_lower lib (sk_content s)) (fields_of [sp, tab, nl, CHR '',''] (ql_lower lib (qp_search p))) = Some idx"
    and "length (sk_content s) + 120 < idx"
  shows "execute lib en p = Inl SlicePanic"
proof -
  let ?found = "select_skills lib (en_registry en) p" and ?l = "clamp_limit (qp_limit p)"
  have bad: "result_of lib (qp_search p) s = Inl SlicePanic"
    using assms(4,7,8) excerpt_panics_iff[of "sk_content s" idx SlicePanic]
    by (simp add: result_of_def match_details_def Let_def)
  have ne: "?found \<noteq> []" using assms(6) by auto
  have cut: "take (min ?l (length ?found)) ?found = take ?l ?found" by (simp add: min_def)
  have "map_res (result_of lib (qp_search p)) (take ?l ?found) = Inl SlicePanic"
    by (rule map_res_Err[where f = "result_of lib (qp_search p)", OF _ assms(6) bad]) (rule result_of_Err)
  then have "results_response lib p ?l zero_cursor page ?found = Inl SlicePanic"
    using assms(4) cut by (simp add: results_response_def Let_def zero_cursor_def)
  moreover have "execute lib en p = results_response lib p ?l zero_cursor page ?found"
    using assms(2,3,5) ne decode_empty[OF assms(1)] by (auto simp: execute_def accepted_def Let_def zero_cursor_def)
  ultimately show ?thesis by simp
qed

text \<open>
  Lower case as Go computes it for a byte that is not UTF-8: it becomes the three bytes of U+FFFD.
\<close>

definition replacing_lower :: "string \<Rightarrow> string" where
  "replacing_lower s = concat (map (\<lambda>c. if c = CHR 0xFF then [CHR 0xEF, CHR 0xBF, CHR 0xBD] else [c]) s)"

definition bytes_text :: string where
  "bytes_text = replicate 100 (CHR 0xFF) @ ''go''"

definition bytes_engine :: query_engine where
  "bytes_engine = \<lparr>en_registry = fst (insert_skill ''t'' empty_registry
     ((demo_skill ''t.md'' [] [''**''])\<lparr>sk_content := bytes_text\<rparr>)), en_discover = None, en_context = [], en_view = []\<rparr>"

lemma search_panics_witness:
  "execute (demo_lib\<lparr>ql_lower := replacing_lower\<rparr>) bytes_engine (demo_params\<lparr>qp_path := [], qp_search := ''go''\<rparr>) = Inl SlicePanic
   \<and> length bytes_text = 102 \<and> first_hit (replacing_lower bytes_text) [''go''] = Some 300"
proof -
  let ?lib = "demo_lib\<lparr>ql_lower := replacing_lower\<rparr>" and ?p = "demo_params\<lparr>qp_path := [], qp_search := ''go''\<rparr>"
  have laws: "cursor_laws ?lib" using demo_lib_laws by (simp add: cursor_laws_def)
  have p: "accepted ?p" "qp_cursor ?p = []" "qp_search ?p \<noteq> []" "clamp_limit (qp_limit ?p) = 1"
    by (simp_all add: demo_params_def accepted_def has_filters_def clamp_limit_def)
  have d: "discover bytes_engine ?p (clamp_limit (qp_limit ?p)) 0 = Inr \<lparr>dp_summaries = [], dp_count = 0, dp_facets = empty_facets\<rparr>"
    by (simp add: discover_def bytes_engine_def)
  have sel: "map sk_content (take 1 (select_skills ?lib (en_registry bytes_engine) ?p)) = [bytes_text]"
    by code_simp
  then obtain s where s: "s \<in> set (take (clamp_limit (qp_limit ?p)) (select_skills ?lib (en_registry bytes_engine) ?p))"
    "sk_content s = bytes_text" unfolding p(4) by (cases "take 1 (select_skills ?lib (en_registry bytes_engine) ?p)") auto
  have t: "fields_of [sp, tab, nl, CHR '',''] (ql_lower ?lib (qp_search ?p)) = [''go'']" by code_simp
  have hit: "first_hit (replacing_lower bytes_text) [''go''] = Some 300" and len: "length bytes_text = 102" by code_simp+
  have "execute ?lib bytes_engine ?p = Inl SlicePanic"
  proof (rule search_panics[OF laws p(1,2,3) d s(1)])
    show "first_hit (ql_lower ?lib (sk_content s)) (fields_of [sp, tab, nl, CHR '',''] (ql_lower ?lib (qp_search ?p))) = Some 300"
      unfolding t s(2) using hit by (simp del: first_hit.simps)
    show "length (sk_content s) + 120 < 300" unfolding s(2) len by simp
  qed
  with hit len show ?thesis by blast
qed

end
