(* ===== verification/McpWire.thy ===== *)
theory McpWire
  imports Broker
begin

text \<open>
  What the two connectors share (internal/connector/stdio/stdio.go and
  internal/connector/streamhttp/http.go carry a copy each): the wire data of the Model Context Protocol, the
  paged listings, the inspection of a server, and the calls of an opened client.

  A transport is a function on the transport's own state that sends one request and returns the raw
  result.  The JSON codecs are fields of \<open>rpc_lib\<close>: what \<^verbatim>\<open>json.Marshal\<close> and
  \<^verbatim>\<open>json.Unmarshal\<close> give for the Go types of the same names.  A nil map of arguments is the empty one.
\<close>

section \<open>Data\<close>

record tool_definition =
  td_name :: string
  td_title :: string
  td_description :: string
  td_input :: string
  td_output :: string

record prompt_argument =
  pa_name :: string
  pa_description :: string
  pa_required :: bool

record prompt_definition =
  pd_name :: string
  pd_title :: string
  pd_description :: string
  pd_arguments :: "prompt_argument list"

record template_definition =
  te_uri :: string
  te_name :: string
  te_description :: string
  te_mime :: string

record discover_result =
  dr_result_type :: string
  dr_versions :: "string list"
  dr_capabilities :: "string list"

record tools_page =
  tp_result_type :: string
  tp_tools :: "tool_definition list"
  tp_next :: string
  tp_ttl_ms :: int
  tp_scope :: string

record prompts_page =
  pp_prompts :: "prompt_definition list"
  pp_next :: string

record templates_page =
  te_templates :: "template_definition list"
  te_next :: string

text \<open>A tool result: the fields the connector looks at, and the envelope as it is handed on.\<close>

record tool_result =
  tr_type :: string
  tr_is_error :: bool
  tr_structured :: json
  tr_envelope :: json

record rpc_response =
  rp_id :: int
  rp_result :: string
  rp_error :: "(int \<times> string) option"

record rpc_lib =
  rl_request :: "int \<Rightarrow> string \<Rightarrow> arguments \<Rightarrow> string option"
  rl_marshal :: "json \<Rightarrow> string"
  rl_method :: "string \<Rightarrow> string option"
  rl_response :: "string \<Rightarrow> rpc_response option"
  rl_discover :: "string \<Rightarrow> discover_result option"
  rl_tools :: "string \<Rightarrow> tools_page option"
  rl_prompts :: "string \<Rightarrow> prompts_page option"
  rl_templates :: "string \<Rightarrow> templates_page option"
  rl_tool_result :: "string \<Rightarrow> tool_result option"
  rl_object :: "string \<Rightarrow> json option"
  rl_valid :: "string \<Rightarrow> json \<Rightarrow> bool"

datatype conn_error =
    NotConfigured string string | StartFailed string | ProtocolUnsupported | CapMissing string
  | SchemaChanged string | ToolFailed tool_result | ToolResultInvalid | MethodNotFound
  | DigestFailed cap_error | EncodeFailed | RequestTooLarge | WriteFailed string | Cancelled
  | ReadFailed string | IdMismatch int int | RpcFault int string | DecodeFailed | BadResultType string
  | EmptyName | DuplicateTool string | TooManyPages string
  | BadCacheMetadata | CacheMetadataChanged
  | HttpFailed string | RedirectRefused | HttpStatus int | ResponseTooLarge | BadJsonRpc

definition protocol_version :: string where "protocol_version = ''2026-07-28''"
definition max_message_bytes :: nat where "max_message_bytes = 4 * 1024 * 1024"

type_synonym 's transport = "'s \<Rightarrow> string \<Rightarrow> arguments \<Rightarrow> 's \<times> (conn_error, string) result"

text \<open>\<^verbatim>\<open>json.Unmarshal(response.Result, target)\<close>, the last step of a round trip.\<close>

definition decode_as :: "(string \<Rightarrow> 'a option) \<Rightarrow> 's \<times> (conn_error, string) result
  \<Rightarrow> 's \<times> (conn_error, 'a) result" where
  "decode_as dec o1 =
     (fst o1, case snd o1 of Inl e \<Rightarrow> Inl e
        | Inr raw \<Rightarrow> (case dec raw of None \<Rightarrow> Inl DecodeFailed | Some x \<Rightarrow> Inr x))"

definition request_meta :: json where
  "request_meta = JObject
     [(''io.modelcontextprotocol/protocolVersion'', JString protocol_version),
      (''io.modelcontextprotocol/clientInfo'', JObject [(''name'', JString ''skillex''), (''version'', JString ''dev'')]),
      (''io.modelcontextprotocol/clientCapabilities'', JObject [])]"

section \<open>Paged listings\<close>

definition cursor_params :: "string \<Rightarrow> arguments" where
  "cursor_params cursor = (if cursor = [] then [] else [(''cursor'', JString cursor)])"

text \<open>
  \<^verbatim>\<open>for page := 0; page < 32; page++\<close>: request a page, take its entries into the accumulator,
  return at the page without a next cursor.
\<close>

fun list_pages :: "'s transport \<Rightarrow> string \<Rightarrow> (string \<Rightarrow> 'p option) \<Rightarrow> ('p \<Rightarrow> 'a \<Rightarrow> (conn_error, 'a) result)
  \<Rightarrow> ('p \<Rightarrow> string) \<Rightarrow> nat \<Rightarrow> string \<Rightarrow> 'a \<Rightarrow> 's \<Rightarrow> 's \<times> (conn_error, 'a) result" where
  "list_pages rt m dec take_page next_of 0 cursor acc s = (s, Inl (TooManyPages m))"
| "list_pages rt m dec take_page next_of (Suc n) cursor acc s =
     (case decode_as dec (rt s m (cursor_params cursor)) of
        (s', Inl e) \<Rightarrow> (s', Inl e)
      | (s', Inr page) \<Rightarrow>
          (case take_page page acc of
             Inl e \<Rightarrow> (s', Inl e)
           | Inr acc' \<Rightarrow>
               (if next_of page = [] then (s', Inr acc')
                else list_pages rt m dec take_page next_of n (next_of page) acc' s')))"

definition max_pages :: nat where "max_pages = 32"

text \<open>Tools: an empty or a repeated name is an error.\<close>

fun take_tools :: "tool_definition list \<Rightarrow> tool_definition list \<Rightarrow> (conn_error, tool_definition list) result" where
  "take_tools [] acc = Inr acc"
| "take_tools (t # ts) acc =
     (if td_name t = [] then Inl EmptyName
      else if td_name t \<in> td_name ` set acc then Inl (DuplicateTool (td_name t))
      else take_tools ts (acc @ [t]))"

definition find_tool :: "string \<Rightarrow> tool_definition list \<Rightarrow> tool_definition option" where
  "find_tool n ts = List.find (\<lambda>t. td_name t = n) ts"

text \<open>A Go map assignment \<^verbatim>\<open>m[k] = x\<close> on the list of the map's entries.\<close>

fun put_by :: "('a \<Rightarrow> string) \<Rightarrow> 'a \<Rightarrow> 'a list \<Rightarrow> 'a list" where
  "put_by key x [] = [x]"
| "put_by key x (y # ys) = (if key y = key x then x # ys else y # put_by key x ys)"

text \<open>Prompts and resource templates: an empty name is an error, a later entry of the same name wins.\<close>

fun take_named :: "('a \<Rightarrow> string) \<Rightarrow> 'a list \<Rightarrow> 'a list \<Rightarrow> (conn_error, 'a list) result" where
  "take_named key [] acc = Inr acc"
| "take_named key (x # xs) acc = (if key x = [] then Inl EmptyName else take_named key xs (put_by key x acc))"

definition list_prompts :: "rpc_lib \<Rightarrow> 's transport \<Rightarrow> 's \<Rightarrow> 's \<times> (conn_error, prompt_definition list) result" where
  "list_prompts lib rt s =
     list_pages rt ''prompts/list'' (rl_prompts lib) (\<lambda>p. take_named pd_name (pp_prompts p)) pp_next max_pages [] [] s"

definition list_templates :: "rpc_lib \<Rightarrow> 's transport \<Rightarrow> 's \<Rightarrow> 's \<times> (conn_error, template_definition list) result" where
  "list_templates lib rt s =
     list_pages rt ''resources/templates/list'' (rl_templates lib) (\<lambda>p. take_named te_uri (te_templates p)) te_next
       max_pages [] [] s"

section \<open>Inspection\<close>

definition prompt_input_schema :: "prompt_argument list \<Rightarrow> json" where
  "prompt_input_schema args =
     (let props = fold (\<lambda>a. put_by fst (pa_name a, JObject [(''type'', JString ''string''), (''description'', JString (pa_description a))])) args [];
          required = map pa_name (filter pa_required args)
      in JObject ([(''type'', JString ''object''), (''properties'', JObject props), (''additionalProperties'', JBool False)]
           @ (if required = [] then [] else [(''required'', JArray (map JString required))])))"

definition uri_schema :: json where
  "uri_schema = JObject [(''type'', JString ''object''),
     (''properties'', JObject [(''uri'', JObject [(''type'', JString ''string'')])]),
     (''required'', JArray [JString ''uri'']), (''additionalProperties'', JBool False)]"

definition runtime_capability :: "server_version \<Rightarrow> capability_kind \<Rightarrow> string \<Rightarrow> string \<Rightarrow> string \<Rightarrow> string \<Rightarrow> string
  \<Rightarrow> capability" where
  "runtime_capability server kind name title desc inp outp =
     \<lparr>cap_server = server, cap_kind = kind, cap_name = name, cap_title = title, cap_description = desc,
      input_schema = inp, output_schema = outp, schema_digest = [], availability = av_ready,
      observed_at = None, expires_at = None, routing_scope = [], auth_profile = []\<rparr>"

definition tool_capability :: "server_version \<Rightarrow> tool_definition \<Rightarrow> capability" where
  "tool_capability server t =
     runtime_capability server kind_tool (td_name t) (td_title t) (td_description t) (td_input t) (td_output t)"

definition prompt_capability :: "rpc_lib \<Rightarrow> server_version \<Rightarrow> prompt_definition \<Rightarrow> capability" where
  "prompt_capability lib server p =
     runtime_capability server kind_prompt (pd_name p) (pd_title p) (pd_description p)
       (rl_marshal lib (prompt_input_schema (pd_arguments p))) []"

definition template_capability :: "rpc_lib \<Rightarrow> server_version \<Rightarrow> template_definition \<Rightarrow> capability" where
  "template_capability lib server t =
     runtime_capability server kind_template (te_uri t) (te_name t) (te_description t) (rl_marshal lib uri_schema) []"

definition definition_key :: "capability_kind \<Rightarrow> string \<Rightarrow> string" where
  "definition_key kind name = kind @ [CHR 0x00] @ name"

definition key_of :: "capability \<Rightarrow> string" where
  "key_of c = definition_key (cap_kind c) (cap_name c)"

fun index_all :: "prims \<Rightarrow> capability list \<Rightarrow> capability list \<Rightarrow> (conn_error, capability list) result" where
  "index_all pr [] acc = Inr acc"
| "index_all pr (c # cs) acc =
     (case with_computed_digest pr c of
        Inl e \<Rightarrow> Inl (DigestFailed e)
      | Inr c' \<Rightarrow> index_all pr cs (put_by key_of c' acc))"

text \<open>\<^verbatim>\<open>err != nil && !errors.Is(err, errMethodNotFound)\<close>: a server without the method has none.\<close>

definition or_none :: "(conn_error, 'a list) result \<Rightarrow> (conn_error, 'a list) result" where
  "or_none r = (case r of Inl MethodNotFound \<Rightarrow> Inr [] | r' \<Rightarrow> r')"

text \<open>The same tolerance for \<^verbatim>\<open>server/discover\<close>.\<close>

definition negotiated :: "(conn_error, unit) result \<Rightarrow> (conn_error, unit) result" where
  "negotiated r = (case r of Inl MethodNotFound \<Rightarrow> Inr () | r' \<Rightarrow> r')"

record inspected =
  in_tools :: "tool_definition list"
  in_prompts :: "prompt_definition list"
  in_templates :: "template_definition list"
  in_definitions :: "capability list"

text \<open>\<open>lt\<close> is the transport's own \<^verbatim>\<open>listTools\<close>.\<close>

definition inspect_server :: "rpc_lib \<Rightarrow> prims \<Rightarrow> 's transport \<Rightarrow> ('s \<Rightarrow> 's \<times> (conn_error, tool_definition list) result)
  \<Rightarrow> server_version \<Rightarrow> 's \<Rightarrow> 's \<times> (conn_error, inspected) result" where
  "inspect_server lib pr rt lt server s =
     (case lt s of
        (s1, Inl e) \<Rightarrow> (s1, Inl e)
      | (s1, Inr tools) \<Rightarrow>
     (case index_all pr (map (tool_capability server) tools) [] of
        Inl e \<Rightarrow> (s1, Inl e)
      | Inr d1 \<Rightarrow>
     (case list_prompts lib rt s1 of
        (s2, r2) \<Rightarrow>
     (case or_none r2 of
        Inl e \<Rightarrow> (s2, Inl e)
      | Inr prompts \<Rightarrow>
     (case index_all pr (map (prompt_capability lib server) prompts) d1 of
        Inl e \<Rightarrow> (s2, Inl e)
      | Inr d2 \<Rightarrow>
     (case list_templates lib rt s2 of
        (s3, r3) \<Rightarrow>
     (case or_none r3 of
        Inl e \<Rightarrow> (s3, Inl e)
      | Inr templates \<Rightarrow>
     (case index_all pr (map (template_capability lib server) templates) d2 of
        Inl e \<Rightarrow> (s3, Inl e)
      | Inr d3 \<Rightarrow>
          (s3, Inr \<lparr>in_tools = tools, in_prompts = prompts, in_templates = templates, in_definitions = d3\<rparr>)))))))))"

definition sorted_definitions :: "capability list \<Rightarrow> capability list" where
  "sorted_definitions cs = sort_key key_of cs"

section \<open>An opened client\<close>

record mcp_client =
  mc_tools :: "tool_definition list"
  mc_prompts :: "prompt_definition list"
  mc_templates :: "template_definition list"
  mc_output_schema :: string

text \<open>Which capability of the server the caller gets: the listed tool whose digest is the selected one.\<close>

definition verified_tool :: "prims \<Rightarrow> tool_definition list \<Rightarrow> capability \<Rightarrow> (conn_error, unit) result" where
  "verified_tool pr tools sel =
     (case find_tool (cap_name sel) tools of
        None \<Rightarrow> Inl (CapMissing (cap_name sel))
      | Some t \<Rightarrow>
          (case compute_schema_digest pr kind_tool (td_name t) (td_input t) (td_output t) of
             Inl e \<Rightarrow> Inl (DigestFailed e)
           | Inr d \<Rightarrow> check (d = schema_digest sel) (SchemaChanged (cap_name sel))))"

definition verified_definition :: "capability list \<Rightarrow> capability \<Rightarrow> (conn_error, unit) result" where
  "verified_definition defs sel =
     (case List.find (\<lambda>c. key_of c = definition_key (cap_kind sel) (cap_name sel)) defs of
        None \<Rightarrow> Inl (CapMissing (cap_name sel))
      | Some c \<Rightarrow> check (schema_digest c = schema_digest sel) (SchemaChanged (cap_name sel)))"

definition inspected_client :: "inspected \<Rightarrow> capability \<Rightarrow> (conn_error, mcp_client) result" where
  "inspected_client i sel =
     bind_res (verified_definition (in_definitions i) sel) (\<lambda>_.
       Inr \<lparr>mc_tools = in_tools i, mc_prompts = in_prompts i, mc_templates = in_templates i,
            mc_output_schema = output_schema sel\<rparr>)"

definition tool_client :: "prims \<Rightarrow> tool_definition list \<Rightarrow> capability \<Rightarrow> (conn_error, mcp_client) result" where
  "tool_client pr tools sel =
     bind_res (verified_tool pr tools sel) (\<lambda>_.
       Inr \<lparr>mc_tools = tools, mc_prompts = [], mc_templates = [], mc_output_schema = output_schema sel\<rparr>)"

definition round_params :: "arguments \<Rightarrow> arguments \<Rightarrow> string \<Rightarrow> arguments" where
  "round_params params responses state =
     params @ (if responses = [] then [] else [(''inputResponses'', JObject responses)])
            @ (if state = [] then [] else [(''requestState'', JString state)])"

definition call_tool_round :: "rpc_lib \<Rightarrow> 's transport \<Rightarrow> mcp_client \<Rightarrow> 's \<Rightarrow> string \<Rightarrow> arguments \<Rightarrow> arguments
  \<Rightarrow> string \<Rightarrow> 's \<times> (conn_error, tool_result) result" where
  "call_tool_round lib rt c s name args responses state =
     (if find_tool name (mc_tools c) = None then (s, Inl (CapMissing name))
      else (case decode_as (rl_tool_result lib)
                   (rt s ''tools/call'' (round_params [(''name'', JString name), (''arguments'', JObject args)] responses state)) of
              (s', Inl e) \<Rightarrow> (s', Inl e)
            | (s', Inr r) \<Rightarrow>
                (s', if tr_type r \<noteq> [] \<and> tr_type r \<noteq> ''complete'' then Inr r
                     else if tr_is_error r then Inl (ToolFailed r)
                     else if \<not> rl_valid lib (mc_output_schema c) (tr_structured r) then Inl ToolResultInvalid
                     else Inr r)))"

definition get_prompt_round :: "rpc_lib \<Rightarrow> 's transport \<Rightarrow> mcp_client \<Rightarrow> 's \<Rightarrow> string \<Rightarrow> arguments \<Rightarrow> arguments
  \<Rightarrow> string \<Rightarrow> 's \<times> (conn_error, json) result" where
  "get_prompt_round lib rt c s name args responses state =
     (if name \<notin> pd_name ` set (mc_prompts c) then (s, Inl (CapMissing name))
      else decode_as (rl_object lib)
             (rt s ''prompts/get'' (round_params [(''name'', JString name), (''arguments'', JObject args)] responses state)))"

definition read_resource_round :: "rpc_lib \<Rightarrow> 's transport \<Rightarrow> mcp_client \<Rightarrow> 's \<Rightarrow> string \<Rightarrow> arguments
  \<Rightarrow> string \<Rightarrow> 's \<times> (conn_error, json) result" where
  "read_resource_round lib rt c s uri responses state =
     decode_as (rl_object lib) (rt s ''resources/read'' (round_params [(''uri'', JString uri)] responses state))"

text \<open>
  The connector as the broker sees it.  The broker makes one call per opened connector, on the
  state the opening left.  \<open>show\<close> renders an error as its message.
\<close>

definition connector_of :: "rpc_lib \<Rightarrow> (conn_error \<Rightarrow> string) \<Rightarrow> 's transport \<Rightarrow> mcp_client \<Rightarrow> 's \<Rightarrow> connector" where
  "connector_of lib show rt c s =
     \<lparr>cn_tool = (\<lambda>n a. map_sum show tr_envelope (snd (call_tool_round lib rt c s n a [] []))),
      cn_tool_round = Some (\<lambda>n a r q. map_sum show tr_envelope (snd (call_tool_round lib rt c s n a r q))),
      cn_prompt = Some (\<lambda>n a. map_sum show id (snd (get_prompt_round lib rt c s n a [] []))),
      cn_prompt_round = Some (\<lambda>n a r q. map_sum show id (snd (get_prompt_round lib rt c s n a r q))),
      cn_resource = Some (\<lambda>u. map_sum show id (snd (read_resource_round lib rt c s u [] []))),
      cn_resource_round = Some (\<lambda>u r q. map_sum show id (snd (read_resource_round lib rt c s u r q)))\<rparr>"

end
