(* ===== verification/Stdio.thy ===== *)
theory Stdio
  imports McpWire
begin

text \<open>
  internal/connector/stdio/stdio.go: launching one exact configured server version, the JSON-RPC
  round trip over its standard input and output, and the opening of a connector.

  The process is a parameter: a state and a function that takes the bytes written to its input and
  gives a \<open>turn\<close>, that is the lines the reader has scanned by the time the round trip's \<^verbatim>\<open>select\<close> runs,
  whether the output has ended or the context is done, and which of several ready cases the \<^verbatim>\<open>select\<close>
  takes (Go picks one at random).
\<close>

section \<open>Configuration\<close>

text \<open>Durations are nanoseconds.\<close>

record stdio_config =
  sc_name :: string
  sc_version :: string
  sc_command :: string
  sc_args :: "string list"
  sc_directory :: string
  sc_environment :: "string list"
  sc_startup_timeout :: int

datatype factory_error =
    NameVersionRequired | CommandNotAbsolute string | DirectoryNotAbsolute string
  | DuplicateServer string string | InvalidEndpoint string | InsecureEndpoint string

definition server_key :: "string \<Rightarrow> string \<Rightarrow> string" where
  "server_key name version = name @ [CHR 0x00] @ version"

type_synonym stdio_factory = "(string \<times> stdio_config) list"

definition stdio_defaults :: "stdio_config \<Rightarrow> stdio_config" where
  "stdio_defaults c = (if sc_startup_timeout c \<le> 0 then c\<lparr>sc_startup_timeout := 5000000000\<rparr> else c)"

fun index_stdio :: "stdio_config list \<Rightarrow> stdio_factory \<Rightarrow> (factory_error, stdio_factory) result" where
  "index_stdio [] acc = Inr acc"
| "index_stdio (c # cs) acc =
     (if sc_name c = [] \<or> sc_version c = [] then Inl NameVersionRequired
      else if \<not> is_abs (sc_command c) then Inl (CommandNotAbsolute (sc_name c))
      else if sc_directory c \<noteq> [] \<and> \<not> is_abs (sc_directory c) then Inl (DirectoryNotAbsolute (sc_name c))
      else (let key = server_key (sc_name c) (sc_version c)
            in if map_of acc key \<noteq> None then Inl (DuplicateServer (sc_name c) (sc_version c))
               else index_stdio cs (acc @ [(key, stdio_defaults c)])))"

definition new_stdio_factory :: "stdio_config list \<Rightarrow> (factory_error, stdio_factory) result" where
  "new_stdio_factory configs = index_stdio configs []"

definition configured_servers :: "stdio_factory \<Rightarrow> string list" where
  "configured_servers f = sort (map (\<lambda>(k, c). sc_name c @ ''@'' @ sc_version c) f)"

section \<open>The reader\<close>

text \<open>
  \<^verbatim>\<open>readLoop\<close>: the responses it delivers, and the error at which it stops.  Blank lines and
  notifications are skipped; the line buffer holds 4 MiB with the line's end.
\<close>

fun read_loop :: "rpc_lib \<Rightarrow> string list \<Rightarrow> rpc_response list \<times> string option" where
  "read_loop lib [] = ([], None)"
| "read_loop lib (l # ls) =
     (if max_message_bytes \<le> length l then ([], Some ''bufio.Scanner: token too long'')
      else (let line = trim_space l
            in if line = [] then read_loop lib ls
               else (case rl_method lib line of
                       None \<Rightarrow> ([], Some ''invalid JSON-RPC message'')
                     | Some m \<Rightarrow>
                         (if m \<noteq> [] then read_loop lib ls
                          else (case rl_response lib line of
                                  None \<Rightarrow> ([], Some ''invalid JSON-RPC response'')
                                | Some r \<Rightarrow> (case read_loop lib ls of (rs, e) \<Rightarrow> (r # rs, e)))))))"

text \<open>The bytes of standard error that are kept: the first 64 KiB.\<close>

definition max_stderr_bytes :: nat where "max_stderr_bytes = 64 * 1024"

definition limited_write :: "nat \<Rightarrow> string \<Rightarrow> string \<Rightarrow> string" where
  "limited_write limit buf p =
     (let remaining = int limit - int (length buf)
      in if remaining > 0 then buf @ (if int (length p) > remaining then take (nat remaining) p else p) else buf)"

definition bounded :: "string \<Rightarrow> nat \<Rightarrow> string" where
  "bounded v limit = (if length v \<le> limit then v else take limit v)"

section \<open>The round trip\<close>

record turn =
  tn_write_error :: "string option"
  tn_lines :: "string list"
  tn_end :: "string option"
  tn_stderr :: string
  tn_cancelled :: bool
  tn_pick :: nat

record 'p stdio_state =
  st_next_id :: int
  st_responses :: "rpc_response list"
  st_read_err :: "string option"
  st_reading :: bool
  st_stderr :: string
  st_killed :: bool
  st_proc :: 'p

type_synonym 'p process = "'p \<Rightarrow> string \<Rightarrow> 'p \<times> turn"

text \<open>What the reader goroutine does in a turn.\<close>

definition absorb :: "rpc_lib \<Rightarrow> turn \<Rightarrow> 'p stdio_state \<Rightarrow> 'p stdio_state" where
  "absorb lib t st =
     (let st' = st\<lparr>st_stderr := limited_write max_stderr_bytes (st_stderr st) (tn_stderr t)\<rparr>
      in if \<not> st_reading st then st'
         else (case read_loop lib (tn_lines t) of
                 (rs, Some e) \<Rightarrow> st'\<lparr>st_responses := st_responses st @ rs, st_read_err := Some e, st_reading := False\<rparr>
               | (rs, None) \<Rightarrow>
                   (case tn_end t of
                      None \<Rightarrow> st'\<lparr>st_responses := st_responses st @ rs\<rparr>
                    | Some e \<Rightarrow> st'\<lparr>st_responses := st_responses st @ rs, st_read_err := Some e, st_reading := False\<rparr>)))"

datatype ready_case = ContextDone | ReaderFailed string | Responded rpc_response

definition ready_cases :: "turn \<Rightarrow> 'p stdio_state \<Rightarrow> ready_case list" where
  "ready_cases t st =
     (if tn_cancelled t then [ContextDone] else [])
     @ (case st_read_err st of None \<Rightarrow> [] | Some e \<Rightarrow> [ReaderFailed e])
     @ (case st_responses st of [] \<Rightarrow> [] | r # _ \<Rightarrow> [Responded r])"

text \<open>With no case ready the \<^verbatim>\<open>select\<close> waits until the context ends.\<close>

definition select_case :: "turn \<Rightarrow> 'p stdio_state \<Rightarrow> ready_case" where
  "select_case t st =
     (let cs = ready_cases t st
      in if cs = [] then ContextDone else cs ! (tn_pick t mod length cs))"

definition answer :: "int \<Rightarrow> rpc_response \<Rightarrow> (conn_error, string) result" where
  "answer ident r =
     (if rp_id r \<noteq> ident then Inl (IdMismatch (rp_id r) ident)
      else (case rp_error r of
              Some (code, m) \<Rightarrow> Inl (if code = -32601 then MethodNotFound else RpcFault code (bounded m 512))
            | None \<Rightarrow> Inr (rp_result r)))"

definition stdio_round_trip :: "rpc_lib \<Rightarrow> 'p process \<Rightarrow> 'p stdio_state transport" where
  "stdio_round_trip lib proc st m params =
     (let ident = st_next_id st + 1; st = st\<lparr>st_next_id := ident\<rparr>
      in case rl_request lib ident m (params @ [(''_meta'', request_meta)]) of
           None \<Rightarrow> (st, Inl EncodeFailed)
         | Some encoded \<Rightarrow>
             (if max_message_bytes < length encoded then (st, Inl RequestTooLarge)
              else (case proc (st_proc st) (encoded @ [CHR 0x0A]) of
                      (p, t) \<Rightarrow>
                (let st = st\<lparr>st_proc := p\<rparr>
                 in case tn_write_error t of
                      Some e \<Rightarrow> (absorb lib t st, Inl (WriteFailed e))
                    | None \<Rightarrow>
                        (let st = absorb lib t st
                         in case select_case t st of
                              ContextDone \<Rightarrow> (st\<lparr>st_killed := True\<rparr>, Inl Cancelled)
                            | ReaderFailed e \<Rightarrow> (st\<lparr>st_read_err := None\<rparr>, Inl (ReadFailed e))
                            | Responded r \<Rightarrow> (st\<lparr>st_responses := tl (st_responses st)\<rparr>, answer ident r))))))"

section \<open>Negotiation and listing\<close>

definition stdio_discover :: "rpc_lib \<Rightarrow> 's transport \<Rightarrow> 's \<Rightarrow> 's \<times> (conn_error, unit) result" where
  "stdio_discover lib rt s =
     (case decode_as (rl_discover lib) (rt s ''server/discover'' []) of
        (s', Inl e) \<Rightarrow> (s', Inl e)
      | (s', Inr d) \<Rightarrow>
          (s', if dr_result_type d \<noteq> [] \<and> dr_result_type d \<noteq> ''complete'' then Inl ProtocolUnsupported
               else if protocol_version \<notin> set (dr_versions d) then Inl ProtocolUnsupported
               else if ''tools'' \<notin> set (dr_capabilities d) then Inl (CapMissing ''tools'')
               else Inr ()))"

definition stdio_tools_page :: "tools_page \<Rightarrow> tool_definition list \<Rightarrow> (conn_error, tool_definition list) result" where
  "stdio_tools_page p acc =
     (if tp_result_type p \<noteq> [] \<and> tp_result_type p \<noteq> ''complete'' then Inl (BadResultType (tp_result_type p))
      else take_tools (tp_tools p) acc)"

definition stdio_list_tools :: "rpc_lib \<Rightarrow> 's transport \<Rightarrow> 's \<Rightarrow> 's \<times> (conn_error, tool_definition list) result" where
  "stdio_list_tools lib rt s =
     list_pages rt ''tools/list'' (rl_tools lib) stdio_tools_page tp_next max_pages [] [] s"

section \<open>Opening\<close>

text \<open>The process operations the connector performs, in their order.\<close>

datatype launch_event =
    Launched string "string list" string "string list"
  | ShutDown

definition launch :: "stdio_config \<Rightarrow> launch_event" where
  "launch c = Launched (sc_command c) (sc_args c) (sc_directory c) (sc_environment c)"

text \<open>\<open>spawn\<close> starts the command; every error after the start closes the client.\<close>

type_synonym 'p spawner = "stdio_config \<Rightarrow> (string, 'p) result"

definition stdio_start :: "'p \<Rightarrow> 'p stdio_state" where
  "stdio_start p = \<lparr>st_next_id = 0, st_responses = [], st_read_err = None, st_reading = True, st_stderr = [], st_killed = False, st_proc = p\<rparr>"

definition stdio_verify :: "rpc_lib \<Rightarrow> prims \<Rightarrow> 's transport \<Rightarrow> capability \<Rightarrow> 's \<Rightarrow> 's \<times> (conn_error, mcp_client) result" where
  "stdio_verify lib pr rt sel s =
     (case stdio_discover lib rt s of
        (s1, d) \<Rightarrow>
     (case negotiated d of
        Inl e \<Rightarrow> (s1, Inl e)
      | Inr _ \<Rightarrow>
          (if cap_kind sel = kind_tool then
             (case stdio_list_tools lib rt s1 of
                (s2, r) \<Rightarrow> (s2, bind_res r (\<lambda>ts. tool_client pr ts sel)))
           else
             (case inspect_server lib pr rt (stdio_list_tools lib rt) (cap_server sel) s1 of
                (s2, r) \<Rightarrow> (s2, bind_res r (\<lambda>i. inspected_client i sel))))))"

text \<open>
  \<^verbatim>\<open>Factory.Open\<close>: the opened client with the transport's state, and the process operations.
  Each of the eight error returns after the start has its own \<^verbatim>\<open>Close\<close>.
\<close>

definition stdio_open :: "rpc_lib \<Rightarrow> prims \<Rightarrow> 'p spawner \<Rightarrow> 'p process \<Rightarrow> stdio_factory \<Rightarrow> capability
  \<Rightarrow> launch_event list \<times> (conn_error, 'p stdio_state \<times> mcp_client) result" where
  "stdio_open lib pr spawn proc f sel =
     (case map_of f (server_key (server_name sel) (server_ver sel)) of
        None \<Rightarrow> ([], Inl (NotConfigured (server_name sel) (server_ver sel)))
      | Some cfg \<Rightarrow>
     (case spawn cfg of
        Inl e \<Rightarrow> ([], Inl (StartFailed e))
      | Inr p \<Rightarrow>
     (case stdio_discover lib (stdio_round_trip lib proc) (stdio_start p) of
        (s1, d) \<Rightarrow>
     (case negotiated d of
        Inl e \<Rightarrow> ([launch cfg, ShutDown], Inl e)
      | Inr _ \<Rightarrow>
          (if cap_kind sel = kind_tool then
             (case stdio_list_tools lib (stdio_round_trip lib proc) s1 of
                (s2, Inl e) \<Rightarrow> ([launch cfg, ShutDown], Inl e)
              | (s2, Inr tools) \<Rightarrow>
             (case find_tool (cap_name sel) tools of
                None \<Rightarrow> ([launch cfg, ShutDown], Inl (CapMissing (cap_name sel)))
              | Some t \<Rightarrow>
             (case compute_schema_digest pr kind_tool (td_name t) (td_input t) (td_output t) of
                Inl e \<Rightarrow> ([launch cfg, ShutDown], Inl (DigestFailed e))
              | Inr digest \<Rightarrow>
                  (if digest \<noteq> schema_digest sel then ([launch cfg, ShutDown], Inl (SchemaChanged (cap_name sel)))
                   else ([launch cfg], Inr (s2, \<lparr>mc_tools = tools, mc_prompts = [], mc_templates = [],
                                                mc_output_schema = output_schema sel\<rparr>))))))
           else
             (case inspect_server lib pr (stdio_round_trip lib proc) (stdio_list_tools lib (stdio_round_trip lib proc))
                     (cap_server sel) s1 of
                (s2, Inl e) \<Rightarrow> ([launch cfg, ShutDown], Inl e)
              | (s2, Inr i) \<Rightarrow>
             (case List.find (\<lambda>c. key_of c = definition_key (cap_kind sel) (cap_name sel)) (in_definitions i) of
                None \<Rightarrow> ([launch cfg, ShutDown], Inl (CapMissing (cap_name sel)))
              | Some c \<Rightarrow>
                  (if schema_digest c \<noteq> schema_digest sel
                   then ([launch cfg, ShutDown], Inl (SchemaChanged (cap_name sel)))
                   else ([launch cfg], Inr (s2, \<lparr>mc_tools = in_tools i, mc_prompts = in_prompts i,
                                                mc_templates = in_templates i, mc_output_schema = output_schema sel\<rparr>))))))))))"

text \<open>So the client is closed exactly when the verification of the started server fails.\<close>

lemma stdio_open_verify:
  "stdio_open lib pr spawn proc f sel =
     (case map_of f (server_key (server_name sel) (server_ver sel)) of
        None \<Rightarrow> ([], Inl (NotConfigured (server_name sel) (server_ver sel)))
      | Some cfg \<Rightarrow>
          (case spawn cfg of
             Inl e \<Rightarrow> ([], Inl (StartFailed e))
           | Inr p \<Rightarrow>
               (case stdio_verify lib pr (stdio_round_trip lib proc) sel (stdio_start p) of
                  (s, Inl e) \<Rightarrow> ([launch cfg, ShutDown], Inl e)
                | (s, Inr c) \<Rightarrow> ([launch cfg], Inr (s, c)))))"
  by (simp add: stdio_open_def stdio_verify_def tool_client_def verified_tool_def inspected_client_def
      verified_definition_def check_def bind_res_def split: option.split sum.split prod.split)

text \<open>\<^verbatim>\<open>Inspect\<close>: always closes the process it started.\<close>

definition stdio_inspect :: "rpc_lib \<Rightarrow> prims \<Rightarrow> 'p spawner \<Rightarrow> 'p process \<Rightarrow> stdio_config
  \<Rightarrow> launch_event list \<times> (conn_error, capability list) result" where
  "stdio_inspect lib pr spawn proc cfg0 =
     (let cfg = stdio_defaults cfg0; rt = stdio_round_trip lib proc;
          server = \<lparr>sv_identity = \<lparr>canonical_name = sc_name cfg, publisher = []\<rparr>, sv_version = sc_version cfg,
                    package_digest = [], sv_status = []\<rparr>
      in case spawn cfg of
           Inl e \<Rightarrow> ([], Inl (StartFailed e))
         | Inr p \<Rightarrow>
             ([launch cfg, ShutDown],
              (case stdio_discover lib rt (stdio_start p) of
                 (s1, d) \<Rightarrow>
                   bind_res (negotiated d) (\<lambda>_.
                     bind_res (snd (inspect_server lib pr rt (stdio_list_tools lib rt) server s1)) (\<lambda>i.
                       Inr (sorted_definitions (in_definitions i)))))))"

section \<open>Shutdown\<close>

text \<open>
  \<^verbatim>\<open>Close\<close>, which runs once: the exit of the process within two seconds (\<open>Some\<close> of its wait
  error, empty for none), or a kill.
\<close>

definition stdio_close :: "string option \<Rightarrow> string option \<Rightarrow> string option" where
  "stdio_close exited kill_error =
     (case exited of
        Some e \<Rightarrow> if e \<noteq> [] \<and> \<not> str_contains e ''signal: killed''
                  then Some (''waiting for downstream MCP server: '' @ e) else None
      | None \<Rightarrow>
          (case kill_error of
             Some e \<Rightarrow> Some (''forcing downstream MCP server shutdown: '' @ e)
           | None \<Rightarrow> Some ''downstream MCP server required forced shutdown''))"

end
