(* ===== verification/StreamHttp.thy ===== *)
theory StreamHttp
  imports Stdio CapabilityQuery
begin

text \<open>
  internal/connector/streamhttp/http.go: the stateless HTTP transport, its definition cache and the
  opening of a connector.

  Parameters: \<^verbatim>\<open>url.Parse\<close>, and the network, a state with a function from requests to a
  transport error or a response whose body may fail while it is read.  Durations and times are
  nanoseconds; the clock readings of an operation are its arguments.
\<close>

section \<open>Configuration\<close>

record parsed_url =
  pu_scheme :: string
  pu_host :: string
  pu_hostname :: string
  pu_path :: string
  pu_has_user :: bool
  pu_raw_query :: string
  pu_fragment :: string

record http_config =
  hc_name :: string
  hc_version :: string
  hc_endpoint :: string
  hc_headers :: "(string \<times> string) list"
  hc_timeout :: int
  hc_caching :: bool
  hc_partition :: string

type_synonym http_factory = "(string \<times> http_config) list"

text \<open>
  \<^verbatim>\<open>isLoopbackHost\<close>: no character outside ASCII has a letter of these names as its lower case.
\<close>

definition is_loopback_host :: "string \<Rightarrow> bool" where
  "is_loopback_host host =
     (let h = map ascii_lower host in h = ''localhost'' \<or> h = ''127.0.0.1'' \<or> h = ''::1'')"

definition endpoint_error :: "(string \<Rightarrow> parsed_url option) \<Rightarrow> http_config \<Rightarrow> factory_error option" where
  "endpoint_error parse c =
     (case parse (hc_endpoint c) of
        None \<Rightarrow> Some (InvalidEndpoint (hc_name c))
      | Some u \<Rightarrow>
          (if pu_scheme u = [] \<or> pu_host u = [] \<or> pu_has_user u \<or> pu_raw_query u \<noteq> [] \<or> pu_fragment u \<noteq> []
           then Some (InvalidEndpoint (hc_name c))
           else if pu_scheme u \<noteq> ''https'' \<and> (pu_scheme u \<noteq> ''http'' \<or> \<not> is_loopback_host (pu_hostname u))
           then Some (InsecureEndpoint (hc_name c)) else None))"

definition http_defaults :: "http_config \<Rightarrow> http_config" where
  "http_defaults c = (if hc_timeout c \<le> 0 then c\<lparr>hc_timeout := 30000000000\<rparr> else c)"

fun index_http :: "(string \<Rightarrow> parsed_url option) \<Rightarrow> http_config list \<Rightarrow> http_factory
  \<Rightarrow> (factory_error, http_factory) result" where
  "index_http parse [] acc = Inr acc"
| "index_http parse (c # cs) acc =
     (if hc_name c = [] \<or> hc_version c = [] then Inl NameVersionRequired
      else (case endpoint_error parse c of
              Some e \<Rightarrow> Inl e
            | None \<Rightarrow>
                (let key = server_key (hc_name c) (hc_version c)
                 in if map_of acc key \<noteq> None then Inl (DuplicateServer (hc_name c) (hc_version c))
                    else index_http parse cs (acc @ [(key, http_defaults c)]))))"

definition new_http_factory :: "(string \<Rightarrow> parsed_url option) \<Rightarrow> http_config list \<Rightarrow> (factory_error, http_factory) result" where
  "new_http_factory parse configs = index_http parse configs []"

section \<open>The round trip\<close>

text \<open>
  \<^verbatim>\<open>Header.Set\<close>: the name is put into its canonical form, upper case at the start and after a
  hyphen, unless it has a byte that no header name may have.
\<close>

definition ascii_upper :: "char \<Rightarrow> char" where
  "ascii_upper c = (let n = of_char c :: nat in if 97 \<le> n \<and> n \<le> 122 then char_of (n - 32) else c)"

definition header_char :: "char \<Rightarrow> bool" where
  "header_char c \<longleftrightarrow> (let n = of_char c :: nat in 48 \<le> n \<and> n \<le> 57 \<or> 65 \<le> n \<and> n \<le> 90 \<or> 97 \<le> n \<and> n \<le> 122)
     \<or> c \<in> set ''!#$%&*+-.^_|~'' \<or> c \<in> {CHR 0x27, CHR 0x60}"

fun canon_chars :: "bool \<Rightarrow> string \<Rightarrow> string" where
  "canon_chars up [] = []"
| "canon_chars up (c # cs) = (if up then ascii_upper c else ascii_lower c) # canon_chars (c = CHR ''-'') cs"

definition canonical_header :: "string \<Rightarrow> string" where
  "canonical_header n = (if list_all header_char n then canon_chars True n else n)"

definition set_header :: "string \<Rightarrow> string \<Rightarrow> (string \<times> string) list \<Rightarrow> (string \<times> string) list" where
  "set_header n v hs = put_by fst (canonical_header n, v) hs"

record http_request =
  hq_endpoint :: string
  hq_headers :: "(string \<times> string) list"
  hq_payload :: string

record http_response =
  hp_status :: int
  hp_body :: "(string, string) result"

type_synonym 'n network = "'n \<Rightarrow> http_request \<Rightarrow> 'n \<times> (string, http_response) result"

record 'n http_state =
  ht_next_id :: int
  ht_net :: 'n

definition request_headers :: "http_config \<Rightarrow> string \<Rightarrow> arguments \<Rightarrow> (string \<times> string) list" where
  "request_headers cfg m params =
     (let base = set_header ''Mcp-Method'' m (set_header ''MCP-Protocol-Version'' protocol_version
            (set_header ''Accept'' ''application/json'' (set_header ''Content-Type'' ''application/json'' [])));
          named = (case string_arg ''name'' params of
                     Some (n # ns) \<Rightarrow> set_header ''Mcp-Name'' (n # ns) base
                   | _ \<Rightarrow> (case string_arg ''uri'' params of
                            Some (u # us) \<Rightarrow> set_header ''Mcp-Name'' (u # us) base
                          | _ \<Rightarrow> base))
      in fold (\<lambda>(n, v). set_header n v) (hc_headers cfg) named)"

definition http_answer :: "rpc_lib \<Rightarrow> int \<Rightarrow> http_response \<Rightarrow> (conn_error, string) result" where
  "http_answer lib ident resp =
     (if 300 \<le> hp_status resp \<and> hp_status resp < 400 then Inl RedirectRefused
      else if hp_status resp \<noteq> 200 then Inl (HttpStatus (hp_status resp))
      else (case hp_body resp of
              Inl e \<Rightarrow> Inl (HttpFailed e)
            | Inr body \<Rightarrow>
                (let data = take (max_message_bytes + 1) body
                 in if max_message_bytes < length data then Inl ResponseTooLarge
                    else (case rl_response lib data of
                            None \<Rightarrow> Inl BadJsonRpc
                          | Some r \<Rightarrow>
                              (if rp_id r \<noteq> ident then Inl (IdMismatch (rp_id r) ident)
                               else (case rp_error r of
                                       Some (code, m) \<Rightarrow> Inl (if code = -32601 then MethodNotFound else RpcFault code [])
                                     | None \<Rightarrow> Inr (rp_result r)))))))"

definition http_round_trip :: "rpc_lib \<Rightarrow> 'n network \<Rightarrow> http_config \<Rightarrow> 'n http_state transport" where
  "http_round_trip lib net cfg st m params =
     (let ident = ht_next_id st + 1; st = st\<lparr>ht_next_id := ident\<rparr>;
          params' = params @ [(''_meta'', request_meta)]
      in case rl_request lib ident m params' of
           None \<Rightarrow> (st, Inl EncodeFailed)
         | Some payload \<Rightarrow>
             (case net (ht_net st) \<lparr>hq_endpoint = hc_endpoint cfg, hq_headers = request_headers cfg m params', hq_payload = payload\<rparr> of
                (n, Inl e) \<Rightarrow> (st\<lparr>ht_net := n\<rparr>, Inl (HttpFailed e))
              | (n, Inr resp) \<Rightarrow> (st\<lparr>ht_net := n\<rparr>, http_answer lib ident resp)))"

section \<open>Negotiation and listing\<close>

definition http_discover :: "rpc_lib \<Rightarrow> 's transport \<Rightarrow> 's \<Rightarrow> 's \<times> (conn_error, unit) result" where
  "http_discover lib rt s =
     (case decode_as (rl_discover lib) (rt s ''server/discover'' []) of
        (s', Inl e) \<Rightarrow> (s', Inl e)
      | (s', Inr d) \<Rightarrow>
          (s', if protocol_version \<notin> set (dr_versions d) then Inl ProtocolUnsupported else Inr ()))"

text \<open>The duration \<^verbatim>\<open>time.Duration(ttlMs) * time.Millisecond\<close> wraps around.\<close>

definition page_ttl :: "tools_page \<Rightarrow> int" where
  "page_ttl p = wrap64 (tp_ttl_ms p * 1000000)"

record listed_tools =
  lt_tools :: "tool_definition list"
  lt_meta :: "(int \<times> string) option"

definition http_tools_page :: "tools_page \<Rightarrow> listed_tools \<Rightarrow> (conn_error, listed_tools) result" where
  "http_tools_page p acc =
     (if tp_ttl_ms p < 0 \<or> tp_scope p \<noteq> [] \<and> tp_scope p \<noteq> ''public'' \<and> tp_scope p \<noteq> ''private''
      then Inl BadCacheMetadata
      else if lt_meta acc \<noteq> None \<and> lt_meta acc \<noteq> Some (page_ttl p, tp_scope p) then Inl CacheMetadataChanged
      else bind_res (take_tools (tp_tools p) (lt_tools acc)) (\<lambda>ts.
             Inr \<lparr>lt_tools = ts, lt_meta = Some (page_ttl p, tp_scope p)\<rparr>))"

definition http_list_tools :: "rpc_lib \<Rightarrow> 's transport \<Rightarrow> 's \<Rightarrow> 's \<times> (conn_error, listed_tools) result" where
  "http_list_tools lib rt s =
     list_pages rt ''tools/list'' (rl_tools lib) http_tools_page tp_next max_pages []
       \<lparr>lt_tools = [], lt_meta = None\<rparr> s"

definition http_inspect_server :: "rpc_lib \<Rightarrow> prims \<Rightarrow> 's transport \<Rightarrow> server_version \<Rightarrow> 's \<Rightarrow> 's \<times> (conn_error, inspected) result" where
  "http_inspect_server lib pr rt server s =
     inspect_server lib pr rt (\<lambda>s. case http_list_tools lib rt s of (s', r) \<Rightarrow> (s', map_sum id lt_tools r)) server s"

section \<open>Calls of an opened client\<close>

text \<open>
  http.go carries its own copies of the calls; they do what those of the stdio client do
  (\<open>http_calls_shared\<close>).
\<close>

definition http_call_tool_round :: "rpc_lib \<Rightarrow> 's transport \<Rightarrow> mcp_client \<Rightarrow> 's \<Rightarrow> string \<Rightarrow> arguments \<Rightarrow> arguments
  \<Rightarrow> string \<Rightarrow> 's \<times> (conn_error, tool_result) result" where
  "http_call_tool_round lib rt c s name args responses state =
     (if find_tool name (mc_tools c) = None then (s, Inl (CapMissing name))
      else (case decode_as (rl_tool_result lib)
                   (rt s ''tools/call'' (round_params [(''name'', JString name), (''arguments'', JObject args)] responses state)) of
              (s', Inl e) \<Rightarrow> (s', Inl e)
            | (s', Inr r) \<Rightarrow>
                (if tr_type r \<noteq> [] \<and> tr_type r \<noteq> ''complete'' then (s', Inr r)
                 else if tr_is_error r then (s', Inl (ToolFailed r))
                 else if \<not> rl_valid lib (mc_output_schema c) (tr_structured r) then (s', Inl ToolResultInvalid)
                 else (s', Inr r))))"

definition http_get_prompt_round :: "rpc_lib \<Rightarrow> 's transport \<Rightarrow> mcp_client \<Rightarrow> 's \<Rightarrow> string \<Rightarrow> arguments \<Rightarrow> arguments
  \<Rightarrow> string \<Rightarrow> 's \<times> (conn_error, json) result" where
  "http_get_prompt_round lib rt c s name args responses state =
     (if name \<notin> pd_name ` set (mc_prompts c) then (s, Inl (CapMissing name))
      else decode_as (rl_object lib)
             (rt s ''prompts/get'' (round_params [(''name'', JString name), (''arguments'', JObject args)] responses state)))"

definition http_read_resource_round :: "rpc_lib \<Rightarrow> 's transport \<Rightarrow> mcp_client \<Rightarrow> 's \<Rightarrow> string \<Rightarrow> arguments
  \<Rightarrow> string \<Rightarrow> 's \<times> (conn_error, json) result" where
  "http_read_resource_round lib rt c s uri responses state =
     decode_as (rl_object lib) (rt s ''resources/read'' (round_params [(''uri'', JString uri)] responses state))"

lemma http_calls_shared:
  "http_call_tool_round = call_tool_round" "http_get_prompt_round = get_prompt_round"
  "http_read_resource_round = read_resource_round"
  by (intro ext; simp add: http_call_tool_round_def call_tool_round_def split: prod.split sum.split)
    (intro ext; simp add: http_get_prompt_round_def get_prompt_round_def http_read_resource_round_def read_resource_round_def)+

definition http_connector_of :: "rpc_lib \<Rightarrow> (conn_error \<Rightarrow> string) \<Rightarrow> 's transport \<Rightarrow> mcp_client \<Rightarrow> 's \<Rightarrow> connector" where
  "http_connector_of lib show rt c s =
     \<lparr>cn_tool = (\<lambda>n a. map_sum show tr_envelope (snd (http_call_tool_round lib rt c s n a [] []))),
      cn_tool_round = Some (\<lambda>n a r q. map_sum show tr_envelope (snd (http_call_tool_round lib rt c s n a r q))),
      cn_prompt = Some (\<lambda>n a. map_sum show id (snd (http_get_prompt_round lib rt c s n a [] []))),
      cn_prompt_round = Some (\<lambda>n a r q. map_sum show id (snd (http_get_prompt_round lib rt c s n a r q))),
      cn_resource = Some (\<lambda>u. map_sum show id (snd (http_read_resource_round lib rt c s u [] []))),
      cn_resource_round = Some (\<lambda>u r q. map_sum show id (snd (http_read_resource_round lib rt c s u r q)))\<rparr>"

lemma http_connector_shared: "http_connector_of = connector_of"
  by (intro ext) (simp add: http_connector_of_def connector_of_def http_calls_shared)

section \<open>The definition cache\<close>

text \<open>The entries of a \<^verbatim>\<open>DefinitionCache\<close> by key: the tools and the time they expire.\<close>

type_synonym definition_cache = "string \<Rightarrow> (tool_definition list \<times> int) option"

definition public_key :: "http_config \<Rightarrow> string" where
  "public_key c = server_key (hc_name c) (hc_version c) @ [CHR 0x00] @ ''public''"

definition private_key :: "http_config \<Rightarrow> string" where
  "private_key c = server_key (hc_name c) (hc_version c) @ [CHR 0x00] @ ''private'' @ [CHR 0x00] @ hc_partition c"

fun lookup_keys :: "int \<Rightarrow> string list \<Rightarrow> definition_cache \<Rightarrow> definition_cache \<times> tool_definition list option" where
  "lookup_keys now [] cache = (cache, None)"
| "lookup_keys now (k # ks) cache =
     (case cache k of
        Some (tools, until) \<Rightarrow>
          if now < until then (cache, Some tools) else lookup_keys now ks (cache(k := None))
      | None \<Rightarrow> lookup_keys now ks cache)"

definition cached_tools :: "http_config \<Rightarrow> int \<Rightarrow> definition_cache \<Rightarrow> definition_cache \<times> tool_definition list option" where
  "cached_tools c now cache =
     (if \<not> hc_caching c then (cache, None) else lookup_keys now [public_key c, private_key c] cache)"

definition store_tools :: "http_config \<Rightarrow> tool_definition list \<Rightarrow> int \<Rightarrow> string \<Rightarrow> int \<Rightarrow> definition_cache \<Rightarrow> definition_cache" where
  "store_tools c tools ttl scope now cache =
     (if \<not> hc_caching c \<or> ttl \<le> 0 \<or> scope = [] then cache
      else (let key = server_key (hc_name c) (hc_version c) @ [CHR 0x00] @ scope
                  @ (if scope = ''private'' then [CHR 0x00] @ hc_partition c else [])
            in cache(key := Some (tools, now + ttl))))"

section \<open>Opening\<close>

definition http_start :: "'n \<Rightarrow> 'n http_state" where
  "http_start n = \<lparr>ht_next_id = 0, ht_net = n\<rparr>"

definition http_verify :: "rpc_lib \<Rightarrow> prims \<Rightarrow> 's transport \<Rightarrow> http_config \<Rightarrow> int \<Rightarrow> int \<Rightarrow> definition_cache
  \<Rightarrow> capability \<Rightarrow> 's \<Rightarrow> definition_cache \<times> 's \<times> (conn_error, mcp_client) result" where
  "http_verify lib pr rt cfg now later cache sel s =
     (case cached_tools cfg now cache of
        (cache1, hit) \<Rightarrow>
     (case (if cap_kind sel = kind_tool then hit else None) of
        Some tools \<Rightarrow> (cache1, s, tool_client pr tools sel)
      | None \<Rightarrow>
     (case http_discover lib rt s of
        (s1, d) \<Rightarrow>
     (case negotiated d of
        Inl e \<Rightarrow> (cache1, s1, Inl e)
      | Inr _ \<Rightarrow>
          (if cap_kind sel \<noteq> kind_tool then
             (case http_inspect_server lib pr rt (cap_server sel) s1 of
                (s2, r) \<Rightarrow> (cache1, s2, bind_res r (\<lambda>i. inspected_client i sel)))
           else
             (case http_list_tools lib rt s1 of
                (s2, Inl e) \<Rightarrow> (cache1, s2, Inl e)
              | (s2, Inr l) \<Rightarrow>
                  (let meta = (case lt_meta l of None \<Rightarrow> (0, []) | Some m \<Rightarrow> m)
                   in (store_tools cfg (lt_tools l) (fst meta) (snd meta) later cache1, s2,
                       tool_client pr (lt_tools l) sel))))))))"

definition http_open :: "rpc_lib \<Rightarrow> prims \<Rightarrow> 'n network \<Rightarrow> http_factory \<Rightarrow> int \<Rightarrow> int \<Rightarrow> definition_cache \<Rightarrow> 'n
  \<Rightarrow> capability \<Rightarrow> definition_cache \<times> (conn_error, 'n http_state \<times> mcp_client) result" where
  "http_open lib pr net f now later cache n sel =
     (case map_of f (server_key (server_name sel) (server_ver sel)) of
        None \<Rightarrow> (cache, Inl (NotConfigured (server_name sel) (server_ver sel)))
      | Some cfg \<Rightarrow>
          (case http_verify lib pr (http_round_trip lib net cfg) cfg now later cache sel (http_start n) of
             (cache', s, r) \<Rightarrow> (cache', map_sum id (Pair s) r)))"

datatype inspect_error = BadFactory factory_error | InspectFailed conn_error

definition http_inspect :: "(string \<Rightarrow> parsed_url option) \<Rightarrow> rpc_lib \<Rightarrow> prims \<Rightarrow> 'n network \<Rightarrow> http_config \<Rightarrow> 'n
  \<Rightarrow> (inspect_error, capability list) result" where
  "http_inspect parse lib pr net cfg n =
     (case new_http_factory parse [cfg] of
        Inl e \<Rightarrow> Inl (BadFactory e)
      | Inr f \<Rightarrow>
          (case map_of f (server_key (hc_name cfg) (hc_version cfg)) of
             None \<Rightarrow> Inl (InspectFailed (NotConfigured (hc_name cfg) (hc_version cfg)))
           | Some norm \<Rightarrow>
               (let rt = http_round_trip lib net norm;
                    server = \<lparr>sv_identity = \<lparr>canonical_name = hc_name cfg, publisher = []\<rparr>, sv_version = hc_version cfg,
                              package_digest = [], sv_status = []\<rparr>
                in case http_discover lib rt (http_start n) of
                     (s1, d) \<Rightarrow>
                       map_sum InspectFailed id (bind_res (negotiated d) (\<lambda>_.
                         bind_res (snd (http_inspect_server lib pr rt server s1)) (\<lambda>i.
                           Inr (sorted_definitions (in_definitions i))))))))"

end
