(* ===== verification/McpProps.thy ===== *)
theory McpProps
  imports StreamHttp
begin

text \<open>
  The connectors: how many requests an opening may send, what an opened client is sure to have, and
  where cached definitions come from.  \<open>request_counter\<close> is what both transports promise the
  protocol code above them.
\<close>

section \<open>Requests are counted\<close>

text \<open>
  A process or a network that keeps the list of everything it was handed; the connectors run on any
  process and network, so on this one too.
\<close>

definition recording :: "('n \<Rightarrow> 'r \<Rightarrow> 'n \<times> 'a) \<Rightarrow> 'n \<times> 'r list \<Rightarrow> 'r \<Rightarrow> ('n \<times> 'r list) \<times> 'a" where
  "recording f s rq = (case f (fst s) rq of (n, a) \<Rightarrow> ((n, snd s @ [rq]), a))"

definition stdio_sent :: "('p \<times> string list) stdio_state \<Rightarrow> nat" where
  "stdio_sent st = length (snd (st_proc st))"

definition http_sent :: "('n \<times> http_request list) http_state \<Rightarrow> nat" where
  "http_sent st = length (snd (ht_net st))"

locale request_counter =
  fixes rt :: "'s transport" and sent :: "'s \<Rightarrow> nat"
  assumes one_request: "sent (fst (rt s m p)) \<le> Suc (sent s)"
begin

lemma decode_counts: "sent (fst (decode_as dec (rt s m p))) \<le> Suc (sent s)"
  by (simp add: decode_as_def one_request)

lemma decoded_counts: "decode_as dec (rt s m p) = (s', r) \<Longrightarrow> sent s' \<le> Suc (sent s)"
  using decode_counts[of dec s m p] by simp

lemma pages_bounded:
  "sent (fst (list_pages rt m dec take_page next_of n cursor acc s)) \<le> sent s + n"
proof (induction n arbitrary: cursor acc s)
  case 0
  then show ?case by simp
next
  case (Suc n)
  obtain s' r where d: "decode_as dec (rt s m (cursor_params cursor)) = (s', r)" by force
  have 1: "sent s' \<le> Suc (sent s)" by (rule decoded_counts[OF d])
  have "sent (fst (list_pages rt m dec take_page next_of n c a s')) \<le> sent s + Suc n" for c a
    using Suc[of c a s'] 1 by linarith
  then show ?case using 1
    by (auto simp: d split: sum.split)
qed

lemma prompts_bounded: "sent (fst (list_prompts lib rt s)) \<le> sent s + 32"
  using pages_bounded[where n = max_pages] by (simp add: list_prompts_def max_pages_def)

lemma templates_bounded: "sent (fst (list_templates lib rt s)) \<le> sent s + 32"
  using pages_bounded[where n = max_pages] by (simp add: list_templates_def max_pages_def)

lemma stdio_tools_bounded: "sent (fst (stdio_list_tools lib rt s)) \<le> sent s + 32"
  using pages_bounded[where n = max_pages] by (simp add: stdio_list_tools_def max_pages_def)

lemma http_tools_bounded: "sent (fst (http_list_tools lib rt s)) \<le> sent s + 32"
  using pages_bounded[where n = max_pages] by (simp add: http_list_tools_def max_pages_def)

lemma inspect_bounded:
  assumes lt: "\<And>s. sent (fst (lt s)) \<le> sent s + 32"
  shows "sent (fst (inspect_server lib pr rt lt server s)) \<le> sent s + 96"
proof -
  obtain s1 r1 where 1: "lt s = (s1, r1)" by force
  obtain s2 r2 where 2: "list_prompts lib rt s1 = (s2, r2)" by force
  obtain s3 r3 where 3: "list_templates lib rt s2 = (s3, r3)" by force
  have "sent s1 \<le> sent s + 32" using lt[of s] 1 by simp
  moreover have "sent s2 \<le> sent s1 + 32" using prompts_bounded[of lib s1] 2 by simp
  moreover have "sent s3 \<le> sent s2 + 32" using templates_bounded[of lib s2] 3 by simp
  ultimately show ?thesis
    by (simp add: inspect_server_def 1 2 3 split: sum.split)
qed

lemma stdio_discover_counts: "sent (fst (stdio_discover lib rt s)) \<le> Suc (sent s)"
  by (auto simp: stdio_discover_def dest: decoded_counts split: prod.split sum.split)

lemma http_discover_counts: "sent (fst (http_discover lib rt s)) \<le> Suc (sent s)"
  by (auto simp: http_discover_def dest: decoded_counts split: prod.split sum.split)

lemma stdio_verify_bounded: "sent (fst (stdio_verify lib pr rt sel s)) \<le> sent s + 97"
proof -
  obtain s1 d where 1: "stdio_discover lib rt s = (s1, d)" by force
  have "sent s1 \<le> Suc (sent s)" using stdio_discover_counts[of lib s] 1 by simp
  then show ?thesis
    using stdio_tools_bounded[of lib s1]
      inspect_bounded[OF stdio_tools_bounded[where lib = lib], of lib pr "cap_server sel" s1]
    by (auto simp: stdio_verify_def 1 split: sum.split prod.split)
qed

lemma http_verify_bounded:
  "sent (fst (snd (http_verify lib pr rt cfg now later cache sel s))) \<le> sent s + 97"
proof -
  let ?lt = "\<lambda>s. case http_list_tools lib rt s of (s', r) \<Rightarrow> (s', map_sum id lt_tools r)"
  obtain s1 d where 1: "http_discover lib rt s = (s1, d)" by force
  have c: "sent s1 \<le> Suc (sent s)" using http_discover_counts[of lib s] 1 by simp
  have "sent (fst (?lt x)) \<le> sent x + 32" for x
    using http_tools_bounded[of lib x] by (auto split: prod.split)
  from inspect_bounded[of ?lt lib pr "cap_server sel" s1, OF this]
  have i: "sent (fst (http_inspect_server lib pr rt (cap_server sel) s1)) \<le> sent s + 97"
    using c by (simp add: http_inspect_server_def)
  have t: "sent (fst (http_list_tools lib rt s1)) \<le> sent s + 97"
    using http_tools_bounded[of lib s1] c by simp
  show ?thesis
    using c i t by (auto simp: http_verify_def 1 Let_def split: sum.split prod.split option.split)
qed

lemma call_bounded: "sent (fst (call_tool_round lib rt c s name args responses state)) \<le> Suc (sent s)"
  by (auto simp: call_tool_round_def dest: decoded_counts split: prod.split sum.split)

lemma prompt_bounded: "sent (fst (get_prompt_round lib rt c s name args responses state)) \<le> Suc (sent s)"
  by (simp add: get_prompt_round_def decode_counts)

lemma resource_bounded: "sent (fst (read_resource_round lib rt c s uri responses state)) \<le> Suc (sent s)"
  by (simp add: read_resource_round_def decode_counts)

end

lemma absorb_keeps [frame_simps]:
  "st_next_id (absorb lib t st) = st_next_id st" "st_proc (absorb lib t st) = st_proc st"
  "st_killed (absorb lib t st) = st_killed st"
  by (simp_all add: absorb_def Let_def split: prod.split option.split)

interpretation stdio: request_counter "stdio_round_trip lib (recording proc)" stdio_sent for lib proc
  by unfold_locales
    (simp add: stdio_round_trip_def Let_def frame_simps stdio_sent_def recording_def case_prod_beta
      split: option.split ready_case.split)

interpretation http: request_counter "http_round_trip lib (recording net) cfg" http_sent for lib net cfg
  by unfold_locales
    (simp add: http_round_trip_def Let_def http_sent_def recording_def case_prod_beta split: option.split sum.split prod.split)

section \<open>What an opened client has\<close>

lemma case_res_pair:
  "(case r of Inl e \<Rightarrow> (s, Inl e) | Inr x \<Rightarrow> f x) = (s', Inr y) \<longleftrightarrow> (\<exists>x. r = Inr x \<and> f x = (s', Inr y))"
  by (cases r) auto

lemma put_by_set: "set (put_by key x xs) \<subseteq> insert x (set xs)"
  by (induction xs) auto

lemma put_by_keys: "key ` set (put_by key x xs) = insert (key x) (key ` set xs)"
  by (induction xs) auto

lemma index_all_from:
  "index_all pr cs acc = Inr ds \<Longrightarrow> d \<in> set ds \<Longrightarrow>
     d \<in> set acc \<or> (\<exists>c \<in> set cs. with_computed_digest pr c = Inr d)"
proof (induction cs arbitrary: acc)
  case Nil
  then show ?case by simp
next
  case (Cons c cs)
  then obtain c' where c': "with_computed_digest pr c = Inr c'" by (cases "with_computed_digest pr c") auto
  with Cons have "d \<in> set (put_by key_of c' acc) \<or> (\<exists>c \<in> set cs. with_computed_digest pr c = Inr d)"
    by simp
  then show ?case using put_by_set[of key_of c' acc] c' by auto
qed

text \<open>An inspected server's definitions are its tools, prompts and templates, digested.\<close>

lemma inspected_from:
  assumes "inspect_server lib pr rt lt server s = (s', Inr i)" "d \<in> set (in_definitions i)"
  shows "(\<exists>t \<in> set (in_tools i). with_computed_digest pr (tool_capability server t) = Inr d)
    \<or> (\<exists>p \<in> set (in_prompts i). with_computed_digest pr (prompt_capability lib server p) = Inr d)
    \<or> (\<exists>t \<in> set (in_templates i). with_computed_digest pr (template_capability lib server t) = Inr d)"
proof -
  obtain s1 r1 where 1: "lt s = (s1, r1)" by force
  obtain s2 r2 where 2: "list_prompts lib rt s1 = (s2, r2)" by force
  obtain s3 r3 where 3: "list_templates lib rt s2 = (s3, r3)" by force
  from assms(1) obtain tools d1 prompts d2 templates d3 where
    "index_all pr (map (tool_capability server) tools) [] = Inr d1"
    "index_all pr (map (prompt_capability lib server) prompts) d1 = Inr d2"
    "index_all pr (map (template_capability lib server) templates) d2 = Inr d3"
    "(s3, Inr \<lparr>in_tools = tools, in_prompts = prompts, in_templates = templates, in_definitions = d3\<rparr>) = (s', Inr i)"
    by (simp only: inspect_server_def 1 2 3 case_res_pair prod.case) blast
  note ix = this
  then have i: "in_tools i = tools" "in_prompts i = prompts" "in_templates i = templates" "in_definitions i = d3"
    by auto
  have "d \<in> set d2 \<or> (\<exists>t \<in> set templates. with_computed_digest pr (template_capability lib server t) = Inr d)"
    using index_all_from[OF ix(3)] assms(2) i by auto
  moreover have "d \<in> set d2 \<Longrightarrow> d \<in> set d1 \<or> (\<exists>p \<in> set prompts. with_computed_digest pr (prompt_capability lib server p) = Inr d)"
    using index_all_from[OF ix(2)] by auto
  moreover have "d \<in> set d1 \<Longrightarrow> \<exists>t \<in> set tools. with_computed_digest pr (tool_capability server t) = Inr d"
    using index_all_from[OF ix(1)] by auto
  ultimately show ?thesis unfolding i by blast
qed

lemma verified_tool_Ok:
  "verified_tool pr tools sel = Inr u \<longleftrightarrow>
     (\<exists>t. find_tool (cap_name sel) tools = Some t \<and>
       compute_schema_digest pr kind_tool (td_name t) (td_input t) (td_output t) = Inr (schema_digest sel))"
  by (auto simp: verified_tool_def check_Ok_iff split: option.split sum.split)

lemma tool_client_Ok:
  assumes "tool_client pr tools sel = Inr c"
  obtains t where "t \<in> set (mc_tools c)" "td_name t = cap_name sel"
    "compute_schema_digest pr kind_tool (cap_name sel) (td_input t) (td_output t) = Inr (schema_digest sel)"
    "mc_output_schema c = output_schema sel" "mc_tools c = tools" "mc_prompts c = []"
proof -
  from assms have v: "verified_tool pr tools sel = Inr ()"
    and c: "mc_tools c = tools" "mc_prompts c = []" "mc_output_schema c = output_schema sel"
    by (auto simp: tool_client_def bind_res_Ok_iff)
  from v obtain t where t: "find_tool (cap_name sel) tools = Some t"
    "compute_schema_digest pr kind_tool (td_name t) (td_input t) (td_output t) = Inr (schema_digest sel)"
    by (auto simp: verified_tool_Ok)
  from find_Some_iff'[OF t(1)[unfolded find_tool_def]] that[of t] t(2) c show ?thesis by simp
qed

text \<open>
  The selected capability is offered: the digest the caller was shown is the digest of what the
  running server lists under the selected kind and name.
\<close>

definition offered :: "rpc_lib \<Rightarrow> prims \<Rightarrow> mcp_client \<Rightarrow> capability \<Rightarrow> bool" where
  "offered lib pr c sel \<longleftrightarrow>
     (cap_kind sel = kind_tool \<and> list_ex (\<lambda>t. td_name t = cap_name sel \<and>
        compute_schema_digest pr kind_tool (td_name t) (td_input t) (td_output t) = Inr (schema_digest sel)) (mc_tools c)) \<or>
     (cap_kind sel = kind_prompt \<and> list_ex (\<lambda>p. pd_name p = cap_name sel \<and>
        compute_schema_digest pr kind_prompt (pd_name p) (rl_marshal lib (prompt_input_schema (pd_arguments p))) []
          = Inr (schema_digest sel)) (mc_prompts c)) \<or>
     (cap_kind sel = kind_template \<and> list_ex (\<lambda>t. te_uri t = cap_name sel \<and>
        compute_schema_digest pr kind_template (te_uri t) (rl_marshal lib uri_schema) [] = Inr (schema_digest sel))
        (mc_templates c))"

lemma key_of_inj:
  assumes "definition_key k n = definition_key k' n'" "CHR 0x00 \<notin> set k" "CHR 0x00 \<notin> set k'"
  shows "k = k' \<and> n = n'"
proof -
  have "takeWhile (\<lambda>c. c \<noteq> CHR 0x00) (definition_key k n) = k"
    "takeWhile (\<lambda>c. c \<noteq> CHR 0x00) (definition_key k' n') = k'"
    using assms(2,3) by (auto simp: definition_key_def takeWhile_append)
  with assms(1) show ?thesis by (auto simp: definition_key_def)
qed

lemma kinds_no_nul: "CHR 0x00 \<notin> set kind_tool" "CHR 0x00 \<notin> set kind_prompt" "CHR 0x00 \<notin> set kind_template"
  by (simp_all add: kind_defs)

lemma inspected_offered:
  assumes "inspect_server lib pr rt lt server s = (s', Inr i)" "inspected_client i sel = Inr c"
    and "CHR 0x00 \<notin> set (cap_kind sel)"
  shows "offered lib pr c sel \<and> mc_output_schema c = output_schema sel"
proof -
  from assms(2) obtain d where f: "List.find (\<lambda>c. key_of c = definition_key (cap_kind sel) (cap_name sel)) (in_definitions i) = Some d"
    and d: "schema_digest d = schema_digest sel"
    and c: "mc_tools c = in_tools i" "mc_prompts c = in_prompts i" "mc_templates c = in_templates i"
      "mc_output_schema c = output_schema sel"
    by (auto simp: inspected_client_def verified_definition_def bind_res_Ok_iff check_Ok_iff split: option.splits)
  from find_Some_iff'[OF f] have m: "d \<in> set (in_definitions i)"
    and k: "definition_key (cap_kind d) (cap_name d) = definition_key (cap_kind sel) (cap_name sel)"
    by (auto simp: key_of_def)
  note [simp] = runtime_capability_def list_ex_iff offered_def c
  from inspected_from[OF assms(1) m] consider
    t where "t \<in> set (in_tools i)" "with_computed_digest pr (tool_capability server t) = Inr d"
    | p where "p \<in> set (in_prompts i)" "with_computed_digest pr (prompt_capability lib server p) = Inr d"
    | t where "t \<in> set (in_templates i)" "with_computed_digest pr (template_capability lib server t) = Inr d"
    by blast
  then show ?thesis
  proof cases
    case 1
    then have e: "cap_kind d = kind_tool" "cap_name d = td_name t"
      "compute_schema_digest pr kind_tool (td_name t) (td_input t) (td_output t) = Inr (schema_digest d)"
      by (auto simp: with_computed_Ok_iff tool_capability_def)
    with key_of_inj[OF k] kinds_no_nul assms(3) have "cap_kind sel = kind_tool" "cap_name sel = td_name t" by auto
    with 1 e d show ?thesis by auto
  next
    case 2
    then have e: "cap_kind d = kind_prompt" "cap_name d = pd_name p"
      "compute_schema_digest pr kind_prompt (pd_name p) (rl_marshal lib (prompt_input_schema (pd_arguments p))) []
         = Inr (schema_digest d)"
      by (auto simp: with_computed_Ok_iff prompt_capability_def)
    with key_of_inj[OF k] kinds_no_nul assms(3) have "cap_kind sel = kind_prompt" "cap_name sel = pd_name p" by auto
    with 2 e d show ?thesis by auto
  next
    case 3
    then have e: "cap_kind d = kind_template" "cap_name d = te_uri t"
      "compute_schema_digest pr kind_template (te_uri t) (rl_marshal lib uri_schema) [] = Inr (schema_digest d)"
      by (auto simp: with_computed_Ok_iff template_capability_def)
    with key_of_inj[OF k] kinds_no_nul assms(3) have "cap_kind sel = kind_template" "cap_name sel = te_uri t" by auto
    with 3 e d show ?thesis by auto
  qed
qed

lemma tool_offered:
  "tool_client pr tools sel = Inr c \<Longrightarrow> cap_kind sel = kind_tool \<Longrightarrow>
     offered lib pr c sel \<and> mc_output_schema c = output_schema sel"
  by (erule tool_client_Ok) (auto simp: offered_def list_ex_iff)

lemma stdio_verify_offered:
  assumes "stdio_verify lib pr rt sel s = (s', Inr c)" "CHR 0x00 \<notin> set (cap_kind sel)"
  shows "offered lib pr c sel \<and> mc_output_schema c = output_schema sel"
proof (cases "cap_kind sel = kind_tool")
  case True
  with assms(1) obtain ts where "tool_client pr ts sel = Inr c"
    by (auto simp: stdio_verify_def bind_res_Ok_iff split: prod.splits sum.splits)
  with True show ?thesis by (rule tool_offered[rotated])
next
  case False
  with assms(1) obtain s1 i where "inspect_server lib pr rt (stdio_list_tools lib rt) (cap_server sel) s1 = (s', Inr i)"
    "inspected_client i sel = Inr c"
    by (auto simp: stdio_verify_def bind_res_Ok_iff split: prod.splits sum.splits)
  from inspected_offered[OF this assms(2)] show ?thesis .
qed

lemma http_verify_offered:
  assumes "http_verify lib pr rt cfg now later cache sel s = (cache', s', Inr c)" "CHR 0x00 \<notin> set (cap_kind sel)"
  shows "offered lib pr c sel \<and> mc_output_schema c = output_schema sel"
proof (cases "cap_kind sel = kind_tool")
  case True
  with assms(1) obtain ts where "tool_client pr ts sel = Inr c"
    by (auto simp: http_verify_def Let_def split: prod.splits sum.splits option.splits)
  with True show ?thesis by (rule tool_offered[rotated])
next
  case False
  with assms(1) obtain s1 i where "http_inspect_server lib pr rt (cap_server sel) s1 = (s', Inr i)"
    "inspected_client i sel = Inr c"
    by (auto simp: http_verify_def bind_res_Ok_iff split: prod.splits sum.splits option.splits)
  from inspected_offered[OF this(1)[unfolded http_inspect_server_def] this(2) assms(2)] show ?thesis .
qed

section \<open>The definition cache\<close>

lemma list_pages_keeps:
  assumes "\<And>p a a'. take_page p a = Inr a' \<Longrightarrow> P a \<Longrightarrow> P a'" "P acc"
    and "list_pages rt m dec take_page next_of n cursor acc s = (s', Inr r)"
  shows "P r"
  using assms(2,3)
proof (induction n arbitrary: cursor acc s)
  case 0
  then show ?case by simp
next
  case (Suc n)
  obtain s1 d where d: "decode_as dec (rt s m (cursor_params cursor)) = (s1, d)" by force
  with Suc.prems(2) obtain page acc' where p: "d = Inr page" "take_page page acc = Inr acc'"
    by (auto simp: case_res_pair)
  with assms(1) Suc.prems(1) have "P acc'" by blast
  with Suc d p show ?case by (auto split: if_splits)
qed

definition cache_meta_ok :: "listed_tools \<Rightarrow> bool" where
  "cache_meta_ok l \<longleftrightarrow> (case lt_meta l of None \<Rightarrow> True
     | Some (ttl, scope) \<Rightarrow> scope \<in> {[], ''public'', ''private''})"

lemma http_tools_page_meta: "http_tools_page p a = Inr a' \<Longrightarrow> cache_meta_ok a'"
  by (auto simp: http_tools_page_def cache_meta_ok_def bind_res_Ok_iff split: if_splits)

lemma http_listed_meta:
  assumes "http_list_tools lib rt s = (s', Inr l)"
  shows "cache_meta_ok l"
  by (rule list_pages_keeps[where P = cache_meta_ok, OF _ _ assms[unfolded http_list_tools_def]])
    (auto intro: http_tools_page_meta, simp add: cache_meta_ok_def)

text \<open>A history of openings that share one cache, whatever the servers answer.\<close>

record 's opened_once =
  og_rt :: "'s transport"
  og_cfg :: http_config
  og_now :: int
  og_later :: int
  og_sel :: capability
  og_start :: 's

definition open_step :: "rpc_lib \<Rightarrow> prims \<Rightarrow> 's opened_once \<Rightarrow> definition_cache \<Rightarrow> definition_cache" where
  "open_step lib pr o1 cache =
     fst (http_verify lib pr (og_rt o1) (og_cfg o1) (og_now o1) (og_later o1) cache (og_sel o1) (og_start o1))"

definition after_openings :: "rpc_lib \<Rightarrow> prims \<Rightarrow> 's opened_once list \<Rightarrow> definition_cache" where
  "after_openings lib pr os = fold (open_step lib pr) os (\<lambda>_. None)"

definition listed_by :: "rpc_lib \<Rightarrow> 's opened_once \<Rightarrow> tool_definition list \<Rightarrow> int \<Rightarrow> string \<Rightarrow> bool" where
  "listed_by lib o1 ts ttl scope \<longleftrightarrow>
     (\<exists>s s' l. http_list_tools lib (og_rt o1) s = (s', Inr l) \<and> lt_tools l = ts \<and> lt_meta l = Some (ttl, scope))"

definition entry_from :: "rpc_lib \<Rightarrow> 's opened_once list \<Rightarrow> string \<Rightarrow> tool_definition list \<times> int \<Rightarrow> bool" where
  "entry_from lib os k e \<longleftrightarrow> (\<exists>o1 \<in> set os. \<exists>ttl scope. listed_by lib o1 (fst e) ttl scope
     \<and> snd e = og_later o1 + ttl
     \<and> (scope = ''public'' \<and> k = public_key (og_cfg o1) \<or> scope = ''private'' \<and> k = private_key (og_cfg o1)))"

lemma entry_from_mono: "entry_from lib os k e \<Longrightarrow> entry_from lib (os @ [o1]) k e"
  by (auto simp: entry_from_def)

lemma lookup_keys_shrinks: "lookup_keys now ks cache = (cache', r) \<Longrightarrow> cache' k = Some e \<Longrightarrow> cache k = Some e"
proof (induction ks arbitrary: cache)
  case Nil
  then show ?case by simp
next
  case (Cons x ks)
  from Cons.prems(1) consider "cache' = cache" | "lookup_keys now ks cache = (cache', r)"
    | "lookup_keys now ks (cache(x := None)) = (cache', r)"
    by (auto split: option.splits if_splits)
  then show ?case
  proof cases
    case 3
    from Cons.IH[OF this Cons.prems(2)] show ?thesis by (auto split: if_splits)
  qed (use Cons in auto)
qed

lemma lookup_keys_hit:
  "lookup_keys now ks cache = (cache', Some ts) \<Longrightarrow> \<exists>k \<in> set ks. \<exists>until. cache k = Some (ts, until) \<and> now < until"
proof (induction ks arbitrary: cache)
  case Nil
  then show ?case by simp
next
  case (Cons k ks)
  show ?case
  proof (cases "cache k")
    case None
    with Cons show ?thesis by auto
  next
    case (Some e)
    show ?thesis
    proof (cases "now < snd e")
      case True
      with Cons.prems Some show ?thesis by (cases e) auto
    next
      case False
      with Cons.prems Some have "lookup_keys now ks (cache(k := None)) = (cache', Some ts)" by (cases e) auto
      from Cons.IH[OF this] have "\<exists>k' \<in> set ks. \<exists>until. (cache(k := None)) k' = Some (ts, until) \<and> now < until" .
      then show ?thesis by (auto split: if_splits)
    qed
  qed
qed

lemma cached_shrinks: "cached_tools c now cache = (cache', r) \<Longrightarrow> cache' k = Some e \<Longrightarrow> cache k = Some e"
  using lookup_keys_shrinks by (fastforce simp: cached_tools_def simp del: lookup_keys.simps split: if_splits)

lemma store_entry:
  assumes "store_tools c ts ttl scope now cache k = Some e" "scope \<in> {[], ''public'', ''private''}"
  shows "cache k = Some e \<or> e = (ts, now + ttl) \<and>
    (scope = ''public'' \<and> k = public_key c \<or> scope = ''private'' \<and> k = private_key c)"
  using assms by (auto simp: store_tools_def Let_def public_key_def private_key_def split: if_splits)

lemma open_step_entry:
  assumes "open_step lib pr o1 cache k = Some e"
  shows "cache k = Some e \<or> entry_from lib [o1] k e"
proof -
  let ?c = "og_cfg o1"
  obtain cache1 hit where h: "cached_tools ?c (og_now o1) cache = (cache1, hit)" by force
  note shrink = cached_shrinks[OF h]
  obtain s1 d where d: "http_discover lib (og_rt o1) (og_start o1) = (s1, d)" by force
  obtain s2 r where r: "http_list_tools lib (og_rt o1) s1 = (s2, r)" by force
  from assms consider "cache1 k = Some e"
    | l where "r = Inr l"
      "store_tools ?c (lt_tools l) (fst (case lt_meta l of None \<Rightarrow> (0, []) | Some m \<Rightarrow> m))
         (snd (case lt_meta l of None \<Rightarrow> (0, []) | Some m \<Rightarrow> m)) (og_later o1) cache1 k = Some e"
    by (auto simp: open_step_def http_verify_def h d r Let_def split: option.splits sum.splits prod.splits if_splits)
  then show ?thesis
  proof cases
    case 1
    with shrink show ?thesis by blast
  next
    case (2 l)
    have meta: "cache_meta_ok l" by (rule http_listed_meta[OF r[unfolded 2(1)]])
    show ?thesis
    proof (cases "lt_meta l")
      case None
      with 2 have "cache1 k = Some e" by (simp add: store_tools_def)
      with shrink show ?thesis by blast
    next
      case (Some m)
      then obtain ttl scope where m: "lt_meta l = Some (ttl, scope)" by (cases m) auto
      with meta have "scope \<in> {[], ''public'', ''private''}" by (simp add: cache_meta_ok_def)
      from store_entry[OF _ this] 2(2) m have "cache1 k = Some e \<or> e = (lt_tools l, og_later o1 + ttl) \<and>
        (scope = ''public'' \<and> k = public_key ?c \<or> scope = ''private'' \<and> k = private_key ?c)" by simp
      moreover have "listed_by lib o1 (lt_tools l) ttl scope"
        unfolding listed_by_def using r 2(1) m by blast
      ultimately show ?thesis using shrink[of k e] unfolding entry_from_def by auto
    qed
  qed
qed

lemma after_openings_entry: "after_openings lib pr os k = Some e \<Longrightarrow> entry_from lib os k e"
proof (induction os rule: rev_induct)
  case Nil
  then show ?case by (simp add: after_openings_def)
next
  case (snoc o1 os)
  then have "open_step lib pr o1 (after_openings lib pr os) k = Some e" by (simp add: after_openings_def)
  from open_step_entry[OF this] snoc.IH show ?case
    using entry_from_mono by (fastforce simp: entry_from_def)
qed

lemma key_parts:
  assumes "server_key n v @ [CHR 0x00] @ r = server_key n' v' @ [CHR 0x00] @ r'"
    and "CHR 0x00 \<notin> set n" "CHR 0x00 \<notin> set v" "CHR 0x00 \<notin> set n'" "CHR 0x00 \<notin> set v'"
  shows "n = n' \<and> v = v' \<and> r = r'"
proof -
  have "definition_key n (v @ [CHR 0x00] @ r) = definition_key n' (v' @ [CHR 0x00] @ r')"
    using assms(1) by (simp add: server_key_def definition_key_def)
  from key_of_inj[OF this assms(2,4)] have "n = n'" "definition_key v r = definition_key v' r'"
    by (auto simp: definition_key_def)
  with key_of_inj[OF this(2) assms(3,5)] show ?thesis by simp
qed

end
