(* ===== verification/ConnectorClaims.thy ===== *)
theory ConnectorClaims
  imports McpProps BrokerProps
begin

text \<open>
  The properties of the two connectors, with a small codec, server and process for the witnesses.
\<close>

section \<open>A server for witnesses\<close>

definition demo_tool :: tool_definition where
  "demo_tool = \<lparr>td_name = ''search'', td_title = [], td_description = [], td_input = ''{}'', td_output = []\<rparr>"

text \<open>A response is the line of its result, and its id the length of the line.\<close>

definition demo_rpc :: rpc_lib where
  "demo_rpc = \<lparr>rl_request = (\<lambda>i m p. Some m), rl_marshal = (\<lambda>j. ''{}''), rl_method = (\<lambda>l. Some []),
     rl_response = (\<lambda>l. Some \<lparr>rp_id = int (length l), rp_result = l, rp_error = None\<rparr>),
     rl_discover = (\<lambda>l. Some \<lparr>dr_result_type = [], dr_versions = [protocol_version], dr_capabilities = [''tools'']\<rparr>),
     rl_tools = (\<lambda>l. Some \<lparr>tp_result_type = [], tp_tools = [demo_tool], tp_next = [], tp_ttl_ms = 1000, tp_scope = ''private''\<rparr>),
     rl_prompts = (\<lambda>l. Some \<lparr>pp_prompts = [], pp_next = []\<rparr>),
     rl_templates = (\<lambda>l. Some \<lparr>te_templates = [], te_next = []\<rparr>),
     rl_tool_result = (\<lambda>l. Some \<lparr>tr_type = [], tr_is_error = False, tr_structured = JNull, tr_envelope = JString l\<rparr>),
     rl_object = (\<lambda>l. Some (JString l)), rl_valid = (\<lambda>s v. True)\<rparr>"

definition demo_turn :: "string list \<Rightarrow> string option \<Rightarrow> nat \<Rightarrow> turn" where
  "demo_turn ls e k = \<lparr>tn_write_error = None, tn_lines = ls, tn_end = e, tn_stderr = [], tn_cancelled = False, tn_pick = k\<rparr>"

definition demo_process :: "nat process" where
  "demo_process n req = (Suc n, demo_turn [replicate (Suc n) CHR ''x''] None 0)"

definition demo_network :: "nat network" where
  "demo_network n req = (Suc n, Inr \<lparr>hp_status = 200, hp_body = Inr (replicate (Suc n) CHR ''x'')\<rparr>)"

definition demo_stdio :: stdio_config where
  "demo_stdio = \<lparr>sc_name = ''docs'', sc_version = ''1'', sc_command = ''/bin/docs'', sc_args = [], sc_directory = [],
     sc_environment = [], sc_startup_timeout = 0\<rparr>"

definition demo_http :: http_config where
  "demo_http = \<lparr>hc_name = ''docs'', hc_version = ''1'', hc_endpoint = ''https://docs'', hc_headers = [],
     hc_timeout = 0, hc_caching = True, hc_partition = ''work''\<rparr>"

lemma demo_selected:
  obtains c' where "with_computed_digest demo_prims demo_ready = Inr c'" "cap_kind c' = kind_tool"
    "cap_name c' = ''search''" "server_name c' = ''docs''" "server_ver c' = ''1''"
    "compute_schema_digest demo_prims kind_tool ''search'' ''{}'' [] = Inr (schema_digest c')"
    "output_schema c' = []"
proof -
  from demo_ready_issues obtain c' where "with_computed_digest demo_prims demo_ready = Inr c'" by blast
  with that[of c'] show ?thesis
    by (auto simp: with_computed_Ok_iff demo_ready_def demo_capability_def kind_defs)
qed

lemma demo_tool_client:
  assumes "compute_schema_digest demo_prims kind_tool ''search'' ''{}'' [] = Inr (schema_digest sel)"
    "cap_name sel = ''search''"
  shows "tool_client demo_prims [demo_tool] sel = Inr \<lparr>mc_tools = [demo_tool], mc_prompts = [], mc_templates = [],
     mc_output_schema = output_schema sel\<rparr>"
  using assms by (simp add: tool_client_def verified_tool_def find_tool_def demo_tool_def check_def)

definition demo_state :: "nat \<Rightarrow> nat stdio_state" where
  "demo_state n = \<lparr>st_next_id = int n, st_responses = [], st_read_err = None, st_reading = True, st_stderr = [],
     st_killed = False, st_proc = n\<rparr>"

lemma demo_start: "stdio_start (0::nat) = demo_state 0"
  by (simp add: stdio_start_def demo_state_def)

lemma demo_round:
  assumes "n \<le> 1" "length m < 100"
  shows "stdio_round_trip demo_rpc demo_process (demo_state n) m params
    = (demo_state (Suc n), Inr (replicate (Suc n) CHR ''x''))"
proof -
  have "trim_space ''x'' = ''x''" "trim_space ''xx'' = ''xx''" by code_simp+
  with assms(1) have "trim_space (replicate (Suc n) CHR ''x'') = replicate (Suc n) CHR ''x''"
    by (cases n) (auto simp: le_Suc_eq)
  then have "read_loop demo_rpc [replicate (Suc n) CHR ''x'']
      = ([\<lparr>rp_id = int n + 1, rp_result = replicate (Suc n) CHR ''x'', rp_error = None\<rparr>], None)"
    using assms(1) by (simp add: demo_rpc_def max_message_bytes_def)
  then show ?thesis using assms
    by (simp add: stdio_round_trip_def demo_state_def demo_rpc_def[THEN arg_cong[where f = rl_request]] Let_def
        max_message_bytes_def demo_process_def demo_turn_def absorb_def limited_write_def max_stderr_bytes_def
        select_case_def ready_cases_def answer_def)
qed

lemma demo_rpc_codecs:
  "rl_discover demo_rpc l = Some \<lparr>dr_result_type = [], dr_versions = [protocol_version], dr_capabilities = [''tools'']\<rparr>"
  "rl_tools demo_rpc l = Some \<lparr>tp_result_type = [], tp_tools = [demo_tool], tp_next = [], tp_ttl_ms = 1000, tp_scope = ''private''\<rparr>"
  "rl_object demo_rpc l = Some (JString l)"
  by (simp_all add: demo_rpc_def)

lemma demo_tool_named: "td_name demo_tool = ''search''"
  by (simp add: demo_tool_def)

section \<open>Properties\<close>

text \<open>
  C30: Whatever a downstream server answers, on either transport, opening a connector writes at most 97
  messages to its standard input or makes at most 97 HTTP requests (one negotiation and at most 32
  pages of each of the three listings), and a call on the opened connector sends at most one: no server
  can keep a listing going for ever.  What is counted is what the process or the network is handed, so
  that a message sent twice counts twice.
\<close>

theorem requests_bounded:
  "stdio_sent (fst (stdio_verify lib pr (stdio_round_trip lib (recording proc)) sel st)) \<le> stdio_sent st + 97 \<and>
   http_sent (fst (snd (http_verify lib pr (http_round_trip lib (recording net) cfg) cfg now later cache sel ht)))
     \<le> http_sent ht + 97 \<and>
   stdio_sent (fst (call_tool_round lib (stdio_round_trip lib (recording proc)) c st name args responses state)) \<le> stdio_sent st + 1 \<and>
   stdio_sent (fst (get_prompt_round lib (stdio_round_trip lib (recording proc)) c st name args responses state)) \<le> stdio_sent st + 1 \<and>
   stdio_sent (fst (read_resource_round lib (stdio_round_trip lib (recording proc)) c st uri responses state)) \<le> stdio_sent st + 1 \<and>
   http_sent (fst (http_call_tool_round lib (http_round_trip lib (recording net) cfg) c ht name args responses state)) \<le> http_sent ht + 1 \<and>
   http_sent (fst (http_get_prompt_round lib (http_round_trip lib (recording net) cfg) c ht name args responses state)) \<le> http_sent ht + 1 \<and>
   http_sent (fst (http_read_resource_round lib (http_round_trip lib (recording net) cfg) c ht uri responses state)) \<le> http_sent ht + 1"
  unfolding http_calls_shared Suc_eq_plus1[symmetric]
  by (intro conjI stdio.stdio_verify_bounded http.http_verify_bounded stdio.call_bounded stdio.prompt_bounded
      stdio.resource_bounded http.call_bounded http.prompt_bounded http.resource_bounded)

text \<open>
  C6: For a selected capability whose kind holds no NUL byte, as no kind of the program does:
  an opened connector belongs to the exactly configured server version, and that running
  server lists the selected capability under its kind and name with the digest the caller was
  shown; results are checked against the caller's output schema.  A stdio server is started with
  the configured command, arguments, directory and environment only, and is shut down again
  whenever the opening fails.
\<close>

theorem opened_capability_unchanged:
  assumes "CHR 0x00 \<notin> set (cap_kind sel)"
  shows "(case stdio_open lib pr spawn proc f sel of
        (ev, Inr (s, c)) \<Rightarrow> (\<exists>cfg. map_of f (server_key (server_name sel) (server_ver sel)) = Some cfg \<and> ev = [launch cfg])
          \<and> offered lib pr c sel \<and> mc_output_schema c = output_schema sel
      | (ev, Inl e) \<Rightarrow> ev = [] \<or> (\<exists>cfg. map_of f (server_key (server_name sel) (server_ver sel)) = Some cfg
          \<and> ev = [launch cfg, ShutDown])) \<and>
    (case http_open lib pr net hf now later cache n sel of
        (cache', Inr (s, c)) \<Rightarrow> map_of hf (server_key (server_name sel) (server_ver sel)) \<noteq> None
          \<and> offered lib pr c sel \<and> mc_output_schema c = output_schema sel
      | (cache', Inl e) \<Rightarrow> True)"
proof -
  have "case http_open lib pr net hf now later cache n sel of
        (cache', Inr (s, c)) \<Rightarrow> map_of hf (server_key (server_name sel) (server_ver sel)) \<noteq> None
          \<and> offered lib pr c sel \<and> mc_output_schema c = output_schema sel
      | (cache', Inl e) \<Rightarrow> True"
    by (auto simp: http_open_def map_sum_Ok_iff dest: http_verify_offered[OF _ assms]
        split: option.split sum.split prod.split)
  then show ?thesis
    by (auto simp: stdio_open_verify dest: stdio_verify_offered[OF _ assms]
        split: option.split sum.split prod.split)
qed

theorem opened_capability_unchanged_witness:
  "\<exists>sel s c. stdio_open demo_rpc demo_prims (\<lambda>cfg. Inr 0) demo_process [(server_key ''docs'' ''1'', demo_stdio)] sel
      = ([launch demo_stdio], Inr (s, c)) \<and> offered demo_rpc demo_prims c sel
    \<and> isl (snd (stdio_open demo_rpc demo_prims (\<lambda>cfg. Inr (0::nat)) demo_process [] sel))"
proof -
  obtain sel where sel: "cap_kind sel = kind_tool" "cap_name sel = ''search''" "server_name sel = ''docs''"
    "server_ver sel = ''1''" "compute_schema_digest demo_prims kind_tool ''search'' ''{}'' [] = Inr (schema_digest sel)"
    by (rule demo_selected)
  let ?o = "stdio_open demo_rpc demo_prims (\<lambda>cfg. Inr 0) demo_process [(server_key ''docs'' ''1'', demo_stdio)] sel"
  have "\<exists>s c. ?o = ([launch demo_stdio], Inr (s, c))"
    using demo_tool_client[OF sel(5,2)] demo_round[of 0] demo_round[of 1]
    by (simp add: stdio_open_verify sel demo_start stdio_verify_def stdio_discover_def stdio_list_tools_def list_pages.simps(2)
        max_pages_def numeral_eq_Suc decode_as_def demo_rpc_codecs negotiated_def stdio_tools_page_def demo_tool_named)
  then obtain s c where o: "?o = ([launch demo_stdio], Inr (s, c))" by blast
  have "CHR 0x00 \<notin> set (cap_kind sel)" by (simp add: sel kind_defs)
  from opened_capability_unchanged[OF this, where lib = demo_rpc and pr = demo_prims and spawn = "\<lambda>cfg. Inr 0"
      and net = demo_network and hf = "[]" and now = 0 and later = 0 and cache = "\<lambda>_. None" and n = 0
      and proc = demo_process and f = "[(server_key ''docs'' ''1'', demo_stdio)]"] o
  have "offered demo_rpc demo_prims c sel" by simp
  moreover have "isl (snd (stdio_open demo_rpc demo_prims (\<lambda>cfg. Inr (0::nat)) demo_process [] sel))"
    by (simp add: stdio_open_verify)
  ultimately show ?thesis using o by blast
qed

text \<open>
  C9: After any history of openings with a shared definition cache, whatever the servers
  answered: cached tools are served only to the server version they were listed by, only
  before they expire, and, when the server declared them private, only to the auth partition under
  which they were fetched.
\<close>

theorem cache_isolation:
  assumes hit: "cached_tools cfg now (after_openings lib pr os) = (cache', Some ts)"
    and nul: "CHR 0x00 \<notin> set (hc_name cfg)" "CHR 0x00 \<notin> set (hc_version cfg)"
      "list_all (\<lambda>o1. CHR 0x00 \<notin> set (hc_name (og_cfg o1)) \<and> CHR 0x00 \<notin> set (hc_version (og_cfg o1))) os"
  shows "\<exists>o1 \<in> set os. \<exists>ttl scope. listed_by lib o1 ts ttl scope \<and> now < og_later o1 + ttl
    \<and> hc_name (og_cfg o1) = hc_name cfg \<and> hc_version (og_cfg o1) = hc_version cfg
    \<and> (scope = ''public'' \<or> scope = ''private'' \<and> hc_partition (og_cfg o1) = hc_partition cfg)"
proof -
  from hit obtain k until where k: "k \<in> {public_key cfg, private_key cfg}"
    "after_openings lib pr os k = Some (ts, until)" "now < until"
    by (auto simp: cached_tools_def simp del: lookup_keys.simps dest!: lookup_keys_hit split: if_splits)
  from after_openings_entry[OF k(2)] obtain o1 ttl scope where o: "o1 \<in> set os" "listed_by lib o1 ts ttl scope"
    "until = og_later o1 + ttl"
    and key: "scope = ''public'' \<and> k = public_key (og_cfg o1) \<or> scope = ''private'' \<and> k = private_key (og_cfg o1)"
    by (auto simp: entry_from_def)
  have n: "CHR 0x00 \<notin> set (hc_name (og_cfg o1))" "CHR 0x00 \<notin> set (hc_version (og_cfg o1))"
    using nul(3) o(1) by (auto simp: list_all_iff)
  note parts = key_parts[OF _ n nul(1,2)]
  from key k(1) parts[where r = "''public''" and r' = "''public''"]
    parts[where r = "''public''" and r' = "''private'' @ [CHR 0x00] @ hc_partition cfg"]
    parts[where r = "''private'' @ [CHR 0x00] @ hc_partition (og_cfg o1)" and r' = "''public''"]
    parts[where r = "''private'' @ [CHR 0x00] @ hc_partition (og_cfg o1)" and r' = "''private'' @ [CHR 0x00] @ hc_partition cfg"]
  have "hc_name (og_cfg o1) = hc_name cfg \<and> hc_version (og_cfg o1) = hc_version cfg
    \<and> (scope = ''public'' \<or> scope = ''private'' \<and> hc_partition (og_cfg o1) = hc_partition cfg)"
    by (auto simp: public_key_def private_key_def)
  with o k(3) show ?thesis by blast
qed

definition demo_opened :: "capability \<Rightarrow> nat http_state opened_once" where
  "demo_opened sel = \<lparr>og_rt = http_round_trip demo_rpc demo_network demo_http, og_cfg = demo_http, og_now = 0,
     og_later = 0, og_sel = sel, og_start = http_start 0\<rparr>"

lemma demo_http_round:
  assumes "n \<le> 1"
  shows "http_round_trip demo_rpc demo_network demo_http \<lparr>ht_next_id = int n, ht_net = n\<rparr> m params
    = (\<lparr>ht_next_id = int n + 1, ht_net = Suc n\<rparr>, Inr (replicate (Suc n) CHR ''x''))"
  using assms
  by (simp add: http_round_trip_def Let_def demo_network_def http_answer_def demo_rpc_def max_message_bytes_def)

lemma demo_http_cached:
  assumes "cap_kind sel = kind_tool"
  shows "after_openings demo_rpc demo_prims [demo_opened sel] (private_key demo_http) = Some ([demo_tool], 1000000000)
    \<and> after_openings demo_rpc demo_prims [demo_opened sel] (public_key demo_http) = None
    \<and> after_openings demo_rpc demo_prims [demo_opened sel] (private_key (demo_http\<lparr>hc_partition := ''home''\<rparr>)) = None"
  using assms demo_http_round[of 0 "''server/discover''" "[]"] demo_http_round[of 1 "''tools/list''" "[]"]
  by (simp add: after_openings_def open_step_def demo_opened_def http_verify_def cached_tools_def demo_http_def[THEN arg_cong[where f = hc_caching]]
      http_start_def http_discover_def decode_as_def demo_rpc_codecs negotiated_def http_list_tools_def max_pages_def
      numeral_eq_Suc list_pages.simps(2) cursor_params_def http_tools_page_def demo_tool_named store_tools_def
      page_ttl_def wrap64_def private_key_def public_key_def Let_def)
    (simp add: demo_http_def)

theorem cache_isolation_witness:
  "\<exists>sel. snd (cached_tools demo_http 5 (after_openings demo_rpc demo_prims [demo_opened sel])) = Some [demo_tool]
    \<and> (\<exists>ttl scope. listed_by demo_rpc (demo_opened sel) [demo_tool] ttl scope \<and> 5 < ttl)
    \<and> snd (cached_tools (demo_http\<lparr>hc_partition := ''home''\<rparr>) 5 (after_openings demo_rpc demo_prims [demo_opened sel])) = None"
proof -
  have "cap_kind demo_ready = kind_tool" by (simp add: demo_ready_def demo_capability_def kind_defs)
  then obtain sel :: capability where sel: "cap_kind sel = kind_tool" by blast
  let ?cache = "after_openings demo_rpc demo_prims [demo_opened sel]"
  note c = demo_http_cached[OF sel]
  have hit: "cached_tools demo_http 5 ?cache = (?cache, Some [demo_tool])"
    using c by (simp add: cached_tools_def) (simp add: demo_http_def)
  have "\<exists>o1 \<in> set [demo_opened sel]. \<exists>ttl scope. listed_by demo_rpc o1 [demo_tool] ttl scope \<and> 5 < og_later o1 + ttl
    \<and> hc_name (og_cfg o1) = hc_name demo_http \<and> hc_version (og_cfg o1) = hc_version demo_http
    \<and> (scope = ''public'' \<or> scope = ''private'' \<and> hc_partition (og_cfg o1) = hc_partition demo_http)"
    by (rule cache_isolation[OF hit]) (simp_all add: demo_http_def demo_opened_def)
  then have "\<exists>ttl scope. listed_by demo_rpc (demo_opened sel) [demo_tool] ttl scope \<and> 5 < ttl"
    by (auto simp: demo_opened_def)
  moreover have "public_key (demo_http\<lparr>hc_partition := ''home''\<rparr>) = public_key demo_http"
    by (simp add: public_key_def)
  then have "snd (cached_tools (demo_http\<lparr>hc_partition := ''home''\<rparr>) 5 ?cache) = None"
    using c by (simp add: cached_tools_def)
  ultimately show ?thesis using hit by (metis snd_conv)
qed

text \<open>
  A server that answers and exits at once may be reported as failed although its answer has
  been received: the round trip's \<^verbatim>\<open>select\<close> chooses at random between the waiting response and
  the reader's end of file.
\<close>

theorem reply_lost_at_exit:
  assumes "st_reading st" "st_responses st = []" "st_read_err st = None"
    and "rl_request lib (st_next_id st + 1) m (params @ [(''_meta'', request_meta)]) = Some encoded"
      "length encoded \<le> max_message_bytes"
    and "proc (st_proc st) (encoded @ [CHR 0x0A]) = (p, t)" "tn_write_error t = None" "\<not> tn_cancelled t"
    and "read_loop lib (tn_lines t) = ([r], None)" "rp_id r = st_next_id st + 1" "rp_error r = None"
      "tn_end t = Some eof"
  shows "snd (stdio_round_trip lib proc st m params)
    = (if even (tn_pick t) then Inl (ReadFailed eof) else Inr (rp_result r))"
proof (cases "even (tn_pick t)")
  case True
  then have "tn_pick t mod Suc (Suc 0) = 0" by presburger
  with True assms show ?thesis
    by (simp add: stdio_round_trip_def Let_def absorb_def select_case_def ready_cases_def)
next
  case False
  then have "tn_pick t mod Suc (Suc 0) = 1" by presburger
  with False assms show ?thesis
    by (simp add: stdio_round_trip_def Let_def absorb_def select_case_def ready_cases_def answer_def)
qed

theorem reply_lost_at_exit_witness:
  "\<exists>r. snd (stdio_round_trip demo_rpc (\<lambda>n req. (n, demo_turn [''x''] (Some ''EOF'') 0)) (demo_state 0) ''tools/call'' []) = Inl (ReadFailed ''EOF'')
    \<and> snd (stdio_round_trip demo_rpc (\<lambda>n req. (n, demo_turn [''x''] (Some ''EOF'') 1)) (demo_state 0) ''tools/call'' []) = Inr r
    \<and> r = ''x''"
proof -
  have "trim_space ''x'' = ''x''" by code_simp
  then have l: "read_loop demo_rpc [''x''] = ([\<lparr>rp_id = 1, rp_result = ''x'', rp_error = None\<rparr>], None)"
    by (simp add: demo_rpc_def max_message_bytes_def)
  have "snd (stdio_round_trip demo_rpc (\<lambda>n req. (n, demo_turn [''x''] (Some ''EOF'') k)) (demo_state 0) ''tools/call'' [])
      = (if even k then Inl (ReadFailed ''EOF'') else Inr ''x'')" for k
    using reply_lost_at_exit[where st = "demo_state 0" and lib = demo_rpc and m = "''tools/call''" and params = "[]"
        and encoded = "''tools/call''" and proc = "\<lambda>n req. (n, demo_turn [''x''] (Some ''EOF'') k)" and p = 0
        and t = "demo_turn [''x''] (Some ''EOF'') k" and r = "\<lparr>rp_id = 1, rp_result = ''x'', rp_error = None\<rparr>"
        and eof = "''EOF''"] l
    by (simp add: demo_state_def demo_turn_def max_message_bytes_def) (simp add: demo_rpc_def)
  from this[of 0] this[of 1] show ?thesis by simp
qed

text \<open>
  A reference to one resource template reads any resource of its server: whatever non-empty
  URI the caller passes goes to the server unchanged, and neither the broker nor the connector
  compares it with the template the reference was issued for.
\<close>

theorem template_reads_any_uri:
  assumes "cap_kind c = kind_template" "availability c = av_ready" "uri \<noteq> []"
    and "bk_schema b (input_schema c) [(''uri'', JString uri)]"
    and "bk_policy b c [(''uri'', JString uri)] = Inr policy_allow"
    and "bk_open b c = Inr (connector_of lib shown rt cl s)"
  shows "snd (call_selected b c [(''uri'', JString uri)] [] []) =
    (case snd (decode_as (rl_object lib) (rt s ''resources/read'' [(''uri'', JString uri)])) of
       Inl e \<Rightarrow> Inl (CallError (shown e))
     | Inr v \<Rightarrow> Inr \<lparr>cl_server = cap_server c, cl_kind = cap_kind c, cl_name = cap_name c, cl_result = v\<rparr>)"
proof -
  have k: "kind_template \<noteq> kind_tool" "kind_template \<noteq> kind_prompt" by (simp_all add: kind_defs)
  have "invoke (connector_of lib shown rt cl s) c [(''uri'', JString uri)] [] []
    = Some (map_sum shown id (snd (decode_as (rl_object lib) (rt s ''resources/read'' [(''uri'', JString uri)]))))"
    using assms(1,3) k
    by (simp add: invoke_def connector_of_def string_arg_def read_resource_round_def round_params_def)
  then show ?thesis using assms
    by (simp add: call_selected_def run_connector_def split: prod.split sum.split)
qed

theorem template_reads_any_uri_witness:
  "snd (call_selected
     (demo_broker\<lparr>bk_open := \<lambda>c. Inr (connector_of demo_rpc (\<lambda>e. []) (stdio_round_trip demo_rpc demo_process)
        \<lparr>mc_tools = [], mc_prompts = [], mc_templates = [], mc_output_schema = []\<rparr> (demo_state 0))\<rparr>)
     (demo_ready\<lparr>cap_kind := kind_template, cap_name := ''docs://{page}''\<rparr>) [(''uri'', JString ''file:///secret'')] [] [])
   = Inr \<lparr>cl_server = cap_server demo_ready, cl_kind = kind_template, cl_name = ''docs://{page}'', cl_result = JString ''x''\<rparr>"
proof -
  let ?cl = "\<lparr>mc_tools = [], mc_prompts = [], mc_templates = [], mc_output_schema = []\<rparr>"
  let ?c = "demo_ready\<lparr>cap_kind := kind_template, cap_name := ''docs://{page}''\<rparr>"
  let ?rt = "stdio_round_trip demo_rpc demo_process"
  let ?b = "demo_broker\<lparr>bk_open := \<lambda>c. Inr (connector_of demo_rpc (\<lambda>e. []) ?rt ?cl (demo_state 0))\<rparr>"
  have d: "snd (decode_as (rl_object demo_rpc) (?rt (demo_state 0) ''resources/read'' [(''uri'', JString ''file:///secret'')])) = Inr (JString ''x'')"
    by (subst demo_round) (simp_all add: decode_as_def demo_rpc_codecs)
  have "snd (call_selected ?b ?c [(''uri'', JString ''file:///secret'')] [] []) =
    (case snd (decode_as (rl_object demo_rpc) (?rt (demo_state 0) ''resources/read'' [(''uri'', JString ''file:///secret'')])) of
       Inl e \<Rightarrow> Inl (CallError [])
     | Inr v \<Rightarrow> Inr \<lparr>cl_server = cap_server ?c, cl_kind = cap_kind ?c, cl_name = cap_name ?c, cl_result = v\<rparr>)"
    by (rule template_reads_any_uri[where shown = "\<lambda>e. []"]) (simp_all add: demo_broker_def demo_ready_def)
  then show ?thesis unfolding d by (simp add: demo_ready_def)
qed

end
