(* ===== verification/OAuth.thy ===== *)
theory OAuth
  imports StreamHttp Sections
begin

text \<open>
  internal/auth/oauth.go, pkce.go and registration.go: discovery of an authorization server, the
  token requests of each grant, the PKCE login, and client registration.

  The network is a state with a function from requests to responses, as for the HTTP connector;
  every request a flow makes is also kept in a log.  Parameters (\<open>auth_lib\<close>): the URL and
  query codecs of net/url, the JSON codecs, and the RSA key of a PEM text as its signing function.
  Times are nanoseconds; random bytes and clock readings are arguments.
\<close>

section \<open>Data\<close>

record auth_metadata =
  am_resource :: string
  am_issuer :: string
  am_authorization_endpoint :: string
  am_token_endpoint :: string
  am_scopes :: "string list"
  am_challenge_methods :: "string list"
  am_grant_profiles :: "string list"
  am_client_documents :: bool
  am_registration_endpoint :: string
  am_response_issuer :: bool

record auth_token =
  tk_value :: string
  tk_expires :: int
  tk_scopes :: string
  tk_refresh :: string

record client_registration =
  cr_client_id :: string
  cr_secret :: string
  cr_method :: string

record pending_authorization =
  pe_state :: string
  pe_verifier :: string
  pe_issuer :: string
  pe_resource :: string
  pe_client_id :: string
  pe_redirect :: string
  pe_scopes :: "string list"
  pe_expires :: int

record resource_document =
  rd_resource :: string
  rd_servers :: "string list"
  rd_scopes :: "string list"

record server_document =
  sd_issuer :: string
  sd_authorization :: string
  sd_token :: string
  sd_scopes :: "string list"
  sd_challenges :: "string list"
  sd_profiles :: "string list"
  sd_client_documents :: bool
  sd_registration :: string
  sd_response_issuer :: bool

record token_response =
  tr_access :: string
  tr_token_type :: string
  tr_expires_in :: int
  tr_scope :: string
  tr_issued_type :: string
  tr_refresh :: string

record client_document =
  cd_client_id :: string
  cd_redirects :: "string list"
  cd_grants :: "string list"
  cd_responses :: "string list"
  cd_method :: string

type_synonym url_values = "(string \<times> string) list"

record auth_request =
  ar_method :: string
  ar_url :: string
  ar_headers :: "(string \<times> string) list"
  ar_body :: string

text \<open>
  \<open>al_server\<close> decodes into an existing document, as the second \<^verbatim>\<open>json.Unmarshal\<close> of the
  OpenID fallback does, and tells whether it succeeded.
\<close>

record auth_lib =
  al_url :: "string \<Rightarrow> parsed_url option"
  al_unparse :: "parsed_url \<Rightarrow> string"
  al_query :: "string \<Rightarrow> url_values"
  al_encode :: "url_values \<Rightarrow> string"
  al_escape :: "string \<Rightarrow> string"
  al_b64std :: "string \<Rightarrow> string"
  al_marshal :: "json \<Rightarrow> string"
  al_resource :: "string \<Rightarrow> resource_document option"
  al_server :: "string \<Rightarrow> server_document \<Rightarrow> server_document \<times> bool"
  al_token :: "string \<Rightarrow> token_response option"
  al_client :: "string \<Rightarrow> client_document option"
  al_registration :: "string \<Rightarrow> client_registration option"
  al_rsa :: "string \<Rightarrow> (string \<Rightarrow> string) option"
  al_sha256 :: "string \<Rightarrow> string"

datatype auth_error =
    DiscoveryInvalid | InsecureUrl | AuthNetwork string | AuthStatus int | AuthTooLarge | AuthDecode
  | TokenExchange | ScopeRequired | BadAuthMethod | NoIdJag | BadKey | RegistrationInvalid
  | ConfidentialClient | LoginRequired | AuthorizationState | AuthorizationIssuer | PkceUnsupported
  | ClientRequired | StoreInvalid | StoreMissing | StoreWrite | RecordInvalid | KeyInvalid

definition max_auth_response :: nat where "max_auth_response = 1024 * 1024"

definition authorization_header :: "auth_token \<Rightarrow> string" where
  "authorization_header t = ''Bearer '' @ tk_value t"

definition valid_for :: "int \<Rightarrow> int \<Rightarrow> auth_token \<Rightarrow> bool" where
  "valid_for now d t \<longleftrightarrow> tk_value t \<noteq> [] \<and> tk_expires t - now > d"

definition can_refresh :: "auth_token \<Rightarrow> bool" where
  "can_refresh t \<longleftrightarrow> tk_refresh t \<noteq> []"

text \<open>\<^verbatim>\<open>url.Values\<close>: \<^verbatim>\<open>Set\<close> replaces all values of the key, \<^verbatim>\<open>Get\<close> takes the first.\<close>

definition values_set :: "string \<Rightarrow> string \<Rightarrow> url_values \<Rightarrow> url_values" where
  "values_set k v vs = filter (\<lambda>x. fst x \<noteq> k) vs @ [(k, v)]"

definition values_get :: "string \<Rightarrow> url_values \<Rightarrow> string" where
  "values_get k vs = (case map_of vs k of None \<Rightarrow> [] | Some v \<Rightarrow> v)"

section \<open>Endpoints\<close>

definition validate_https_url :: "auth_lib \<Rightarrow> string \<Rightarrow> (auth_error, unit) result" where
  "validate_https_url lib v =
     (case al_url lib v of
        None \<Rightarrow> Inl DiscoveryInvalid
      | Some u \<Rightarrow>
          (if pu_host u = [] \<or> pu_has_user u \<or> pu_fragment u \<noteq> [] then Inl DiscoveryInvalid
           else if pu_scheme u \<noteq> ''https'' \<and> (pu_scheme u \<noteq> ''http'' \<or> \<not> is_loopback_host (pu_hostname u))
           then Inl InsecureUrl else Inr ()))"

text \<open>\<open>pu_path\<close> of a parsed URL is its escaped path; printing escapes the path once more.\<close>

definition authorization_metadata_url :: "auth_lib \<Rightarrow> string \<Rightarrow> string option" where
  "authorization_metadata_url lib issuer =
     map_option (\<lambda>u. al_unparse lib (u\<lparr>pu_path := ''/.well-known/oauth-authorization-server'' @ trim_slashes (pu_path u),
         pu_raw_query := [], pu_fragment := []\<rparr>)) (al_url lib issuer)"

section \<open>Requests\<close>

record 'n auth_state =
  au_net :: 'n
  au_log :: "auth_request list"

type_synonym 'n auth_network = "'n \<Rightarrow> auth_request \<Rightarrow> 'n \<times> (string, http_response) result"

text \<open>One request; the client hands redirects back as responses.\<close>

definition send :: "'n auth_network \<Rightarrow> auth_request \<Rightarrow> 'n auth_state \<Rightarrow> 'n auth_state \<times> (auth_error, http_response) result" where
  "send net rq st =
     (case net (au_net st) rq of
        (n, r) \<Rightarrow> (\<lparr>au_net = n, au_log = au_log st @ [rq]\<rparr>, map_sum AuthNetwork id r))"

definition decode_bounded :: "http_response \<Rightarrow> (auth_error, string) result" where
  "decode_bounded resp =
     (case hp_body resp of
        Inl e \<Rightarrow> Inl (AuthNetwork e)
      | Inr body \<Rightarrow>
          (let data = take (max_auth_response + 1) body
           in if length data > max_auth_response then Inl AuthTooLarge else Inr data))"

definition get_json :: "'n auth_network \<Rightarrow> string \<Rightarrow> 'n auth_state \<Rightarrow> 'n auth_state \<times> (auth_error, string) result" where
  "get_json net url st =
     (case send net \<lparr>ar_method = ''GET'', ar_url = url, ar_headers = [(''Accept'', ''application/json'')], ar_body = []\<rparr> st of
        (st', r) \<Rightarrow>
          (st', bind_res r (\<lambda>resp.
             if hp_status resp \<noteq> 200 then Inl (AuthStatus (hp_status resp)) else decode_bounded resp)))"

definition raw_token_request :: "auth_lib \<Rightarrow> 'n auth_network \<Rightarrow> string \<Rightarrow> url_values \<Rightarrow> (string \<times> string) list
  \<Rightarrow> 'n auth_state \<Rightarrow> 'n auth_state \<times> (auth_error, token_response) result" where
  "raw_token_request lib net endpoint values headers st =
     (case validate_https_url lib endpoint of
        Inl e \<Rightarrow> (st, Inl e)
      | Inr _ \<Rightarrow>
          (case send net \<lparr>ar_method = ''POST'', ar_url = endpoint,
                   ar_headers = [(''Content-Type'', ''application/x-www-form-urlencoded''), (''Accept'', ''application/json'')] @ headers,
                   ar_body = al_encode lib values\<rparr> st of
             (st', r) \<Rightarrow>
               (st', bind_res r (\<lambda>resp.
                  if hp_status resp \<noteq> 200 then Inl TokenExchange
                  else (case decode_bounded resp of
                          Inl _ \<Rightarrow> Inl TokenExchange
                        | Inr data \<Rightarrow> (case al_token lib data of None \<Rightarrow> Inl TokenExchange | Some t \<Rightarrow> Inr t))))))"

text \<open>
  The expiry \<^verbatim>\<open>time.Now().Add(time.Duration(ExpiresIn) * time.Second)\<close>: the product wraps around.
\<close>

definition token_expiry :: "int \<Rightarrow> int \<Rightarrow> int" where
  "token_expiry now expires_in =
     (if expires_in \<le> 0 then now + 300 * 1000000000 else now + wrap64 (expires_in * 1000000000))"

definition token_of :: "int \<Rightarrow> url_values \<Rightarrow> token_response \<Rightarrow> (auth_error, auth_token) result" where
  "token_of now values r =
     (if tr_access r = [] \<or> map ascii_lower (tr_token_type r) \<noteq> ''bearer'' then Inl TokenExchange
      else (let requested = str_fields (values_get ''scope'' values);
                granted = str_fields (tr_scope r)
            in if requested \<noteq> [] \<and> tr_scope r \<noteq> [] \<and> \<not> list_all (\<lambda>s. s \<in> set granted) requested then Inl ScopeRequired
               else Inr \<lparr>tk_value = tr_access r, tk_expires = token_expiry now (tr_expires_in r),
                         tk_scopes = tr_scope r, tk_refresh = tr_refresh r\<rparr>))"

definition token_request :: "auth_lib \<Rightarrow> 'n auth_network \<Rightarrow> int \<Rightarrow> string \<Rightarrow> url_values \<Rightarrow> (string \<times> string) list
  \<Rightarrow> 'n auth_state \<Rightarrow> 'n auth_state \<times> (auth_error, auth_token) result" where
  "token_request lib net now endpoint values headers st =
     (case raw_token_request lib net endpoint values headers st of
        (st', r) \<Rightarrow> (st', bind_res r (token_of now values)))"

section \<open>Discovery\<close>

definition choose_scopes :: "string list \<Rightarrow> string list \<Rightarrow> string list" where
  "choose_scopes resource server = (if resource \<noteq> [] then resource else server)"

definition choose_issuer :: "string \<Rightarrow> string list \<Rightarrow> (auth_error, string) result" where
  "choose_issuer expected servers =
     (if expected = [] then Inr (hd servers)
      else if expected \<in> set servers then Inr expected else Inl DiscoveryInvalid)"

definition empty_server :: server_document where
  "empty_server = \<lparr>sd_issuer = [], sd_authorization = [], sd_token = [], sd_scopes = [], sd_challenges = [],
     sd_profiles = [], sd_client_documents = False, sd_registration = [], sd_response_issuer = False\<rparr>"

text \<open>A fetched document decoded into \<open>doc\<close>, with the success of fetch and decoding.\<close>

definition into_server :: "auth_lib \<Rightarrow> (auth_error, string) result \<Rightarrow> server_document \<Rightarrow> server_document \<times> auth_error option" where
  "into_server lib r doc =
     (case r of Inl e \<Rightarrow> (doc, Some e)
      | Inr data \<Rightarrow> (case al_server lib data doc of (doc', ok) \<Rightarrow> (doc', if ok then None else Some AuthDecode)))"

definition fetch_server :: "auth_lib \<Rightarrow> 'n auth_network \<Rightarrow> string \<Rightarrow> 'n auth_state
  \<Rightarrow> 'n auth_state \<times> (auth_error, server_document) result" where
  "fetch_server lib net issuer st =
     (case authorization_metadata_url lib issuer of
        None \<Rightarrow> (st, Inl DiscoveryInvalid)
      | Some url \<Rightarrow>
          (case get_json net url st of
             (st1, r1) \<Rightarrow>
               (case into_server lib r1 empty_server of
                  (doc1, None) \<Rightarrow> (st1, Inr doc1)
                | (doc1, Some e) \<Rightarrow>
                    (case get_json net (trim_slashes issuer @ ''/.well-known/openid-configuration'') st1 of
                       (st2, r2) \<Rightarrow>
                         (case into_server lib r2 doc1 of
                            (doc2, None) \<Rightarrow> (st2, Inr doc2)
                          | (doc2, Some _) \<Rightarrow> (st2, Inl e))))))"

definition metadata_of :: "resource_document \<Rightarrow> string \<Rightarrow> server_document \<Rightarrow> auth_metadata" where
  "metadata_of res issuer doc =
     \<lparr>am_resource = rd_resource res, am_issuer = issuer, am_authorization_endpoint = sd_authorization doc,
      am_token_endpoint = sd_token doc, am_scopes = choose_scopes (rd_scopes res) (sd_scopes doc),
      am_challenge_methods = sd_challenges doc, am_grant_profiles = sd_profiles doc,
      am_client_documents = sd_client_documents doc, am_registration_endpoint = sd_registration doc,
      am_response_issuer = sd_response_issuer doc\<rparr>"

definition auth_discover :: "auth_lib \<Rightarrow> 'n auth_network \<Rightarrow> string \<Rightarrow> string \<Rightarrow> string \<Rightarrow> 'n auth_state
  \<Rightarrow> 'n auth_state \<times> (auth_error, auth_metadata) result" where
  "auth_discover lib net metadata_url resource expected_issuer st =
     (case validate_https_url lib metadata_url of
        Inl e \<Rightarrow> (st, Inl e)
      | Inr _ \<Rightarrow>
     (case get_json net metadata_url st of
        (st1, Inl e) \<Rightarrow> (st1, Inl e)
      | (st1, Inr data) \<Rightarrow>
     (case al_resource lib data of
        None \<Rightarrow> (st1, Inl AuthDecode)
      | Some res \<Rightarrow>
          (if rd_resource res = [] \<or> rd_servers res = [] \<or> resource \<noteq> [] \<and> rd_resource res \<noteq> resource
           then (st1, Inl DiscoveryInvalid)
           else (case bind_res (choose_issuer expected_issuer (rd_servers res)) (\<lambda>i.
                        map_sum id (\<lambda>_. i) (validate_https_url lib i)) of
                   Inl e \<Rightarrow> (st1, Inl e)
                 | Inr issuer \<Rightarrow>
                     (case fetch_server lib net issuer st1 of
                        (st2, Inl e) \<Rightarrow> (st2, Inl e)
                      | (st2, Inr doc) \<Rightarrow>
                          (st2, if sd_issuer doc \<noteq> issuer \<or> sd_token doc = [] then Inl DiscoveryInvalid
                                else map_sum id (\<lambda>_. metadata_of res issuer doc) (validate_https_url lib (sd_token doc)))))))))"

section \<open>Grants\<close>

definition with_scopes :: "string list \<Rightarrow> url_values \<Rightarrow> url_values" where
  "with_scopes scopes vs = (if scopes = [] then vs else values_set ''scope'' (str_join '' '' scopes) vs)"

definition with_value :: "string \<Rightarrow> string \<Rightarrow> url_values \<Rightarrow> url_values" where
  "with_value k v vs = (if v = [] then vs else values_set k v vs)"

definition strconv_int :: "int \<Rightarrow> string" where
  "strconv_int i = (if i < 0 then CHR ''-'' # strconv_itoa (nat (- i)) else strconv_itoa (nat i))"

text \<open>\<^verbatim>\<open>private_key_jwt\<close>: \<open>jti\<close> is 16 random bytes.\<close>

definition signed_client_assertion :: "auth_lib \<Rightarrow> int \<Rightarrow> string \<Rightarrow> string \<Rightarrow> string \<Rightarrow> string \<Rightarrow> string
  \<Rightarrow> (auth_error, string) result" where
  "signed_client_assertion lib now jti client audience pem kid =
     (case al_rsa lib pem of
        None \<Rightarrow> Inl BadKey
      | Some sig \<Rightarrow>
          (let header = JObject ([(''alg'', JString ''RS256''), (''typ'', JString ''JWT'')]
                 @ (if kid = [] then [] else [(''kid'', JString kid)]));
               claims = JObject [(''iss'', JString client), (''sub'', JString client), (''aud'', JString audience),
                 (''iat'', JNumber (strconv_int (unix now))), (''exp'', JNumber (strconv_int (unix now + 300))),
                 (''jti'', JString (b64_encode jti))];
               unsigned = b64_encode (al_marshal lib header) @ ''.'' @ b64_encode (al_marshal lib claims)
           in Inr (unsigned @ ''.'' @ b64_encode (sig unsigned))))"

definition client_credentials_form :: "auth_lib \<Rightarrow> int \<Rightarrow> string \<Rightarrow> auth_metadata \<Rightarrow> string \<Rightarrow> string \<Rightarrow> string
  \<Rightarrow> string list \<Rightarrow> string \<Rightarrow> string \<Rightarrow> (auth_error, url_values \<times> (string \<times> string) list) result" where
  "client_credentials_form lib now jti m client secret auth_method scopes pem kid =
     (let vs = with_scopes scopes [(''grant_type'', ''client_credentials''), (''resource'', am_resource m)]
      in if auth_method = ''private_key_jwt'' then
           map_sum id (\<lambda>a. (values_set ''client_assertion'' a
               (values_set ''client_assertion_type'' ''urn:ietf:params:oauth:client-assertion-type:jwt-bearer'' vs), []))
             (signed_client_assertion lib now jti client (am_token_endpoint m) pem kid)
         else if auth_method = ''client_secret_basic'' then
           Inr (vs, [(''Authorization'', ''Basic '' @ al_b64std lib (al_escape lib client @ '':'' @ al_escape lib secret))])
         else if auth_method = ''client_secret_post'' \<or> auth_method = [] then
           Inr (values_set ''client_secret'' secret (values_set ''client_id'' client vs), [])
         else Inl BadAuthMethod)"

definition acquire_client_credentials :: "auth_lib \<Rightarrow> 'n auth_network \<Rightarrow> int \<Rightarrow> string \<Rightarrow> auth_metadata \<Rightarrow> string
  \<Rightarrow> string \<Rightarrow> string \<Rightarrow> string list \<Rightarrow> string \<Rightarrow> string \<Rightarrow> 'n auth_state
  \<Rightarrow> 'n auth_state \<times> (auth_error, auth_token) result" where
  "acquire_client_credentials lib net now jti m client secret auth_method scopes pem kid st =
     (case client_credentials_form lib now jti m client secret auth_method scopes pem kid of
        Inl e \<Rightarrow> (st, Inl e)
      | Inr (vs, headers) \<Rightarrow> token_request lib net now (am_token_endpoint m) vs headers st)"

definition acquire_token_exchange :: "auth_lib \<Rightarrow> 'n auth_network \<Rightarrow> int \<Rightarrow> auth_metadata \<Rightarrow> string \<Rightarrow> string \<Rightarrow> string
  \<Rightarrow> string list \<Rightarrow> 'n auth_state \<Rightarrow> 'n auth_state \<times> (auth_error, auth_token) result" where
  "acquire_token_exchange lib net now m subject subject_type client scopes st =
     token_request lib net now (am_token_endpoint m)
       (with_scopes scopes (with_value ''client_id'' client
          [(''grant_type'', ''urn:ietf:params:oauth:grant-type:token-exchange''),
           (''requested_token_type'', ''urn:ietf:params:oauth:token-type:access_token''),
           (''subject_token'', subject), (''subject_token_type'', subject_type), (''resource'', am_resource m)])) [] st"

record enterprise_request =
  er_idp_endpoint :: string
  er_assertion :: string
  er_subject_type :: string
  er_idp_client :: string
  er_idp_secret :: string
  er_resource_client :: string
  er_scopes :: "string list"

definition id_jag :: string where "id_jag = ''urn:ietf:params:oauth:token-type:id-jag''"

definition acquire_enterprise_managed :: "auth_lib \<Rightarrow> 'n auth_network \<Rightarrow> int \<Rightarrow> auth_metadata \<Rightarrow> enterprise_request
  \<Rightarrow> 'n auth_state \<Rightarrow> 'n auth_state \<times> (auth_error, auth_token) result" where
  "acquire_enterprise_managed lib net now m rq st =
     (if ''urn:ietf:params:oauth:grant-profile:id-jag'' \<notin> set (am_grant_profiles m) then (st, Inl NoIdJag)
      else (case validate_https_url lib (er_idp_endpoint rq) of
        Inl e \<Rightarrow> (st, Inl e)
      | Inr _ \<Rightarrow>
     (case raw_token_request lib net (er_idp_endpoint rq)
             (with_scopes (er_scopes rq) (with_value ''client_secret'' (er_idp_secret rq) (with_value ''client_id'' (er_idp_client rq)
                [(''grant_type'', ''urn:ietf:params:oauth:grant-type:token-exchange''),
                 (''requested_token_type'', id_jag), (''audience'', am_issuer m), (''resource'', am_resource m),
                 (''subject_token'', er_assertion rq),
                 (''subject_token_type'', if er_subject_type rq = [] then ''urn:ietf:params:oauth:token-type:id_token''
                                          else er_subject_type rq)]))) [] st of
        (st1, Inl e) \<Rightarrow> (st1, Inl e)
      | (st1, Inr jag) \<Rightarrow>
          (if tr_issued_type jag \<noteq> id_jag \<or> tr_access jag = [] then (st1, Inl TokenExchange)
           else token_request lib net now (am_token_endpoint m)
                  (with_value ''client_id'' (er_resource_client rq)
                     [(''grant_type'', ''urn:ietf:params:oauth:grant-type:jwt-bearer''),
                      (''assertion'', tr_access jag), (''resource'', am_resource m)]) [] st1))))"

section \<open>Login with PKCE\<close>

definition start_authorization :: "auth_lib \<Rightarrow> int \<Rightarrow> string \<Rightarrow> string \<Rightarrow> auth_metadata \<Rightarrow> string \<Rightarrow> string \<Rightarrow> string list
  \<Rightarrow> (auth_error, string \<times> pending_authorization) result" where
  "start_authorization lib now verifier_bytes state_bytes m client redirect scopes =
     (if ''S256'' \<notin> set (am_challenge_methods m) \<or> am_authorization_endpoint m = [] then Inl PkceUnsupported
      else bind_res (validate_https_url lib (am_authorization_endpoint m)) (\<lambda>_.
        if client = [] \<or> redirect = [] then Inl ClientRequired
        else (case al_url lib (am_authorization_endpoint m) of
                None \<Rightarrow> Inl DiscoveryInvalid
              | Some u \<Rightarrow>
                  (let verifier = b64_encode verifier_bytes; state = b64_encode state_bytes;
                       query = with_scopes scopes (values_set ''resource'' (am_resource m) (values_set ''state'' state
                         (values_set ''code_challenge_method'' ''S256'' (values_set ''code_challenge'' (b64_encode (al_sha256 lib verifier))
                         (values_set ''redirect_uri'' redirect (values_set ''client_id'' client
                         (values_set ''response_type'' ''code'' (al_query lib (pu_raw_query u)))))))))
                   in Inr (al_unparse lib (u\<lparr>pu_raw_query := al_encode lib query\<rparr>),
                           \<lparr>pe_state = state, pe_verifier = verifier, pe_issuer = am_issuer m, pe_resource = am_resource m,
                            pe_client_id = client, pe_redirect = redirect, pe_scopes = scopes,
                            pe_expires = now + 600 * 1000000000\<rparr>)))))"

definition complete_authorization :: "auth_lib \<Rightarrow> 'n auth_network \<Rightarrow> int \<Rightarrow> auth_metadata \<Rightarrow> pending_authorization \<Rightarrow> string
  \<Rightarrow> 'n auth_state \<Rightarrow> 'n auth_state \<times> (auth_error, auth_token) result" where
  "complete_authorization lib net now m p callback st =
     (if pe_expires p < now then (st, Inl AuthorizationState)
      else (case al_url lib callback of
        None \<Rightarrow> (st, Inl AuthorizationState)
      | Some u \<Rightarrow>
          (let q = al_query lib (pu_raw_query u); issuer = values_get ''iss'' q
           in if values_get ''state'' q \<noteq> pe_state p \<or> values_get ''code'' q = [] then (st, Inl AuthorizationState)
              else if issuer \<noteq> [] \<and> issuer \<noteq> pe_issuer p \<or> am_response_issuer m \<and> issuer \<noteq> pe_issuer p
              then (st, Inl AuthorizationIssuer)
              else token_request lib net now (am_token_endpoint m)
                     [(''grant_type'', ''authorization_code''), (''code'', values_get ''code'' q),
                      (''client_id'', pe_client_id p), (''redirect_uri'', pe_redirect p),
                      (''code_verifier'', pe_verifier p), (''resource'', pe_resource p)] [] st)))"

definition refresh_token :: "auth_lib \<Rightarrow> 'n auth_network \<Rightarrow> int \<Rightarrow> auth_metadata \<Rightarrow> string \<Rightarrow> auth_token
  \<Rightarrow> 'n auth_state \<Rightarrow> 'n auth_state \<times> (auth_error, auth_token) result" where
  "refresh_token lib net now m client t st =
     (if tk_refresh t = [] then (st, Inl LoginRequired)
      else (case token_request lib net now (am_token_endpoint m)
                   [(''grant_type'', ''refresh_token''), (''refresh_token'', tk_refresh t), (''client_id'', client),
                    (''resource'', am_resource m)] [] st of
              (st', r) \<Rightarrow> (st', map_sum id (\<lambda>n. if tk_refresh n = [] then n\<lparr>tk_refresh := tk_refresh t\<rparr> else n) r)))"

section \<open>Client registration\<close>

definition is_url_client :: "auth_lib \<Rightarrow> string \<Rightarrow> bool" where
  "is_url_client lib v = (case al_url lib v of None \<Rightarrow> False | Some u \<Rightarrow> pu_scheme u \<noteq> [] \<and> pu_host u \<noteq> [])"

definition validate_client_document :: "auth_lib \<Rightarrow> 'n auth_network \<Rightarrow> string \<Rightarrow> string \<Rightarrow> 'n auth_state
  \<Rightarrow> 'n auth_state \<times> (auth_error, client_registration) result" where
  "validate_client_document lib net client redirect st =
     (case validate_https_url lib client of
        Inl _ \<Rightarrow> (st, Inl RegistrationInvalid)
      | Inr _ \<Rightarrow>
          (case get_json net client st of
             (st', r) \<Rightarrow>
               (st', bind_res r (\<lambda>data.
                  case al_client lib data of
                    None \<Rightarrow> Inl AuthDecode
                  | Some d \<Rightarrow>
                      (if cd_client_id d \<noteq> client then Inl RegistrationInvalid
                       else if redirect \<noteq> [] \<and> redirect \<notin> set (cd_redirects d) then Inl RegistrationInvalid
                       else if redirect \<noteq> [] \<and> cd_grants d \<noteq> [] \<and> ''authorization_code'' \<notin> set (cd_grants d) then Inl RegistrationInvalid
                       else if redirect \<noteq> [] \<and> cd_responses d \<noteq> [] \<and> ''code'' \<notin> set (cd_responses d) then Inl RegistrationInvalid
                       else Inr \<lparr>cr_client_id = client, cr_secret = [],
                                 cr_method = (if cd_method d = [] then ''none'' else cd_method d)\<rparr>)))))"

definition registration_payload :: "string \<Rightarrow> string \<Rightarrow> string list \<Rightarrow> json" where
  "registration_payload name redirect scopes = JObject
     ([(''client_name'', JString name),
       (''grant_types'', JArray [JString ''authorization_code'', JString ''refresh_token'']),
       (''response_types'', JArray [JString ''code'']),
       (''token_endpoint_auth_method'', JString ''none'')]
      @ (if redirect = [] then [] else [(''redirect_uris'', JArray [JString redirect])])
      @ (if scopes = [] then [] else [(''scope'', JString (str_join '' '' scopes))]))"

definition register_dynamic_client :: "auth_lib \<Rightarrow> 'n auth_network \<Rightarrow> auth_metadata \<Rightarrow> string \<Rightarrow> string \<Rightarrow> string list
  \<Rightarrow> 'n auth_state \<Rightarrow> 'n auth_state \<times> (auth_error, client_registration) result" where
  "register_dynamic_client lib net m name redirect scopes st =
     (if am_registration_endpoint m = [] then (st, Inl RegistrationInvalid)
      else (case validate_https_url lib (am_registration_endpoint m) of
        Inl e \<Rightarrow> (st, Inl e)
      | Inr _ \<Rightarrow>
     (case send net \<lparr>ar_method = ''POST'', ar_url = am_registration_endpoint m,
              ar_headers = [(''Content-Type'', ''application/json''), (''Accept'', ''application/json'')],
              ar_body = al_marshal lib (registration_payload name redirect scopes)\<rparr> st of
        (st', r) \<Rightarrow>
          (st', bind_res r (\<lambda>resp.
             if hp_status resp \<noteq> 201 \<and> hp_status resp \<noteq> 200 then Inl RegistrationInvalid
             else (case decode_bounded resp of
                     Inl _ \<Rightarrow> Inl RegistrationInvalid
                   | Inr data \<Rightarrow>
                       (case al_registration lib data of
                          None \<Rightarrow> Inl RegistrationInvalid
                        | Some reg \<Rightarrow>
                            (let reg = reg\<lparr>cr_method := if cr_method reg = [] then ''none'' else cr_method reg\<rparr>
                             in if cr_client_id reg = [] then Inl RegistrationInvalid
                                else if cr_method reg \<noteq> ''none'' then Inl ConfidentialClient
                                else Inr reg))))))))"

end
