(* ===== verification/TokenStore.thy ===== *)
theory TokenStore
  imports OAuth GoRel
begin

text \<open>
  internal/auth/tokenstore.go: the encrypted records of a profile (token, pending login, client
  registration) in one directory, under a key file only its owner can read.

  The file system is a map from paths to contents and permission bits, with the paths that can be
  written; parameters (\<open>store_lib\<close>) are AES-GCM and the JSON codecs of the three records.  Random
  bytes are arguments.  A rename replaces a file at once, so a write is one step.
\<close>

section \<open>Files\<close>

record file_system =
  fs_file :: "string \<Rightarrow> (string \<times> nat) option"
  fs_writable :: "string \<Rightarrow> bool"

record store_lib =
  sl_seal :: "string \<Rightarrow> string \<Rightarrow> string \<Rightarrow> string \<Rightarrow> string"
  sl_open :: "string \<Rightarrow> string \<Rightarrow> string \<Rightarrow> string \<Rightarrow> string option"
  sl_enc_token :: "auth_token \<Rightarrow> string"
  sl_dec_token :: "string \<Rightarrow> auth_token option"
  sl_enc_pending :: "pending_authorization \<Rightarrow> string"
  sl_dec_pending :: "string \<Rightarrow> pending_authorization option"
  sl_enc_registration :: "client_registration \<Rightarrow> string"
  sl_dec_registration :: "string \<Rightarrow> client_registration option"

record token_store =
  ts_key_path :: string
  ts_dir :: string

definition owner_only :: nat where "owner_only = 384"

definition write_file :: "string \<Rightarrow> string \<Rightarrow> file_system \<Rightarrow> file_system \<times> (auth_error, unit) result" where
  "write_file path data fs =
     (if fs_writable fs path then (fs\<lparr>fs_file := (fs_file fs)(path := Some (data, owner_only))\<rparr>, Inr ())
      else (fs, Inl StoreWrite))"

section \<open>Keys\<close>

text \<open>Group and others must have no permission (the low six bits); the key has 32 bytes.\<close>

definition load_existing_key :: "file_system \<Rightarrow> string \<Rightarrow> (auth_error, string) result" where
  "load_existing_key fs path =
     (case fs_file fs path of
        None \<Rightarrow> Inl StoreMissing
      | Some (key, perm) \<Rightarrow>
          (if perm mod 64 \<noteq> 0 then Inl KeyInvalid
           else if length key \<noteq> 32 then Inl KeyInvalid else Inr key))"

definition load_or_create_key :: "string \<Rightarrow> string \<Rightarrow> file_system \<Rightarrow> file_system \<times> (auth_error, string) result" where
  "load_or_create_key fresh path fs =
     (case load_existing_key fs path of
        Inr key \<Rightarrow> (fs, Inr key)
      | Inl e \<Rightarrow>
          (if e \<noteq> StoreMissing then (fs, Inl e)
           else (case write_file path fresh fs of (fs', r) \<Rightarrow> (fs', map_sum id (\<lambda>_. fresh) r))))"

section \<open>Records\<close>

definition profile_char :: "char \<Rightarrow> bool" where
  "profile_char c \<longleftrightarrow>
     c \<in> set ''abcdefghijklmnopqrstuvwxyzABCDEFGHIJKLMNOPQRSTUVWXYZ0123456789-_.''"

definition safe_profile :: "string \<Rightarrow> bool" where
  "safe_profile v \<longleftrightarrow> \<not> (v = [] \<or> v = ''.'' \<or> v = ''..'') \<and> list_all profile_char v"

definition record_path :: "token_store \<Rightarrow> string \<Rightarrow> string \<Rightarrow> (auth_error, string) result" where
  "record_path s profile suffix =
     (if \<not> safe_profile profile \<or> ts_dir s = [] \<or> ts_key_path s = [] then Inl StoreInvalid
      else Inr (path_join [ts_dir s, profile @ suffix]))"

definition nonce_size :: nat where "nonce_size = 12"

definition seal_record :: "store_lib \<Rightarrow> string \<Rightarrow> string \<Rightarrow> token_store \<Rightarrow> string \<Rightarrow> string \<Rightarrow> string \<Rightarrow> file_system
  \<Rightarrow> file_system \<times> (auth_error, unit) result" where
  "seal_record lib fresh nonce s profile suffix plain fs =
     (case record_path s profile suffix of
        Inl e \<Rightarrow> (fs, Inl e)
      | Inr path \<Rightarrow>
          (case load_or_create_key fresh (ts_key_path s) fs of
             (fs1, Inl e) \<Rightarrow> (fs1, Inl e)
           | (fs1, Inr key) \<Rightarrow> write_file path (nonce @ sl_seal lib key nonce plain (path_base path)) fs1))"

definition open_record :: "store_lib \<Rightarrow> token_store \<Rightarrow> string \<Rightarrow> string \<Rightarrow> file_system \<Rightarrow> (auth_error, string) result" where
  "open_record lib s profile suffix fs =
     bind_res (record_path s profile suffix) (\<lambda>path.
     bind_res (load_existing_key fs (ts_key_path s)) (\<lambda>key.
       case fs_file fs path of
         None \<Rightarrow> Inl StoreMissing
       | Some (data, perm) \<Rightarrow>
           (if length data < nonce_size then Inl RecordInvalid
            else (case sl_open lib key (take nonce_size data) (drop nonce_size data) (path_base path) of
                    None \<Rightarrow> Inl RecordInvalid
                  | Some plain \<Rightarrow> Inr plain))))"

definition decode_record :: "(string \<Rightarrow> 'a option) \<Rightarrow> (auth_error, string) result \<Rightarrow> (auth_error, 'a) result" where
  "decode_record dec r =
     bind_res r (\<lambda>plain. case dec plain of None \<Rightarrow> Inl AuthDecode | Some x \<Rightarrow> Inr x)"

definition save_token :: "store_lib \<Rightarrow> string \<Rightarrow> string \<Rightarrow> token_store \<Rightarrow> string \<Rightarrow> auth_token \<Rightarrow> file_system
  \<Rightarrow> file_system \<times> (auth_error, unit) result" where
  "save_token lib fresh nonce s profile t = seal_record lib fresh nonce s profile ''.token'' (sl_enc_token lib t)"

definition load_token :: "store_lib \<Rightarrow> token_store \<Rightarrow> string \<Rightarrow> file_system \<Rightarrow> (auth_error, auth_token) result" where
  "load_token lib s profile fs = decode_record (sl_dec_token lib) (open_record lib s profile ''.token'' fs)"

definition save_pending :: "store_lib \<Rightarrow> string \<Rightarrow> string \<Rightarrow> token_store \<Rightarrow> string \<Rightarrow> pending_authorization \<Rightarrow> file_system
  \<Rightarrow> file_system \<times> (auth_error, unit) result" where
  "save_pending lib fresh nonce s profile p = seal_record lib fresh nonce s profile ''.pending'' (sl_enc_pending lib p)"

definition load_pending :: "store_lib \<Rightarrow> token_store \<Rightarrow> string \<Rightarrow> file_system \<Rightarrow> (auth_error, pending_authorization) result" where
  "load_pending lib s profile fs = decode_record (sl_dec_pending lib) (open_record lib s profile ''.pending'' fs)"

definition delete_pending :: "token_store \<Rightarrow> string \<Rightarrow> file_system \<Rightarrow> file_system \<times> (auth_error, unit) result" where
  "delete_pending s profile fs =
     (case record_path s profile ''.pending'' of
        Inl e \<Rightarrow> (fs, Inl e)
      | Inr path \<Rightarrow>
          (if fs_file fs path = None then (fs, Inr ())
           else if fs_writable fs path then (fs\<lparr>fs_file := (fs_file fs)(path := None)\<rparr>, Inr ())
           else (fs, Inl StoreWrite)))"

definition save_registration :: "store_lib \<Rightarrow> string \<Rightarrow> string \<Rightarrow> token_store \<Rightarrow> string \<Rightarrow> client_registration \<Rightarrow> file_system
  \<Rightarrow> file_system \<times> (auth_error, unit) result" where
  "save_registration lib fresh nonce s profile r =
     seal_record lib fresh nonce s profile ''.registration'' (sl_enc_registration lib r)"

definition load_registration :: "store_lib \<Rightarrow> token_store \<Rightarrow> string \<Rightarrow> file_system
  \<Rightarrow> (auth_error, client_registration) result" where
  "load_registration lib s profile fs =
     decode_record (sl_dec_registration lib) (open_record lib s profile ''.registration'' fs)"

section \<open>Paths of records\<close>

lemma trim_slashes_id: "s = [] \<or> last s \<noteq> slash \<Longrightarrow> trim_slashes s = s"
  by (cases s rule: rev_cases) auto

lemma str_join_last:
  assumes "xs \<noteq> []"
  shows "\<exists>pre. str_join sep xs = pre @ last xs"
  using assms
proof (induction xs)
  case Nil
  then show ?case by simp
next
  case (Cons x xs)
  then show ?case
  proof (cases "xs = []")
    case True
    then show ?thesis by simp
  next
    case False
    with Cons obtain pre where "str_join sep xs = pre @ last xs" by auto
    with False have "str_join sep (x # xs) = (x @ sep @ pre) @ last (x # xs)" by (simp add: str_join_Cons)
    then show ?thesis by blast
  qed
qed

lemma split_on_last:
  assumes "split_on slash p = cs @ [n]"
  shows "last (split_on slash p) = n" "n \<noteq> [] \<Longrightarrow> last p = last n" "p = [] \<Longrightarrow> n = []"
proof -
  show "last (split_on slash p) = n" using assms by simp
  have "p = str_join [slash] (cs @ [n])" using join_split[of slash p] assms by simp
  then obtain pre where p: "p = pre @ n" using str_join_last[of "cs @ [n]" "[slash]"] by auto
  then show "n \<noteq> [] \<Longrightarrow> last p = last n" by simp
  show "p = [] \<Longrightarrow> n = []" using p by simp
qed

text \<open>A record's name is the base of its path, so equal paths are of equal names.\<close>

lemma path_base_join:
  assumes "dir \<noteq> []" "proper_comp n" "n \<noteq> ''..''"
  shows "path_base (path_join [dir, n]) = n"
proof -
  let ?p = "dir @ slash # n" and ?r = "is_abs dir"
  let ?D = "clean_stack ?r [] (split_on slash dir)"
  have n: "n \<noteq> []" "slash \<notin> set n" "n \<noteq> ''.''" using assms(2) by (auto simp: proper_comp_def)
  have a: "is_abs ?p = ?r" using assms(1) by (cases dir) auto
  have st: "clean_stack ?r [] (split_on slash ?p) = n # ?D"
    using n assms(3) by (simp add: split_on_append split_on_id clean_step_def)
  have ok: "stack_ok ?r (n # ?D)"
    using clean_comps_ok[of ?r ?p] st by simp
  have sp: "split_on slash (str_join [slash] (rev (n # ?D))) = rev ?D @ [n]"
    using split_join_stack[OF ok] by simp
  have j: "path_join [dir, n] = (if ?r then slash # str_join [slash] (rev (n # ?D)) else str_join [slash] (rev (n # ?D)))"
  proof (cases ?r)
    case True
    then show ?thesis using path_clean_rooted[of ?p] a st assms(1) n(1) by (simp add: path_join_def)
  next
    case False
    then show ?thesis using path_clean_rel[of ?p] a st assms(1) n(1) by (simp add: path_join_def Let_def)
  qed
  obtain cs where cs: "split_on slash (path_join [dir, n]) = cs @ [n]"
    using j sp by (cases ?r) auto
  note l = split_on_last[OF cs]
  have "last n \<noteq> slash" using n last_in_set[of n] by metis
  then have t: "trim_slashes (path_join [dir, n]) = path_join [dir, n]"
    using l(2) n(1) by (intro trim_slashes_id) simp
  have "path_join [dir, n] \<noteq> []" using l(3) n(1) by auto
  then show ?thesis using l(1) t by (simp add: path_base_def Let_def)
qed

lemma safe_record_name:
  assumes "safe_profile p" "suffix \<in> {''.token'', ''.pending'', ''.registration''}"
  shows "proper_comp (p @ suffix)" "p @ suffix \<noteq> ''..''"
proof -
  have "\<not> profile_char slash" by code_simp
  then have "slash \<notin> set p" using assms(1) unfolding safe_profile_def list_all_iff by blast
  moreover have "slash \<notin> set suffix" using assms(2) by auto
  moreover have l: "length (p @ suffix) > 2" using assms(2) by auto
  ultimately show "proper_comp (p @ suffix)" unfolding proper_comp_def by (auto simp del: length_append)
  show "p @ suffix \<noteq> ''..''" using l by (auto simp del: length_append)
qed

lemma record_path_base:
  assumes "record_path s p suffix = Inr path" "suffix \<in> {''.token'', ''.pending'', ''.registration''}"
  shows "path_base path = p @ suffix"
  using assms safe_record_name path_base_join by (auto simp: record_path_def split: if_splits)

lemma suffix_inj:
  assumes "p @ suffix = p' @ suffix'" "suffix \<in> {''.token'', ''.pending'', ''.registration''}"
    "suffix' \<in> {''.token'', ''.pending'', ''.registration''}"
  shows "suffix = suffix' \<and> p = p'"
proof -
  have "last (p @ suffix) = last (p' @ suffix')" "last (butlast (p @ suffix)) = last (butlast (p' @ suffix'))"
    using assms(1) by simp_all
  then have "suffix = suffix'" using assms(2,3) by (auto simp: butlast_append)
  with assms(1) show ?thesis by simp
qed

lemma record_path_inj:
  assumes "record_path s p suffix = Inr path" "record_path s p' suffix' = Inr path"
    and "suffix \<in> {''.token'', ''.pending'', ''.registration''}" "suffix' \<in> {''.token'', ''.pending'', ''.registration''}"
  shows "p = p' \<and> suffix = suffix'"
  using record_path_base[OF assms(1,3)] record_path_base[OF assms(2,4)] suffix_inj[OF _ assms(3,4)] by metis

end
