(* ===== verification/AuthClaims.thy ===== *)
theory AuthClaims
  imports TokenStore
begin

text \<open>
  The properties of internal/auth: where secrets are sent, what completes a login, and that a
  stored record reads back.
\<close>

section \<open>Requests of a flow\<close>

text \<open>
  An endpoint as a reader of the documentation has it: the URL parses, has a host, no user info and no
  fragment, and its scheme is HTTPS, or HTTP with the loopback host. The flows test it with
  \<^verbatim>\<open>validateHTTPSURL\<close>, which accepts exactly these.
\<close>

definition loopback_hosts :: "string set" where
  "loopback_hosts = {''localhost'', ''127.0.0.1'', ''::1''}"

definition secure_endpoint :: "auth_lib \<Rightarrow> string \<Rightarrow> bool" where
  "secure_endpoint lib v \<longleftrightarrow>
     (\<exists>u. al_url lib v = Some u \<and> pu_host u \<noteq> [] \<and> \<not> pu_has_user u \<and> pu_fragment u = [] \<and>
        (pu_scheme u = ''https'' \<or> pu_scheme u = ''http'' \<and> map ascii_lower (pu_hostname u) \<in> loopback_hosts))"

lemma validate_https_url_accepts: "validate_https_url lib v = Inr () \<longleftrightarrow> secure_endpoint lib v"
  by (auto simp: validate_https_url_def secure_endpoint_def loopback_hosts_def is_loopback_host_def Let_def
      split: option.split)

definition secure_request :: "auth_lib \<Rightarrow> auth_request \<Rightarrow> bool" where
  "secure_request lib rq =
     (if ar_method rq = ''POST'' then secure_endpoint lib (ar_url rq)
      else ar_method rq = ''GET'' \<and> ar_body rq = [] \<and> ar_headers rq = [(''Accept'', ''application/json'')])"

text \<open>A step of a flow adds only secure requests to the log.\<close>

definition secure_step :: "auth_lib \<Rightarrow> 'n auth_state \<Rightarrow> 'n auth_state \<Rightarrow> bool" where
  "secure_step lib st st' \<longleftrightarrow> (\<exists>new. au_log st' = au_log st @ new \<and> list_all (secure_request lib) new)"

lemma secure_refl [simp, intro]: "secure_step lib st st"
  by (simp add: secure_step_def)

lemma secure_trans: "secure_step lib a b \<Longrightarrow> secure_step lib b c \<Longrightarrow> secure_step lib a c"
  by (auto simp: secure_step_def)

lemma send_log: "au_log (fst (send net rq st)) = au_log st @ [rq]"
  by (simp add: send_def split: prod.split)

lemma send_secure: "secure_request lib rq \<Longrightarrow> secure_step lib st (fst (send net rq st))"
  by (auto simp: secure_step_def send_log)

text \<open>The contract every operation that sends requests keeps, and its consequence for sequences.\<close>

locale secure_flow =
  fixes lib :: auth_lib and flow :: "'n auth_state \<Rightarrow> 'n auth_state \<times> (auth_error, 'a) result"
  assumes keeps_secure: "secure_step lib st (fst (flow st))"
begin

lemma step: "flow st = (st', r) \<Longrightarrow> secure_step lib st st'"
  using keeps_secure[of st] by simp

lemma after: "secure_step lib st0 st \<Longrightarrow> flow st = (st', r) \<Longrightarrow> secure_step lib st0 st'"
  using step secure_trans by blast

end

interpretation getting: secure_flow lib "get_json net url" for lib net url
proof
  fix st
  show "secure_step lib st (fst (get_json net url st))"
    using send_secure[of lib "\<lparr>ar_method = ''GET'', ar_url = url, ar_headers = [(''Accept'', ''application/json'')], ar_body = []\<rparr>" st net]
    by (simp add: get_json_def secure_request_def case_prod_beta)
qed

interpretation raw: secure_flow lib "raw_token_request lib net endpoint values headers" for lib net endpoint "values" headers
proof
  fix st
  show "secure_step lib st (fst (raw_token_request lib net endpoint values headers st))"
  proof (cases "validate_https_url lib endpoint")
    case (Inr u)
    let ?rq = "\<lparr>ar_method = ''POST'', ar_url = endpoint,
      ar_headers = [(''Content-Type'', ''application/x-www-form-urlencoded''), (''Accept'', ''application/json'')] @ headers,
      ar_body = al_encode lib values\<rparr>"
    have "secure_step lib st (fst (send net ?rq st))"
      by (rule send_secure) (use Inr in \<open>simp add: secure_request_def flip: validate_https_url_accepts\<close>)
    with Inr show ?thesis by (simp add: raw_token_request_def case_prod_beta)
  qed (simp add: raw_token_request_def)
qed

interpretation token: secure_flow lib "token_request lib net now endpoint values headers" for lib net now endpoint "values" headers
proof
  fix st
  show "secure_step lib st (fst (token_request lib net now endpoint values headers st))"
    using raw.keeps_secure[of lib st net endpoint "values" headers] by (simp add: token_request_def case_prod_beta)
qed

interpretation fetching: secure_flow lib "fetch_server lib net issuer" for lib net issuer
proof
  fix st
  show "secure_step lib st (fst (fetch_server lib net issuer st))"
    by (auto simp: fetch_server_def split: option.split prod.split dest: getting.step[where lib = lib] intro: secure_trans)
qed

interpretation discovering: secure_flow lib "auth_discover lib net metadata_url resource issuer"
  for lib net metadata_url resource issuer
proof
  fix st
  show "secure_step lib st (fst (auth_discover lib net metadata_url resource issuer st))"
    by (auto simp: auth_discover_def split: option.split prod.split sum.split
        dest: getting.step[where lib = lib] fetching.step intro: secure_trans)
qed

interpretation crediting: secure_flow lib
  "acquire_client_credentials lib net now jti m client secret auth_method scopes pem kid"
  for lib net now jti m client secret auth_method scopes pem kid
proof
  fix st
  show "secure_step lib st (fst (acquire_client_credentials lib net now jti m client secret auth_method scopes pem kid st))"
    by (auto simp: acquire_client_credentials_def token.keeps_secure split: sum.split)
qed

interpretation exchanging: secure_flow lib "acquire_token_exchange lib net now m subject subject_type client scopes"
  for lib net now m subject subject_type client scopes
  by unfold_locales (simp add: acquire_token_exchange_def token.keeps_secure)

interpretation managed: secure_flow lib "acquire_enterprise_managed lib net now m rq" for lib net now m rq
proof
  fix st
  show "secure_step lib st (fst (acquire_enterprise_managed lib net now m rq st))"
    by (auto simp: acquire_enterprise_managed_def split: prod.split sum.split
        dest: raw.step intro: secure_trans token.keeps_secure)
qed

interpretation completing: secure_flow lib "complete_authorization lib net now m p callback" for lib net now m p callback
  by unfold_locales (simp add: complete_authorization_def Let_def token.keeps_secure split: option.split)

interpretation refreshing: secure_flow lib "refresh_token lib net now m client t" for lib net now m client t
proof
  fix st
  show "secure_step lib st (fst (refresh_token lib net now m client t st))"
    by (auto simp: refresh_token_def split: prod.split dest: token.step)
qed

interpretation documented: secure_flow lib "validate_client_document lib net client redirect" for lib net client redirect
proof
  fix st
  show "secure_step lib st (fst (validate_client_document lib net client redirect st))"
    by (auto simp: validate_client_document_def split: prod.split sum.split dest: getting.step[where lib = lib])
qed

interpretation registering: secure_flow lib "register_dynamic_client lib net m name redirect scopes"
  for lib net m name redirect scopes
proof
  fix st
  let ?rq = "\<lparr>ar_method = ''POST'', ar_url = am_registration_endpoint m,
    ar_headers = [(''Content-Type'', ''application/json''), (''Accept'', ''application/json'')],
    ar_body = al_marshal lib (registration_payload name redirect scopes)\<rparr>"
  show "secure_step lib st (fst (register_dynamic_client lib net m name redirect scopes st))"
  proof (cases "validate_https_url lib (am_registration_endpoint m)")
    case (Inr u)
    have "secure_step lib st (fst (send net ?rq st))"
      by (rule send_secure) (use Inr in \<open>simp add: secure_request_def flip: validate_https_url_accepts\<close>)
    with Inr show ?thesis by (simp add: register_dynamic_client_def case_prod_beta)
  qed (simp add: register_dynamic_client_def)
qed

section \<open>Form values\<close>

lemma map_of_snoc: "map_of (xs @ [(k, v)]) j = (case map_of xs j of Some x \<Rightarrow> Some x | None \<Rightarrow> if j = k then Some v else None)"
  by (induction xs) auto

lemma map_of_filter_key: "map_of (filter (\<lambda>x. fst x \<noteq> k) xs) j = (if j = k then None else map_of xs j)"
  by (induction xs) auto

lemma values_get_set [simp]: "values_get j (values_set k v vs) = (if j = k then v else values_get j vs)"
  by (simp add: values_get_def values_set_def map_of_snoc map_of_filter_key del: map_of_append split: option.split)

lemma values_get_scopes: "j \<noteq> ''scope'' \<Longrightarrow> values_get j (with_scopes scopes vs) = values_get j vs"
  by (simp add: with_scopes_def)

section \<open>Records\<close>

lemma load_or_create_existing:
  "load_existing_key fs path = Inr key \<Longrightarrow> load_or_create_key fresh path fs = (fs, Inr key)"
  by (simp add: load_or_create_key_def)

lemma load_or_create_Ok:
  assumes "load_or_create_key fresh path fs = (fs', Inr key)" "length fresh = 32"
  shows "load_existing_key fs' path = Inr key" "\<And>p. p \<noteq> path \<Longrightarrow> fs_file fs' p = fs_file fs p"
  using assms
  by (auto simp: load_or_create_key_def write_file_def load_existing_key_def owner_only_def
      split: sum.splits if_splits option.splits)

lemma seal_then_open:
  assumes "seal_record lib fresh nonce s profile suffix plain fs = (fs', Inr u)"
    and "record_path s profile suffix = Inr path" "path \<noteq> ts_key_path s"
    and "\<And>key. sl_open lib key nonce (sl_seal lib key nonce plain (path_base path)) (path_base path) = Some plain"
    and "length nonce = nonce_size" "length fresh = 32"
  shows "open_record lib s profile suffix fs' = Inr plain"
    and "\<And>p. p \<noteq> path \<Longrightarrow> p \<noteq> ts_key_path s \<Longrightarrow> fs_file fs' p = fs_file fs p"
    and "load_existing_key fs (ts_key_path s) = Inr key \<Longrightarrow> load_existing_key fs' (ts_key_path s) = Inr key"
proof -
  obtain fs1 r where l: "load_or_create_key fresh (ts_key_path s) fs = (fs1, r)" by force
  with assms(1,2) obtain k where k: "r = Inr k"
    and w: "write_file path (nonce @ sl_seal lib k nonce plain (path_base path)) fs1 = (fs', Inr u)"
    by (cases r) (auto simp: seal_record_def)
  note lk = load_or_create_Ok[OF l[unfolded k] assms(6)]
  have fs': "fs_file fs' = (fs_file fs1)(path := Some (nonce @ sl_seal lib k nonce plain (path_base path), owner_only))"
    using w by (auto simp: write_file_def split: if_splits)
  have ek: "load_existing_key fs' (ts_key_path s) = load_existing_key fs1 (ts_key_path s)"
    using fs' assms(3) by (simp add: load_existing_key_def)
  then have key: "load_existing_key fs' (ts_key_path s) = Inr k" using lk(1) by simp
  show "open_record lib s profile suffix fs' = Inr plain"
    using assms(2,4,5) key fs' by (simp add: open_record_def)
  show "\<And>p. p \<noteq> path \<Longrightarrow> p \<noteq> ts_key_path s \<Longrightarrow> fs_file fs' p = fs_file fs p"
    using fs' lk(2) by simp
  show "load_existing_key fs (ts_key_path s) = Inr key \<Longrightarrow> load_existing_key fs' (ts_key_path s) = Inr key"
    using l k key by (simp add: load_or_create_existing)
qed

lemma open_record_cong:
  assumes "record_path s p sfx = Inr path" "fs_file fs' path = fs_file fs path"
    and "load_existing_key fs' (ts_key_path s) = load_existing_key fs (ts_key_path s)"
  shows "open_record lib s p sfx fs' = open_record lib s p sfx fs"
  using assms by (simp add: open_record_def)

section \<open>Properties\<close>

text \<open>
  C13: Every request any OAuth flow makes is either a plain GET without a body, or a POST to a URL
  that parses with a host, without user info or fragment, and whose scheme is HTTPS, or HTTP with the
  host localhost, 127.0.0.1 or ::1: codes, verifiers, secrets, assertions and refresh tokens are never
  posted anywhere else, whatever the metadata, the token endpoint or a redirect says.
\<close>

theorem secrets_only_to_secure_endpoints:
  "secure_step lib st (fst (auth_discover lib net metadata_url resource issuer st)) \<and>
   secure_step lib st (fst (acquire_client_credentials lib net now jti m client secret auth_method scopes pem kid st)) \<and>
   secure_step lib st (fst (acquire_token_exchange lib net now m subject subject_type client scopes st)) \<and>
   secure_step lib st (fst (acquire_enterprise_managed lib net now m rq st)) \<and>
   secure_step lib st (fst (complete_authorization lib net now m p callback st)) \<and>
   secure_step lib st (fst (refresh_token lib net now m client t st)) \<and>
   secure_step lib st (fst (validate_client_document lib net client redirect st)) \<and>
   secure_step lib st (fst (register_dynamic_client lib net m name redirect scopes st))"
  by (intro conjI discovering.keeps_secure crediting.keeps_secure exchanging.keeps_secure managed.keeps_secure
      completing.keeps_secure refreshing.keeps_secure documented.keeps_secure registering.keeps_secure)

text \<open>
  C12: A login completes only for the authorization response to the login that was started: the
  callback carries the state the login URL had, comes within ten minutes, names no other issuer, and
  the token request posts the code with the secret verifier whose SHA-256 challenge the login URL
  announced.
\<close>

theorem login_bound_to_start:
  assumes start: "start_authorization lib t0 vb sb m0 client redirect scopes = Inr (url, p)"
    and complete: "complete_authorization lib net now m p callback st = (st', Inr t)"
  shows "\<exists>u q v rq. al_url lib (am_authorization_endpoint m0) = Some u \<and> url = al_unparse lib (u\<lparr>pu_raw_query := al_encode lib q\<rparr>)
    \<and> values_get ''code_challenge'' q = b64_encode (al_sha256 lib (b64_encode vb)) \<and> values_get ''code_challenge_method'' q = ''S256''
    \<and> values_get ''state'' q = b64_encode sb
    \<and> al_url lib callback = Some v \<and> values_get ''state'' (al_query lib (pu_raw_query v)) = b64_encode sb
    \<and> values_get ''iss'' (al_query lib (pu_raw_query v)) \<in> {[], am_issuer m0} \<and> now \<le> t0 + 600 * 1000000000
    \<and> au_log st' = au_log st @ [rq] \<and> secure_request lib rq \<and> ar_method rq = ''POST''
    \<and> ar_body rq = al_encode lib [(''grant_type'', ''authorization_code''),
         (''code'', values_get ''code'' (al_query lib (pu_raw_query v))), (''client_id'', client),
         (''redirect_uri'', redirect), (''code_verifier'', b64_encode vb), (''resource'', am_resource m0)]"
proof -
  from start obtain u where u: "al_url lib (am_authorization_endpoint m0) = Some u"
    by (auto simp: start_authorization_def bind_res_Ok_iff split: if_splits option.splits)
  let ?q = "with_scopes scopes (values_set ''resource'' (am_resource m0) (values_set ''state'' (b64_encode sb)
    (values_set ''code_challenge_method'' ''S256'' (values_set ''code_challenge'' (b64_encode (al_sha256 lib (b64_encode vb)))
    (values_set ''redirect_uri'' redirect (values_set ''client_id'' client
    (values_set ''response_type'' ''code'' (al_query lib (pu_raw_query u)))))))))"
  from start u have url: "url = al_unparse lib (u\<lparr>pu_raw_query := al_encode lib ?q\<rparr>)"
    and p: "pe_state p = b64_encode sb" "pe_verifier p = b64_encode vb" "pe_issuer p = am_issuer m0"
      "pe_resource p = am_resource m0" "pe_client_id p = client" "pe_redirect p = redirect"
      "pe_expires p = t0 + 600 * 1000000000"
    by (auto simp: start_authorization_def bind_res_Ok_iff Let_def split: if_splits)
  obtain q where qd: "q = ?q" by blast
  have url': "url = al_unparse lib (u\<lparr>pu_raw_query := al_encode lib q\<rparr>)" using url qd by simp
  have q: "values_get ''code_challenge'' q = b64_encode (al_sha256 lib (b64_encode vb))"
    "values_get ''code_challenge_method'' q = ''S256''" "values_get ''state'' q = b64_encode sb"
    unfolding qd by (simp_all add: values_get_scopes)
  from complete obtain v where v: "al_url lib callback = Some v" and now: "now \<le> pe_expires p"
    by (auto simp: complete_authorization_def split: if_splits option.splits)
  let ?c = "al_query lib (pu_raw_query v)"
  let ?vs = "[(''grant_type'', ''authorization_code''), (''code'', values_get ''code'' ?c), (''client_id'', pe_client_id p),
    (''redirect_uri'', pe_redirect p), (''code_verifier'', pe_verifier p), (''resource'', pe_resource p)]"
  from complete v now have c: "values_get ''state'' ?c = pe_state p" "values_get ''iss'' ?c \<in> {[], pe_issuer p}"
    and tr: "token_request lib net now (am_token_endpoint m) ?vs [] st = (st', Inr t)"
    by (auto simp: complete_authorization_def Let_def split: if_splits)
  let ?rq = "\<lparr>ar_method = ''POST'', ar_url = am_token_endpoint m,
     ar_headers = [(''Content-Type'', ''application/x-www-form-urlencoded''), (''Accept'', ''application/json'')] @ [],
     ar_body = al_encode lib ?vs\<rparr>"
  have "validate_https_url lib (am_token_endpoint m) = Inr ()"
    using tr by (cases "validate_https_url lib (am_token_endpoint m)") (auto simp: token_request_def raw_token_request_def)
  moreover from this have "au_log st' = au_log st @ [?rq]"
    using tr send_log[of net ?rq st] by (simp add: token_request_def raw_token_request_def case_prod_beta)
  ultimately have "au_log st' = au_log st @ [?rq] \<and> secure_request lib ?rq" by (simp add: secure_request_def flip: validate_https_url_accepts)
  moreover obtain rq where rqd: "rq = ?rq" by blast
  ultimately have rq: "au_log st' = au_log st @ [rq]" "secure_request lib rq" "ar_method rq = ''POST''"
    "ar_body rq = al_encode lib ?vs" by (simp_all only: rqd auth_request.simps)
  have "values_get ''state'' ?c = b64_encode sb" "values_get ''iss'' ?c \<in> {[], am_issuer m0}"
    "now \<le> t0 + 600 * 1000000000" using c now p by simp_all
  with u url' q v rq p show ?thesis by metis
qed

text \<open>
  C29: A stored token reads back as it was stored, and storing it leaves every record of every
  other profile, and the other records of the same profile, as they were.
\<close>

theorem token_record_roundtrip:
  assumes save: "save_token lib fresh nonce s profile t fs = (fs', Inr ())"
    and aead: "\<And>key. sl_open lib key nonce (sl_seal lib key nonce (sl_enc_token lib t) (profile @ ''.token'')) (profile @ ''.token'')
        = Some (sl_enc_token lib t)"
    and codec: "sl_dec_token lib (sl_enc_token lib t) = Some t"
    and lens: "length nonce = nonce_size" "length fresh = 32"
    and apart: "record_path s profile ''.token'' \<noteq> Inr (ts_key_path s)"
  shows "load_token lib s profile fs' = Inr t \<and>
    (load_existing_key fs (ts_key_path s) = Inr key \<longrightarrow>
       (q, suffix) \<noteq> (profile, ''.token'') \<longrightarrow> suffix \<in> {''.token'', ''.pending'', ''.registration''} \<longrightarrow>
       record_path s q suffix \<noteq> Inr (ts_key_path s) \<longrightarrow>
       open_record lib s q suffix fs' = open_record lib s q suffix fs)"
proof -
  from save obtain path where path: "record_path s profile ''.token'' = Inr path"
    by (cases "record_path s profile ''.token''") (auto simp: save_token_def seal_record_def)
  have base: "path_base path = profile @ ''.token''" by (rule record_path_base[OF path]) simp
  have ne: "path \<noteq> ts_key_path s" using apart path by auto
  note so = seal_then_open[OF save[unfolded save_token_def] path ne _ lens, unfolded base, OF aead]
  have "load_token lib s profile fs' = Inr t"
    using so(1) codec by (simp add: load_token_def decode_record_def)
  moreover have "open_record lib s q suffix fs' = open_record lib s q suffix fs"
    if k: "load_existing_key fs (ts_key_path s) = Inr key" and other: "(q, suffix) \<noteq> (profile, ''.token'')"
      "suffix \<in> {''.token'', ''.pending'', ''.registration''}" "record_path s q suffix \<noteq> Inr (ts_key_path s)"
  proof (cases "record_path s q suffix")
    case (Inr path')
    have "path' \<noteq> path" using record_path_inj[OF Inr _ other(2)] path other(1) by auto
    moreover have "path' \<noteq> ts_key_path s" using other(3) Inr by auto
    ultimately have "fs_file fs' path' = fs_file fs path'" by (rule so(2))
    then show ?thesis by (rule open_record_cong[OF Inr]) (simp add: so(3)[OF k] k)
  qed (simp add: open_record_def)
  ultimately show ?thesis by blast
qed

text \<open>
  The issuer that issued a code is not the issuer it is redeemed at: the completion of a login
  posts code and verifier to the token endpoint of freshly discovered metadata, whose issuer is
  compared with the issuer of the pending login nowhere (only an \<^verbatim>\<open>iss\<close> parameter, if the
  callback has one, is).
\<close>

theorem code_sent_to_other_issuer:
  assumes "am_issuer m \<noteq> pe_issuer p" "\<not> am_response_issuer m" "now \<le> pe_expires p"
    and "al_url lib callback = Some v" "values_get ''state'' (al_query lib (pu_raw_query v)) = pe_state p"
      "values_get ''code'' (al_query lib (pu_raw_query v)) = code" "code \<noteq> []" "values_get ''iss'' (al_query lib (pu_raw_query v)) = []"
    and "validate_https_url lib (am_token_endpoint m) = Inr ()"
  shows "\<exists>rq. au_log (fst (complete_authorization lib net now m p callback st)) = au_log st @ [rq]
    \<and> ar_url rq = am_token_endpoint m
    \<and> ar_body rq = al_encode lib [(''grant_type'', ''authorization_code''), (''code'', code), (''client_id'', pe_client_id p),
         (''redirect_uri'', pe_redirect p), (''code_verifier'', pe_verifier p), (''resource'', pe_resource p)]"
  using assms
  by (simp add: complete_authorization_def Let_def token_request_def raw_token_request_def case_prod_beta send_log)

section \<open>Witnesses\<close>

text \<open>URLs and queries are not parsed: every callback is the same URL with the query of its text.\<close>

definition demo_url :: parsed_url where
  "demo_url = \<lparr>pu_scheme = ''https'', pu_host = ''as'', pu_hostname = ''as'', pu_path = [], pu_has_user = False,
     pu_raw_query = [], pu_fragment = []\<rparr>"

definition demo_auth_lib :: auth_lib where
  "demo_auth_lib = \<lparr>al_url = (\<lambda>s. Some (demo_url\<lparr>pu_raw_query := s\<rparr>)), al_unparse = pu_raw_query,
     al_query = (\<lambda>s. [(''state'', b64_encode ''s''), (''code'', s)]), al_encode = (\<lambda>vs. concat (map snd vs)),
     al_escape = id, al_b64std = id, al_marshal = (\<lambda>j. []), 
     al_resource = (\<lambda>s. Some \<lparr>rd_resource = ''r'', rd_servers = [''https://as''], rd_scopes = []\<rparr>),
     al_server = (\<lambda>s d. (\<lparr>sd_issuer = ''https://as'', sd_authorization = ''https://as/a'', sd_token = ''https://as/t'',
       sd_scopes = [], sd_challenges = [''S256''], sd_profiles = [], sd_client_documents = False, sd_registration = [],
       sd_response_issuer = False\<rparr>, True)), al_token = (\<lambda>s. Some \<lparr>tr_access = s, tr_token_type = ''Bearer'', tr_expires_in = 60,
       tr_scope = [], tr_issued_type = [], tr_refresh = []\<rparr>), al_client = (\<lambda>s. None), al_registration = (\<lambda>s. None),
     al_rsa = (\<lambda>s. None), al_sha256 = rev\<rparr>"

definition demo_auth_net :: "unit auth_network" where
  "demo_auth_net n rq = (n, Inr \<lparr>hp_status = 200, hp_body = Inr ''tok''\<rparr>)"

definition demo_metadata :: auth_metadata where
  "demo_metadata = \<lparr>am_resource = ''r'', am_issuer = ''https://as'', am_authorization_endpoint = ''https://as/a'',
     am_token_endpoint = ''https://as/t'', am_scopes = [], am_challenge_methods = [''S256''], am_grant_profiles = [],
     am_client_documents = False, am_registration_endpoint = [], am_response_issuer = False\<rparr>"

definition demo_pending :: pending_authorization where
  "demo_pending = \<lparr>pe_state = b64_encode ''s'', pe_verifier = b64_encode ''v'', pe_issuer = ''https://as'', pe_resource = ''r'',
     pe_client_id = ''c'', pe_redirect = ''u'', pe_scopes = [], pe_expires = 600000000000\<rparr>"

definition demo_token :: auth_token where
  "demo_token = \<lparr>tk_value = ''tok'', tk_expires = 60000000005, tk_scopes = [], tk_refresh = []\<rparr>"

lemma demo_start_login:
  "\<exists>url. start_authorization demo_auth_lib 0 ''v'' ''s'' demo_metadata ''c'' ''u'' [] = Inr (url, demo_pending)"
  by (simp add: start_authorization_def demo_metadata_def demo_auth_lib_def validate_https_url_def demo_url_def
      demo_pending_def Let_def)

lemma demo_complete_login:
  "complete_authorization demo_auth_lib demo_auth_net 5 (demo_metadata\<lparr>am_issuer := i\<rparr>) demo_pending ''code'' \<lparr>au_net = (), au_log = l\<rparr>
     = (\<lparr>au_net = (), au_log = l @ [\<lparr>ar_method = ''POST'', ar_url = ''https://as/t'',
          ar_headers = [(''Content-Type'', ''application/x-www-form-urlencoded''), (''Accept'', ''application/json'')],
          ar_body = ''authorization_codecodecu'' @ b64_encode ''v'' @ ''r''\<rparr>]\<rparr>, Inr demo_token)"
proof -
  have "map ascii_lower ''Bearer'' = ''bearer''" by code_simp
  then show ?thesis
    by (simp add: complete_authorization_def demo_metadata_def demo_auth_lib_def demo_pending_def demo_url_def Let_def
        values_get_def token_request_def raw_token_request_def validate_https_url_def send_def demo_auth_net_def
        decode_bounded_def max_auth_response_def token_of_def token_expiry_def wrap64_def demo_token_def)
qed

theorem login_bound_to_start_witness:
  "\<exists>rq. au_log (fst (complete_authorization demo_auth_lib demo_auth_net 5 demo_metadata demo_pending ''code''
       \<lparr>au_net = (), au_log = []\<rparr>)) = [rq] \<and> secure_request demo_auth_lib rq"
proof -
  obtain url where st: "start_authorization demo_auth_lib 0 ''v'' ''s'' demo_metadata ''c'' ''u'' [] = Inr (url, demo_pending)"
    using demo_start_login by blast
  have "demo_metadata\<lparr>am_issuer := ''https://as''\<rparr> = demo_metadata" by (simp add: demo_metadata_def)
  with demo_complete_login[of "''https://as''" "[]"] obtain st' where
    c: "complete_authorization demo_auth_lib demo_auth_net 5 demo_metadata demo_pending ''code'' \<lparr>au_net = (), au_log = []\<rparr> = (st', Inr demo_token)"
    by simp
  from login_bound_to_start[OF st c] obtain rq where "au_log st' = [rq]" "secure_request demo_auth_lib rq" by auto
  with c show ?thesis by simp
qed

definition demo_store_lib :: store_lib where
  "demo_store_lib = \<lparr>sl_seal = (\<lambda>k n p a. a @ p), sl_open = (\<lambda>k n c a. if has_prefix c a then Some (drop (length a) c) else None),
     sl_enc_token = (\<lambda>t. ''t''), sl_dec_token = (\<lambda>s. Some demo_token), sl_enc_pending = (\<lambda>p. ''p''),
     sl_dec_pending = (\<lambda>s. Some demo_pending), sl_enc_registration = (\<lambda>r. ''r''), sl_dec_registration = (\<lambda>s. None)\<rparr>"

definition demo_store :: token_store where
  "demo_store = \<lparr>ts_key_path = ''/k'', ts_dir = ''/d''\<rparr>"

definition demo_fs :: file_system where
  "demo_fs = \<lparr>fs_file = (\<lambda>p. None), fs_writable = (\<lambda>p. True)\<rparr>"

lemma demo_record_path:
  "record_path demo_store ''work'' ''.token'' = Inr ''/d/work.token''" "path_base ''/d/work.token'' = ''work.token''"
  by (code_simp)+

lemma demo_saves:
  "\<exists>fs'. save_token demo_store_lib (replicate 32 CHR ''k'') (replicate 12 CHR ''n'') demo_store ''work'' demo_token demo_fs = (fs', Inr ())"
  unfolding save_token_def seal_record_def demo_record_path
  by (simp add: load_or_create_key_def load_existing_key_def write_file_def demo_fs_def)

theorem token_record_roundtrip_witness:
  "load_token demo_store_lib demo_store ''work''
     (fst (save_token demo_store_lib (replicate 32 CHR ''k'') (replicate 12 CHR ''n'') demo_store ''work'' demo_token demo_fs))
   = Inr demo_token"
proof -
  obtain fs' where s: "save_token demo_store_lib (replicate 32 CHR ''k'') (replicate 12 CHR ''n'') demo_store ''work'' demo_token demo_fs
    = (fs', Inr ())" using demo_saves by blast
  have apart: "record_path demo_store ''work'' ''.token'' \<noteq> Inr (ts_key_path demo_store)"
    unfolding demo_record_path by (simp add: demo_store_def)
  have "load_token demo_store_lib demo_store ''work'' fs' = Inr demo_token"
    by (rule token_record_roundtrip[OF s _ _ _ _ apart, THEN conjunct1])
      (simp_all add: demo_store_lib_def nonce_size_def has_prefix_def)
  with s show ?thesis by simp
qed

theorem code_sent_to_other_issuer_witness:
  "\<exists>rq. au_log (fst (complete_authorization demo_auth_lib demo_auth_net 5 (demo_metadata\<lparr>am_issuer := ''https://evil''\<rparr>) demo_pending ''code''
       \<lparr>au_net = (), au_log = []\<rparr>)) = [rq] \<and> ar_url rq = ''https://as/t''"
proof -
  have "\<exists>rq. au_log (fst (complete_authorization demo_auth_lib demo_auth_net 5 (demo_metadata\<lparr>am_issuer := ''https://evil''\<rparr>) demo_pending ''code''
       \<lparr>au_net = (), au_log = []\<rparr>)) = au_log \<lparr>au_net = (), au_log = []\<rparr> @ [rq]
    \<and> ar_url rq = am_token_endpoint (demo_metadata\<lparr>am_issuer := ''https://evil''\<rparr>)
    \<and> ar_body rq = al_encode demo_auth_lib [(''grant_type'', ''authorization_code''), (''code'', ''code''),
         (''client_id'', pe_client_id demo_pending), (''redirect_uri'', pe_redirect demo_pending),
         (''code_verifier'', pe_verifier demo_pending), (''resource'', pe_resource demo_pending)]"
    by (rule code_sent_to_other_issuer)
      (simp_all add: demo_metadata_def demo_pending_def demo_auth_lib_def values_get_def validate_https_url_def demo_url_def, simp?)
  then show ?thesis by (auto simp: demo_metadata_def)
qed

end
