(* ===== verification/Trust.thy ===== *)
theory Trust
  imports TokenStore
begin

text \<open>
  internal/trust/config.go, first part: the user's trust configuration, its validation and loading,
  and the lookups.  An optional pointer is an option, the four alternatives of a credential source
  stay four optional fields, as validation has to count them.  The YAML decoder is a parameter
  that reads the next document of a stream, as in Config.
\<close>

section \<open>Data\<close>

record helper_source =
  hs_command :: string
  hs_args :: "string list"
  hs_timeout_ms :: int

record credential_source =
  cs_env :: "string option"
  cs_dotenv :: "(string \<times> string) option"
  cs_keychain :: "(string \<times> string) option"
  cs_helper :: "helper_source option"

record credential =
  ce_slot :: string
  ce_sources :: "credential_source list"
  ce_stdio_env :: string
  ce_http_header :: "(string \<times> string) option"

record oauth_profile =
  oa_type :: string
  oa_metadata_url :: string
  oa_resource :: string
  oa_issuer :: string
  oa_scopes :: "string list"
  oa_client_id :: string
  oa_client_name :: string
  oa_dynamic :: bool
  oa_client_secret :: "credential_source list"
  oa_private_key :: "credential_source list"
  oa_key_id :: string
  oa_auth_method :: string
  oa_idp_endpoint :: string
  oa_identity_assertion :: "credential_source list"
  oa_subject_type :: string
  oa_idp_client :: string
  oa_idp_secret :: "credential_source list"
  oa_resource_client :: string
  oa_redirect :: string
  oa_subject_token :: "credential_source list"
  oa_workload_type :: string

record credential_profile =
  cf_name :: string
  cf_service :: string
  cf_credentials :: "credential list"
  cf_oauth :: "oauth_profile option"

record mtls_config =
  ml_certificate :: "credential_source list"
  ml_private_key :: "credential_source list"
  ml_server_name :: string

record trusted_stdio =
  sx_command :: string
  sx_args :: "string list"
  sx_directory :: string
  sx_timeout_ms :: int

record trusted_http =
  hx_endpoint :: string
  hx_timeout_ms :: int
  hx_mtls :: "mtls_config option"

record trusted_server =
  tv_server :: string
  tv_version :: string
  tv_projects :: "string list"
  tv_profiles :: "string list"
  tv_stdio :: "trusted_stdio option"
  tv_http :: "trusted_http option"

record registry_source =
  rs_name :: string
  rs_type :: string
  rs_base_url :: string
  rs_namespaces :: "string list"

record trust_config =
  tc_version :: int
  tc_servers :: "trusted_server list"
  tc_profiles :: "credential_profile list"
  tc_telemetry :: "(bool \<times> string) option"
  tc_sources :: "registry_source list"
  tc_oauth_store :: "token_store option"

definition trust_config_version :: int where "trust_config_version = 1"

section \<open>Validation\<close>

datatype source_error =
    EnvKeyMissing nat | DotenvIncomplete nat | KeychainIncomplete nat | HelperNotAbsolute nat | NotOneSource nat

datatype oauth_error =
    OAuthResourceMissing | OAuthClientMissing | OAuthKeyMissing | OAuthSecretMissing | OAuthMethodUnsupported
  | OAuthEnterpriseIncomplete | OAuthCodeIncomplete | OAuthExchangeIncomplete | OAuthTypeUnsupported string
  | OAuthSource nat source_error

datatype trust_invalid =
    TrustVersion | TelemetryPath | OAuthStorePaths | SourceFields nat | SourceDuplicate nat
  | ServerFields nat | ServerRange nat | ServerDuplicate nat | ServerTransport nat | StdioCommand nat
  | StdioDirectory nat | HttpInvalid nat factory_error | MtlsIncomplete nat | MtlsSource nat source_error
  | ProjectRelative nat | ProfileFields nat | ProfileDuplicate nat | ProfileMixed nat
  | ProfileOAuth nat oauth_error | CredentialIncomplete nat nat | HeaderUnsafe nat nat
  | CredentialSource nat nat source_error | UnknownProfile nat string | OAuthWithoutHttp nat string
  | TrustUnreadable | TrustMissing | TrustMalformed | TrustDocuments

definition project_root_var :: string where "project_root_var = ''${projectRoot}''"

definition safe_name :: "string \<Rightarrow> bool" where
  "safe_name v \<longleftrightarrow> \<not> (v = [] \<or> v = ''.'' \<or> v = ''..'') \<and> list_all profile_char v"

definition count_source :: "credential_source \<Rightarrow> nat" where
  "count_source s = (if cs_env s \<noteq> None then 1 else 0) + (if cs_dotenv s \<noteq> None then 1 else 0)
     + (if cs_keychain s \<noteq> None then 1 else 0) + (if cs_helper s \<noteq> None then 1 else 0)"

definition validate_source :: "nat \<Rightarrow> credential_source \<Rightarrow> (source_error, unit) result" where
  "validate_source i s =
     (if cs_env s = Some [] then Inl (EnvKeyMissing i)
      else if (case cs_dotenv s of Some (p, k) \<Rightarrow> p = [] \<or> k = [] | None \<Rightarrow> False) then Inl (DotenvIncomplete i)
      else if (case cs_keychain s of Some (v, a) \<Rightarrow> v = [] \<or> a = [] | None \<Rightarrow> False) then Inl (KeychainIncomplete i)
      else if (case cs_helper s of Some h \<Rightarrow> \<not> is_abs (hs_command h) | None \<Rightarrow> False) then Inl (HelperNotAbsolute i)
      else if count_source s \<noteq> 1 then Inl (NotOneSource i) else Inr ())"

definition validate_sources :: "credential_source list \<Rightarrow> (source_error, unit) result" where
  "validate_sources sources = check_each validate_source 0 sources"

definition source_groups :: "oauth_profile \<Rightarrow> credential_source list list" where
  "source_groups p = [oa_client_secret p, oa_private_key p, oa_identity_assertion p, oa_idp_secret p, oa_subject_token p]"

definition oauth_type_error :: "oauth_profile \<Rightarrow> oauth_error option" where
  "oauth_type_error p =
     (if oa_type p = ''client-credentials'' then
        (if oa_client_id p = [] then Some OAuthClientMissing
         else if oa_auth_method p = ''private_key_jwt'' \<and> oa_private_key p = [] then Some OAuthKeyMissing
         else if oa_auth_method p \<noteq> ''private_key_jwt'' \<and> oa_client_secret p = [] then Some OAuthSecretMissing
         else if oa_auth_method p \<notin> {[], ''client_secret_post'', ''client_secret_basic'', ''private_key_jwt''}
         then Some OAuthMethodUnsupported else None)
      else if oa_type p = ''enterprise-managed'' then
        (if oa_idp_endpoint p = [] \<or> oa_identity_assertion p = [] \<or> oa_resource_client p = []
         then Some OAuthEnterpriseIncomplete else None)
      else if oa_type p = ''authorization-code'' then
        (if oa_client_id p = [] \<and> \<not> oa_dynamic p \<or> oa_redirect p = [] then Some OAuthCodeIncomplete else None)
      else if oa_type p = ''workload-token-exchange'' then
        (if oa_subject_token p = [] \<or> oa_workload_type p = [] then Some OAuthExchangeIncomplete else None)
      else Some (OAuthTypeUnsupported (oa_type p)))"

definition validate_oauth_profile :: "oauth_profile \<Rightarrow> (oauth_error, unit) result" where
  "validate_oauth_profile p =
     (if oa_metadata_url p = [] \<or> oa_resource p = [] then Inl OAuthResourceMissing
      else (case oauth_type_error p of
              Some e \<Rightarrow> Inl e
            | None \<Rightarrow> check_each (\<lambda>i sources. map_sum (OAuthSource i) id (validate_sources sources)) 0 (source_groups p)))"

definition validate_registry_source :: "trust_config \<Rightarrow> nat \<Rightarrow> registry_source \<Rightarrow> (trust_invalid, unit) result" where
  "validate_registry_source c i s =
     (if \<not> safe_name (rs_name s) \<or> rs_type s \<noteq> ''registry-api'' \<or> rs_base_url s = [] then Inl (SourceFields i)
      else if rs_name s \<in> set (map rs_name (take i (tc_sources c))) then Inl (SourceDuplicate i) else Inr ())"

definition trusted_key :: "trusted_server \<Rightarrow> string" where
  "trusted_key s = tv_server s @ [CHR 0x00] @ tv_version s"

definition validate_trusted_http :: "(string \<Rightarrow> parsed_url option) \<Rightarrow> nat \<Rightarrow> trusted_server \<Rightarrow> trusted_http
  \<Rightarrow> (trust_invalid, unit) result" where
  "validate_trusted_http parse i s h =
     (case new_http_factory parse [\<lparr>hc_name = tv_server s, hc_version = tv_version s, hc_endpoint = hx_endpoint h,
              hc_headers = [], hc_timeout = 0, hc_caching = False, hc_partition = []\<rparr>] of
        Inl e \<Rightarrow> Inl (HttpInvalid i e)
      | Inr _ \<Rightarrow>
          (case hx_mtls h of
             None \<Rightarrow> Inr ()
           | Some m \<Rightarrow>
               (if ml_certificate m = [] \<or> ml_private_key m = [] then Inl (MtlsIncomplete i)
                else bind_res (map_sum (MtlsSource i) id (validate_sources (ml_certificate m))) (\<lambda>_.
                       map_sum (MtlsSource i) id (validate_sources (ml_private_key m))))))"

definition validate_trusted_server :: "(string \<Rightarrow> parsed_url option) \<Rightarrow> trust_config \<Rightarrow> nat \<Rightarrow> trusted_server
  \<Rightarrow> (trust_invalid, unit) result" where
  "validate_trusted_server parse c i s =
     (if tv_server s = [] \<or> tv_version s = [] then Inl (ServerFields i)
      else if contains_any (tv_version s) range_chars then Inl (ServerRange i)
      else if trusted_key s \<in> set (map trusted_key (take i (tc_servers c))) then Inl (ServerDuplicate i)
      else if (tv_stdio s = None) = (tv_http s = None) then Inl (ServerTransport i)
      else if (case tv_stdio s of Some x \<Rightarrow> \<not> is_abs (sx_command x) | None \<Rightarrow> False) then Inl (StdioCommand i)
      else if (case tv_stdio s of None \<Rightarrow> False
               | Some x \<Rightarrow> sx_directory x \<noteq> [] \<and> \<not> is_abs (sx_directory x) \<and> \<not> has_prefix (sx_directory x) project_root_var)
      then Inl (StdioDirectory i)
      else bind_res (case tv_http s of None \<Rightarrow> Inr () | Some h \<Rightarrow> validate_trusted_http parse i s h) (\<lambda>_.
             check (list_all (\<lambda>p. p = project_root_var \<or> is_abs p) (tv_projects s)) (ProjectRelative i)))"

definition validate_credential :: "nat \<Rightarrow> nat \<Rightarrow> credential \<Rightarrow> (trust_invalid, unit) result" where
  "validate_credential i j c =
     (if ce_slot c = [] \<or> ce_sources c = [] \<or> ce_stdio_env c = [] \<and> ce_http_header c = None
      then Inl (CredentialIncomplete i j)
      else if (case ce_http_header c of None \<Rightarrow> False
               | Some (n, f) \<Rightarrow> n = [] \<or> contains_any n [cr, nl, CHR '':''] \<or> \<not> str_contains f ''${value}'')
      then Inl (HeaderUnsafe i j)
      else map_sum (CredentialSource i j) id (validate_sources (ce_sources c)))"

definition validate_profile :: "trust_config \<Rightarrow> nat \<Rightarrow> credential_profile \<Rightarrow> (trust_invalid, unit) result" where
  "validate_profile c i p =
     (if cf_name p = [] \<or> cf_service p = [] then Inl (ProfileFields i)
      else if cf_name p \<in> set (map cf_name (take i (tc_profiles c))) then Inl (ProfileDuplicate i)
      else if cf_oauth p \<noteq> None \<and> cf_credentials p \<noteq> [] then Inl (ProfileMixed i)
      else bind_res (case cf_oauth p of None \<Rightarrow> Inr ()
                     | Some o1 \<Rightarrow> map_sum (ProfileOAuth i) id (validate_oauth_profile o1)) (\<lambda>_.
             check_each (validate_credential i) 0 (cf_credentials p)))"

definition find_profile :: "trust_config \<Rightarrow> string \<Rightarrow> credential_profile option" where
  "find_profile c name = List.find (\<lambda>p. cf_name p = name) (tc_profiles c)"

definition validate_server_profile :: "trust_config \<Rightarrow> nat \<Rightarrow> trusted_server \<Rightarrow> string \<Rightarrow> (trust_invalid, unit) result" where
  "validate_server_profile c i s name =
     (case find_profile c name of
        None \<Rightarrow> Inl (UnknownProfile i name)
      | Some p \<Rightarrow> if cf_oauth p \<noteq> None \<and> tv_http s = None then Inl (OAuthWithoutHttp i name) else Inr ())"

definition validate_trust :: "(string \<Rightarrow> parsed_url option) \<Rightarrow> trust_config \<Rightarrow> (trust_invalid, unit) result" where
  "validate_trust parse c =
     (if tc_version c \<noteq> trust_config_version then Inl TrustVersion
      else if (case tc_telemetry c of Some (on, path) \<Rightarrow> on \<and> \<not> is_abs path | None \<Rightarrow> False) then Inl TelemetryPath
      else if (case tc_oauth_store c of Some s \<Rightarrow> \<not> is_abs (ts_key_path s) \<or> \<not> is_abs (ts_dir s) | None \<Rightarrow> False)
      then Inl OAuthStorePaths
      else bind_res (check_each (validate_registry_source c) 0 (tc_sources c)) (\<lambda>_.
           bind_res (check_each (validate_trusted_server parse c) 0 (tc_servers c)) (\<lambda>_.
           bind_res (check_each (validate_profile c) 0 (tc_profiles c)) (\<lambda>_.
             check_each (\<lambda>i s. check_each (\<lambda>_. validate_server_profile c i s) 0 (tv_profiles s)) 0 (tc_servers c)))))"

section \<open>Loading\<close>

datatype file_error = NotExist | FileError string

text \<open>\<open>next\<close> decodes the next document strictly (\<^verbatim>\<open>KnownFields\<close>).\<close>

definition load_trust :: "(string \<Rightarrow> parsed_url option) \<Rightarrow> (string \<Rightarrow> trust_config decoded) \<Rightarrow> (string \<Rightarrow> (file_error, string) result)
  \<Rightarrow> string \<Rightarrow> (trust_invalid, trust_config) result" where
  "load_trust parse next_doc readfile path =
     (case readfile path of
        Inl NotExist \<Rightarrow> Inl TrustMissing
      | Inl (FileError e) \<Rightarrow> Inl TrustUnreadable
      | Inr data \<Rightarrow>
          (case next_doc data of
             EndOfStream \<Rightarrow> Inl TrustMalformed
           | Malformed \<Rightarrow> Inl TrustMalformed
           | Document c rest \<Rightarrow>
               (if next_doc rest \<noteq> EndOfStream then Inl TrustDocuments
                else map_sum id (\<lambda>_. c) (validate_trust parse c))))"

definition empty_trust :: trust_config where
  "empty_trust = \<lparr>tc_version = trust_config_version, tc_servers = [], tc_profiles = [], tc_telemetry = None,
     tc_sources = [], tc_oauth_store = None\<rparr>"

text \<open>\<open>path_env\<close> is the value of the environment variable, \<open>config_dir\<close> the user's configuration directory.\<close>

definition load_configured :: "(string \<Rightarrow> parsed_url option) \<Rightarrow> (string \<Rightarrow> trust_config decoded)
  \<Rightarrow> (string \<Rightarrow> (file_error, string) result) \<Rightarrow> string \<Rightarrow> string option \<Rightarrow> (trust_invalid, trust_config \<times> string) result" where
  "load_configured parse next_doc readfile path_env config_dir =
     (let explicit = trim_space path_env
      in if explicit \<noteq> [] then map_sum id (\<lambda>c. (c, explicit)) (load_trust parse next_doc readfile explicit)
         else (case config_dir of
                 None \<Rightarrow> Inl TrustUnreadable
               | Some base \<Rightarrow>
                   (let path = path_join [base, ''skillex'', ''mcp-trust.yaml'']
                    in case load_trust parse next_doc readfile path of
                         Inl TrustMissing \<Rightarrow> Inr (empty_trust, path)
                       | r \<Rightarrow> map_sum id (\<lambda>c. (c, path)) r)))"

section \<open>Lookups\<close>

definition find_registry_source :: "trust_config \<Rightarrow> string \<Rightarrow> registry_source option" where
  "find_registry_source c name = List.find (\<lambda>s. rs_name s = name) (tc_sources c)"

definition find_server :: "trust_config \<Rightarrow> string \<Rightarrow> string \<Rightarrow> trusted_server option" where
  "find_server c name version = List.find (\<lambda>s. tv_server s = name \<and> tv_version s = version) (tc_servers c)"

lemma find_server_Some:
  "find_server c n v = Some s \<Longrightarrow> s \<in> set (tc_servers c) \<and> tv_server s = n \<and> tv_version s = v"
  unfolding find_server_def by (drule find_Some_iff') simp

lemma find_profile_Some: "find_profile c n = Some p \<Longrightarrow> p \<in> set (tc_profiles c) \<and> cf_name p = n"
  unfolding find_profile_def by (drule find_Some_iff') simp

end
