(* ===== verification/TrustResolve.thy ===== *)
theory TrustResolve
  imports Trust
begin

text \<open>
  internal/trust/config.go, second part: resolving credential sources, project confinement, and
  the launch configurations of a selected capability.

  The process environment, the file system as the resolution reads it, helper processes and the
  platform are fields of \<open>trust_env\<close>.  Every function that resolves credentials also returns what it
  accessed, in order: environment variables looked up, files opened, helpers run.
\<close>

section \<open>Environment and accesses\<close>

datatype helper_run = HelperTimedOut | HelperFailed | HelperDone string

record trust_env =
  ev_lookup :: "string \<Rightarrow> string option"
  ev_eval :: "string \<Rightarrow> (file_error, string) result"
  ev_read :: "string \<Rightarrow> (file_error, string) result"
  ev_run :: "string \<Rightarrow> string list \<Rightarrow> int \<Rightarrow> helper_run"
  ev_goos :: string
  ev_secret_tool :: "string option"
  ev_cwd :: string
  ev_config_dir :: "string option"
  ev_keypair :: "string \<Rightarrow> string \<Rightarrow> bool"

datatype access = ReadEnv string | OpenedFile string | RanHelper string "string list"

datatype trust_error =
    ServerUntrusted | ProjectUntrusted | ProfileUntrusted | CredentialMissing string
  | SourceFile file_error | PathTemplate | PathRelative | PathOutside
  | DotenvTooLarge | DotenvLineTooLong | HelperTimeout | HelperExited | KeychainUnsupported
  | NotStdio | NotHttp | OAuthNeedsHttp | NoStdioInjection string | NoHeaderInjection string
  | BadCertificate | OAuthFailed auth_error | NotAuthorizationCode | ConfidentialLogin

type_synonym 'a traced = "access list \<times> (trust_error, 'a) result"

definition tbind :: "'a traced \<Rightarrow> ('a \<Rightarrow> 'b traced) \<Rightarrow> 'b traced" where
  "tbind m k = (case snd m of Inl e \<Rightarrow> (fst m, Inl e) | Inr x \<Rightarrow> (fst m @ fst (k x), snd (k x)))"

definition tpure :: "(trust_error, 'a) result \<Rightarrow> 'a traced" where
  "tpure r = ([], r)"

lemma tbind_Ok_iff: "snd (tbind m k) = Inr y \<longleftrightarrow> (\<exists>x. snd m = Inr x \<and> snd (k x) = Inr y)"
  by (auto simp: tbind_def split: sum.split)

lemma tbind_log: "a \<in> set (fst (tbind m k)) \<Longrightarrow> a \<in> set (fst m) \<or> (\<exists>x. snd m = Inr x \<and> a \<in> set (fst (k x)))"
  by (auto simp: tbind_def split: sum.splits)

lemma tpure_simps [simp]: "fst (tpure r) = []" "snd (tpure r) = r"
  by (simp_all add: tpure_def)

section \<open>Project paths\<close>

text \<open>\<^verbatim>\<open>filepath.Abs\<close>\<close>

definition path_abs :: "string \<Rightarrow> string \<Rightarrow> string" where
  "path_abs cwd p = (if is_abs p then path_clean p else path_join [cwd, p])"

definition project_allowed :: "trust_env \<Rightarrow> trusted_server \<Rightarrow> string \<Rightarrow> bool" where
  "project_allowed env s root =
     (let r = path_clean (path_abs (ev_cwd env) root)
      in list_ex (\<lambda>a. a = project_root_var \<or> path_clean (path_abs (ev_cwd env) a) = r) (tv_projects s))"

definition expand_project_path :: "trust_env \<Rightarrow> string \<Rightarrow> string \<Rightarrow> bool \<Rightarrow> (trust_error, string) result" where
  "expand_project_path env v root confine =
     (if v = [] then Inr []
      else if str_contains (replace_all v project_root_var []) ''${'' then Inl PathTemplate
      else (let expanded = replace_all v project_root_var root
            in if \<not> is_abs expanded then Inl PathRelative
               else if \<not> confine \<or> \<not> str_contains v project_root_var then Inr (path_clean expanded)
               else (case ev_eval env root of
                       Inl e \<Rightarrow> Inl (SourceFile e)
                     | Inr root_resolved \<Rightarrow>
                         (case ev_eval env expanded of
                            Inl e \<Rightarrow> Inl (SourceFile e)
                          | Inr resolved \<Rightarrow>
                              (case path_rel root_resolved resolved of
                                 None \<Rightarrow> Inl PathOutside
                               | Some rel \<Rightarrow> if stays_inside rel then Inr resolved else Inl PathOutside)))))"

section \<open>Sources\<close>

definition max_dotenv_size :: nat where "max_dotenv_size = 1024 * 1024"

definition unquote :: "string \<Rightarrow> string" where
  "unquote v =
     (if length v \<ge> 2 \<and> (hd v = CHR 0x27 \<and> last v = CHR 0x27 \<or> hd v = CHR 0x22 \<and> last v = CHR 0x22)
      then butlast (tl v) else v)"

text \<open>The scanner's lines; a line of 64 KiB or more does not fit its buffer.\<close>

fun dotenv_find :: "string \<Rightarrow> string list \<Rightarrow> (trust_error, string option) result" where
  "dotenv_find key [] = Inr None"
| "dotenv_find key (l # ls) =
     (if 64 * 1024 \<le> length l then Inl DotenvLineTooLong
      else (let line = trim_space l
            in if line = [] \<or> has_prefix line ''#'' then dotenv_find key ls
               else (case str_cut (CHR ''='') (trim_space (trim_prefix line ''export '')) of
                       (name, v, ok) \<Rightarrow>
                         (if \<not> ok \<or> trim_space name \<noteq> key then dotenv_find key ls
                          else Inr (Some (unquote (trim_space v)))))))"

definition read_dotenv :: "trust_env \<Rightarrow> string \<Rightarrow> string \<Rightarrow> string option traced" where
  "read_dotenv env path key =
     ([OpenedFile path],
      case ev_read env path of
        Inl e \<Rightarrow> Inl (SourceFile e)
      | Inr data \<Rightarrow>
          (if length data > max_dotenv_size then Inl DotenvTooLarge else dotenv_find key (split_on nl data)))"

definition max_credential_output :: nat where "max_credential_output = 64 * 1024"

definition helper_timeout :: "int \<Rightarrow> int" where
  "helper_timeout ms = (let t = wrap64 (ms * 1000000) in if t \<le> 0 then 5000000000 else t)"

definition resolve_helper :: "trust_env \<Rightarrow> helper_source \<Rightarrow> string option traced" where
  "resolve_helper env h =
     ([RanHelper (hs_command h) (hs_args h)],
      case ev_run env (hs_command h) (hs_args h) (helper_timeout (hs_timeout_ms h)) of
        HelperTimedOut \<Rightarrow> Inl HelperTimeout
      | HelperFailed \<Rightarrow> Inl HelperExited
      | HelperDone out \<Rightarrow>
          (if length out > max_credential_output then Inl HelperExited
           else (let v = trim_space out in Inr (if v = [] then None else Some v))))"

text \<open>
  On Linux \<^verbatim>\<open>exec.LookPath\<close> searches the directories of PATH for secret-tool;
  \<open>ev_secret_tool\<close> is what it finds.  The search looks at file names only and is not recorded as
  an access.
\<close>

definition keychain_helper :: "trust_env \<Rightarrow> string \<Rightarrow> string \<Rightarrow> (trust_error, helper_source option) result" where
  "keychain_helper env service account =
     (if ev_goos env = ''darwin'' then
        Inr (Some \<lparr>hs_command = ''/usr/bin/security'',
          hs_args = [''find-generic-password'', ''-w'', ''-s'', service, ''-a'', account], hs_timeout_ms = 0\<rparr>)
      else if ev_goos env = ''linux'' then
        Inr (map_option (\<lambda>p. \<lparr>hs_command = p, hs_args = [''lookup'', ''service'', service, ''account'', account],
               hs_timeout_ms = 0\<rparr>) (ev_secret_tool env))
      else Inl KeychainUnsupported)"

definition resolve_keychain :: "trust_env \<Rightarrow> string \<times> string \<Rightarrow> string option traced" where
  "resolve_keychain env source =
     (case keychain_helper env (fst source) (snd source) of
        Inl e \<Rightarrow> tpure (Inl e)
      | Inr None \<Rightarrow> tpure (Inr None)
      | Inr (Some h) \<Rightarrow>
          (case resolve_helper env h of
             (log, Inl HelperExited) \<Rightarrow> (log, Inr None)
           | r \<Rightarrow> r))"

text \<open>One source: \<^const>\<open>None\<close> when it has no value and the next one is tried.\<close>

definition resolve_source :: "trust_env \<Rightarrow> string \<Rightarrow> credential_source \<Rightarrow> string option traced" where
  "resolve_source env root s =
     (case cs_env s of
        Some key \<Rightarrow> ([ReadEnv key], Inr (ev_lookup env key))
      | None \<Rightarrow>
     (case cs_dotenv s of
        Some (path, key) \<Rightarrow>
          tbind (tpure (expand_project_path env path root True)) (\<lambda>p.
            case read_dotenv env p key of
              (log, Inl (SourceFile NotExist)) \<Rightarrow> (log, Inr None)
            | r \<Rightarrow> r)
      | None \<Rightarrow>
     (case cs_keychain s of
        Some k \<Rightarrow> resolve_keychain env k
      | None \<Rightarrow>
     (case cs_helper s of
        Some h \<Rightarrow> resolve_helper env h
      | None \<Rightarrow> tpure (Inr None)))))"

fun resolve_sources :: "trust_env \<Rightarrow> string \<Rightarrow> credential_source list \<Rightarrow> string option traced" where
  "resolve_sources env root [] = tpure (Inr None)"
| "resolve_sources env root (s # ss) =
     tbind (resolve_source env root s) (\<lambda>v. case v of Some x \<Rightarrow> tpure (Inr (Some x)) | None \<Rightarrow> resolve_sources env root ss)"

section \<open>Credentials of a selected capability\<close>

definition needed :: "string \<Rightarrow> string option \<Rightarrow> string traced" where
  "needed slot v = tpure (case v of Some x \<Rightarrow> Inr x | None \<Rightarrow> Inl (CredentialMissing slot))"

fun slot_values :: "trust_env \<Rightarrow> string \<Rightarrow> credential list \<Rightarrow> string list traced" where
  "slot_values env root [] = tpure (Inr [])"
| "slot_values env root (c # cs) =
     tbind (resolve_sources env root (ce_sources c)) (\<lambda>r.
     tbind (needed (ce_slot c) r) (\<lambda>v.
     tbind (slot_values env root cs) (\<lambda>vs. tpure (Inr (v # vs)))))"

definition server_of :: "trust_config \<Rightarrow> capability \<Rightarrow> trusted_server option" where
  "server_of c sel = find_server c (server_name sel) (server_ver sel)"

definition credential_values :: "trust_env \<Rightarrow> trust_config \<Rightarrow> capability \<Rightarrow> string \<Rightarrow> string list traced" where
  "credential_values env c sel root =
     (if auth_profile sel = [] then tpure (Inr [])
      else (case server_of c sel of
              None \<Rightarrow> tpure (Inl ProfileUntrusted)
            | Some s \<Rightarrow>
                (if auth_profile sel \<notin> set (tv_profiles s) then tpure (Inl ProfileUntrusted)
                 else (case find_profile c (auth_profile sel) of
                         None \<Rightarrow> tpure (Inl ProfileUntrusted)
                       | Some p \<Rightarrow>
                           (if cf_service p \<noteq> server_name sel then tpure (Inl ProfileUntrusted)
                            else slot_values env root (cf_credentials p))))))"

text \<open>All groups must have a value.\<close>

fun groups_present :: "trust_env \<Rightarrow> string \<Rightarrow> credential_source list list \<Rightarrow> unit traced" where
  "groups_present env root [] = tpure (Inr ())"
| "groups_present env root (g # gs) =
     tbind (resolve_sources env root g) (\<lambda>r.
       if r = None then tpure (Inl (CredentialMissing [])) else groups_present env root gs)"

definition mtls_sources_present :: "trust_env \<Rightarrow> string \<Rightarrow> mtls_config \<Rightarrow> unit traced" where
  "mtls_sources_present env root m = groups_present env root [ml_certificate m, ml_private_key m]"

definition token_store_of :: "trust_env \<Rightarrow> trust_config \<Rightarrow> token_store" where
  "token_store_of env c =
     (case tc_oauth_store c of
        Some s \<Rightarrow> s
      | None \<Rightarrow>
          (case ev_config_dir env of
             None \<Rightarrow> \<lparr>ts_key_path = [], ts_dir = []\<rparr>
           | Some d \<Rightarrow>
               (let base = path_join [d, ''skillex'']
                in \<lparr>ts_key_path = path_join [base, ''oauth.key''], ts_dir = path_join [base, ''tokens'']\<rparr>)))"

definition oauth_groups :: "oauth_profile \<Rightarrow> credential_source list list" where
  "oauth_groups p =
     (if oa_type p = ''client-credentials'' then
        [if oa_auth_method p = ''private_key_jwt'' then oa_private_key p else oa_client_secret p]
      else if oa_type p = ''enterprise-managed'' then
        oa_identity_assertion p # (if oa_idp_secret p = [] then [] else [oa_idp_secret p])
      else if oa_type p = ''workload-token-exchange'' then [oa_subject_token p]
      else [])"

definition token_leeway :: int where "token_leeway = 30 * 1000000000"

text \<open>The presence of a login: \<^verbatim>\<open>os.ErrNotExist\<close> of the key or the record means none.\<close>

definition login_present :: "int \<Rightarrow> (auth_error, auth_token) result \<Rightarrow> (trust_error, unit) result" where
  "login_present now r =
     (case r of
        Inl e \<Rightarrow> Inl (OAuthFailed (if e = StoreMissing then LoginRequired else e))
      | Inr t \<Rightarrow>
          (if \<not> valid_for now token_leeway t \<and> \<not> can_refresh t then Inl (OAuthFailed LoginRequired) else Inr ()))"

definition credentials_present :: "trust_env \<Rightarrow> store_lib \<Rightarrow> file_system \<Rightarrow> int \<Rightarrow> trust_config \<Rightarrow> capability \<Rightarrow> string
  \<Rightarrow> unit traced" where
  "credentials_present env slib fs now c sel root =
     (if auth_profile sel = [] then tpure (Inr ())
      else (case find_profile c (auth_profile sel) of
              None \<Rightarrow> tpure (Inl ProfileUntrusted)
            | Some p \<Rightarrow>
                (if cf_service p \<noteq> server_name sel then tpure (Inl ProfileUntrusted)
                 else (case cf_oauth p of
                         None \<Rightarrow> tbind (credential_values env c sel root) (\<lambda>_. tpure (Inr ()))
                       | Some o1 \<Rightarrow>
                           (if oa_type o1 = ''authorization-code''
                            then tpure (login_present now (load_token slib (token_store_of env c) (cf_name p) fs))
                            else groups_present env root (oauth_groups o1))))))"

definition availability_of :: "(trust_error, unit) result \<Rightarrow> availability_status" where
  "availability_of r =
     (case r of
        Inr _ \<Rightarrow> av_ready
      | Inl (CredentialMissing _) \<Rightarrow> av_credential_missing
      | Inl (OAuthFailed LoginRequired) \<Rightarrow> av_login_required
      | Inl _ \<Rightarrow> av_setup_required)"

definition trust_ready :: "trust_env \<Rightarrow> store_lib \<Rightarrow> file_system \<Rightarrow> int \<Rightarrow> trust_config \<Rightarrow> capability \<Rightarrow> string
  \<Rightarrow> access list \<times> availability_status" where
  "trust_ready env slib fs now c sel root =
     (case server_of c sel of
        None \<Rightarrow> ([], av_setup_required)
      | Some s \<Rightarrow>
          (if \<not> project_allowed env s root then ([], av_setup_required)
           else (case (case tv_http s of
                         Some h \<Rightarrow> (case hx_mtls h of Some m \<Rightarrow> mtls_sources_present env root m | None \<Rightarrow> tpure (Inr ()))
                       | None \<Rightarrow> tpure (Inr ())) of
                   (log, Inl e) \<Rightarrow>
                     (log, case e of CredentialMissing _ \<Rightarrow> av_credential_missing | _ \<Rightarrow> av_setup_required)
                 | (log, Inr _) \<Rightarrow>
                     (if auth_profile sel = [] then (log, av_ready)
                      else if auth_profile sel \<notin> set (tv_profiles s) then (log, av_policy_denied)
                      else (case credentials_present env slib fs now c sel root of
                              (log', r) \<Rightarrow> (log @ log', availability_of r))))))"

section \<open>Launch configurations\<close>

text \<open>The profile found, or the zero profile: \<^verbatim>\<open>profile, _ := c.FindProfile(...)\<close>.\<close>

definition profile_credentials :: "trust_config \<Rightarrow> capability \<Rightarrow> credential list" where
  "profile_credentials c sel = (case find_profile c (auth_profile sel) of Some p \<Rightarrow> cf_credentials p | None \<Rightarrow> [])"

definition profile_oauth :: "trust_config \<Rightarrow> capability \<Rightarrow> oauth_profile option" where
  "profile_oauth c sel = (case find_profile c (auth_profile sel) of Some p \<Rightarrow> cf_oauth p | None \<Rightarrow> None)"

fun inject_env :: "credential list \<Rightarrow> string list \<Rightarrow> (trust_error, string list) result" where
  "inject_env (c # cs) (v # vs) =
     (if ce_stdio_env c = [] then Inl (NoStdioInjection (ce_slot c))
      else map_sum id ((#) (ce_stdio_env c @ ''='' @ v)) (inject_env cs vs))"
| "inject_env _ _ = Inr []"

definition trusted_stdio_config :: "trust_env \<Rightarrow> trust_config \<Rightarrow> capability \<Rightarrow> string \<Rightarrow> stdio_config traced" where
  "trusted_stdio_config env c sel root =
     (case server_of c sel of
        None \<Rightarrow> tpure (Inl ServerUntrusted)
      | Some s \<Rightarrow>
          (if \<not> project_allowed env s root then tpure (Inl ProjectUntrusted)
           else tbind (credential_values env c sel root) (\<lambda>vs.
             case tv_stdio s of
               None \<Rightarrow> tpure (Inl NotStdio)
             | Some x \<Rightarrow>
                 (if profile_oauth c sel \<noteq> None then tpure (Inl OAuthNeedsHttp)
                  else tbind (tpure (inject_env (profile_credentials c sel) vs)) (\<lambda>environment.
                       tbind (tpure (expand_project_path env (sx_directory x) root False)) (\<lambda>directory.
                         tpure (Inr \<lparr>sc_name = server_name sel, sc_version = server_ver sel, sc_command = sx_command x,
                           sc_args = sx_args x, sc_directory = directory, sc_environment = environment,
                           sc_startup_timeout = wrap64 (sx_timeout_ms x * 1000000)\<rparr>)))))))"

fun inject_headers :: "credential list \<Rightarrow> string list \<Rightarrow> (string \<times> string) list \<Rightarrow> (trust_error, (string \<times> string) list) result" where
  "inject_headers (c # cs) (v # vs) hs =
     (case ce_http_header c of
        None \<Rightarrow> Inl (NoHeaderInjection (ce_slot c))
      | Some (n, format) \<Rightarrow> inject_headers cs vs (put_by fst (n, replace_all format ''${value}'' v) hs))"
| "inject_headers _ _ hs = Inr hs"

text \<open>The client certificate: PEM texts and server name, as the HTTP client is built from them.\<close>

definition client_certificate :: "trust_env \<Rightarrow> string \<Rightarrow> mtls_config \<Rightarrow> (string \<times> string \<times> string) traced" where
  "client_certificate env root m =
     (case resolve_sources env root (ml_certificate m) of
        (log, Inr (Some cert)) \<Rightarrow>
          (case resolve_sources env root (ml_private_key m) of
             (log', Inr (Some key)) \<Rightarrow>
               (log @ log', if ev_keypair env cert key then Inr (cert, key, ml_server_name m) else Inl BadCertificate)
           | (log', _) \<Rightarrow> (log @ log', Inl (CredentialMissing [])))
      | (log, _) \<Rightarrow> (log, Inl (CredentialMissing [])))"

end
