(* ===== verification/TrustOAuth.thy ===== *)
theory TrustOAuth
  imports TrustResolve
begin

text \<open>
  internal/trust/config.go, third part: the OAuth token of a profile (cached, stored, refreshed or
  newly acquired), the login operations, and the launch configuration over HTTP.  The state is
  the configuration's token cache, the file system of the token store, the network and the accesses
  made to resolve credentials.
\<close>

section \<open>State\<close>

record 'n trust_state =
  tn_tokens :: "string \<Rightarrow> auth_token option"
  tn_fs :: file_system
  tn_auth :: "'n auth_state"
  tn_log :: "access list"

type_synonym ('n, 'a) trust_step = "'n trust_state \<Rightarrow> 'n trust_state \<times> (trust_error, 'a) result"

text \<open>What an operation reads from clock and random source.\<close>

record trust_inputs =
  ri_now :: int
  ri_jti :: string
  ri_verifier :: string
  ri_state :: string
  ri_key :: string
  ri_nonce :: string

record 'n trust_world =
  tw_env :: trust_env
  tw_auth :: auth_lib
  tw_store :: store_lib
  tw_net :: "'n auth_network"

definition sbind :: "('n, 'a) trust_step \<Rightarrow> ('a \<Rightarrow> ('n, 'b) trust_step) \<Rightarrow> ('n, 'b) trust_step" where
  "sbind m k st = (case m st of (st', Inl e) \<Rightarrow> (st', Inl e) | (st', Inr x) \<Rightarrow> k x st')"

definition spure :: "(trust_error, 'a) result \<Rightarrow> ('n, 'a) trust_step" where
  "spure r st = (st, r)"

definition on_auth :: "('n auth_state \<Rightarrow> 'n auth_state \<times> (auth_error, 'a) result) \<Rightarrow> ('n, 'a) trust_step" where
  "on_auth f st = (case f (tn_auth st) of (a, r) \<Rightarrow> (st\<lparr>tn_auth := a\<rparr>, map_sum OAuthFailed id r))"

definition on_files :: "(file_system \<Rightarrow> file_system \<times> (auth_error, 'a) result) \<Rightarrow> ('n, 'a) trust_step" where
  "on_files f st = (case f (tn_fs st) of (fs, r) \<Rightarrow> (st\<lparr>tn_fs := fs\<rparr>, map_sum OAuthFailed id r))"

definition resolving :: "'a traced \<Rightarrow> ('n, 'a) trust_step" where
  "resolving t st = (st\<lparr>tn_log := tn_log st @ fst t\<rparr>, snd t)"

text \<open>\<^verbatim>\<open>if err != nil || !present { return ErrCredentialMissing }\<close>\<close>

definition required :: "'a option traced \<Rightarrow> 'a traced" where
  "required t = (fst t, case snd t of Inr (Some v) \<Rightarrow> Inr v | _ \<Rightarrow> Inl (CredentialMissing []))"

definition remember :: "string \<Rightarrow> auth_token \<Rightarrow> ('n, auth_token) trust_step" where
  "remember name t st = (st\<lparr>tn_tokens := (tn_tokens st)(name := Some t)\<rparr>, Inr t)"

section \<open>Client registration\<close>

definition resolve_client_registration :: "'n trust_world \<Rightarrow> trust_inputs \<Rightarrow> trust_config \<Rightarrow> string \<Rightarrow> oauth_profile
  \<Rightarrow> auth_metadata \<Rightarrow> ('n, client_registration) trust_step" where
  "resolve_client_registration w ri c name o1 m =
     (if oa_client_id o1 \<noteq> [] then
        (if is_url_client (tw_auth w) (oa_client_id o1)
         then on_auth (validate_client_document (tw_auth w) (tw_net w) (oa_client_id o1) (oa_redirect o1))
         else spure (Inr \<lparr>cr_client_id = oa_client_id o1, cr_secret = [], cr_method = oa_auth_method o1\<rparr>))
      else if \<not> oa_dynamic o1 then spure (Inl (OAuthFailed RegistrationInvalid))
      else (\<lambda>st. case load_registration (tw_store w) (token_store_of (tw_env w) c) name (tn_fs st) of
              Inr reg \<Rightarrow> (st, Inr reg)
            | Inl e \<Rightarrow>
                (if e \<noteq> StoreMissing then (st, Inl (OAuthFailed e))
                 else sbind (on_auth (register_dynamic_client (tw_auth w) (tw_net w) m (oa_client_name o1) (oa_redirect o1) (oa_scopes o1)))
                        (\<lambda>reg. sbind (on_files (save_registration (tw_store w) (ri_key ri) (ri_nonce ri)
                                   (token_store_of (tw_env w) c) name reg)) (\<lambda>_. spure (Inr reg))) st)))"

section \<open>Tokens\<close>

definition client_credentials_grant :: "'n trust_world \<Rightarrow> trust_inputs \<Rightarrow> string \<Rightarrow> oauth_profile \<Rightarrow> auth_metadata
  \<Rightarrow> client_registration \<Rightarrow> ('n, auth_token) trust_step" where
  "client_credentials_grant w ri root o1 m reg =
     (let jwt = (oa_auth_method o1 = ''private_key_jwt'')
      in sbind (resolving (required (resolve_sources (tw_env w) root (if jwt then oa_private_key o1 else oa_client_secret o1)))) (\<lambda>v.
           on_auth (acquire_client_credentials (tw_auth w) (tw_net w) (ri_now ri) (ri_jti ri) m (cr_client_id reg)
             (if jwt then [] else v) (oa_auth_method o1) (oa_scopes o1) (if jwt then v else []) (oa_key_id o1))))"

definition enterprise_grant :: "'n trust_world \<Rightarrow> trust_inputs \<Rightarrow> string \<Rightarrow> oauth_profile \<Rightarrow> auth_metadata
  \<Rightarrow> ('n, auth_token) trust_step" where
  "enterprise_grant w ri root o1 m =
     sbind (resolving (required (resolve_sources (tw_env w) root (oa_identity_assertion o1)))) (\<lambda>assertion.
     sbind (if oa_idp_secret o1 = [] then spure (Inr [])
            else resolving (required (resolve_sources (tw_env w) root (oa_idp_secret o1)))) (\<lambda>secret.
       on_auth (acquire_enterprise_managed (tw_auth w) (tw_net w) (ri_now ri) m
         \<lparr>er_idp_endpoint = oa_idp_endpoint o1, er_assertion = assertion, er_subject_type = oa_subject_type o1,
          er_idp_client = oa_idp_client o1, er_idp_secret = secret, er_resource_client = oa_resource_client o1,
          er_scopes = oa_scopes o1\<rparr>)))"

definition stored_token :: "'n trust_world \<Rightarrow> trust_config \<Rightarrow> string \<Rightarrow> ('n, auth_token) trust_step" where
  "stored_token w c name st =
     (st, case load_token (tw_store w) (token_store_of (tw_env w) c) name (tn_fs st) of
            Inr t \<Rightarrow> Inr t
          | Inl e \<Rightarrow> Inl (OAuthFailed (if e = StoreMissing then LoginRequired else e)))"

definition authorization_code_grant :: "'n trust_world \<Rightarrow> trust_inputs \<Rightarrow> trust_config \<Rightarrow> string \<Rightarrow> auth_metadata
  \<Rightarrow> client_registration \<Rightarrow> ('n, auth_token) trust_step" where
  "authorization_code_grant w ri c name m reg =
     sbind (stored_token w c name) (\<lambda>t.
       if valid_for (ri_now ri) token_leeway t then spure (Inr t)
       else sbind (on_auth (refresh_token (tw_auth w) (tw_net w) (ri_now ri) m (cr_client_id reg) t)) (\<lambda>t'.
            sbind (on_files (save_token (tw_store w) (ri_key ri) (ri_nonce ri) (token_store_of (tw_env w) c) name t')) (\<lambda>_.
              spure (Inr t'))))"

definition exchange_grant :: "'n trust_world \<Rightarrow> trust_inputs \<Rightarrow> string \<Rightarrow> oauth_profile \<Rightarrow> auth_metadata
  \<Rightarrow> ('n, auth_token) trust_step" where
  "exchange_grant w ri root o1 m =
     sbind (resolving (required (resolve_sources (tw_env w) root (oa_subject_token o1)))) (\<lambda>subject.
       on_auth (acquire_token_exchange (tw_auth w) (tw_net w) (ri_now ri) m subject (oa_workload_type o1)
         (oa_client_id o1) (oa_scopes o1)))"

definition zero_token :: auth_token where
  "zero_token = \<lparr>tk_value = [], tk_expires = 0, tk_scopes = [], tk_refresh = []\<rparr>"

definition grant_token :: "'n trust_world \<Rightarrow> trust_inputs \<Rightarrow> trust_config \<Rightarrow> string \<Rightarrow> string \<Rightarrow> oauth_profile \<Rightarrow> auth_metadata
  \<Rightarrow> client_registration \<Rightarrow> ('n, auth_token) trust_step" where
  "grant_token w ri c root name o1 m reg =
     (if oa_type o1 = ''client-credentials'' then client_credentials_grant w ri root o1 m reg
      else if oa_type o1 = ''enterprise-managed'' then enterprise_grant w ri root o1 m
      else if oa_type o1 = ''authorization-code'' then authorization_code_grant w ri c name m reg
      else if oa_type o1 = ''workload-token-exchange'' then exchange_grant w ri root o1 m
      else spure (Inr zero_token))"

definition cached_token :: "int \<Rightarrow> string \<Rightarrow> 'n trust_state \<Rightarrow> auth_token option" where
  "cached_token now name st =
     (case tn_tokens st name of
        Some t \<Rightarrow> if tk_expires t - now > token_leeway then Some t else None
      | None \<Rightarrow> None)"

definition acquire_oauth :: "'n trust_world \<Rightarrow> trust_inputs \<Rightarrow> trust_config \<Rightarrow> string \<Rightarrow> string \<Rightarrow> oauth_profile
  \<Rightarrow> ('n, auth_token) trust_step" where
  "acquire_oauth w ri c root name o1 st =
     (case cached_token (ri_now ri) name st of
        Some t \<Rightarrow> (st, Inr t)
      | None \<Rightarrow>
          sbind (on_auth (auth_discover (tw_auth w) (tw_net w) (oa_metadata_url o1) (oa_resource o1) (oa_issuer o1))) (\<lambda>m.
          sbind (if oa_type o1 \<in> {''client-credentials'', ''authorization-code''}
                 then resolve_client_registration w ri c name o1 m
                 else spure (Inr \<lparr>cr_client_id = oa_client_id o1, cr_secret = [], cr_method = []\<rparr>)) (\<lambda>reg.
          sbind (grant_token w ri c root name o1 m reg) (remember name))) st)"

section \<open>Launch configuration over HTTP\<close>

definition http_headers :: "'n trust_world \<Rightarrow> trust_inputs \<Rightarrow> trust_config \<Rightarrow> capability \<Rightarrow> string
  \<Rightarrow> ('n, (string \<times> string) list) trust_step" where
  "http_headers w ri c sel root =
     (case profile_oauth c sel of
        Some o1 \<Rightarrow> sbind (acquire_oauth w ri c root (auth_profile sel) o1) (\<lambda>t.
                    spure (Inr [(''Authorization'', authorization_header t)]))
      | None \<Rightarrow> sbind (resolving (credential_values (tw_env w) c sel root)) (\<lambda>vs.
                  spure (inject_headers (profile_credentials c sel) vs [])))"

definition trusted_http_config :: "'n trust_world \<Rightarrow> trust_inputs \<Rightarrow> trust_config \<Rightarrow> capability \<Rightarrow> string
  \<Rightarrow> ('n, http_config \<times> (string \<times> string \<times> string) option) trust_step" where
  "trusted_http_config w ri c sel root =
     (case server_of c sel of
        None \<Rightarrow> spure (Inl ServerUntrusted)
      | Some s \<Rightarrow>
          (if \<not> project_allowed (tw_env w) s root then spure (Inl ProjectUntrusted)
           else (case tv_http s of
             None \<Rightarrow> spure (Inl NotHttp)
           | Some h \<Rightarrow>
               sbind (case hx_mtls h of
                        None \<Rightarrow> spure (Inr None)
                      | Some m \<Rightarrow> sbind (resolving (client_certificate (tw_env w) root m)) (\<lambda>k. spure (Inr (Some k)))) (\<lambda>certificate.
               sbind (http_headers w ri c sel root) (\<lambda>hs.
                 spure (Inr (\<lparr>hc_name = server_name sel, hc_version = server_ver sel, hc_endpoint = hx_endpoint h,
                   hc_headers = hs, hc_timeout = wrap64 (hx_timeout_ms h * 1000000), hc_caching = False,
                   hc_partition = []\<rparr>, certificate)))))))"

section \<open>Login\<close>

definition login_profile :: "trust_config \<Rightarrow> string \<Rightarrow> oauth_profile option" where
  "login_profile c name =
     (case find_profile c name of
        None \<Rightarrow> None
      | Some p \<Rightarrow> (case cf_oauth p of
                     None \<Rightarrow> None
                   | Some o1 \<Rightarrow> if oa_type o1 = ''authorization-code'' then Some o1 else None))"

definition start_login :: "'n trust_world \<Rightarrow> trust_inputs \<Rightarrow> trust_config \<Rightarrow> string \<Rightarrow> ('n, string) trust_step" where
  "start_login w ri c name =
     (case login_profile c name of
        None \<Rightarrow> spure (Inl NotAuthorizationCode)
      | Some o1 \<Rightarrow>
          sbind (on_auth (auth_discover (tw_auth w) (tw_net w) (oa_metadata_url o1) (oa_resource o1) (oa_issuer o1))) (\<lambda>m.
          sbind (resolve_client_registration w ri c name o1 m) (\<lambda>reg.
            if cr_method reg \<noteq> [] \<and> cr_method reg \<noteq> ''none'' then spure (Inl ConfidentialLogin)
            else sbind (spure (map_sum OAuthFailed id (start_authorization (tw_auth w) (ri_now ri) (ri_verifier ri) (ri_state ri) m
                          (cr_client_id reg) (oa_redirect o1) (oa_scopes o1)))) (\<lambda>(url, pending).
                 sbind (on_files (save_pending (tw_store w) (ri_key ri) (ri_nonce ri) (token_store_of (tw_env w) c) name pending))
                   (\<lambda>_. spure (Inr url))))))"

definition complete_login :: "'n trust_world \<Rightarrow> trust_inputs \<Rightarrow> trust_config \<Rightarrow> string \<Rightarrow> string \<Rightarrow> ('n, unit) trust_step" where
  "complete_login w ri c name callback =
     (case login_profile c name of
        None \<Rightarrow> spure (Inl NotAuthorizationCode)
      | Some o1 \<Rightarrow>
          sbind (\<lambda>st. (st, map_sum OAuthFailed id (load_pending (tw_store w) (token_store_of (tw_env w) c) name (tn_fs st)))) (\<lambda>pending.
          sbind (on_auth (auth_discover (tw_auth w) (tw_net w) (oa_metadata_url o1) (oa_resource o1) (oa_issuer o1))) (\<lambda>m.
          sbind (on_auth (complete_authorization (tw_auth w) (tw_net w) (ri_now ri) m pending callback)) (\<lambda>t.
          sbind (on_files (save_token (tw_store w) (ri_key ri) (ri_nonce ri) (token_store_of (tw_env w) c) name t)) (\<lambda>_.
          sbind (on_files (delete_pending (token_store_of (tw_env w) c) name)) (\<lambda>_.
          sbind (remember name t) (\<lambda>_. spure (Inr ()))))))))"

end
