(* ===== verification/TrustProps.thy ===== *)
theory TrustProps
  imports TrustOAuth AuthClaims
begin

text \<open>
  Lemmas on internal/trust: what a resolution may access, when the values of a profile resolve, the
  sequencing of the stateful steps.
\<close>

section \<open>Confinement\<close>

lemma expand_confined:
  assumes "expand_project_path env v root True = Inr p" "str_contains v project_root_var" "v \<noteq> []"
  obtains r where "ev_eval env root = Inr r" "below (path_clean r) (path_clean p)"
proof -
  from assms obtain r rel where r: "ev_eval env root = Inr r" and rel: "path_rel r p = Some rel" "stays_inside rel"
    by (auto simp: expand_project_path_def Let_def split: if_splits sum.splits option.splits)
  from path_rel_below[OF rel] r that show ?thesis by blast
qed

section \<open>Accesses\<close>

definition source_permits :: "trust_env \<Rightarrow> string \<Rightarrow> credential_source \<Rightarrow> access \<Rightarrow> bool" where
  "source_permits env root s a =
     (case a of
        ReadEnv key \<Rightarrow> cs_env s = Some key
      | OpenedFile p \<Rightarrow> (case cs_dotenv s of None \<Rightarrow> False | Some (v, key) \<Rightarrow> expand_project_path env v root True = Inr p)
      | RanHelper cmd args \<Rightarrow>
          (case cs_helper s of Some h \<Rightarrow> hs_command h = cmd \<and> hs_args h = args | None \<Rightarrow> False) \<or>
          (case cs_keychain s of None \<Rightarrow> False
           | Some (service, account) \<Rightarrow>
               (case keychain_helper env service account of
                  Inr (Some h) \<Rightarrow> hs_command h = cmd \<and> hs_args h = args | _ \<Rightarrow> False)))"

definition sources_permit :: "trust_env \<Rightarrow> string \<Rightarrow> credential_source list \<Rightarrow> access \<Rightarrow> bool" where
  "sources_permit env root ss a \<longleftrightarrow> list_ex (\<lambda>s. source_permits env root s a) ss"

lemma resolve_helper_log: "fst (resolve_helper env h) = [RanHelper (hs_command h) (hs_args h)]"
  by (simp add: resolve_helper_def)

lemma resolve_keychain_log:
  "a \<in> set (fst (resolve_keychain env k)) \<Longrightarrow>
     \<exists>h. keychain_helper env (fst k) (snd k) = Inr (Some h) \<and> a = RanHelper (hs_command h) (hs_args h)"
proof -
  assume a: "a \<in> set (fst (resolve_keychain env k))"
  then obtain h where h: "keychain_helper env (fst k) (snd k) = Inr (Some h)"
    by (auto simp: resolve_keychain_def split: sum.splits option.splits)
  have "fst (resolve_keychain env k) = fst (resolve_helper env h)"
    using h by (auto simp: resolve_keychain_def split: prod.split sum.split trust_error.split)
  with a h show ?thesis by (simp add: resolve_helper_log)
qed

lemma read_dotenv_log: "fst (read_dotenv env p key) = [OpenedFile p]"
  by (simp add: read_dotenv_def)

lemma resolve_source_permitted:
  assumes "a \<in> set (fst (resolve_source env root s))"
  shows "source_permits env root s a"
proof -
  consider (env) key where "cs_env s = Some key"
    | (dotenv) v key where "cs_env s = None" "cs_dotenv s = Some (v, key)"
    | (keychain) k where "cs_env s = None" "cs_dotenv s = None" "cs_keychain s = Some k"
    | (helper) h where "cs_env s = None" "cs_dotenv s = None" "cs_keychain s = None" "cs_helper s = Some h"
    | (none) "cs_env s = None" "cs_dotenv s = None" "cs_keychain s = None" "cs_helper s = None"
    by (metis not_None_eq surj_pair)
  then show ?thesis
  proof cases
    case env
    with assms show ?thesis by (simp add: resolve_source_def source_permits_def)
  next
    case dotenv
    with assms obtain p where p: "expand_project_path env v root True = Inr p"
      by (cases "expand_project_path env v root True") (auto simp: resolve_source_def tbind_def)
    have "fst (case read_dotenv env p key of (log, Inl (SourceFile NotExist)) \<Rightarrow> (log, Inr None) | r \<Rightarrow> r) = [OpenedFile p]"
      using read_dotenv_log[of env p key]
      by (auto split: prod.split sum.split trust_error.split file_error.split)
    with assms dotenv p show ?thesis by (simp add: resolve_source_def tbind_def source_permits_def)
  next
    case keychain
    with assms have "a \<in> set (fst (resolve_keychain env k))" by (simp add: resolve_source_def)
    from resolve_keychain_log[OF this] keychain show ?thesis
      by (cases k) (auto simp: source_permits_def)
  next
    case helper
    with assms show ?thesis by (simp add: resolve_source_def resolve_helper_log source_permits_def)
  next
    case none
    with assms show ?thesis by (simp add: resolve_source_def)
  qed
qed

lemma resolve_sources_permitted:
  "a \<in> set (fst (resolve_sources env root ss)) \<Longrightarrow> sources_permit env root ss a"
proof (induction ss)
  case Nil
  then show ?case by simp
next
  case (Cons s ss)
  from tbind_log[OF Cons.prems[unfolded resolve_sources.simps]]
  show ?case
  proof
    assume "a \<in> set (fst (resolve_source env root s))"
    then show ?thesis using resolve_source_permitted by (simp add: sources_permit_def)
  next
    assume "\<exists>x. snd (resolve_source env root s) = Inr x \<and>
      a \<in> set (fst (case x of Some x \<Rightarrow> tpure (Inr (Some x)) | None \<Rightarrow> resolve_sources env root ss))"
    then show ?thesis using Cons.IH by (auto simp: sources_permit_def split: option.splits)
  qed
qed

section \<open>Values of a profile\<close>

lemma slot_values_Ok:
  "snd (slot_values env root cs) = Inr vs \<longleftrightarrow>
     list_all2 (\<lambda>c v. snd (resolve_sources env root (ce_sources c)) = Inr (Some v)) cs vs"
proof (induction cs arbitrary: vs)
  case Nil
  then show ?case by auto
next
  case (Cons c cs)
  then show ?case
    by (auto simp: tbind_Ok_iff needed_def list_all2_Cons1 split: option.splits)
qed

lemma slot_values_permitted:
  "a \<in> set (fst (slot_values env root cs)) \<Longrightarrow> list_ex (\<lambda>c. sources_permit env root (ce_sources c) a) cs"
proof (induction cs)
  case Nil
  then show ?case by simp
next
  case (Cons c cs)
  from tbind_log[OF Cons.prems[unfolded slot_values.simps]] show ?case
  proof
    assume "a \<in> set (fst (resolve_sources env root (ce_sources c)))"
    then show ?thesis using resolve_sources_permitted by simp
  next
    assume "\<exists>r. snd (resolve_sources env root (ce_sources c)) = Inr r \<and>
      a \<in> set (fst (tbind (needed (ce_slot c) r) (\<lambda>v. tbind (slot_values env root cs) (\<lambda>vs. tpure (Inr (v # vs))))))"
    then have "a \<in> set (fst (slot_values env root cs))"
      by (auto simp: needed_def dest!: tbind_log)
    with Cons.IH show ?thesis by simp
  qed
qed

lemma credential_values_cases:
  assumes "snd (credential_values env c sel root) = Inr vs"
  shows "auth_profile sel = [] \<and> vs = [] \<or>
    (\<exists>s p. server_of c sel = Some s \<and> auth_profile sel \<in> set (tv_profiles s) \<and> find_profile c (auth_profile sel) = Some p
       \<and> cf_service p = server_name sel \<and> snd (slot_values env root (cf_credentials p)) = Inr vs)"
  using assms by (auto simp: credential_values_def split: if_splits option.splits)

lemma credential_values_permitted:
  "a \<in> set (fst (credential_values env c sel root)) \<Longrightarrow>
     list_ex (\<lambda>cr. sources_permit env root (ce_sources cr) a) (profile_credentials c sel)"
  by (auto simp: credential_values_def profile_credentials_def dest: slot_values_permitted split: if_splits option.splits)

lemma inject_env_Err: "inject_env cs vs = Inl e \<Longrightarrow> \<exists>c \<in> set cs. ce_stdio_env c = [] \<and> e = NoStdioInjection (ce_slot c)"
  by (induction cs vs rule: inject_env.induct) (auto split: if_splits sum.splits simp: map_sum_Err_iff)

lemma inject_env_Ok:
  "length cs = length vs \<Longrightarrow> inject_env cs vs = Inr es \<longleftrightarrow>
     list_all (\<lambda>c. ce_stdio_env c \<noteq> []) cs \<and> es = map2 (\<lambda>c v. ce_stdio_env c @ ''='' @ v) cs vs"
proof (induction cs vs arbitrary: es rule: list_induct2)
  case Nil
  then show ?case by auto
next
  case (Cons c cs v vs)
  then show ?case by (auto simp: map_sum_Ok_iff)
qed

section \<open>Sequencing\<close>

lemma sbind_Ok:
  "sbind m k st = (st', Inr y) \<longleftrightarrow> (\<exists>st1 x. m st = (st1, Inr x) \<and> k x st1 = (st', Inr y))"
  by (auto simp: sbind_def split: prod.split sum.split)

lemma spure_Ok: "spure r st = (st', Inr y) \<longleftrightarrow> st' = st \<and> r = Inr y"
  by (auto simp: spure_def)

lemma on_auth_Ok:
  "on_auth f st = (st', Inr y) \<longleftrightarrow> (\<exists>a. f (tn_auth st) = (a, Inr y) \<and> st' = st\<lparr>tn_auth := a\<rparr>)"
  by (auto simp: on_auth_def map_sum_Ok_iff split: prod.split)

lemma on_files_Ok:
  "on_files f st = (st', Inr y) \<longleftrightarrow> (\<exists>fs. f (tn_fs st) = (fs, Inr y) \<and> st' = st\<lparr>tn_fs := fs\<rparr>)"
  by (auto simp: on_files_def map_sum_Ok_iff split: prod.split)

lemma remember_Ok:
  "remember n t st = (st', Inr y) \<longleftrightarrow> y = t \<and> st' = st\<lparr>tn_tokens := (tn_tokens st)(n := Some t)\<rparr>"
  by (auto simp: remember_def)

lemmas step_Ok = sbind_Ok spure_Ok on_auth_Ok on_files_Ok remember_Ok

end
