(* ===== verification/TrustClaims.thy ===== *)
theory TrustClaims
  imports TrustProps
begin

text \<open>
  The properties of internal/trust: what a launch may contain and touch, that readiness is
  accurate, that a login completes once, and three inputs the code mishandles.
\<close>

section \<open>Launch configurations\<close>

lemma trusted_stdio_config_Ok:
  assumes "snd (trusted_stdio_config env c sel root) = Inr cfg"
  obtains s x vs where "server_of c sel = Some s" "project_allowed env s root" "tv_stdio s = Some x"
    "snd (credential_values env c sel root) = Inr vs" "profile_oauth c sel = None"
    "inject_env (profile_credentials c sel) vs = Inr (sc_environment cfg)"
    "expand_project_path env (sx_directory x) root False = Inr (sc_directory cfg)"
    "sc_command cfg = sx_command x" "sc_args cfg = sx_args x" "sc_name cfg = server_name sel" "sc_version cfg = server_ver sel"
proof -
  from assms obtain s where s: "server_of c sel = Some s" "project_allowed env s root"
    by (auto simp: trusted_stdio_config_def split: option.splits if_splits)
  with assms obtain vs where v: "snd (credential_values env c sel root) = Inr vs"
    by (auto simp: trusted_stdio_config_def tbind_Ok_iff)
  with assms s obtain x where x: "tv_stdio s = Some x"
    by (cases "tv_stdio s") (auto simp: trusted_stdio_config_def tbind_Ok_iff)
  with assms s v that[OF s x v] show ?thesis
    by (auto simp: trusted_stdio_config_def tbind_Ok_iff split: if_splits)
qed

lemma trusted_stdio_config_log:
  assumes "a \<in> set (fst (trusted_stdio_config env c sel root))"
  shows "a \<in> set (fst (credential_values env c sel root))"
proof -
  from assms obtain s where s: "server_of c sel = Some s" "project_allowed env s root"
    by (auto simp: trusted_stdio_config_def split: option.splits if_splits)
  with assms show ?thesis
    by (auto simp: trusted_stdio_config_def split: option.splits if_splits dest!: tbind_log)
qed

text \<open>
  C10: A server is launched only if the user's trust configuration lists exactly its name and
  version and allows the project, with the command and arguments configured there; its environment
  holds exactly one variable for each credential of the selected profile, which the server and the
  profile's service allow, with the value that resolves from that credential's sources.  Building
  the configuration looks up, opens and runs only what those sources name, and a file named
  relative to the project is opened only inside the project.
\<close>

theorem launch_uses_only_configured:
  assumes "trusted_stdio_config env c sel root = (log, Inr cfg)"
  shows "\<exists>s x. find_server c (server_name sel) (server_ver sel) = Some s \<and> project_allowed env s root \<and> tv_stdio s = Some x
    \<and> sc_command cfg = sx_command x \<and> sc_args cfg = sx_args x
    \<and> (if auth_profile sel = [] then sc_environment cfg = []
       else auth_profile sel \<in> set (tv_profiles s) \<and> (\<exists>p. find_profile c (auth_profile sel) = Some p
         \<and> cf_service p = server_name sel
         \<and> list_all2 (\<lambda>cr e. \<exists>v. snd (resolve_sources env root (ce_sources cr)) = Inr (Some v) \<and> e = ce_stdio_env cr @ ''='' @ v)
             (cf_credentials p) (sc_environment cfg)))
    \<and> (\<forall>a \<in> set log. list_ex (\<lambda>cr. sources_permit env root (ce_sources cr) a) (profile_credentials c sel))
    \<and> (\<forall>v p. str_contains v project_root_var \<longrightarrow> v \<noteq> [] \<longrightarrow> expand_project_path env v root True = Inr p \<longrightarrow>
         (\<exists>r. ev_eval env root = Inr r \<and> below (path_clean r) (path_clean p)))"
proof -
  from assms have ok: "snd (trusted_stdio_config env c sel root) = Inr cfg" by simp
  from trusted_stdio_config_Ok[OF ok] obtain s x vs where s: "server_of c sel = Some s" "project_allowed env s root"
    "tv_stdio s = Some x" and v: "snd (credential_values env c sel root) = Inr vs"
    and i: "inject_env (profile_credentials c sel) vs = Inr (sc_environment cfg)"
    and cfg: "sc_command cfg = sx_command x" "sc_args cfg = sx_args x"
    by metis
  have env: "if auth_profile sel = [] then sc_environment cfg = []
       else auth_profile sel \<in> set (tv_profiles s) \<and> (\<exists>p. find_profile c (auth_profile sel) = Some p
         \<and> cf_service p = server_name sel
         \<and> list_all2 (\<lambda>cr e. \<exists>v. snd (resolve_sources env root (ce_sources cr)) = Inr (Some v) \<and> e = ce_stdio_env cr @ ''='' @ v)
             (cf_credentials p) (sc_environment cfg))"
  proof (cases "auth_profile sel = []")
    case True
    with v have "vs = []" by (simp add: credential_values_def)
    with i have "sc_environment cfg = []" by (cases "profile_credentials c sel") auto
    with True show ?thesis by simp
  next
    case False
    with credential_values_cases[OF v] s(1) obtain p where p: "auth_profile sel \<in> set (tv_profiles s)"
      "find_profile c (auth_profile sel) = Some p" "cf_service p = server_name sel"
      and sv: "snd (slot_values env root (cf_credentials p)) = Inr vs" by auto
    from sv have all: "list_all2 (\<lambda>cr v. snd (resolve_sources env root (ce_sources cr)) = Inr (Some v)) (cf_credentials p) vs"
      by (simp add: slot_values_Ok)
    then have len: "length (cf_credentials p) = length vs" by (rule list_all2_lengthD)
    have "sc_environment cfg = map2 (\<lambda>cr v. ce_stdio_env cr @ ''='' @ v) (cf_credentials p) vs"
      using i p(2) inject_env_Ok[OF len] by (simp add: profile_credentials_def)
    with all have "list_all2 (\<lambda>cr e. \<exists>v. snd (resolve_sources env root (ce_sources cr)) = Inr (Some v)
        \<and> e = ce_stdio_env cr @ ''='' @ v) (cf_credentials p) (sc_environment cfg)"
      by (auto simp: list_all2_conv_all_nth)
    with False p show ?thesis by auto
  qed
  have "\<forall>a \<in> set log. list_ex (\<lambda>cr. sources_permit env root (ce_sources cr) a) (profile_credentials c sel)"
    using trusted_stdio_config_log[of _ env c sel root] credential_values_permitted assms by auto
  moreover have "\<forall>v p. str_contains v project_root_var \<longrightarrow> v \<noteq> [] \<longrightarrow> expand_project_path env v root True = Inr p \<longrightarrow>
         (\<exists>r. ev_eval env root = Inr r \<and> below (path_clean r) (path_clean p))"
    using expand_confined by metis
  ultimately show ?thesis using s env cfg unfolding server_of_def by blast
qed

section \<open>Readiness\<close>

lemma trust_ready_ready:
  assumes "snd (trust_ready env slib fs now c sel root) = av_ready"
  obtains s where "server_of c sel = Some s" "project_allowed env s root"
    "auth_profile sel \<noteq> [] \<Longrightarrow> auth_profile sel \<in> set (tv_profiles s)"
    "auth_profile sel \<noteq> [] \<Longrightarrow> snd (credentials_present env slib fs now c sel root) = Inr ()"
proof -
  have d: "av_setup_required \<noteq> av_ready" "av_credential_missing \<noteq> av_ready" "av_policy_denied \<noteq> av_ready"
    "av_login_required \<noteq> av_ready" by (simp_all add: availability_defs)
  from assms d obtain s where s: "server_of c sel = Some s" "project_allowed env s root"
    by (auto simp: trust_ready_def split: option.splits if_splits)
  have a: "availability_of r = av_ready \<Longrightarrow> r = Inr ()" for r
    using d by (auto simp: availability_of_def split: sum.splits trust_error.splits auth_error.splits)
  have "auth_profile sel \<noteq> [] \<Longrightarrow> auth_profile sel \<in> set (tv_profiles s) \<and> snd (credentials_present env slib fs now c sel root) = Inr ()"
    using assms s d a
    by (auto simp: trust_ready_def split: prod.splits sum.splits if_splits trust_error.splits option.splits)
  with s that show ?thesis by blast
qed

lemma profile_checked:
  assumes "validate_trust parse c = Inr ()" "s \<in> set (tc_servers c)" "name \<in> set (tv_profiles s)"
  obtains p where "find_profile c name = Some p" "tv_http s = None \<Longrightarrow> cf_oauth p = None"
proof -
  have "check_each (\<lambda>i s. check_each (\<lambda>_. validate_server_profile c i s) 0 (tv_profiles s)) 0 (tc_servers c) = Inr ()"
    using assms(1) by (auto simp: validate_trust_def bind_res_Ok_iff split: if_splits)
  from check_each_OkD[OF this assms(2)] obtain i where
    "check_each (\<lambda>_. validate_server_profile c i s) 0 (tv_profiles s) = Inr ()" by blast
  from check_each_OkD[OF this assms(3)] that show ?thesis
    by (auto simp: validate_server_profile_def split: option.splits if_splits)
qed

lemma transport_checked:
  assumes "validate_trust parse c = Inr ()" "s \<in> set (tc_servers c)"
  shows "(tv_stdio s = None) \<noteq> (tv_http s = None)"
proof -
  have "check_each (validate_trusted_server parse c) 0 (tc_servers c) = Inr ()"
    using assms(1) by (auto simp: validate_trust_def bind_res_Ok_iff split: if_splits)
  from check_each_OkD[OF this assms(2)] show ?thesis
    by (auto simp: validate_trusted_server_def split: if_splits)
qed

text \<open>
  C14: What readiness promises.  In a valid configuration, for a capability of a stdio server that is
  reported ready, the launch configuration is built at once from the same environment exactly when
  every credential of its profile names a variable and the working directory is a valid template;
  these are the only two ways left in which it can fail, and the configuration has the trusted
  command, that directory and one variable for each credential.
\<close>

theorem ready_is_launchable:
  assumes valid: "validate_trust parse c = Inr ()"
    and ready: "snd (trust_ready env slib fs now c sel root) = av_ready"
    and server: "find_server c (server_name sel) (server_ver sel) = Some s" "tv_stdio s = Some x"
  defines "built \<equiv> snd (trusted_stdio_config env c sel root)"
  shows "((\<exists>cfg. built = Inr cfg) \<longleftrightarrow>
      list_all (\<lambda>cr. ce_stdio_env cr \<noteq> []) (profile_credentials c sel) \<and>
      (\<exists>d. expand_project_path env (sx_directory x) root False = Inr d)) \<and>
    (\<forall>e. built = Inl e \<longrightarrow> (\<exists>cr \<in> set (profile_credentials c sel). ce_stdio_env cr = [] \<and> e = NoStdioInjection (ce_slot cr))
      \<or> expand_project_path env (sx_directory x) root False = Inl e) \<and>
    (\<forall>cfg. built = Inr cfg \<longrightarrow> sc_command cfg = sx_command x
      \<and> expand_project_path env (sx_directory x) root False = Inr (sc_directory cfg)
      \<and> length (sc_environment cfg) = length (profile_credentials c sel))"
proof -
  have s: "server_of c sel = Some s" using server(1) by (simp add: server_of_def)
  have mem: "s \<in> set (tc_servers c)" using find_server_Some[OF server(1)] by simp
  have http: "tv_http s = None" using transport_checked[OF valid mem] server(2) by auto
  from trust_ready_ready[OF ready] s have allowed: "project_allowed env s root"
    and prof: "auth_profile sel \<noteq> [] \<Longrightarrow> auth_profile sel \<in> set (tv_profiles s)"
    and pres: "auth_profile sel \<noteq> [] \<Longrightarrow> snd (credentials_present env slib fs now c sel root) = Inr ()" by auto
  have "\<exists>vs. snd (credential_values env c sel root) = Inr vs \<and> length vs = length (profile_credentials c sel)
      \<and> profile_oauth c sel = None"
  proof (cases "auth_profile sel = []")
    case True
    have no: "[] \<notin> set (map cf_name (tc_profiles c))"
    proof -
      have "check_each (validate_profile c) 0 (tc_profiles c) = Inr ()"
        using valid by (auto simp: validate_trust_def bind_res_Ok_iff split: if_splits)
      from check_each_OkD[OF this] show ?thesis by (fastforce simp: validate_profile_def split: if_splits)
    qed
    then have "find_profile c [] = None" using find_profile_Some[of c "[]"] by (cases "find_profile c []") force+
    with True show ?thesis
      by (simp add: profile_oauth_def profile_credentials_def credential_values_def)
  next
    case False
    from profile_checked[OF valid mem prof[OF False]] http obtain p where
      p: "find_profile c (auth_profile sel) = Some p" "cf_oauth p = None" by metis
    with pres[OF False] False obtain vs where
      v: "snd (credential_values env c sel root) = Inr vs"
      by (auto simp: credentials_present_def tbind_Ok_iff split: if_splits)
    from credential_values_cases[OF v] False p(1) have "snd (slot_values env root (cf_credentials p)) = Inr vs" by auto
    then have "length (cf_credentials p) = length vs" by (auto simp: slot_values_Ok dest: list_all2_lengthD)
    with v p show ?thesis by (simp add: profile_credentials_def profile_oauth_def)
  qed
  then obtain vs where v: "snd (credential_values env c sel root) = Inr vs"
    and len: "length (profile_credentials c sel) = length vs" and no: "profile_oauth c sel = None" by metis
  let ?es = "inject_env (profile_credentials c sel) vs"
  have built: "built = bind_res ?es (\<lambda>es. map_sum id (\<lambda>d. \<lparr>sc_name = server_name sel, sc_version = server_ver sel,
      sc_command = sx_command x, sc_args = sx_args x, sc_directory = d, sc_environment = es,
      sc_startup_timeout = wrap64 (sx_timeout_ms x * 1000000)\<rparr>) (expand_project_path env (sx_directory x) root False))"
    unfolding built_def trusted_stdio_config_def
    using s allowed server(2) v no
    by (simp add: tbind_def tpure_def bind_res_def split: sum.split)
  show ?thesis
  proof (cases ?es)
    case (Inl e)
    then have "\<not> list_all (\<lambda>cr. ce_stdio_env cr \<noteq> []) (profile_credentials c sel)"
      using inject_env_Err[OF Inl] by (auto simp: list_all_iff)
    with built Inl inject_env_Err[OF Inl] show ?thesis by (simp add: bind_res_def)
  next
    case (Inr es)
    then have all: "list_all (\<lambda>cr. ce_stdio_env cr \<noteq> []) (profile_credentials c sel)"
      and es: "length es = length (profile_credentials c sel)"
      using inject_env_Ok[OF len, of es] len by auto
    show ?thesis using built Inr all es
      by (cases "expand_project_path env (sx_directory x) root False") (auto simp: bind_res_def)
  qed
qed

section \<open>Logins\<close>

lemma delete_pending_Ok:
  assumes "delete_pending s profile fs = (fs', Inr u)" "record_path s profile ''.pending'' = Inr path"
  shows "fs_file fs' = (fs_file fs)(path := None)"
proof -
  have "fs_file fs path = None \<Longrightarrow> fs_file fs = (fs_file fs)(path := None)" by auto
  with assms show ?thesis by (auto simp: delete_pending_def split: if_splits)
qed

lemma complete_login_Ok:
  assumes "complete_login w ri c name callback st = (st', Inr ())"
  obtains o2 tok fs3 where "login_profile c name = Some o2"
    "save_token (tw_store w) (ri_key ri) (ri_nonce ri) (token_store_of (tw_env w) c) name tok (tn_fs st) = (fs3, Inr ())"
    "delete_pending (token_store_of (tw_env w) c) name fs3 = (tn_fs st', Inr ())" "tn_tokens st' name = Some tok"
proof -
  from assms obtain o2 where o2: "login_profile c name = Some o2"
    by (cases "login_profile c name") (simp_all add: complete_login_def spure_def)
  with assms have "\<exists>tok fs3.
      save_token (tw_store w) (ri_key ri) (ri_nonce ri) (token_store_of (tw_env w) c) name tok (tn_fs st) = (fs3, Inr ()) \<and>
      delete_pending (token_store_of (tw_env w) c) name fs3 = (tn_fs st', Inr ()) \<and> tn_tokens st' name = Some tok"
    by (clarsimp simp: complete_login_def step_Ok)
  with o2 that show ?thesis by blast
qed

text \<open>
  C11: A completed login is usable and cannot be completed again: its token is stored and cached, so
  that while it is valid the profile counts as logged in and requests get exactly this token, and
  the pending login is gone, so that any further completion fails before anything is sent.
\<close>

theorem login_completes_once:
  assumes login: "complete_login w ri c name callback st = (st', Inr ())"
    and t: "tn_tokens st' name = Some t"
    and aead: "\<And>key. sl_open (tw_store w) key (ri_nonce ri) (sl_seal (tw_store w) key (ri_nonce ri) (sl_enc_token (tw_store w) t)
        (name @ ''.token'')) (name @ ''.token'') = Some (sl_enc_token (tw_store w) t)"
    and codec: "sl_dec_token (tw_store w) (sl_enc_token (tw_store w) t) = Some t"
    and lens: "length (ri_nonce ri) = nonce_size" "length (ri_key ri) = 32"
    and apart: "record_path (token_store_of (tw_env w) c) name ''.token'' \<noteq> Inr (ts_key_path (token_store_of (tw_env w) c))"
      "record_path (token_store_of (tw_env w) c) name ''.pending'' \<noteq> Inr (ts_key_path (token_store_of (tw_env w) c))"
    and valid: "valid_for now token_leeway t" "ri_now ri' = now"
  shows "login_present now (load_token (tw_store w) (token_store_of (tw_env w) c) name (tn_fs st')) = Inr () \<and>
    acquire_oauth w ri' c root name o1 st' = (st', Inr t) \<and>
    complete_login w ri' c name callback' st' = (st', Inl (OAuthFailed StoreMissing))"
proof -
  let ?s = "token_store_of (tw_env w) c"
  from complete_login_Ok[OF login] obtain o2 fs3 where o2: "login_profile c name = Some o2"
    and save: "save_token (tw_store w) (ri_key ri) (ri_nonce ri) ?s name t (tn_fs st) = (fs3, Inr ())"
    and del: "delete_pending ?s name fs3 = (tn_fs st', Inr ())"
    using t by (metis option.inject)
  obtain path where path: "record_path ?s name ''.token'' = Inr path"
    using save by (cases "record_path ?s name ''.token''") (auto simp: save_token_def seal_record_def)
  obtain ppath where ppath: "record_path ?s name ''.pending'' = Inr ppath"
    using del by (cases "record_path ?s name ''.pending''") (auto simp: delete_pending_def)
  have ne: "path \<noteq> ts_key_path ?s" "ppath \<noteq> ts_key_path ?s" "path \<noteq> ppath"
    using apart path ppath record_path_inj[OF path, of name "''.pending''"] by auto
  have base: "path_base path = name @ ''.token''" by (rule record_path_base[OF path]) simp
  note so = seal_then_open[OF save[unfolded save_token_def] path ne(1) _ lens, unfolded base, OF aead]
  have files: "fs_file (tn_fs st') = (fs_file fs3)(ppath := None)" by (rule delete_pending_Ok[OF del ppath])
  have key: "load_existing_key (tn_fs st') (ts_key_path ?s) = load_existing_key fs3 (ts_key_path ?s)"
    using files ne(2) by (simp add: load_existing_key_def)
  have "open_record (tw_store w) ?s name ''.token'' (tn_fs st') = open_record (tw_store w) ?s name ''.token'' fs3"
    by (rule open_record_cong[OF path _ key]) (use files ne(3) in simp)
  then have load: "load_token (tw_store w) ?s name (tn_fs st') = Inr t"
    using so(1) codec by (simp add: load_token_def decode_record_def)
  obtain k where "load_existing_key fs3 (ts_key_path ?s) = Inr k"
    using so(1) path by (auto simp: open_record_def bind_res_Ok_iff)
  with key files ppath have gone: "load_pending (tw_store w) ?s name (tn_fs st') = Inl StoreMissing"
    by (simp add: load_pending_def decode_record_def open_record_def)
  have "acquire_oauth w ri' c root name o1 st' = (st', Inr t)"
    using t valid by (simp add: acquire_oauth_def cached_token_def valid_for_def)
  moreover have "complete_login w ri' c name callback' st' = (st', Inl (OAuthFailed StoreMissing))"
    using o2 gone by (simp add: complete_login_def sbind_def)
  ultimately show ?thesis using load valid(1) by (simp add: login_present_def)
qed

section \<open>Inputs the code mishandles\<close>

text \<open>
  A project-relative dotenv file that does not exist is not a missing value but an error, so the
  sources configured after it are never tried; a missing file with an absolute path is passed over.
\<close>

theorem missing_project_file_blocks_fallback:
  assumes "cs_env s = None" "cs_dotenv s = Some (v, key)" "v \<noteq> []" "str_contains v project_root_var"
    and "\<not> str_contains (replace_all v project_root_var []) ''${''" "is_abs (replace_all v project_root_var root)"
    and "ev_eval env root = Inr r" "ev_eval env (replace_all v project_root_var root) = Inl NotExist"
    and "cs_env s' = None" "cs_dotenv s' = Some (v', key)" "v' \<noteq> []" "\<not> str_contains v' project_root_var"
      "\<not> str_contains (replace_all v' project_root_var []) ''${''" "is_abs (replace_all v' project_root_var root)"
      "ev_read env (path_clean (replace_all v' project_root_var root)) = Inl NotExist"
  shows "resolve_sources env root (s # fallback) = ([], Inl (SourceFile NotExist)) \<and>
    snd (resolve_sources env root (s' # fallback)) = snd (resolve_sources env root fallback)"
  using assms
  by (simp add: resolve_source_def expand_project_path_def Let_def tbind_def read_dotenv_def tpure_def)

lemma unsafe_record_path: "\<not> safe_profile name \<Longrightarrow> record_path s name suffix = Inl StoreInvalid"
  by (simp add: record_path_def)

text \<open>
  Validation accepts profile names the token store rejects: an authorization-code profile whose
  name is not made of letters, digits, dot, hyphen and underscore can neither start a login nor
  ever be ready.
\<close>

theorem unsafe_profile_never_ready:
  assumes "\<not> safe_profile (auth_profile sel)" "find_profile c (auth_profile sel) = Some p" "cf_oauth p = Some o1"
    "oa_type o1 = ''authorization-code''" "auth_profile sel \<noteq> []"
  shows "snd (trust_ready env slib fs now c sel root) \<noteq> av_ready \<and> snd (start_login w ri c (auth_profile sel) st) \<noteq> Inr url"
proof (intro conjI notI)
  have name: "cf_name p = auth_profile sel" using find_profile_Some[OF assms(2)] by simp
  assume "snd (trust_ready env slib fs now c sel root) = av_ready"
  then have "snd (credentials_present env slib fs now c sel root) = Inr ()"
    using trust_ready_ready assms(5) by blast
  with assms name show False
    by (auto simp: credentials_present_def load_token_def open_record_def unsafe_record_path decode_record_def
        login_present_def split: if_splits)
next
  assume "snd (start_login w ri c (auth_profile sel) st) = Inr url"
  then obtain st' where st': "start_login w ri c (auth_profile sel) st = (st', Inr url)" by (metis prod.collapse)
  have "login_profile c (auth_profile sel) = Some o1" using assms by (simp add: login_profile_def)
  with st' show False
    by (auto simp: start_login_def step_Ok save_pending_def seal_record_def unsafe_record_path[OF assms(1)] split: if_splits)
qed

text \<open>
  C37: The launch configuration over HTTP puts the token of an OAuth profile into the requests to a
  server that is not allowed that profile: for OAuth profiles neither the server's profile list nor
  the profile's service is checked again, only readiness, evaluated earlier, does that.
\<close>

theorem oauth_profile_unchecked:
  assumes "find_server c (server_name sel) (server_ver sel) = Some s" "project_allowed (tw_env w) s root"
    and "tv_http s = Some h" "hx_mtls h = None" "auth_profile sel \<notin> set (tv_profiles s)"
    and "find_profile c (auth_profile sel) = Some p" "cf_oauth p = Some o1" "cf_service p \<noteq> server_name sel"
    and "tn_tokens st (auth_profile sel) = Some t" "tk_expires t - ri_now ri > token_leeway"
  shows "\<exists>cfg. trusted_http_config w ri c sel root st = (st, Inr (cfg, None)) \<and> hc_endpoint cfg = hx_endpoint h
    \<and> hc_headers cfg = [(''Authorization'', ''Bearer '' @ tk_value t)]"
  using assms
  by (simp add: trusted_http_config_def server_of_def http_headers_def profile_oauth_def sbind_def spure_def
      acquire_oauth_def cached_token_def authorization_header_def)

end
