(* ===== verification/TrustWitness.thy ===== *)
theory TrustWitness
  imports TrustClaims DemoPrims
begin

text \<open>
  Concrete inputs of internal/trust at which the hypotheses of its properties hold.
\<close>

section \<open>A configuration\<close>

definition demo_source :: credential_source where
  "demo_source = \<lparr>cs_env = Some ''K'', cs_dotenv = None, cs_keychain = None, cs_helper = None\<rparr>"

definition demo_env :: trust_env where
  "demo_env = \<lparr>ev_lookup = (\<lambda>k. if k = ''K'' then Some ''v'' else None), ev_eval = Inr, ev_read = (\<lambda>p. Inl NotExist),
     ev_run = (\<lambda>c args t. HelperFailed), ev_goos = ''linux'', ev_secret_tool = None, ev_cwd = ''/'',
     ev_config_dir = None, ev_keypair = (\<lambda>c k. True)\<rparr>"

definition demo_exec :: trusted_stdio where
  "demo_exec = \<lparr>sx_command = ''/bin/x'', sx_args = [], sx_directory = ''/w'', sx_timeout_ms = 0\<rparr>"

definition demo_server :: trusted_server where
  "demo_server = \<lparr>tv_server = ''docs'', tv_version = ''1'', tv_projects = [project_root_var], tv_profiles = [''work''],
     tv_stdio = Some demo_exec, tv_http = None\<rparr>"

definition demo_profile :: credential_profile where
  "demo_profile = \<lparr>cf_name = ''work'', cf_service = ''docs'', cf_credentials = [\<lparr>ce_slot = ''s'', ce_sources = [demo_source],
     ce_stdio_env = ''V'', ce_http_header = None\<rparr>], cf_oauth = None\<rparr>"

definition demo_trust :: trust_config where
  "demo_trust = \<lparr>tc_version = 1, tc_servers = [demo_server], tc_profiles = [demo_profile], tc_telemetry = None,
     tc_sources = [], tc_oauth_store = None\<rparr>"

definition demo_selected :: capability where
  "demo_selected = demo_capability\<lparr>auth_profile := ''work''\<rparr>"

definition demo_launch :: stdio_config where
  "demo_launch = \<lparr>sc_name = ''docs'', sc_version = ''1'', sc_command = ''/bin/x'', sc_args = [], sc_directory = ''/w'',
     sc_environment = [''V=v''], sc_startup_timeout = 0\<rparr>"

lemma demo_launches: "trusted_stdio_config demo_env demo_trust demo_selected ''/p'' = ([ReadEnv ''K''], Inr demo_launch)"
  by code_simp

lemma demo_is_ready: "snd (trust_ready demo_env demo_store_lib demo_fs 0 demo_trust demo_selected ''/p'') = av_ready"
  by code_simp

lemma demo_is_valid: "validate_trust (\<lambda>s. None) demo_trust = Inr ()"
  by code_simp

theorem launch_uses_only_configured_witness:
  "\<exists>s x. find_server demo_trust ''docs'' ''1'' = Some s \<and> tv_stdio s = Some x \<and> sx_command x = ''/bin/x''"
  using launch_uses_only_configured[OF demo_launches]
  by (auto simp: demo_selected_def demo_capability_def demo_launch_def)

theorem ready_is_launchable_witness:
  "\<exists>cfg. snd (trusted_stdio_config demo_env demo_trust demo_selected ''/p'') = Inr cfg \<and> sc_command cfg = ''/bin/x''
    \<and> sc_directory cfg = ''/w'' \<and> length (sc_environment cfg) = 1"
proof -
  have s: "find_server demo_trust (server_name demo_selected) (server_ver demo_selected) = Some demo_server"
    "tv_stdio demo_server = Some demo_exec" by (code_simp)+
  have i: "list_all (\<lambda>cr. ce_stdio_env cr \<noteq> []) (profile_credentials demo_trust demo_selected)" by code_simp
  have d: "expand_project_path demo_env (sx_directory demo_exec) ''/p'' False = Inr ''/w''" by code_simp
  have "length (profile_credentials demo_trust demo_selected) = 1" "sx_command demo_exec = ''/bin/x''"
    by (code_simp)+
  with ready_is_launchable[OF demo_is_valid demo_is_ready s] i d show ?thesis by force
qed

text \<open>
  Both remaining conditions matter: a credential that is only a header is valid in the profile of a
  stdio server, the server's capability is reported ready, and its launch fails.
\<close>

definition header_trust :: trust_config where
  "header_trust = demo_trust\<lparr>tc_profiles := [demo_profile\<lparr>cf_credentials := [\<lparr>ce_slot = ''s'', ce_sources = [demo_source],
     ce_stdio_env = [], ce_http_header = Some (''Authorization'', ''Bearer ${value}'')\<rparr>]\<rparr>]\<rparr>"

lemma header_only_ready_not_launchable:
  "validate_trust (\<lambda>s. None) header_trust = Inr ()"
  "snd (trust_ready demo_env demo_store_lib demo_fs 0 header_trust demo_selected ''/p'') = av_ready"
  "snd (trusted_stdio_config demo_env header_trust demo_selected ''/p'') = Inl (NoStdioInjection ''s'')"
  by code_simp+

theorem missing_project_file_blocks_fallback_witness:
  "snd (resolve_sources (demo_env\<lparr>ev_eval := (\<lambda>p. if p = ''/p'' then Inr p else Inl NotExist)\<rparr>) ''/p''
     [\<lparr>cs_env = None, cs_dotenv = Some (''${projectRoot}/.env'', ''K''), cs_keychain = None, cs_helper = None\<rparr>, demo_source])
   = Inl (SourceFile NotExist)"
proof -
  let ?e = "demo_env\<lparr>ev_eval := (\<lambda>p. if p = ''/p'' then Inr p else Inl NotExist)\<rparr>"
  let ?s = "\<lambda>p. \<lparr>cs_env = None, cs_dotenv = Some (p, ''K''), cs_keychain = None, cs_helper = None\<rparr> :: credential_source"
  have h: "str_contains ''${projectRoot}/.env'' project_root_var" "replace_all ''${projectRoot}/.env'' project_root_var [] = ''/.env''"
    "replace_all ''${projectRoot}/.env'' project_root_var ''/p'' = ''/p/.env''" "\<not> str_contains ''/.env'' ''${''" "is_abs ''/p/.env''"
    "\<not> str_contains ''/x'' project_root_var" "replace_all ''/x'' project_root_var [] = ''/x''" "\<not> str_contains ''/x'' ''${''"
    "replace_all ''/x'' project_root_var ''/p'' = ''/x''" "is_abs ''/x''" "path_clean ''/x'' = ''/x''"
    by (code_simp)+
  have "resolve_sources ?e ''/p'' (?s ''${projectRoot}/.env'' # [demo_source]) = ([], Inl (SourceFile NotExist)) \<and>
    snd (resolve_sources ?e ''/p'' (?s ''/x'' # [demo_source])) = snd (resolve_sources ?e ''/p'' [demo_source])"
    by (rule missing_project_file_blocks_fallback[where v = "''${projectRoot}/.env''" and v' = "''/x''" and key = "''K''"
          and r = "''/p''"])
      (simp_all add: h demo_env_def)
  then show ?thesis by simp
qed

section \<open>Logins\<close>

definition demo_oauth :: oauth_profile where
  "demo_oauth = \<lparr>oa_type = ''authorization-code'', oa_metadata_url = ''m'', oa_resource = [], oa_issuer = [], oa_scopes = [],
     oa_client_id = ''c'', oa_client_name = [], oa_dynamic = False, oa_client_secret = [], oa_private_key = [], oa_key_id = [],
     oa_auth_method = [], oa_idp_endpoint = [], oa_identity_assertion = [], oa_subject_type = [], oa_idp_client = [],
     oa_idp_secret = [], oa_resource_client = [], oa_redirect = ''u'', oa_subject_token = [], oa_workload_type = []\<rparr>"

definition demo_oauth_trust :: "string \<Rightarrow> string \<Rightarrow> trust_config" where
  "demo_oauth_trust name service =
     demo_trust\<lparr>tc_servers := [demo_server\<lparr>tv_stdio := None,
         tv_http := Some \<lparr>hx_endpoint = ''https://h'', hx_timeout_ms = 0, hx_mtls = None\<rparr>\<rparr>],
       tc_profiles := [\<lparr>cf_name = name, cf_service = service, cf_credentials = [], cf_oauth = Some demo_oauth\<rparr>],
       tc_oauth_store := Some demo_store\<rparr>"

definition demo_world :: "unit trust_world" where
  "demo_world = \<lparr>tw_env = demo_env, tw_auth = demo_auth_lib, tw_store = demo_store_lib, tw_net = demo_auth_net\<rparr>"

definition demo_inputs :: trust_inputs where
  "demo_inputs = \<lparr>ri_now = 5, ri_jti = [], ri_verifier = ''v'', ri_state = ''s'', ri_key = replicate 32 CHR ''k'',
     ri_nonce = replicate 12 CHR ''n''\<rparr>"

definition demo_login_state :: "unit trust_state" where
  "demo_login_state = \<lparr>tn_tokens = (\<lambda>n. None),
     tn_fs = demo_fs\<lparr>fs_file := (\<lambda>p. if p = ''/k'' then Some (replicate 32 CHR ''k'', 384)
       else if p = ''/d/work.pending'' then Some (replicate 12 CHR ''n'' @ ''work.pendingp'', 384) else None)\<rparr>,
     tn_auth = \<lparr>au_net = (), au_log = []\<rparr>, tn_log = []\<rparr>"

lemma demo_discovers:
  "\<exists>l. auth_discover demo_auth_lib demo_auth_net ''m'' [] [] \<lparr>au_net = (), au_log = []\<rparr> = (\<lparr>au_net = (), au_log = l\<rparr>, Inr demo_metadata)"
  by (simp add: auth_discover_def fetch_server_def get_json_def send_def demo_auth_net_def demo_auth_lib_def demo_url_def
      validate_https_url_def decode_bounded_def max_auth_response_def authorization_metadata_url_def into_server_def
      metadata_of_def choose_issuer_def choose_scopes_def demo_metadata_def Let_def)

abbreviation demo_login_trust :: trust_config where "demo_login_trust \<equiv> demo_oauth_trust ''work'' ''docs''"

lemma demo_login_setup:
  "token_store_of demo_env demo_login_trust = demo_store"
  "login_profile demo_login_trust ''work'' = Some demo_oauth"
  by (code_simp)+

lemma demo_login_files:
  "load_pending demo_store_lib demo_store ''work'' (tn_fs demo_login_state) = Inr demo_pending"
  "record_path demo_store ''work'' ''.pending'' = Inr ''/d/work.pending''"
  by (code_simp)+

lemma demo_logs_in:
  "\<exists>st'. complete_login demo_world demo_inputs demo_login_trust ''work'' ''code'' demo_login_state = (st', Inr ())
     \<and> tn_tokens st' ''work'' = Some demo_token"
proof -
  obtain l where d: "auth_discover demo_auth_lib demo_auth_net ''m'' [] [] \<lparr>au_net = (), au_log = []\<rparr>
    = (\<lparr>au_net = (), au_log = l\<rparr>, Inr demo_metadata)" using demo_discovers by blast
  have m: "demo_metadata\<lparr>am_issuer := ''https://as''\<rparr> = demo_metadata" by (simp add: demo_metadata_def)
  obtain l' where c: "complete_authorization demo_auth_lib demo_auth_net 5 demo_metadata demo_pending ''code''
      \<lparr>au_net = (), au_log = l\<rparr> = (\<lparr>au_net = (), au_log = l'\<rparr>, Inr demo_token)"
    using demo_complete_login[of "''https://as''" l] m by simp
  obtain fs1 where s: "save_token demo_store_lib (ri_key demo_inputs) (ri_nonce demo_inputs) demo_store ''work'' demo_token
      (tn_fs demo_login_state) = (fs1, Inr ())" and w: "fs_writable fs1 = (\<lambda>p. True)"
    unfolding save_token_def seal_record_def demo_record_path
    by (simp add: load_or_create_key_def load_existing_key_def write_file_def demo_fs_def demo_login_state_def demo_store_def)
  have "\<exists>fs2. delete_pending demo_store ''work'' fs1 = (fs2, Inr ())"
    unfolding delete_pending_def demo_login_files by (cases "fs_file fs1 ''/d/work.pending'' = None") (simp_all add: w)
  then obtain fs2 where p: "delete_pending demo_store ''work'' fs1 = (fs2, Inr ())" by blast
  let ?st = "demo_login_state"
  have a: "tn_auth ?st = \<lparr>au_net = (), au_log = []\<rparr>" by (simp add: demo_login_state_def)
  have o1: "oa_metadata_url demo_oauth = ''m''" "oa_resource demo_oauth = []" "oa_issuer demo_oauth = []"
    by (simp_all add: demo_oauth_def)
  have w: "tw_env demo_world = demo_env" "tw_auth demo_world = demo_auth_lib" "tw_store demo_world = demo_store_lib"
    "tw_net demo_world = demo_auth_net" "ri_now demo_inputs = 5"
    by (simp_all add: demo_world_def demo_inputs_def)
  show ?thesis
    by (simp add: complete_login_def demo_login_setup demo_login_files sbind_def w on_auth_def on_files_def a o1 d c s p
        remember_def spure_def)
qed

theorem login_completes_once_witness:
  "\<exists>st'. complete_login demo_world demo_inputs demo_login_trust ''work'' ''code'' demo_login_state = (st', Inr ()) \<and>
    complete_login demo_world demo_inputs demo_login_trust ''work'' ''code'' st' = (st', Inl (OAuthFailed StoreMissing))"
proof -
  obtain st' where l: "complete_login demo_world demo_inputs demo_login_trust ''work'' ''code'' demo_login_state = (st', Inr ())"
    and t: "tn_tokens st' ''work'' = Some demo_token" using demo_logs_in by blast
  have w: "tw_env demo_world = demo_env" "tw_store demo_world = demo_store_lib" by (simp_all add: demo_world_def)
  have apart: "record_path (token_store_of (tw_env demo_world) demo_login_trust) ''work'' ''.token''
      \<noteq> Inr (ts_key_path (token_store_of (tw_env demo_world) demo_login_trust))"
    "record_path (token_store_of (tw_env demo_world) demo_login_trust) ''work'' ''.pending''
      \<noteq> Inr (ts_key_path (token_store_of (tw_env demo_world) demo_login_trust))"
    unfolding w demo_login_setup demo_record_path demo_login_files by (simp_all add: demo_store_def)
  have "complete_login demo_world demo_inputs demo_login_trust ''work'' ''code'' st' = (st', Inl (OAuthFailed StoreMissing))"
    by (rule login_completes_once[OF l t _ _ _ _ apart, where now = 5, THEN conjunct2, THEN conjunct2])
      (simp_all add: w demo_store_lib_def demo_inputs_def nonce_size_def has_prefix_def valid_for_def demo_token_def token_leeway_def)
  with l show ?thesis by blast
qed

theorem unsafe_profile_never_ready_witness:
  "snd (start_login demo_world demo_inputs (demo_oauth_trust ''a b'' ''docs'') ''a b'' demo_login_state) \<noteq> Inr ''url''"
proof -
  let ?sel = "demo_capability\<lparr>auth_profile := ''a b''\<rparr>"
  have p: "\<not> safe_profile (auth_profile ?sel)" "auth_profile ?sel = ''a b''" "auth_profile ?sel \<noteq> []" by (code_simp)+
  have f: "find_profile (demo_oauth_trust ''a b'' ''docs'') (auth_profile ?sel)
      = Some \<lparr>cf_name = ''a b'', cf_service = ''docs'', cf_credentials = [], cf_oauth = Some demo_oauth\<rparr>" by code_simp
  have o2: "cf_oauth \<lparr>cf_name = ''a b'', cf_service = ''docs'', cf_credentials = [], cf_oauth = Some demo_oauth\<rparr> = Some demo_oauth"
    "oa_type demo_oauth = ''authorization-code''" by (simp_all add: demo_oauth_def)
  from unsafe_profile_never_ready[OF p(1) f o2 p(3), THEN conjunct2] show ?thesis unfolding p(2) .
qed

theorem oauth_profile_unchecked_witness:
  "\<exists>cfg. trusted_http_config demo_world demo_inputs (demo_oauth_trust ''other'' ''elsewhere'')
      (demo_capability\<lparr>auth_profile := ''other''\<rparr>) ''/p'' (demo_login_state\<lparr>tn_tokens := (\<lambda>n. Some demo_token)\<rparr>)
    = (demo_login_state\<lparr>tn_tokens := (\<lambda>n. Some demo_token)\<rparr>, Inr (cfg, None))
    \<and> hc_headers cfg = [(''Authorization'', ''Bearer tok'')]"
proof -
  let ?c = "demo_oauth_trust ''other'' ''elsewhere''" and ?sel = "demo_capability\<lparr>auth_profile := ''other''\<rparr>"
  let ?h = "\<lparr>hx_endpoint = ''https://h'', hx_timeout_ms = 0, hx_mtls = None\<rparr>"
  let ?s = "demo_server\<lparr>tv_stdio := None, tv_http := Some ?h\<rparr>"
  let ?p = "\<lparr>cf_name = ''other'', cf_service = ''elsewhere'', cf_credentials = [], cf_oauth = Some demo_oauth\<rparr>"
  have "find_server ?c (server_name ?sel) (server_ver ?sel) = Some ?s" "project_allowed demo_env ?s ''/p''"
    "auth_profile ?sel \<notin> set (tv_profiles ?s)" "find_profile ?c (auth_profile ?sel) = Some ?p" "cf_service ?p \<noteq> server_name ?sel"
    by (code_simp)+
  note f = this
  have w: "tw_env demo_world = demo_env" "ri_now demo_inputs = 5" by (simp_all add: demo_world_def demo_inputs_def)
  have "\<exists>cfg. trusted_http_config demo_world demo_inputs ?c ?sel ''/p'' (demo_login_state\<lparr>tn_tokens := (\<lambda>n. Some demo_token)\<rparr>)
      = (demo_login_state\<lparr>tn_tokens := (\<lambda>n. Some demo_token)\<rparr>, Inr (cfg, None)) \<and> hc_endpoint cfg = hx_endpoint ?h
      \<and> hc_headers cfg = [(''Authorization'', ''Bearer '' @ tk_value demo_token)]"
    by (rule oauth_profile_unchecked[OF f(1) f(2)[folded w(1)] _ _ f(3,4) _ f(5)])
      (simp_all add: w(2) demo_token_def token_leeway_def)
  then show ?thesis by (auto simp: demo_token_def)
qed

end
