(* ===== verification/BrokerRuntime.thy ===== *)
theory BrokerRuntime
  imports Catalog TrustOAuth
begin

text \<open>
  internal/brokerruntime/runtime.go and internal/capability/key.go: the broker assembled from the
  project's configuration, the user's trust configuration and the capability index.

  The world of a runtime holds what its parts read: the trust world, the transports to the
  servers, and the codecs.  Clock and random source are read once for one operation.
\<close>

section \<open>The signing key\<close>

datatype key_error = KeyCreate | KeyPermissions | KeyLength | KeySigner ref_error

definition signing_key_bytes :: nat where "signing_key_bytes = 32"

text \<open>The file is created exclusively; an existing one must be private, except on Windows.\<close>

definition load_or_create_signing_key :: "bool \<Rightarrow> string \<Rightarrow> string \<Rightarrow> file_system \<Rightarrow> file_system \<times> (key_error, string) result" where
  "load_or_create_signing_key windows fresh path fs =
     (case fs_file fs path of
        None \<Rightarrow> (case write_file path fresh fs of
                   (fs', Inl e) \<Rightarrow> (fs', Inl KeyCreate)
                 | (fs', Inr _) \<Rightarrow> (fs', Inr fresh))
      | Some (key, perm) \<Rightarrow>
          (fs, if \<not> windows \<and> perm mod 64 \<noteq> 0 then Inl KeyPermissions
               else if length key \<noteq> signing_key_bytes then Inl KeyLength
               else Inr key))"

definition load_or_create_signer :: "bool \<Rightarrow> string \<Rightarrow> string \<Rightarrow> int \<Rightarrow> file_system
  \<Rightarrow> file_system \<times> (key_error, reference_signer) result" where
  "load_or_create_signer windows fresh path ttl fs =
     (case load_or_create_signing_key windows fresh path fs of
        (fs', Inl e) \<Rightarrow> (fs', Inl e)
      | (fs', Inr key) \<Rightarrow> (fs', map_sum KeySigner id (new_reference_signer key ttl)))"

section \<open>The world\<close>

datatype open_error = OpenTrust trust_error | OpenFactory factory_error | OpenConnection conn_error

record ('n, 'p, 'h) runtime_world =
  rw_trust :: "'n trust_world"
  rw_inputs :: trust_inputs
  rw_rpc :: rpc_lib
  rw_prims :: prims
  rw_parse :: "string \<Rightarrow> parsed_url option"
  rw_spawn :: "'p spawner"
  rw_process :: "'p process"
  rw_network :: "(string \<times> string \<times> string) option \<Rightarrow> 'h network"
  rw_net :: 'h
  rw_later :: int
  rw_schema :: "string \<Rightarrow> arguments \<Rightarrow> bool"
  rw_show_open :: "open_error \<Rightarrow> string"
  rw_show_call :: "conn_error \<Rightarrow> string"

record 'n runtime_state =
  ru_trust :: "'n trust_state"
  ru_cache :: definition_cache

section \<open>Readiness\<close>

definition runtime_ready :: "('n, 'p, 'h) runtime_world \<Rightarrow> trust_config \<Rightarrow> string \<Rightarrow> 'n runtime_state
  \<Rightarrow> capability \<Rightarrow> availability_status" where
  "runtime_ready w trusted root st c =
     snd (trust_ready (tw_env (rw_trust w)) (tw_store (rw_trust w)) (tn_fs (ru_trust st)) (ri_now (rw_inputs w))
       trusted c root)"

definition with_readiness :: "(capability \<Rightarrow> availability_status) \<Rightarrow> capability \<Rightarrow> capability" where
  "with_readiness ready c = (if availability c \<noteq> av_stale then c\<lparr>availability := ready c\<rparr> else c)"

definition readiness_search :: "(capability \<Rightarrow> availability_status) \<Rightarrow> (broker_query \<Rightarrow> (string, catalog_page) result)
  \<Rightarrow> broker_query \<Rightarrow> (string, catalog_page) result" where
  "readiness_search ready search q =
     map_sum id (\<lambda>page. page\<lparr>cp_capabilities := map (with_readiness ready) (cp_capabilities page)\<rparr>) (search q)"

definition readiness_resolve :: "(capability \<Rightarrow> availability_status) \<Rightarrow> (reference_claims \<Rightarrow> (string, capability) result)
  \<Rightarrow> reference_claims \<Rightarrow> (string, capability) result" where
  "readiness_resolve ready resolve claims = map_sum id (with_readiness ready) (resolve claims)"

section \<open>Policy\<close>

definition binding_selected :: "capability \<Rightarrow> mcp_binding \<Rightarrow> bool" where
  "binding_selected c b \<longleftrightarrow>
     bd_server b = server_name c \<and> bd_version b = server_ver c \<and> bd_scope b = routing_scope c \<and> bd_profile b = auth_profile c"

definition trusted_policy :: "mcp_binding list \<Rightarrow> (capability \<Rightarrow> availability_status) \<Rightarrow> capability \<Rightarrow> policy_effect" where
  "trusted_policy bindings ready c =
     (if \<not> list_ex (binding_selected c) bindings \<or> ready c \<noteq> av_ready then policy_deny else policy_allow)"

section \<open>Connections\<close>

definition open_http :: "('n, 'p, 'h) runtime_world \<Rightarrow> http_config \<Rightarrow> (string \<times> string \<times> string) option
  \<Rightarrow> definition_cache \<Rightarrow> capability \<Rightarrow> definition_cache \<times> (open_error, connector) result" where
  "open_http w cfg certificate cache sel =
     (case new_http_factory (rw_parse w) [cfg] of
        Inl e \<Rightarrow> (cache, Inl (OpenFactory e))
      | Inr f \<Rightarrow>
          (let net = rw_network w certificate
           in case http_open (rw_rpc w) (rw_prims w) net f (ri_now (rw_inputs w)) (rw_later w) cache (rw_net w) sel of
                (cache', Inl e) \<Rightarrow> (cache', Inl (OpenConnection e))
              | (cache', Inr (s, c)) \<Rightarrow>
                  (cache', Inr (http_connector_of (rw_rpc w) (rw_show_call w)
                     (http_round_trip (rw_rpc w) net (http_defaults cfg)) c s))))"

definition open_stdio :: "('n, 'p, 'h) runtime_world \<Rightarrow> stdio_config \<Rightarrow> capability
  \<Rightarrow> launch_event list \<times> (open_error, connector) result" where
  "open_stdio w cfg sel =
     (case new_stdio_factory [cfg] of
        Inl e \<Rightarrow> ([], Inl (OpenFactory e))
      | Inr f \<Rightarrow>
          (case stdio_open (rw_rpc w) (rw_prims w) (rw_spawn w) (rw_process w) f sel of
             (ev, Inl e) \<Rightarrow> (ev, Inl (OpenConnection e))
           | (ev, Inr (s, c)) \<Rightarrow>
               (ev, Inr (connector_of (rw_rpc w) (rw_show_call w) (stdio_round_trip (rw_rpc w) (rw_process w)) c s))))"

definition factory_open :: "('n, 'p, 'h) runtime_world \<Rightarrow> trust_config \<Rightarrow> string \<Rightarrow> capability \<Rightarrow> 'n runtime_state
  \<Rightarrow> 'n runtime_state \<times> launch_event list \<times> (open_error, connector) result" where
  "factory_open w trusted root sel st =
     (case find_server trusted (server_name sel) (server_ver sel) of
        None \<Rightarrow> (st, [], Inl (OpenTrust ServerUntrusted))
      | Some server \<Rightarrow>
          (if tv_http server \<noteq> None then
             (case trusted_http_config (rw_trust w) (rw_inputs w) trusted sel root (ru_trust st) of
                (ts, Inl e) \<Rightarrow> (st\<lparr>ru_trust := ts\<rparr>, [], Inl (OpenTrust e))
              | (ts, Inr (cfg, certificate)) \<Rightarrow>
                  (case open_http w (cfg\<lparr>hc_caching := True, hc_partition := auth_profile sel\<rparr>) certificate (ru_cache st) sel of
                     (cache, r) \<Rightarrow> (\<lparr>ru_trust = ts, ru_cache = cache\<rparr>, [], r)))
           else
             (case trusted_stdio_config (tw_env (rw_trust w)) trusted sel root of
                (log, Inl e) \<Rightarrow> (st\<lparr>ru_trust := (ru_trust st)\<lparr>tn_log := tn_log (ru_trust st) @ log\<rparr>\<rparr>, [], Inl (OpenTrust e))
              | (log, Inr cfg) \<Rightarrow>
                  (case open_stdio w cfg sel of
                     (ev, r) \<Rightarrow> (st\<lparr>ru_trust := (ru_trust st)\<lparr>tn_log := tn_log (ru_trust st) @ log\<rparr>\<rparr>, ev, r)))))"

section \<open>The runtime\<close>

definition runtime_parts :: "('n, 'p, 'h) runtime_world \<Rightarrow> mcp_binding list \<Rightarrow> trust_config \<Rightarrow> string \<Rightarrow> reference_signer
  \<Rightarrow> (broker_query \<Rightarrow> (string, catalog_page) result) \<Rightarrow> (reference_claims \<Rightarrow> (string, capability) result)
  \<Rightarrow> 'n runtime_state \<Rightarrow> broker" where
  "runtime_parts w bindings trusted root sg search resolve st =
     (let ready = runtime_ready w trusted root st
      in \<lparr>bk_prims = rw_prims w, bk_signer = sg, bk_search = readiness_search ready search,
          bk_resolve = readiness_resolve ready resolve,
          bk_policy = (\<lambda>c args. Inr (trusted_policy bindings ready c)),
          bk_open = (\<lambda>c. map_sum (rw_show_open w) id (snd (snd (factory_open w trusted root c st)))),
          bk_schema = rw_schema w,
          bk_observed = (case tc_telemetry trusted of Some (enabled, path) \<Rightarrow> enabled | None \<Rightarrow> False),
          bk_tenant = [], bk_principal = []\<rparr>)"

datatype runtime_error =
    RuntimeBroker broker_error | RuntimeCatalog | RuntimeTrust trust_invalid | RuntimeSigner key_error | RuntimeSignature

record runtime =
  rt_broker :: broker
  rt_context :: string
  rt_view :: string
  rt_trust_path :: string

definition local_view :: string where "local_view = ''local:public''"

definition reference_ttl :: int where "reference_ttl = 5 * 60 * 1000000000"

text \<open>
  \<^verbatim>\<open>NewDiscovery\<close>: \<open>index\<close> is the registry, if there is one, as its search, its resolution and
  its signature (none on a read error); \<open>configured\<close> is what loading the trust configuration gave.
\<close>

record capability_registry =
  cx_search :: "broker_query \<Rightarrow> (string, catalog_page) result"
  cx_resolve :: "reference_claims \<Rightarrow> (string, capability) result"
  cx_signature :: "string option"

definition new_discovery :: "('n, 'p, 'h) runtime_world \<Rightarrow> bool \<Rightarrow> string \<Rightarrow> string \<Rightarrow> config option
  \<Rightarrow> capability_registry option \<Rightarrow> (trust_invalid, trust_config \<times> string) result \<Rightarrow> 'n runtime_state
  \<Rightarrow> 'n runtime_state \<times> (runtime_error, runtime) result" where
  "new_discovery w windows fresh root cfg index configured st =
     (if \<not> mcp_enabled cfg then (st, Inl (RuntimeBroker McpDisabled))
      else (case index of
              None \<Rightarrow> (st, Inl RuntimeCatalog)
            | Some cx \<Rightarrow>
     (case configured of
        Inl e \<Rightarrow> (st, Inl (RuntimeTrust e))
      | Inr (trusted, path) \<Rightarrow>
     (case load_or_create_signer windows fresh (path_join [root, ''.skillex'', ''mcp-signing.key'']) reference_ttl
             (tn_fs (ru_trust st)) of
        (fs, Inl e) \<Rightarrow> (st\<lparr>ru_trust := (ru_trust st)\<lparr>tn_fs := fs\<rparr>\<rparr>, Inl (RuntimeSigner e))
      | (fs, Inr sg) \<Rightarrow>
     (let st' = st\<lparr>ru_trust := (ru_trust st)\<lparr>tn_fs := fs\<rparr>\<rparr>
      in case cx_signature cx of
           None \<Rightarrow> (st', Inl RuntimeSignature)
         | Some s \<Rightarrow>
             (st', map_sum RuntimeBroker (\<lambda>b. \<lparr>rt_broker = b, rt_context = ''sha256:'' @ s, rt_view = local_view,
                      rt_trust_path = path\<rparr>)
                    (new_configured cfg (Some (runtime_parts w (case cf_mcp (the cfg) of Some m \<Rightarrow> mcp_bindings m | None \<Rightarrow> [])
                       trusted root sg (cx_search cx) (cx_resolve cx) st'))))))))) "

end
