(* ===== verification/RuntimeClaims.thy ===== *)
theory RuntimeClaims
  imports BrokerRuntime TrustWitness CatalogClaims ConnectorClaims
begin

text \<open>
  The properties of the assembled broker: a call reaches a server only under the user's and the
  project's configuration, and the signing key keeps references valid across restarts.
\<close>

section \<open>Readiness and policy\<close>

lemma with_readiness_keeps:
  "cap_server (with_readiness ready c) = cap_server c" "cap_kind (with_readiness ready c) = cap_kind c"
  "cap_name (with_readiness ready c) = cap_name c" "routing_scope (with_readiness ready c) = routing_scope c"
  "auth_profile (with_readiness ready c) = auth_profile c" "input_schema (with_readiness ready c) = input_schema c"
  "output_schema (with_readiness ready c) = output_schema c"
  by (simp_all add: with_readiness_def)

lemma with_readiness_ready:
  "availability (with_readiness ready c) = av_ready \<longleftrightarrow> availability c \<noteq> av_stale \<and> ready c = av_ready"
  by (auto simp: with_readiness_def availability_defs)

lemma trusted_policy_allows:
  "trusted_policy bs ready c = policy_allow \<longleftrightarrow> (\<exists>b \<in> set bs. binding_selected c b) \<and> ready c = av_ready"
  by (auto simp: trusted_policy_def policy_defs list_ex_iff)

lemma runtime_parts_simps:
  "bk_prims (runtime_parts w bs trusted root sg search resolve st) = rw_prims w"
  "bk_signer (runtime_parts w bs trusted root sg search resolve st) = sg"
  "bk_search (runtime_parts w bs trusted root sg search resolve st) = readiness_search (runtime_ready w trusted root st) search"
  "bk_resolve (runtime_parts w bs trusted root sg search resolve st) = readiness_resolve (runtime_ready w trusted root st) resolve"
  "bk_policy (runtime_parts w bs trusted root sg search resolve st) c args
     = Inr (trusted_policy bs (runtime_ready w trusted root st) c)"
  "bk_open (runtime_parts w bs trusted root sg search resolve st) c
     = map_sum (rw_show_open w) id (snd (snd (factory_open w trusted root c st)))"
  by (simp_all add: runtime_parts_def Let_def)

section \<open>Launching\<close>

lemma launch_defaults: "launch (stdio_defaults cfg) = launch cfg"
  by (simp add: launch_def stdio_defaults_def)

lemma open_stdio_events:
  assumes "open_stdio w cfg sel = (ev, r)" "e \<in> set ev"
  shows "e = ShutDown \<or> e = launch cfg"
proof -
  from assms obtain f where f: "new_stdio_factory [cfg] = Inr f"
    by (cases "new_stdio_factory [cfg]") (auto simp: open_stdio_def)
  then have f_eq: "f = [(server_key (sc_name cfg) (sc_version cfg), stdio_defaults cfg)]"
    by (auto simp: new_stdio_factory_def Let_def split: if_splits)
  have "ev = fst (stdio_open (rw_rpc w) (rw_prims w) (rw_spawn w) (rw_process w) f sel)"
    using assms(1) f by (auto simp: open_stdio_def split: prod.splits sum.splits)
  with assms(2) f_eq show ?thesis
    by (auto simp: stdio_open_verify launch_defaults split: option.splits if_splits sum.splits prod.splits)
qed

lemma factory_open_events:
  assumes "factory_open w trusted root sel st = (st', ev, r)" "e \<in> set ev"
  shows "e = ShutDown \<or> (\<exists>cfg. snd (trusted_stdio_config (tw_env (rw_trust w)) trusted sel root) = Inr cfg \<and> e = launch cfg)"
  using assms open_stdio_events[of w _ sel _ _ e]
  by (fastforce simp: factory_open_def split: option.splits if_splits prod.splits sum.splits)

text \<open>
  C7: A call of the assembled broker connects only to a capability that the index still lists for
  the reference, not expired, under a binding of the project's configuration with the same scope and
  profile, at a server the user trusts in this exact version for this project and profile, with
  all credentials present; and connecting starts only the command configured for this server.
\<close>

theorem runtime_call_authorized:
  assumes "Opened c \<in> set (fst (call_with_input (runtime_parts w bs trusted root sg search resolve st) now ref args responses state req))"
  shows "(\<exists>b \<in> set bs. bd_server b = server_name c \<and> bd_version b = server_ver c
       \<and> bd_scope b = routing_scope c \<and> bd_profile b = auth_profile c)
    \<and> (\<exists>s. find_server trusted (server_name c) (server_ver c) = Some s \<and> project_allowed (tw_env (rw_trust w)) s root
       \<and> (auth_profile c \<noteq> [] \<longrightarrow> auth_profile c \<in> set (tv_profiles s)))
    \<and> runtime_ready w trusted root st c = av_ready
    \<and> (\<exists>claims c0. verify (rw_prims w) sg now ref = Inr claims \<and> rc_context claims = rq_context req
       \<and> rc_view claims = rq_view req \<and> resolve claims = Inr c0 \<and> availability c0 \<noteq> av_stale
       \<and> cap_server c0 = cap_server c \<and> cap_kind c0 = cap_kind c \<and> cap_name c0 = cap_name c
       \<and> rc_schema_digest claims = schema_digest c)
    \<and> (\<forall>st' ev r e. factory_open w trusted root c st = (st', ev, r) \<longrightarrow> e \<in> set ev \<longrightarrow> e = ShutDown \<or>
       (\<exists>cfg. snd (trusted_stdio_config (tw_env (rw_trust w)) trusted c root) = Inr cfg \<and> e = launch cfg))"
proof -
  let ?b = "runtime_parts w bs trusted root sg search resolve st" and ?ready = "runtime_ready w trusted root st"
  from call_Opened[OF assms] obtain ev where d: "describe ?b now ref req = (ev, Inr c)" and av: "availability c = av_ready"
    and pol: "bk_policy ?b c args = Inr policy_allow" by blast
  from describe_OkD[OF d] obtain claims c1 where cl: "verify (rw_prims w) sg now ref = Inr claims"
      "rc_context claims = rq_context req" "rc_view claims = rq_view req"
    and c1: "readiness_resolve ?ready resolve claims = Inr c1" "with_computed_digest (rw_prims w) c1 = Inr c"
    and m: "claims_match claims c" by (auto simp: runtime_parts_simps)
  from c1(1) obtain c0 where c0: "resolve claims = Inr c0" "c1 = with_readiness ?ready c0"
    by (auto simp: readiness_resolve_def map_sum_Ok_iff)
  have keep: "cap_server c0 = cap_server c" "cap_kind c0 = cap_kind c" "cap_name c0 = cap_name c"
    and "availability (with_readiness ?ready c0) = av_ready"
    using with_computed_keeps[OF c1(2)] c0(2) av by (simp_all add: with_readiness_keeps)
  then have fresh: "availability c0 \<noteq> av_stale" by (simp add: with_readiness_ready)
  from pol have p: "\<exists>b \<in> set bs. binding_selected c b" "?ready c = av_ready"
    by (simp_all add: runtime_parts_simps trusted_policy_allows)
  have ready: "snd (trust_ready (tw_env (rw_trust w)) (tw_store (rw_trust w)) (tn_fs (ru_trust st)) (ri_now (rw_inputs w))
      trusted c root) = av_ready"
    using p(2) by (simp add: runtime_ready_def)
  from trust_ready_ready[OF this] obtain s where s: "server_of trusted c = Some s" "project_allowed (tw_env (rw_trust w)) s root"
    "auth_profile c \<noteq> [] \<Longrightarrow> auth_profile c \<in> set (tv_profiles s)" by blast
  from m have "rc_schema_digest claims = schema_digest c" by (simp add: claims_match_def)
  with cl c0(1) keep fresh have "\<exists>claims c0. verify (rw_prims w) sg now ref = Inr claims \<and> rc_context claims = rq_context req
       \<and> rc_view claims = rq_view req \<and> resolve claims = Inr c0 \<and> availability c0 \<noteq> av_stale
       \<and> cap_server c0 = cap_server c \<and> cap_kind c0 = cap_kind c \<and> cap_name c0 = cap_name c
       \<and> rc_schema_digest claims = schema_digest c" by blast
  moreover have "\<exists>b \<in> set bs. bd_server b = server_name c \<and> bd_version b = server_ver c
       \<and> bd_scope b = routing_scope c \<and> bd_profile b = auth_profile c"
    using p(1) by (auto simp: binding_selected_def)
  ultimately show ?thesis
    using s p(2) factory_open_events[of w trusted root c st] unfolding server_of_def by blast
qed

section \<open>References across restarts\<close>

lemma signing_key_kept:
  assumes "load_or_create_signing_key windows fresh path fs = (fs', Inr key)" "length fresh = signing_key_bytes"
  shows "load_or_create_signing_key windows fresh' path fs' = (fs', Inr key) \<and> length key = signing_key_bytes"
  using assms
  by (auto simp: load_or_create_signing_key_def write_file_def owner_only_def split: option.splits prod.splits if_splits)

text \<open>
  C28: The signing key survives a restart and stays private: whatever random key a later start
  would have created, it loads the signer of the first start from the files that one left, so every
  reference still verifies; the key has 32 bytes, group and others have no access to it unless the
  system is Windows, and no other file changes.
\<close>

theorem signing_key_stable:
  assumes "load_or_create_signer windows fresh path ttl fs = (fs', Inr sg)" "length fresh = 32"
  shows "load_or_create_signer windows fresh' path ttl fs' = (fs', Inr sg)
    \<and> (\<exists>perm. fs_file fs' path = Some (sg_key sg, perm) \<and> (windows \<or> perm mod 64 = 0)) \<and> length (sg_key sg) = 32
    \<and> (\<forall>p. p \<noteq> path \<longrightarrow> fs_file fs' p = fs_file fs p)"
proof -
  from assms(1) obtain key where k: "load_or_create_signing_key windows fresh path fs = (fs', Inr key)"
    and sg: "new_reference_signer key ttl = Inr sg"
    by (auto simp: load_or_create_signer_def map_sum_Ok_iff split: prod.splits sum.splits)
  have key: "sg_key sg = key" using sg by (auto simp: new_reference_signer_def split: if_splits)
  from signing_key_kept[OF k, of fresh'] assms(2)
  have again: "load_or_create_signing_key windows fresh' path fs' = (fs', Inr key)" "length key = 32"
    by (simp_all add: signing_key_bytes_def)
  have "\<exists>perm. fs_file fs' path = Some (key, perm) \<and> (windows \<or> perm mod 64 = 0)" "\<forall>p. p \<noteq> path \<longrightarrow> fs_file fs' p = fs_file fs p"
    using k by (auto simp: load_or_create_signing_key_def write_file_def owner_only_def split: option.splits prod.splits if_splits)
  with again sg key show ?thesis by (simp add: load_or_create_signer_def)
qed

section \<open>A runtime for witnesses\<close>

definition demo_runtime :: "(unit, nat, nat) runtime_world" where
  "demo_runtime = \<lparr>rw_trust = demo_world, rw_inputs = demo_inputs, rw_rpc = demo_rpc, rw_prims = demo_prims,
     rw_parse = (\<lambda>s. None), rw_spawn = (\<lambda>cfg. Inr 0), rw_process = demo_process, rw_network = (\<lambda>c. demo_network), rw_net = 0,
     rw_later = 0, rw_schema = (\<lambda>s a. True), rw_show_open = (\<lambda>e. []), rw_show_call = (\<lambda>e. [])\<rparr>"

definition demo_runtime_state :: "unit runtime_state" where
  "demo_runtime_state = \<lparr>ru_trust = demo_login_state, ru_cache = (\<lambda>k. None)\<rparr>"

definition demo_bindings :: "mcp_binding list" where
  "demo_bindings = [\<lparr>bd_server = ''docs'', bd_version = ''1'', bd_profile = [], bd_scope = ''**''\<rparr>]"

abbreviation demo_runtime_broker :: broker where
  "demo_runtime_broker \<equiv> runtime_parts demo_runtime demo_bindings demo_trust ''/p'' demo_signer
     (\<lambda>q. Inl ''none'') (\<lambda>cl. Inr demo_capability) demo_runtime_state"

lemma demo_runtime_ready:
  "server_name c = ''docs'' \<Longrightarrow> server_ver c = ''1'' \<Longrightarrow> auth_profile c = [] \<Longrightarrow>
   runtime_ready demo_runtime demo_trust ''/p'' demo_runtime_state c = av_ready"
  by (simp add: runtime_ready_def trust_ready_def server_of_def find_server_def demo_trust_def demo_server_def
      project_allowed_def tpure_def)

theorem runtime_call_authorized_witness:
  "\<exists>ref c. Opened c \<in> set (fst (call_with_input demo_runtime_broker 2000000000 ref [] [] [] demo_request)) \<and>
     runtime_ready demo_runtime demo_trust ''/p'' demo_runtime_state c = av_ready"
proof -
  from demo_ready_issues obtain ref c' where r: "with_computed_digest demo_prims demo_ready = Inr c'"
    "verify demo_prims demo_signer 2000000000 ref = Inr (issue_claims demo_signer c' ''v'' ''x'' 1000000000 ''n'')"
    by blast
  have keep: "server_name c' = ''docs''" "server_ver c' = ''1''" "auth_profile c' = []" "routing_scope c' = ''**''"
    "availability c' = av_ready"
    using with_computed_keeps[OF r(1)] by (simp_all add: demo_ready_def demo_capability_def)
  note ready = demo_runtime_ready[OF keep(1-3)]
  have "with_readiness (runtime_ready demo_runtime demo_trust ''/p'' demo_runtime_state) demo_capability = demo_ready"
    using demo_runtime_ready[of demo_capability]
    by (simp add: with_readiness_def demo_ready_def demo_capability_def availability_defs)
  then have "describe demo_runtime_broker 2000000000 ref demo_request
      = (usage demo_runtime_broker ''describe'' (Some c') ''success'', Inr c')"
    using r by (simp add: describe_def runtime_parts_simps readiness_resolve_def demo_request_def claims_match_def demo_runtime_def)
      (simp add: issue_claims_def)
  moreover have "bk_policy demo_runtime_broker c' [] = Inr policy_allow"
    using ready keep
    by (simp add: runtime_parts_simps trusted_policy_allows binding_selected_def demo_bindings_def)
  moreover have "bk_schema demo_runtime_broker (input_schema c') []"
    by (simp add: runtime_parts_def demo_runtime_def Let_def)
  ultimately have o: "Opened c' \<in> set (fst (call_with_input demo_runtime_broker 2000000000 ref [] [] [] demo_request))"
    using keep(5) by (auto simp: call_with_input_def call_selected_def run_connector_def split: sum.split option.split)
  from runtime_call_authorized[OF o] o show ?thesis by blast
qed

theorem signing_key_stable_witness:
  "\<exists>fs' sg. load_or_create_signer False (replicate 32 CHR ''k'') ''/r/key'' 5 demo_fs = (fs', Inr sg) \<and>
     load_or_create_signer False [] ''/r/key'' 5 fs' = (fs', Inr sg)"
proof -
  obtain fs' sg where l: "load_or_create_signer False (replicate 32 CHR ''k'') ''/r/key'' 5 demo_fs = (fs', Inr sg)"
    by (auto simp: load_or_create_signer_def load_or_create_signing_key_def demo_fs_def write_file_def new_reference_signer_def)
  from signing_key_stable[OF l, of "[]"] l show ?thesis by simp
qed

end
