(* ===== verification/Signature.thy ===== *)
theory Signature
  imports QueryProps CapabilityStore RegistryProps
begin

text \<open>
  internal/registry/signature.go: the fingerprint of the indexed contents.  Each section is a
  header and the length-prefixed columns of its rows in a fixed order; the digest (SHA-256 in hexadecimal)
  is a parameter.  A row is the list of its columns.
\<close>

section \<open>Rows\<close>

definition skill_fields :: "skill_row \<Rightarrow> string list" where
  "skill_fields r = [sr_path r, sr_content r, coalesce (sr_pkg r), coalesce (sr_ver r), sr_vis r, sr_src r]"

definition sig_skills :: "registry \<Rightarrow> string list list" where
  "sig_skills db = map skill_fields (sort_key sr_path (rg_skills db))"

text \<open>A dependent row with the path of its skill, as the join gives it.\<close>

definition with_path :: "registry \<Rightarrow> nat \<Rightarrow> string list \<Rightarrow> string list option" where
  "with_path db i cols = map_option (\<lambda>s. sr_path s # cols) (by_id sr_id i (rg_skills db))"

definition sig_topics :: "registry \<Rightarrow> string list list" where
  "sig_topics db = sort (List.map_filter (\<lambda>(i, t). with_path db i [t]) (rg_topics db))"

definition sig_tags :: "registry \<Rightarrow> string list list" where
  "sig_tags db = sort (List.map_filter (\<lambda>(i, t). with_path db i [t]) (rg_tags db))"

definition sig_scopes :: "registry \<Rightarrow> string list list" where
  "sig_scopes db = sort (List.map_filter (\<lambda>r. with_path db (sc_skill r) [sc_scope r]) (rg_scopes db))"

text \<open>A missing \<^verbatim>\<open>extra_skills\<close> sorts like the empty string; no row holds the empty string itself.\<close>

definition sig_tests :: "registry \<Rightarrow> string list list" where
  "sig_tests db = sort (List.map_filter
     (\<lambda>r. with_path db (tr_skill r) [tr_name r, tr_prompt r, coalesce (tr_extra r), tr_criteria r]) (rg_tests db))"

definition cap_fields :: "joined \<Rightarrow> string list" where
  "cap_fields j =
     (case j of (c, v, s, w) \<Rightarrow>
        [ms_name s, ms_publisher s, mv_version v, mv_digest v, mc_kind c, mc_name c, mc_title c, mc_description c,
         mc_input c, mc_output c, mc_digest c, mc_risk c, mc_availability c, vw_visibility w, vw_partition w,
         vw_cache_scope w, ms_source_type s, ms_source_ref s])"

definition cap_order :: "joined \<Rightarrow> string list" where
  "cap_order j = (case j of (c, v, s, w) \<Rightarrow> [ms_name s, mv_version v, mc_kind c, mc_name c, vw_partition w])"

definition sig_capabilities :: "mcp_tables \<Rightarrow> string list list" where
  "sig_capabilities t = map cap_fields (sort_key cap_order (joined_rows t))"

text \<open>A binding joined with its capability, that one's version and server.\<close>

definition binding_fields :: "mcp_tables \<Rightarrow> mcp_binding_row \<Rightarrow> string list option" where
  "binding_fields t b =
     (case by_id mc_id (mb_cap b) (snd (mt_caps t)) of
        None \<Rightarrow> None
      | Some c \<Rightarrow>
          (case by_id mv_id (mc_version c) (snd (mt_versions t)) of
             None \<Rightarrow> None
           | Some v \<Rightarrow>
               map_option (\<lambda>s. [ms_name s, mv_version v, mc_kind c, mc_name c, mb_scope b, mb_relationship b, mb_profile b])
                 (by_id ms_id (mv_server v) (snd (mt_servers t)))))"

definition sig_bindings :: "mcp_tables \<Rightarrow> string list list" where
  "sig_bindings t = sort (List.map_filter (binding_fields t) (mt_bindings t))"

section \<open>The text\<close>

definition sig_field :: "string \<Rightarrow> string" where
  "sig_field s = strconv_itoa (length s) @ '':'' @ s @ '';''"

definition sig_section :: "string \<Rightarrow> string list list \<Rightarrow> string" where
  "sig_section header rows = header @ concat (map sig_field (concat rows))"

definition sig_parts :: "registry \<Rightarrow> (string \<times> string list list) list" where
  "sig_parts db =
     [(''skills;'', sig_skills db), (''topics;'', sig_topics db), (''tags;'', sig_tags db), (''scopes;'', sig_scopes db),
      (''tests;'', sig_tests db), (''mcp-capabilities;'', sig_capabilities (rg_mcp db)), (''mcp-bindings;'', sig_bindings (rg_mcp db))]"

definition signature_text :: "registry \<Rightarrow> string" where
  "signature_text db = concat (map (\<lambda>(header, rows). sig_section header rows) (sig_parts db))"

definition signature :: "(string \<Rightarrow> string) \<Rightarrow> registry \<Rightarrow> string" where
  "signature sha db = sha (signature_text db)"

section \<open>Reading the text back\<close>

lemma itoa_colon: "CHR '':'' \<notin> set (strconv_itoa n)"
proof
  assume "CHR '':'' \<in> set (strconv_itoa n)"
  with itoa_digits[of n] have "is_digit (CHR '':'')" unfolding list_all_iff by blast
  then show False by (simp add: is_digit_def less_eq_char_def)
qed

lemma itoa_inj: "strconv_itoa n = strconv_itoa m \<Longrightarrow> n = m"
  by (metis digits_value_itoa)

lemma sig_field_split:
  assumes "sig_field f @ x = sig_field g @ y"
  shows "f = g \<and> x = y"
proof -
  from assms have "strconv_itoa (length f) @ CHR '':'' # (f @ '';'' @ x) = strconv_itoa (length g) @ CHR '':'' # (g @ '';'' @ y)"
    by (simp add: sig_field_def)
  moreover have "takeWhile (\<lambda>c. c \<noteq> CHR '':'') (strconv_itoa n @ CHR '':'' # r) = strconv_itoa n" for n r
    using itoa_colon[of n] by (subst takeWhile_append2) auto
  ultimately have e: "strconv_itoa (length f) = strconv_itoa (length g)" by metis
  with assms have e2: "f @ '';'' @ x = g @ '';'' @ y" by (simp add: sig_field_def)
  from itoa_inj[OF e] e2 show ?thesis by (simp add: append_eq_append_conv)
qed

text \<open>Where the fields of a section end: at the end of the text or at the letter of the next header.\<close>

definition no_field :: "string \<Rightarrow> bool" where
  "no_field r \<longleftrightarrow> r = [] \<or> \<not> is_digit (hd r)"

lemma sig_field_head: "sig_field f @ x \<noteq> [] \<and> is_digit (hd (sig_field f @ x))"
proof -
  obtain c cs where c: "strconv_itoa (length f) = c # cs" using itoa_nonempty by (cases "strconv_itoa (length f)") auto
  with itoa_digits[of "length f"] have "is_digit c" by simp
  with c show ?thesis by (simp add: sig_field_def)
qed

lemma fields_unique:
  "concat (map sig_field fs) @ r = concat (map sig_field gs) @ r' \<Longrightarrow> no_field r \<Longrightarrow> no_field r' \<Longrightarrow> fs = gs \<and> r = r'"
proof (induction fs arbitrary: gs)
  case Nil
  show ?case
  proof (cases gs)
    case (Cons g gs')
    with Nil have "r = sig_field g @ (concat (map sig_field gs') @ r')" by simp
    with sig_field_head Nil.prems(2) show ?thesis unfolding no_field_def by metis
  qed (use Nil in simp)
next
  case (Cons f fs)
  show ?case
  proof (cases gs)
    case Nil
    with Cons.prems have "r' = sig_field f @ (concat (map sig_field fs) @ r)" by simp
    with sig_field_head Cons.prems(3) show ?thesis unfolding no_field_def by metis
  next
    case g: (Cons g gs')
    with Cons.prems(1) have "sig_field f @ (concat (map sig_field fs) @ r) = sig_field g @ (concat (map sig_field gs') @ r')"
      by simp
    from sig_field_split[OF this] Cons.IH[of gs'] Cons.prems g show ?thesis by blast
  qed
qed

lemma rows_unique:
  "concat rows = concat rows' \<Longrightarrow> \<forall>r \<in> set rows \<union> set rows'. length r = k \<Longrightarrow> 0 < k \<Longrightarrow> rows = rows'"
proof (induction rows arbitrary: rows')
  case Nil
  then have "\<forall>r \<in> set rows'. r = []" by simp
  with Nil.prems show ?case by (cases rows') auto
next
  case (Cons r rows)
  obtain q qs where q: "rows' = q # qs"
    using Cons.prems by (cases rows') auto
  with Cons.prems(2) have "length r = length q" by simp
  with Cons.prems(1) q have "r = q" "concat rows = concat qs" by simp_all
  with Cons q show ?case by simp
qed

lemma section_unique:
  assumes "sig_section h rows @ r = sig_section h rows' @ r'" "no_field r" "no_field r'"
    and "\<forall>x \<in> set rows \<union> set rows'. length x = k" "0 < k"
  shows "rows = rows' \<and> r = r'"
proof -
  have "concat (map sig_field (concat rows)) @ r = concat (map sig_field (concat rows')) @ r'"
    using assms(1) by (simp add: sig_section_def)
  from fields_unique[OF this assms(2,3)] rows_unique[OF _ assms(4,5)] show ?thesis by blast
qed

lemma parts_unique:
  assumes "concat (map (\<lambda>(h, rows). sig_section h rows) ps) = concat (map (\<lambda>(h, rows). sig_section h rows) qs)"
    and "list_all2 (\<lambda>(h, rows) (h', rows'). h = h' \<and> h \<noteq> [] \<and> \<not> is_digit (hd h)
      \<and> (\<exists>k > 0. \<forall>r \<in> set rows \<union> set rows'. length r = k)) ps qs"
  shows "ps = qs"
  using assms(2,1)
proof (induction rule: list_all2_induct)
  case Nil
  then show ?case by simp
next
  case (Cons p ps q qs)
  obtain h rows where p: "p = (h, rows)" by (cases p)
  with Cons.hyps(1) obtain rows' k where q: "q = (h, rows')" and k: "0 < k" "\<forall>r \<in> set rows \<union> set rows'. length r = k"
    by (cases q) auto
  have nf: "no_field (concat (map (\<lambda>(h, rows). sig_section h rows) xs))"
    if "list_all2 (\<lambda>(h, rows) (h', rows'). h = h' \<and> h \<noteq> [] \<and> \<not> is_digit (hd h)
      \<and> (\<exists>k > 0. \<forall>r \<in> set rows \<union> set rows'. length r = k)) xs ys
     \<or> list_all2 (\<lambda>(h, rows) (h', rows'). h = h' \<and> h \<noteq> [] \<and> \<not> is_digit (hd h)
      \<and> (\<exists>k > 0. \<forall>r \<in> set rows \<union> set rows'. length r = k)) ys xs" for xs ys :: "(string \<times> string list list) list"
    using that by (cases xs; cases ys) (auto simp: no_field_def sig_section_def)
  have "sig_section h rows @ concat (map (\<lambda>(h, rows). sig_section h rows) ps)
      = sig_section h rows' @ concat (map (\<lambda>(h, rows). sig_section h rows) qs)"
    using Cons.prems p q by simp
  from section_unique[OF this nf[OF disjI1[OF Cons.hyps(2)]] nf[OF disjI2[OF Cons.hyps(2)]] k(2,1)] Cons.IH p q
  show ?case by simp
qed

lemma binding_fields_length: "binding_fields t b = Some x \<Longrightarrow> length x = 7"
  by (auto simp: binding_fields_def split: option.splits)

lemma row_lengths:
  "\<forall>x \<in> set (sig_skills db). length x = 6" "\<forall>x \<in> set (sig_topics db). length x = 2" "\<forall>x \<in> set (sig_tags db). length x = 2"
  "\<forall>x \<in> set (sig_scopes db). length x = 2" "\<forall>x \<in> set (sig_tests db). length x = 5"
  "\<forall>x \<in> set (sig_capabilities t). length x = 18" "\<forall>x \<in> set (sig_bindings t). length x = 7"
  by (auto simp: sig_skills_def skill_fields_def sig_topics_def sig_tags_def sig_scopes_def sig_tests_def with_path_def
      set_map_filter sig_capabilities_def cap_fields_def sig_bindings_def dest: binding_fields_length)

section \<open>Properties\<close>

text \<open>
  C26: The fingerprinted text determines the fingerprinted contents: two registries have the same
  text exactly when they agree on the columns of all skills, topics, tags, scopes, test scenarios,
  capabilities and bindings, whatever bytes these hold; so short of a SHA-256 collision, equal
  signatures mean equal indexed columns, and internal ids and times do not matter.
\<close>

theorem signature_text_exact:
  "signature_text db = signature_text db' \<longleftrightarrow>
     sig_skills db = sig_skills db' \<and> sig_topics db = sig_topics db' \<and> sig_tags db = sig_tags db' \<and>
     sig_scopes db = sig_scopes db' \<and> sig_tests db = sig_tests db' \<and>
     sig_capabilities (rg_mcp db) = sig_capabilities (rg_mcp db') \<and> sig_bindings (rg_mcp db) = sig_bindings (rg_mcp db')"
proof -
  have d: "\<not> is_digit CHR ''s''" "\<not> is_digit CHR ''t''" "\<not> is_digit CHR ''m''"
    by (simp_all add: is_digit_def less_eq_char_def)
  have k: "\<exists>k > 0. \<forall>r \<in> set rows \<union> set rows'. length r = k"
    if "\<forall>r \<in> set rows. length r = n" "\<forall>r \<in> set rows'. length r = n" "0 < n" for rows rows' :: "string list list" and n
    using that by auto
  note l = row_lengths(1-5)[of db] row_lengths(6,7)[of "rg_mcp db"]
    and l' = row_lengths(1-5)[of db'] row_lengths(6,7)[of "rg_mcp db'"]
  have "list_all2 (\<lambda>(h, rows) (h', rows'). h = h' \<and> h \<noteq> [] \<and> \<not> is_digit (hd h)
      \<and> (\<exists>k > 0. \<forall>r \<in> set rows \<union> set rows'. length r = k)) (sig_parts db) (sig_parts db')"
    unfolding sig_parts_def
    using k[OF l(1) l'(1)] k[OF l(2) l'(2)] k[OF l(3) l'(3)] k[OF l(4) l'(4)] k[OF l(5) l'(5)] k[OF l(6) l'(6)] k[OF l(7) l'(7)]
    by (simp add: d)
  from parts_unique[OF _ this] have "signature_text db = signature_text db' \<longleftrightarrow> sig_parts db = sig_parts db'"
    unfolding signature_text_def by metis
  then show ?thesis by (simp add: sig_parts_def)
qed

section \<open>What the fingerprint leaves out\<close>

definition erase :: "skill_row \<Rightarrow> skill_row" where
  "erase r = r\<lparr>sr_name := None, sr_desc := None, sr_indexed := []\<rparr>"

lemma sort_erase: "sort_key sr_path (map erase rows) = map erase (sort_key sr_path rows)"
proof (induction rows)
  case Nil
  then show ?case by simp
next
  case (Cons r rows)
  have "insort_key sr_path (erase x) (map erase ys) = map erase (insort_key sr_path x ys)" for x ys
    by (induction ys) (simp_all add: erase_def)
  with Cons show ?case by simp
qed

lemma with_path_erase: "with_path (db\<lparr>rg_skills := map erase (rg_skills db)\<rparr>) i cols = with_path db i cols"
proof -
  have "List.find (\<lambda>r. sr_id r = i) (map erase rows) = map_option erase (List.find (\<lambda>r. sr_id r = i) rows)" for rows
    by (induction rows) (simp_all add: erase_def)
  then show ?thesis by (simp add: with_path_def by_id_def option.map_comp o_def erase_def)
qed

lemma sig_erase: "sig_parts (db\<lparr>rg_skills := map erase (rg_skills db)\<rparr>) = sig_parts db"
  by (simp add: sig_parts_def sig_skills_def sort_erase sig_topics_def sig_tags_def sig_scopes_def sig_tests_def with_path_erase)
    (simp add: skill_fields_def erase_def)

lemma erase_insert:
  assumes "reg_ok db"
  shows "sig_parts (fst (insert_skill now db (s\<lparr>sk_name := n, sk_desc := d\<rparr>))) = sig_parts (fst (insert_skill now' db s))"
proof -
  have k: "keys_ok db" using assms by (simp add: reg_ok_def)
  let ?a = "fst (insert_skill now db (s\<lparr>sk_name := n, sk_desc := d\<rparr>))" and ?b = "fst (insert_skill now' db s)"
  let ?e = "\<lambda>x. x\<lparr>rg_skills := map erase (rg_skills x)\<rparr>"
  have "map erase (rg_skills ?a) = map erase (rg_skills ?b)"
    by (simp add: insert_skills_set[OF k] upsert_skill_row_def erase_def)
  moreover have "rg_topics ?a = rg_topics ?b" "rg_tags ?a = rg_tags ?b" "rg_scopes ?a = rg_scopes ?b" "rg_tests ?a = rg_tests ?b"
    "rg_mcp ?a = rg_mcp ?b"
    by (simp_all add: insert_skill_eq[OF k] Let_def replace_meta_def replace_search_def upsert_skill_row_def)
  ultimately have "sig_parts (?e ?a) = sig_parts (?e ?b)"
    by (simp add: sig_parts_def sig_skills_def sig_topics_def sig_tags_def sig_scopes_def sig_tests_def with_path_def)
  then show ?thesis by (simp only: sig_erase)
qed

text \<open>
  C38: A changed name or description goes unnoticed: indexing a skill with another name and
  description gives a registry with the same signature, though reading the skill back returns the
  other name, so the staleness check accepts an index that a refresh would change.
\<close>

theorem renaming_not_detected:
  assumes "reg_ok db" "n \<noteq> sk_name s"
  shows "signature sha (fst (insert_skill now db (s\<lparr>sk_name := n, sk_desc := d\<rparr>))) = signature sha (fst (insert_skill now' db s)) \<and>
    map_option sk_name (get_skill_by_path (fst (insert_skill now db (s\<lparr>sk_name := n, sk_desc := d\<rparr>))) (sk_path s)) = Some n \<and>
    map_option sk_name (get_skill_by_path (fst (insert_skill now' db s)) (sk_path s)) = Some (sk_name s) \<and> n \<noteq> sk_name s"
proof -
  have name: "map_option sk_name (get_skill_by_path (fst (insert_skill x db y)) (sk_path y)) = Some (sk_name y)" for x y
  proof -
    have e: "stored_form u = stored_form v \<Longrightarrow> sk_name u = sk_name v" for u v
      unfolding stored_form_def by (drule arg_cong[where f = sk_name]) simp
    from read_after_insert[OF assms(1), of x y] show ?thesis by (auto simp: read_path_def intro!: e)
  qed
  from name[of now "s\<lparr>sk_name := n, sk_desc := d\<rparr>"] name[of now' s] assms(2) erase_insert[OF assms(1), where now = now and s = s and n = n and d = d and now' = now']
  show ?thesis by (simp add: signature_def signature_text_def)
qed

theorem renaming_not_detected_witness:
  "\<exists>a b :: skill. signature id (fst (insert_skill [] empty_registry a)) = signature id (fst (insert_skill [] empty_registry b))
     \<and> sk_name a \<noteq> sk_name b"
proof -
  have "reg_ok empty_registry" by (rule reg_ok_empty)
  let ?s = "\<lparr>sk_id = 0, sk_path = ''a.md'', sk_content = ''b'', sk_name = ''n'', sk_desc = [], sk_pkg = [], sk_ver = [],
    sk_vis = ''public'', sk_src = ''repo'', sk_score = 0, sk_topics = [], sk_tags = [], sk_scopes = [''**'']\<rparr> :: skill"
  have "''m'' \<noteq> sk_name ?s" by simp
  from renaming_not_detected[OF \<open>reg_ok empty_registry\<close> this, where sha = id and now = "[]" and now' = "[]" and d = "''d''"]
  have "signature id (fst (insert_skill [] empty_registry (?s\<lparr>sk_name := ''m'', sk_desc := ''d''\<rparr>)))
      = signature id (fst (insert_skill [] empty_registry ?s))" by (rule conjunct1)
  moreover have "sk_name (?s\<lparr>sk_name := ''m'', sk_desc := ''d''\<rparr>) \<noteq> sk_name ?s" by simp
  ultimately show ?thesis by blast
qed

end
