(* ===== verification/Validator.thy ===== *)
theory Validator
  imports GoRel
begin

text \<open>
  internal/validator/validator.go: parsing and validating test files, and the check of a directory.
  The walk of a directory is a parameter: the regular files below it, in the order of the walk, each
  with what reading it gives.  Go visits the two maps of the final checks in no particular order;
  here they are visited in the order of the walk.
\<close>

section \<open>Data\<close>

datatype issue_message =
    ParseFailed string | Orphaned string | MissingTest | MissingH1 | WrongH1 string string | NoScenarios
  | MissingPrompt string | MissingCriteria string

datatype issue_level = LevelError | LevelWarning

record file_issue =
  iu_file :: string
  iu_message :: issue_message
  iu_level :: issue_level

record test_section =
  vs_name :: string
  vs_prompt :: string
  vs_extra :: "string list"
  vs_criteria :: "string list"

record test_file =
  tf_path :: string
  tf_skill_ref :: string
  tf_scenarios :: "test_section list"

section \<open>Scenarios\<close>

definition scenario_errors :: "test_section \<Rightarrow> issue_message list" where
  "scenario_errors s =
     (if vs_prompt s = [] then [MissingPrompt (vs_name s)] else [])
     @ (if vs_criteria s = [] then [MissingCriteria (vs_name s)] else [])"

definition error_issue :: "string \<Rightarrow> issue_message \<Rightarrow> file_issue" where
  "error_issue file m = \<lparr>iu_file = file, iu_message = m, iu_level = LevelError\<rparr>"

definition validate_scenario :: "test_section \<Rightarrow> string \<Rightarrow> file_issue list \<Rightarrow> file_issue list \<times> bool" where
  "validate_scenario s file issues =
     (issues @ map (error_issue file) (scenario_errors s), scenario_errors s = [])"

section \<open>Test files\<close>

record parse_state =
  vp_ref :: string
  vp_current :: "test_section option"
  vp_scenarios :: "test_section list"
  vp_issues :: "file_issue list"

text \<open>The end of a section: a valid one is kept, an invalid one leaves its issues.\<close>

definition finish_section :: "string \<Rightarrow> parse_state \<Rightarrow> parse_state" where
  "finish_section file st =
     (case vp_current st of
        None \<Rightarrow> st
      | Some s \<Rightarrow>
          (case validate_scenario s file (vp_issues st) of
             (issues, ok) \<Rightarrow> st\<lparr>vp_issues := issues, vp_scenarios := vp_scenarios st @ (if ok then [s] else [])\<rparr>))"

definition section_line :: "string \<Rightarrow> test_section \<Rightarrow> test_section" where
  "section_line line s =
     (if has_prefix line ''Prompt: '' then s\<lparr>vs_prompt := trim_prefix line ''Prompt: ''\<rparr>
      else if has_prefix line ''Skills: '' then
        s\<lparr>vs_extra := vs_extra s @ filter (\<lambda>x. x \<noteq> []) (map trim_space (split_on (CHR '','') (trim_prefix line ''Skills: '')))\<rparr>
      else if has_prefix line ''Success criteria:'' then s
      else if has_prefix line ''  - '' then s\<lparr>vs_criteria := vs_criteria s @ [trim_prefix line ''  - '']\<rparr>
      else s)"

definition test_line :: "string \<Rightarrow> parse_state \<Rightarrow> string \<Rightarrow> parse_state" where
  "test_line file st line =
     (if has_prefix line ''# Tests: '' then st\<lparr>vp_ref := trim_prefix line ''# Tests: ''\<rparr>
      else if has_prefix line ''## Validation: '' then
        (finish_section file st)\<lparr>vp_current := Some \<lparr>vs_name = trim_prefix line ''## Validation: '', vs_prompt = [],
           vs_extra = [], vs_criteria = []\<rparr>\<rparr>
      else st\<lparr>vp_current := map_option (section_line line) (vp_current st)\<rparr>)"

definition start_parse :: parse_state where
  "start_parse = \<lparr>vp_ref = [], vp_current = None, vp_scenarios = [], vp_issues = []\<rparr>"

definition skill_of_test :: "string \<Rightarrow> string" where
  "skill_of_test path = trim_suffix path ''.test.md'' @ ''.md''"

definition header_issues :: "string \<Rightarrow> parse_state \<Rightarrow> file_issue list" where
  "header_issues path st =
     (let file = path_base path; expected = path_base (skill_of_test path)
      in (if vp_ref st = [] then [error_issue file MissingH1]
          else if vp_ref st \<noteq> expected then [error_issue file (WrongH1 (vp_ref st) expected)] else [])
         @ (if vp_scenarios st = [] \<and> vp_ref st \<noteq> []
            then [\<lparr>iu_file = file, iu_message = NoScenarios, iu_level = LevelWarning\<rparr>] else []))"

definition parse_test_content :: "string \<Rightarrow> string \<Rightarrow> test_file \<times> file_issue list" where
  "parse_test_content path data =
     (let file = path_base path;
          st = finish_section file (foldl (test_line file) start_parse (split_on nl data))
      in (\<lparr>tf_path = path, tf_skill_ref = vp_ref st, tf_scenarios = vp_scenarios st\<rparr>,
          vp_issues st @ header_issues path st))"

definition parse_test_file :: "(string \<Rightarrow> (string, string) result) \<Rightarrow> string \<Rightarrow> (string, test_file \<times> file_issue list) result" where
  "parse_test_file readfile path = map_sum id (parse_test_content path) (readfile path)"

section \<open>Directories\<close>

text \<open>\<^verbatim>\<open>rel, _ := filepath.Rel(dir, path)\<close>\<close>

definition rel_to :: "string \<Rightarrow> string \<Rightarrow> string" where
  "rel_to dir path = (case path_rel dir path of Some r \<Rightarrow> r | None \<Rightarrow> [])"

definition is_test_path :: "string \<Rightarrow> bool" where
  "is_test_path path = has_suffix path ''.test.md''"

definition is_skill_path :: "string \<Rightarrow> bool" where
  "is_skill_path path \<longleftrightarrow> has_suffix path ''.md'' \<and> \<not> is_test_path path"

definition test_issues :: "(string \<Rightarrow> (string, string) result) \<Rightarrow> string \<Rightarrow> string \<Rightarrow> file_issue list" where
  "test_issues readfile dir path =
     (case parse_test_file readfile path of
        Inl e \<Rightarrow> [error_issue (rel_to dir path) (ParseFailed e)]
      | Inr (tf, issues) \<Rightarrow> issues)"

definition test_of_skill :: "string \<Rightarrow> string" where
  "test_of_skill path = trim_suffix path ''.md'' @ ''.test.md''"

definition validate_directory :: "(string \<Rightarrow> (string, string) result) \<Rightarrow> (string \<Rightarrow> (string, string list) result) \<Rightarrow> string
  \<Rightarrow> (string, file_issue list) result" where
  "validate_directory readfile walk dir =
     (case walk dir of
        Inl e \<Rightarrow> Inl e
      | Inr paths \<Rightarrow>
          (let tests = filter is_test_path paths; skills = filter is_skill_path paths
           in Inr (concat (map (test_issues readfile dir) tests)
                @ map (\<lambda>t. error_issue (rel_to dir t) (Orphaned (skill_of_test t)))
                    (filter (\<lambda>t. skill_of_test t \<notin> set skills) tests)
                @ map (\<lambda>s. \<lparr>iu_file = rel_to dir s, iu_message = MissingTest, iu_level = LevelWarning\<rparr>)
                    (filter (\<lambda>s. test_of_skill s \<notin> set tests) skills))))"

fun validate_all :: "(string \<Rightarrow> (string, string) result) \<Rightarrow> (string \<Rightarrow> (string, string list) result) \<Rightarrow> string list
  \<Rightarrow> (string, file_issue list) result" where
  "validate_all readfile walk [] = Inr []"
| "validate_all readfile walk (d # ds) =
     bind_res (validate_directory readfile walk d) (\<lambda>is. map_sum id ((@) is) (validate_all readfile walk ds))"

section \<open>A file as the specification lays it out\<close>

definition scenario_lines :: "test_section \<Rightarrow> string list" where
  "scenario_lines s =
     [''## Validation: '' @ vs_name s, ''Prompt: '' @ vs_prompt s]
     @ (if vs_extra s = [] then [] else [''Skills: '' @ str_join '', '' (vs_extra s)])
     @ ''Success criteria:'' # map (\<lambda>c. ''  - '' @ c) (vs_criteria s)"

definition test_lines :: "string \<Rightarrow> test_section list \<Rightarrow> string list" where
  "test_lines ref ss = (''# Tests: '' @ ref) # concat (map scenario_lines ss)"

text \<open>The lines that mean something; all others, blank ones and prose, may stand anywhere.\<close>

definition keyword_line :: "string \<Rightarrow> bool" where
  "keyword_line l = list_ex (has_prefix l)
     [''# Tests: '', ''## Validation: '', ''Prompt: '', ''Skills: '', ''Success criteria:'', ''  - '']"

text \<open>
  The layout of section 5.5 of the specification: a blank line before each scenario and a line end
  after the last line.  The test files of the repository have another blank line after each heading.
\<close>

definition test_text :: "string \<Rightarrow> test_section list \<Rightarrow> string" where
  "test_text ref ss = str_join [nl] ((''# Tests: '' @ ref) # concat (map (\<lambda>s. [] # scenario_lines s) ss) @ [[]])"

definition spaced_text :: "string \<Rightarrow> test_section list \<Rightarrow> string" where
  "spaced_text ref ss = str_join [nl] ((''# Tests: '' @ ref)
     # concat (map (\<lambda>s. [] # hd (scenario_lines s) # [] # tl (scenario_lines s)) ss) @ [[]])"

definition scenario_ok :: "test_section \<Rightarrow> bool" where
  "scenario_ok s \<longleftrightarrow>
     vs_prompt s \<noteq> [] \<and> vs_criteria s \<noteq> [] \<and> nl \<notin> set (vs_name s) \<and> nl \<notin> set (vs_prompt s) \<and>
     (\<forall>c \<in> set (vs_criteria s). nl \<notin> set c) \<and>
     (\<forall>x \<in> set (vs_extra s). x \<noteq> [] \<and> nl \<notin> set x \<and> CHR '','' \<notin> set x \<and> trim_space x = x)"

end
