(* ===== verification/Refresh.thy ===== *)
theory Refresh
  imports Signature Linker Validator TrustResolve
begin

text \<open>
  internal/registry/refresh.go: rebuilding the index.  Parameters (\<open>refresh_world\<close>) are the check
  of installed packs, what loading the trust configuration gave, the catalog loader's codecs and files, the
  presence of the file of observed capabilities, the scan, and the reader of test files.  Go visits the
  map of test files in no particular order; here the skills come in the order of their tests.
\<close>

section \<open>Data\<close>

record scan_result =
  sn_repo :: "skill_file list"
  sn_dep :: "skill_file list"
  sn_suggestions :: "capability_suggestion list"
  sn_errors :: "string list"

record refresh_world =
  fw_packs :: "(string, unit) result"
  fw_trusted :: "(trust_invalid, trust_config) result"
  fw_prims :: prims
  fw_raw :: raw_encoder
  fw_next :: "string \<Rightarrow> static_catalog decoded"
  fw_evalsym :: "string \<Rightarrow> string option"
  fw_catalog_file :: "string \<Rightarrow> string option"
  fw_observed :: "(file_error, unit) result"
  fw_scan :: "(string, scan_result) result"
  fw_test_text :: "string \<Rightarrow> (string, string) result"
  fw_now :: string

datatype refresh_error =
    PacksInvalid string | RefreshTrust trust_invalid | UndefinedCatalog string | CatalogLoad index_error
  | ObservedUnreadable file_error | ScanFailed string | SuggestionsFailed index_error

datatype refresh_warning =
    ScanWarning string | SkillWarning string | TestUnreadable string | ScenarioWarning registry_error
  | CapabilityWarning index_error

record refresh_result =
  rr_skills :: nat
  rr_tests :: nat
  rr_capabilities :: nat
  rr_warnings :: "refresh_warning list"

section \<open>Capability records\<close>

definition trusted_cache_path :: "string \<Rightarrow> string" where
  "trusted_cache_path name = path_join [''.skillex'', ''mcp'', ''catalogs'', name @ ''.json'']"

definition relabel :: "string \<Rightarrow> string \<Rightarrow> capability_record \<Rightarrow> capability_record" where
  "relabel stype sref r = r\<lparr>cr_source_type := stype, cr_source_ref := sref\<rparr>"

definition load_catalog :: "refresh_world \<Rightarrow> string \<Rightarrow> mcp_binding list \<Rightarrow> string \<Rightarrow> (refresh_error, capability_record list) result" where
  "load_catalog w root bindings path =
     map_sum CatalogLoad id (load_static_catalog (fw_prims w) (fw_raw w) (fw_next w) (fw_evalsym w) (fw_catalog_file w) root
       \<lparr>ct_type = ''static'', ct_path = path, ct_name = []\<rparr> bindings)"

definition source_records :: "refresh_world \<Rightarrow> string \<Rightarrow> trust_config \<Rightarrow> mcp_binding list \<Rightarrow> mcp_catalog
  \<Rightarrow> (refresh_error, capability_record list) result" where
  "source_records w root trusted bindings source =
     (if ct_type source = ''trusted'' then
        (if find_registry_source trusted (ct_name source) = None then Inl (UndefinedCatalog (ct_name source))
         else map_sum id (map (relabel ''registry-api'' (ct_name source)))
                (load_catalog w root bindings (trusted_cache_path (ct_name source))))
      else map_sum id (map (relabel ''static'' (ct_path source))) (load_catalog w root bindings (ct_path source)))"

definition observed_records :: "refresh_world \<Rightarrow> string \<Rightarrow> mcp_binding list \<Rightarrow> (refresh_error, capability_record list) result" where
  "observed_records w root bindings =
     (case fw_observed w of
        Inr _ \<Rightarrow> map_sum id (map (relabel ''observed'' ''trusted-introspection''))
                    (load_catalog w root bindings ''.skillex/mcp/observed.json'')
      | Inl NotExist \<Rightarrow> Inr []
      | Inl e \<Rightarrow> Inl (ObservedUnreadable e))"

definition catalog_records :: "refresh_world \<Rightarrow> string \<Rightarrow> config \<Rightarrow> (refresh_error, capability_record list) result" where
  "catalog_records w root cfg =
     (case cf_mcp cfg of
        None \<Rightarrow> Inr []
      | Some m \<Rightarrow>
          (if \<not> mcp_enabled (Some cfg) then Inr []
           else (case fw_trusted w of
                   Inl e \<Rightarrow> Inl (RefreshTrust e)
                 | Inr trusted \<Rightarrow>
                     bind_res (map_res (source_records w root trusted (mcp_bindings m)) (mcp_catalogs m)) (\<lambda>rss.
                     bind_res (observed_records w root (mcp_bindings m)) (\<lambda>obs. Inr (concat rss @ obs))))))"

section \<open>Skills\<close>

definition db_skill :: "linked_skill \<Rightarrow> skill" where
  "db_skill ls =
     (let f = lk_file ls
      in \<lparr>sk_id = 0, sk_path = sf_rel f, sk_content = sf_body f, sk_name = fm_name (sf_front f),
          sk_desc = fm_description (sf_front f), sk_pkg = sf_package f, sk_ver = sf_version f,
          sk_vis = sf_visibility f, sk_src = sf_source f, sk_score = 0, sk_topics = fm_topics (sf_front f),
          sk_tags = fm_tags (sf_front f), sk_scopes = lk_scopes ls\<rparr>)"

definition skills_of :: "linked_skill list \<Rightarrow> skill list" where
  "skills_of linked = map db_skill (filter (\<lambda>ls. \<not> sf_is_test (lk_file ls)) linked)"

text \<open>The registry, the ids by path, the number inserted and the warnings.\<close>

fun insert_skills :: "string \<Rightarrow> skill list \<Rightarrow> registry \<Rightarrow> (string \<Rightarrow> nat option) \<Rightarrow> nat
  \<Rightarrow> registry \<times> (string \<Rightarrow> nat option) \<times> nat \<times> refresh_warning list" where
  "insert_skills now [] db ids n = (db, ids, n, [])"
| "insert_skills now (s # ss) db ids n =
     (case insert_skill now db s of
        (db', None) \<Rightarrow> (case insert_skills now ss db' ids n of (d, i, k, ws) \<Rightarrow> (d, i, k, SkillWarning (sk_path s) # ws))
      | (db', Some i) \<Rightarrow> insert_skills now ss db' (ids(sk_path s := Some i)) (Suc n))"

section \<open>Test scenarios\<close>

text \<open>Each test file once, the first time its own path is seen.\<close>

fun test_files :: "string list \<Rightarrow> skill_file list \<Rightarrow> skill_file list" where
  "test_files seen [] = []"
| "test_files seen (sf # rest) =
     (if \<not> sf_is_test sf \<or> sf_rel sf \<in> set seen then test_files seen rest
      else sf # test_files (sf_rel sf # seen) rest)"

definition grouped_tests :: "skill_file list \<Rightarrow> skill_file list" where
  "grouped_tests files =
     (let ts = test_files [] files
      in concat (map (\<lambda>p. filter (\<lambda>t. sf_test_for t = p) ts) (remdups (map sf_test_for ts))))"

definition parse_scanned_test :: "refresh_world \<Rightarrow> skill_file \<Rightarrow> (string, test_file \<times> file_issue list) result" where
  "parse_scanned_test w f =
     (case sf_verified f of
        Some data \<Rightarrow> Inr (parse_test_content (sf_abs f) data)
      | None \<Rightarrow> parse_test_file (fw_test_text w) (sf_abs f))"

definition db_scenario :: "nat \<Rightarrow> test_section \<Rightarrow> test_scenario" where
  "db_scenario i s = \<lparr>ts_id = 0, ts_skill = i, ts_name = vs_name s, ts_prompt = vs_prompt s, ts_extra = vs_extra s,
     ts_criteria = vs_criteria s\<rparr>"

fun insert_scenarios :: "nat \<Rightarrow> test_section list \<Rightarrow> registry \<Rightarrow> registry \<times> nat \<times> refresh_warning list" where
  "insert_scenarios i [] db = (db, 0, [])"
| "insert_scenarios i (s # ss) db =
     (case insert_test_scenario db (db_scenario i s) of
        Inl e \<Rightarrow> (case insert_scenarios i ss db of (d, n, ws) \<Rightarrow> (d, n, ScenarioWarning e # ws))
      | Inr db' \<Rightarrow> (case insert_scenarios i ss db' of (d, n, ws) \<Rightarrow> (d, Suc n, ws)))"

fun insert_tests :: "refresh_world \<Rightarrow> (string \<Rightarrow> nat option) \<Rightarrow> skill_file list \<Rightarrow> registry
  \<Rightarrow> registry \<times> nat \<times> refresh_warning list" where
  "insert_tests w ids [] db = (db, 0, [])"
| "insert_tests w ids (f # fs) db =
     (case ids (sf_test_for f) of
        None \<Rightarrow> insert_tests w ids fs db
      | Some i \<Rightarrow>
          (case parse_scanned_test w f of
             Inl e \<Rightarrow> (case insert_tests w ids fs db of (d, n, ws) \<Rightarrow> (d, n, TestUnreadable (sf_abs f) # ws))
           | Inr (tf, issues) \<Rightarrow>
               (case insert_scenarios i (tf_scenarios tf) db of
                  (db', k, ws) \<Rightarrow> (case insert_tests w ids fs db' of (d, n, ws') \<Rightarrow> (d, k + n, ws @ ws')))))"

section \<open>Capabilities\<close>

fun insert_records :: "prims \<Rightarrow> raw_encoder \<Rightarrow> capability_record list \<Rightarrow> mcp_tables
  \<Rightarrow> mcp_tables \<times> nat \<times> refresh_warning list" where
  "insert_records pr raw_of [] t = (t, 0, [])"
| "insert_records pr raw_of (r # rs) t =
     (case insert_capability pr raw_of r t of
        Inl e \<Rightarrow> (case insert_records pr raw_of rs t of (t', n, ws) \<Rightarrow> (t', n, CapabilityWarning e # ws))
      | Inr (t1, i) \<Rightarrow> (case insert_records pr raw_of rs t1 of (t', n, ws) \<Rightarrow> (t', Suc n, ws)))"

section \<open>Refresh\<close>

text \<open>Everything that is read before the index is touched: the records and the scan.\<close>

definition gather :: "refresh_world \<Rightarrow> string \<Rightarrow> config \<Rightarrow> (refresh_error, capability_record list \<times> scan_result) result" where
  "gather w root cfg =
     bind_res (map_sum PacksInvalid id (fw_packs w)) (\<lambda>_.
     bind_res (catalog_records w root cfg) (\<lambda>rs.
     bind_res (map_sum ScanFailed id (fw_scan w)) (\<lambda>scan.
       if mcp_enabled (Some cfg)
       then map_sum SuggestionsFailed (\<lambda>rs'. (rs', scan)) (apply_suggestions (fw_prims w) (fw_raw w) rs (sn_suggestions scan))
       else Inr (rs, scan))))"

definition dry_result :: "refresh_world \<Rightarrow> linked_skill list \<Rightarrow> skill_file list \<Rightarrow> capability_record list \<Rightarrow> scan_result
  \<Rightarrow> refresh_result" where
  "dry_result w linked tests rs scan =
     \<lparr>rr_skills = length (skills_of linked),
      rr_tests = sum_list (map (\<lambda>f. case parse_scanned_test w f of Inl e \<Rightarrow> 0 | Inr (tf, is) \<Rightarrow> length (tf_scenarios tf)) tests),
      rr_capabilities = length rs, rr_warnings = map ScanWarning (sn_errors scan)\<rparr>"

definition rebuild :: "refresh_world \<Rightarrow> linked_skill list \<Rightarrow> skill_file list \<Rightarrow> capability_record list \<Rightarrow> scan_result
  \<Rightarrow> registry \<Rightarrow> registry \<times> refresh_result" where
  "rebuild w linked tests rs scan db =
     (case insert_skills (fw_now w) (skills_of linked) (clear db) (\<lambda>p. None) 0 of
        (db1, ids, n, ws1) \<Rightarrow>
     (case insert_tests w ids tests db1 of
        (db2, k, ws2) \<Rightarrow>
     (case insert_records (fw_prims w) (fw_raw w) rs (rg_mcp db2) of
        (t, c, ws3) \<Rightarrow>
          (db2\<lparr>rg_mcp := t\<rparr>,
           \<lparr>rr_skills = n, rr_tests = k, rr_capabilities = c,
            rr_warnings = map ScanWarning (sn_errors scan) @ ws1 @ ws2 @ ws3\<rparr>))))"

definition refresh :: "refresh_world \<Rightarrow> string \<Rightarrow> config \<Rightarrow> bool \<Rightarrow> registry
  \<Rightarrow> registry \<times> (refresh_error, refresh_result) result" where
  "refresh w root cfg dry db =
     (case gather w root cfg of
        Inl e \<Rightarrow> (db, Inl e)
      | Inr (rs, scan) \<Rightarrow>
          (let linked = link (cf_rules cfg) (sn_repo scan) (sn_dep scan);
               tests = grouped_tests (sn_repo scan @ sn_dep scan)
           in if dry then (db, Inr (dry_result w linked tests rs scan))
              else (case rebuild w linked tests rs scan db of (db', r) \<Rightarrow> (db', Inr r))))"

text \<open>\<^verbatim>\<open>refresh --check\<close>: a fresh index is built in an empty registry and its signature compared.\<close>

definition refresh_check :: "refresh_world \<Rightarrow> (string \<Rightarrow> string) \<Rightarrow> string \<Rightarrow> config \<Rightarrow> registry \<Rightarrow> (refresh_error, bool) result" where
  "refresh_check w sha root cfg db =
     (case refresh w root cfg False empty_registry of
        (fresh, Inl e) \<Rightarrow> Inl e
      | (fresh, Inr r) \<Rightarrow> Inr (signature sha db = signature sha fresh))"

end
