(* ===== verification/RefreshProps.thy ===== *)
theory RefreshProps
  imports Refresh BrokerRuntime
begin

text \<open>
  What a refresh leaves in the index: the linked skills and nothing of the old contents, the
  scenarios of the indexed skills, capabilities with one of three stored availabilities.
\<close>

section \<open>Skills\<close>

lemma insert_skill_finds: "reg_ok db \<Longrightarrow> \<exists>i. insert_skill now db s = (fst (insert_skill now db s), Some i) \<and>
    i \<in> skill_ids (fst (insert_skill now db s))"
  using insert_skill_ids[of db now s] by (auto simp: insert_skill_eq reg_ok_keys Let_def)

lemma insert_skills_props:
  assumes "reg_ok db" "\<forall>p i. ids p = Some i \<longrightarrow> i \<in> skill_ids db"
  shows "\<exists>ids'. insert_skills now ss db ids n = (foldl (\<lambda>db s. fst (insert_skill now db s)) db ss, ids', n + length ss, [])
    \<and> (\<forall>p. ids' p \<noteq> None \<longleftrightarrow> ids p \<noteq> None \<or> p \<in> sk_path ` set ss)
    \<and> (\<forall>p i. ids' p = Some i \<longrightarrow> i \<in> skill_ids (foldl (\<lambda>db s. fst (insert_skill now db s)) db ss))"
  using assms
proof (induction ss arbitrary: db ids n)
  case Nil
  then show ?case by simp
next
  case (Cons s ss)
  obtain d i where i: "insert_skill now db s = (d, Some i)" "i \<in> skill_ids d"
    using insert_skill_finds[OF Cons.prems(1)] by (metis fst_conv)
  have "skill_ids db \<subseteq> skill_ids d"
    using insert_skill_ids[OF reg_ok_keys[OF Cons.prems(1)], of now s] i(1) by auto
  with Cons.prems(2) i(2) have h: "\<forall>p j. (ids(sk_path s := Some i)) p = Some j \<longrightarrow> j \<in> skill_ids d" by auto
  have ok: "reg_ok d" using insert_skill_ok[OF Cons.prems(1), of now s] i(1) by simp
  from Cons.IH[OF ok h, where n = "Suc n"] obtain ids' where
    ids': "insert_skills now ss d (ids(sk_path s := Some i)) (Suc n)
        = (foldl (\<lambda>db s. fst (insert_skill now db s)) d ss, ids', Suc n + length ss, [])"
      "\<forall>p. ids' p \<noteq> None \<longleftrightarrow> (ids(sk_path s := Some i)) p \<noteq> None \<or> p \<in> sk_path ` set ss"
      "\<forall>p i. ids' p = Some i \<longrightarrow> i \<in> skill_ids (foldl (\<lambda>db s. fst (insert_skill now db s)) d ss)" by blast
  have "\<forall>p. ids' p \<noteq> None \<longleftrightarrow> ids p \<noteq> None \<or> p \<in> sk_path ` set (s # ss)" using ids'(2) by auto
  with ids'(1,3) i(1) show ?case by simp
qed

section \<open>Scenarios\<close>

lemma insert_scenarios_props:
  "i \<in> skill_ids db \<Longrightarrow> reg_ok db \<Longrightarrow> \<exists>db'. insert_scenarios i ss db = (db', length ss, []) \<and> reg_ok db' \<and>
     read_path db' = read_path db \<and> skill_ids db' = skill_ids db \<and> rg_mcp db' = rg_mcp db"
proof (induction ss arbitrary: db)
  case Nil
  then show ?case by simp
next
  case (Cons s ss)
  obtain db1 where d: "insert_test_scenario db (db_scenario i s) = Inr db1"
    using Cons.prems(1) by (simp add: insert_test_scenario_def db_scenario_def skill_ids_def)
  have keep: "skill_ids db1 = skill_ids db" "rg_mcp db1 = rg_mcp db"
    using d by (auto simp: insert_test_scenario_def skill_ids_def split: if_splits)
  have r: "read_path db1 = read_path db"
    by (rule ext) (simp add: read_path_def get_after_tests(1)[OF d])
  from Cons.IH[of db1] Cons.prems insert_test_ok[OF Cons.prems(2) d] keep r d show ?case by auto
qed

definition scenario_count :: "refresh_world \<Rightarrow> skill_file \<Rightarrow> nat" where
  "scenario_count w f = (case parse_scanned_test w f of Inl e \<Rightarrow> 0 | Inr (tf, is) \<Rightarrow> length (tf_scenarios tf))"

lemma scenario_count_simps:
  "parse_scanned_test w f = Inl e \<Longrightarrow> scenario_count w f = 0"
  "parse_scanned_test w f = Inr (tf, is) \<Longrightarrow> scenario_count w f = length (tf_scenarios tf)"
  by (simp_all add: scenario_count_def)

lemma insert_tests_props:
  "\<forall>p i. ids p = Some i \<longrightarrow> i \<in> skill_ids db \<Longrightarrow> reg_ok db \<Longrightarrow>
   \<exists>db' ws. insert_tests w ids fs db
       = (db', sum_list (map (scenario_count w) (filter (\<lambda>f. ids (sf_test_for f) \<noteq> None) fs)), ws)
     \<and> reg_ok db' \<and> read_path db' = read_path db \<and> rg_mcp db' = rg_mcp db \<and> (\<forall>x \<in> set ws. \<exists>p. x = TestUnreadable p)"
proof (induction fs arbitrary: db)
  case Nil
  then show ?case by simp
next
  case (Cons f fs)
  show ?case
  proof (cases "ids (sf_test_for f)")
    case None
    with Cons show ?thesis by simp
  next
    case (Some i)
    show ?thesis
    proof (cases "parse_scanned_test w f")
      case (Inl e)
      from Cons.IH[OF Cons.prems] obtain db' ws where
        "insert_tests w ids fs db = (db', sum_list (map (scenario_count w) (filter (\<lambda>f. ids (sf_test_for f) \<noteq> None) fs)), ws)"
        "reg_ok db'" "read_path db' = read_path db" "rg_mcp db' = rg_mcp db" "\<forall>x \<in> set ws. \<exists>p. x = TestUnreadable p" by blast
      with Inl Some show ?thesis by (simp add: scenario_count_simps)
    next
      case (Inr r)
      obtain tf iss where r: "r = (tf, iss)" by (cases r)
      from Cons.prems(1) Some have "i \<in> skill_ids db" by blast
      from insert_scenarios_props[OF this Cons.prems(2), of "tf_scenarios tf"] obtain db1 where d:
        "insert_scenarios i (tf_scenarios tf) db = (db1, length (tf_scenarios tf), [])" "reg_ok db1"
        "read_path db1 = read_path db" "skill_ids db1 = skill_ids db" "rg_mcp db1 = rg_mcp db" by blast
      from Cons.IH[of db1] Cons.prems(1) d obtain db' ws where
        "insert_tests w ids fs db1 = (db', sum_list (map (scenario_count w) (filter (\<lambda>f. ids (sf_test_for f) \<noteq> None) fs)), ws)"
        "reg_ok db'" "read_path db' = read_path db1" "rg_mcp db' = rg_mcp db1" "\<forall>x \<in> set ws. \<exists>p. x = TestUnreadable p" by auto
      with Inr r Some d show ?thesis by (simp add: scenario_count_simps)
    qed
  qed
qed

section \<open>Capabilities\<close>

definition index_statuses :: "availability_status set" where
  "index_statuses = {av_discovered, av_setup_required, av_suggested}"

definition statuses_ok :: "mcp_tables \<Rightarrow> bool" where
  "statuses_ok t \<longleftrightarrow> (\<forall>c \<in> set (snd (mt_caps t)). mc_availability c \<in> index_statuses)"

definition record_status :: "capability_record \<Rightarrow> availability_status" where
  "record_status r = availability (cr_capability r)"

lemma static_record_status: "static_record pr raw_of ref ts bs c = Inr r \<Longrightarrow> record_status r \<in> index_statuses"
  by (auto simp: static_record_def record_status_def index_statuses_def Let_def split: sum.splits option.splits if_splits)

lemma map_res_all: "map_res f xs = Inr ys \<Longrightarrow> \<forall>x y. f x = Inr y \<longrightarrow> P y \<Longrightarrow> \<forall>y \<in> set ys. P y"
  by (induction xs arbitrary: ys) (fastforce split: sum.splits)+

lemma load_static_status:
  "load_static_catalog pr raw_of nxt ev rf root src bs = Inr rs \<Longrightarrow> \<forall>r \<in> set rs. record_status r \<in> index_statuses"
proof -
  assume "load_static_catalog pr raw_of nxt ev rf root src bs = Inr rs"
  then obtain ref ts cs where "map_res (static_record pr raw_of ref ts bs) cs = Inr rs"
    by (auto simp: load_static_catalog_def split: sum.splits option.splits if_splits decoded.splits)
  then show "\<forall>r \<in> set rs. record_status r \<in> index_statuses"
    by (rule map_res_all) (intro allI impI, erule static_record_status)
qed

lemma relabel_status [simp]: "record_status (relabel a b r) = record_status r"
  by (simp add: record_status_def relabel_def)

lemma catalog_records_status:
  assumes "catalog_records w root cfg = Inr rs"
  shows "\<forall>r \<in> set rs. record_status r \<in> index_statuses"
proof -
  let ?ok = "\<lambda>rs. \<forall>r \<in> set rs. record_status r \<in> index_statuses"
  have load: "load_catalog w root bs p = Inr xs \<Longrightarrow> ?ok xs" for bs p xs
    by (auto simp: load_catalog_def map_sum_Ok_iff dest: load_static_status)
  have src: "source_records w root tr bs s = Inr xs \<Longrightarrow> ?ok xs" for tr bs s xs
    by (auto simp: source_records_def map_sum_Ok_iff dest!: load split: if_splits)
  have obs: "observed_records w root bs = Inr xs \<Longrightarrow> ?ok xs" for bs xs
    by (auto simp: observed_records_def map_sum_Ok_iff dest!: load split: sum.splits file_error.splits)
  show ?thesis
  proof (cases "cf_mcp cfg = None \<or> \<not> mcp_enabled (Some cfg)")
    case True
    with assms show ?thesis by (auto simp: catalog_records_def split: option.splits)
  next
    case False
    then obtain m where m: "cf_mcp cfg = Some m" by auto
    with assms False obtain tr rss ob where
      r: "map_res (source_records w root tr (mcp_bindings m)) (mcp_catalogs m) = Inr rss"
      "observed_records w root (mcp_bindings m) = Inr ob" "rs = concat rss @ ob"
      by (auto simp: catalog_records_def bind_res_Ok_iff split: sum.splits)
    have "\<forall>xs \<in> set rss. ?ok xs" by (rule map_res_all[OF r(1)]) (intro allI impI, erule src)
    with obs[OF r(2)] r(3) show ?thesis by auto
  qed
qed

lemma suggestions_status:
  "apply_suggestions pr raw_of rs gs = Inr rs' \<Longrightarrow> \<forall>r \<in> set rs. record_status r \<in> index_statuses \<Longrightarrow>
   \<forall>r \<in> set rs'. record_status r \<in> index_statuses"
proof (induction gs arbitrary: rs)
  case Nil
  then show ?case by simp
next
  case (Cons g gs)
  have ph: "placeholder pr raw_of g n = Inr r \<Longrightarrow> record_status r \<in> index_statuses" for n r
    by (auto simp: placeholder_def record_status_def index_statuses_def placeholder_capability_def
        dest!: with_computed_keeps split: sum.splits option.splits)
  from Cons.prems(1) obtain rs1 where s: "apply_suggestion pr raw_of rs g = Inr rs1" "apply_suggestions pr raw_of rs1 gs = Inr rs'"
    by (auto split: sum.splits)
  from s(1) obtain new where n: "map_res (placeholder pr raw_of g) (filter (\<lambda>n. n \<notin> set (map (\<lambda>r. cap_name (cr_capability r))
      (filter (suggestion_hits g) rs))) (cs_capabilities g)) = Inr new" "rs1 = map (overlay g) rs @ new"
    by (auto simp: apply_suggestion_def Let_def split: sum.splits)
  have "\<forall>r \<in> set new. record_status r \<in> index_statuses" by (rule map_res_all[OF n(1)]) (intro allI impI, erule ph)
  moreover have "record_status (overlay g r) \<in> index_statuses" if "record_status r \<in> index_statuses" for r
    using that by (auto simp: overlay_def record_status_def index_statuses_def)
  ultimately show ?case using Cons.IH[OF s(2)] Cons.prems(2) n(2) by auto
qed

lemma insert_capability_status:
  assumes "insert_capability pr raw_of r t = Inr (t', i)" "record_status r \<in> index_statuses" "statuses_ok t"
  shows "statuses_ok t'"
proof -
  from assms(1) obtain r' where r': "complete_record pr raw_of r = Inr r'" "write_capability r' t = Inr (t', i)"
    by (auto simp: insert_capability_def split: sum.splits)
  have a: "record_status r' \<in> index_statuses"
    using r'(1) assms(2) by (auto simp: complete_record_def Let_def record_status_def dest!: with_computed_keeps
        split: sum.splits option.splits if_splits)
  from write_capability_OkD[OF r'(2)] obtain vid wid where "mt_caps t' = put_cap r' vid wid (mt_caps t)"
    unfolding Let_def by blast
  with a assms(3) show ?thesis
    by (auto simp: statuses_ok_def put_cap_def Let_def record_status_def dest!: upsert_members)
qed

lemma insert_records_props:
  "\<forall>r \<in> set rs. record_status r \<in> index_statuses \<Longrightarrow> statuses_ok t \<Longrightarrow>
   \<exists>t' n ws. insert_records pr raw_of rs t = (t', n, ws) \<and> statuses_ok t' \<and> n + length ws = length rs
     \<and> (\<forall>x \<in> set ws. \<exists>e. x = CapabilityWarning e)"
proof (induction rs arbitrary: t)
  case Nil
  then show ?case by simp
next
  case (Cons r rs)
  show ?case
  proof (cases "insert_capability pr raw_of r t")
    case (Inl e)
    from Cons.IH[of t] Cons.prems obtain t' n ws where "insert_records pr raw_of rs t = (t', n, ws)" "statuses_ok t'"
      "n + length ws = length rs" "\<forall>x \<in> set ws. \<exists>e. x = CapabilityWarning e" by auto
    with Inl show ?thesis by simp
  next
    case (Inr ti)
    obtain t1 i where ti: "ti = (t1, i)" by (cases ti)
    have "statuses_ok t1" using insert_capability_status[OF Inr[unfolded ti]] Cons.prems by simp
    from Cons.IH[OF _ this] Cons.prems(1) obtain t' n ws where "insert_records pr raw_of rs t1 = (t', n, ws)" "statuses_ok t'"
      "n + length ws = length rs" "\<forall>x \<in> set ws. \<exists>e. x = CapabilityWarning e" by auto
    with Inr ti show ?thesis by simp
  qed
qed

end
