(* ===== verification/RefreshClaims.thy ===== *)
theory RefreshClaims
  imports RefreshProps LinkerProps CatalogClaims
begin

text \<open>
  The properties of a refresh: the new index holds exactly the linked skills, a dry run counts more
  than is written, and no filter on readiness finds anything in the index it leaves.
\<close>

section \<open>The rebuilt index\<close>

definition linked_skills :: "config \<Rightarrow> scan_result \<Rightarrow> skill list" where
  "linked_skills cfg scan = skills_of (link (cf_rules cfg) (sn_repo scan) (sn_dep scan))"

definition scanned_tests :: "scan_result \<Rightarrow> skill_file list" where
  "scanned_tests scan = grouped_tests (sn_repo scan @ sn_dep scan)"

lemma reg_ok_mcp: "reg_ok (db\<lparr>rg_mcp := t\<rparr>) = reg_ok db"
  by (simp add: reg_ok_defs)

lemma read_path_mcp: "read_path (db\<lparr>rg_mcp := t\<rparr>) = read_path db"
  by (rule ext) (simp add: read_path_def get_skill_by_path_def populate_meta_def[abs_def])

lemma insert_skill_mcp: "keys_ok db \<Longrightarrow> rg_mcp (fst (insert_skill now db s)) = rg_mcp db"
  by (simp add: insert_skill_eq Let_def replace_meta_def replace_search_def upsert_skill_row_def)

lemma statuses_ok_clear: "statuses_ok (rg_mcp (clear db))"
  by (simp add: statuses_ok_def clear_def mcp_clear_def)

definition capability_warning :: "refresh_warning \<Rightarrow> bool" where
  "capability_warning x = (case x of CapabilityWarning e \<Rightarrow> True | _ \<Rightarrow> False)"

lemma rebuild_props:
  assumes "reg_ok db" "\<forall>r \<in> set rs. record_status r \<in> index_statuses"
  shows "\<exists>db' r. rebuild w linked tests rs scan db = (db', r) \<and> reg_ok db' \<and> statuses_ok (rg_mcp db') \<and>
    read_path db' = read_path (foldl (\<lambda>db s. fst (insert_skill (fw_now w) db s)) (clear db) (skills_of linked)) \<and>
    rr_skills r = length (skills_of linked) \<and>
    rr_tests r = sum_list (map (scenario_count w) (filter (\<lambda>f. sf_test_for f \<in> sk_path ` set (skills_of linked)) tests)) \<and>
    rr_capabilities r + length (filter capability_warning (rr_warnings r)) = length rs"
proof -
  let ?ss = "skills_of linked" and ?put = "\<lambda>db s. fst (insert_skill (fw_now w) db s)"
  let ?d1 = "foldl ?put (clear db) ?ss"
  have c: "reg_ok (clear db)" using assms(1) by (simp add: reg_ok_clear reg_ok_keys)
  have k1: "reg_ok ?d1" by (rule store.put_all_inv[OF c])
  obtain ids where ids: "insert_skills (fw_now w) ?ss (clear db) (\<lambda>p. None) 0 = (?d1, ids, length ?ss, [])"
    "\<forall>p. ids p \<noteq> None \<longleftrightarrow> p \<in> sk_path ` set ?ss" "\<forall>p i. ids p = Some i \<longrightarrow> i \<in> skill_ids ?d1"
    using insert_skills_props[OF c, of "\<lambda>p. None" "fw_now w" ?ss 0] by auto
  obtain d2 ws2 where t: "insert_tests w ids tests ?d1 = (d2, sum_list (map (scenario_count w) (filter (\<lambda>f. ids (sf_test_for f) \<noteq> None) tests)), ws2)"
    "reg_ok d2" "read_path d2 = read_path ?d1" "rg_mcp d2 = rg_mcp ?d1" "\<forall>x \<in> set ws2. \<exists>p. x = TestUnreadable p"
    using insert_tests_props[OF ids(3) k1] by blast
  have "rg_mcp (foldl ?put d ss) = rg_mcp d" if "reg_ok d" for d ss
    using that by (induction ss arbitrary: d) (simp_all add: insert_skill_ok insert_skill_mcp reg_ok_keys)
  then have "statuses_ok (rg_mcp d2)" using t(4) c statuses_ok_clear by simp
  from insert_records_props[OF assms(2) this, of "fw_prims w" "fw_raw w"] obtain t' n ws3 where
    r: "insert_records (fw_prims w) (fw_raw w) rs (rg_mcp d2) = (t', n, ws3)" "statuses_ok t'" "n + length ws3 = length rs"
      "\<forall>x \<in> set ws3. \<exists>e. x = CapabilityWarning e" by blast
  have "filter capability_warning ws2 = []" using t(5) by (auto simp: filter_empty_conv capability_warning_def)
  moreover have "filter capability_warning ws3 = ws3" using r(4) by (auto simp: capability_warning_def intro!: filter_True)
  ultimately have warn: "filter capability_warning (map ScanWarning es @ ws2 @ ws3) = ws3" for es
    by (simp add: filter_empty_conv capability_warning_def)
  show ?thesis
    using t(1-3) r(1-3) ids(1,2) warn
    by (auto simp: rebuild_def reg_ok_mcp read_path_mcp)
qed

lemma gather_status:
  assumes "gather w root cfg = Inr (rs, scan)"
  shows "\<forall>r \<in> set rs. record_status r \<in> index_statuses"
proof -
  from assms obtain rs0 where r: "catalog_records w root cfg = Inr rs0"
    "if mcp_enabled (Some cfg) then apply_suggestions (fw_prims w) (fw_raw w) rs0 (sn_suggestions scan) = Inr rs else rs = rs0"
    by (auto simp: gather_def bind_res_Ok_iff map_sum_Ok_iff split: if_splits)
  with catalog_records_status[OF r(1)] show ?thesis
    by (auto split: if_splits dest: suggestions_status)
qed

lemma refresh_cases:
  assumes "gather w root cfg = Inr (rs, scan)"
  shows "refresh w root cfg True db
      = (db, Inr (dry_result w (link (cf_rules cfg) (sn_repo scan) (sn_dep scan)) (scanned_tests scan) rs scan))"
    "refresh w root cfg False db
      = map_prod id Inr (rebuild w (link (cf_rules cfg) (sn_repo scan) (sn_dep scan)) (scanned_tests scan) rs scan db)"
  using assms by (simp_all add: refresh_def scanned_tests_def Let_def map_prod_def)

text \<open>
  C21: A refresh that passes its checks leaves exactly the linked skills in the index: a
  path reads as the last linked skill of that path, and as nothing otherwise, whatever the index
  held before; the tables stay consistent.  A failed refresh and a dry run leave the index as it was.
\<close>

theorem refresh_indexes_linked:
  assumes "reg_ok db" "gather w root cfg = Inr (rs, scan)"
  shows "\<exists>db' r. refresh w root cfg False db = (db', Inr r) \<and> reg_ok db' \<and> rr_skills r = length (linked_skills cfg scan) \<and>
    (\<forall>p. read_path db' p = map_option stored_form (List.find (\<lambda>s. sk_path s = p) (rev (linked_skills cfg scan)))) \<and>
    fst (refresh w root cfg True db) = db \<and>
    (\<forall>w' dry. (\<exists>e. gather w' root cfg = Inl e) \<longrightarrow> fst (refresh w' root cfg dry db) = db)"
proof -
  have c: "reg_ok (clear db)" using assms(1) by (simp add: reg_ok_clear reg_ok_keys)
  have "read_path (foldl (\<lambda>db s. fst (insert_skill (fw_now w) db s)) (clear db) ss) p
      = map_option stored_form (List.find (\<lambda>s. sk_path s = p) (rev ss))" for ss p
    by (simp add: store.put_all_last[OF c] read_clear split: option.splits)
  moreover have "fst (refresh w' root cfg dry db) = db" if "gather w' root cfg = Inl e" for w' dry e
    using that by (simp add: refresh_def)
  ultimately show ?thesis
    using rebuild_props[OF assms(1) gather_status[OF assms(2)], of w "link (cf_rules cfg) (sn_repo scan) (sn_dep scan)" "scanned_tests scan" scan]
      refresh_cases[OF assms(2), of db] by (auto simp: linked_skills_def)
qed

text \<open>
  A dry run does not count what would be written: it also counts the scenarios of tests whose
  skill is not indexed and the capabilities whose insertion would fail.
\<close>

theorem dry_run_counts:
  assumes "reg_ok db" "gather w root cfg = Inr (rs, scan)"
  shows "\<exists>real preview. snd (refresh w root cfg False db) = Inr real \<and> snd (refresh w root cfg True db) = Inr preview \<and>
    rr_skills preview = rr_skills real \<and>
    rr_tests preview = rr_tests real
      + sum_list (map (scenario_count w) (filter (\<lambda>f. sf_test_for f \<notin> sk_path ` set (linked_skills cfg scan)) (scanned_tests scan))) \<and>
    rr_capabilities preview = rr_capabilities real + length (filter capability_warning (rr_warnings real))"
proof -
  have split: "sum_list (map f xs) = sum_list (map f (filter P xs)) + sum_list (map f (filter (\<lambda>x. \<not> P x) xs))"
    for f :: "skill_file \<Rightarrow> nat" and P xs by (induction xs) simp_all
  show ?thesis
    using rebuild_props[OF assms(1) gather_status[OF assms(2)], of w "link (cf_rules cfg) (sn_repo scan) (sn_dep scan)" "scanned_tests scan" scan]
      refresh_cases[OF assms(2), of db]
      split[of "scenario_count w" "scanned_tests scan" "\<lambda>f. sf_test_for f \<in> sk_path ` set (linked_skills cfg scan)"]
    by (auto simp: linked_skills_def dry_result_def scenario_count_def[abs_def])
qed

section \<open>Filters on readiness\<close>

lemma no_such_status:
  assumes "statuses_ok t" "a \<notin> index_statuses" "a \<noteq> []" "a \<noteq> av_stale"
  shows "candidates fts glob now t (to_cap_query (q\<lparr>bq_availability := a\<rparr>)) = []"
proof (rule ccontr)
  assume "candidates fts glob now t (to_cap_query (q\<lparr>bq_availability := a\<rparr>)) \<noteq> []"
  then obtain rank j where "(rank, j) \<in> set (candidates fts glob now t (to_cap_query (q\<lparr>bq_availability := a\<rparr>)))"
    by (metis list.set_intros(1) neq_Nil_conv prod.exhaust)
  from candidates_filter[OF this] obtain c v s w where j: "j = (c, v, s, w)" "(c, v, s, w) \<in> set (joined_rows t)"
    "sql_availability now (c, v, s, w) = a"
    using assms(3) by (cases j) (auto simp: cap_filter_def to_cap_query_def)
  have "c \<in> set (snd (mt_caps t))" using j(2) by (auto simp: joined_rows_iff dest: join_row_parts)
  with assms(1) have "mc_availability c \<in> index_statuses" by (simp add: statuses_ok_def)
  with j(3) assms(2,4) show False by (auto simp: sql_availability_def split: option.splits if_splits)
qed

text \<open>
  C39: A filter for ready capabilities finds nothing: readiness is computed after the index
  has been filtered, and a refresh stores only the states discovered, setup required and
  suggested, so a search for ready capabilities is empty whatever readiness the trust configuration gives the
  indexed ones.
\<close>

theorem ready_filter_finds_nothing:
  assumes "reg_ok db" "gather w root cfg = Inr (rs, scan)" "a \<in> {av_ready, av_login_required, av_credential_missing}"
    and "0 \<le> bq_limit q" "0 \<le> bq_offset q"
  shows "\<exists>page. readiness_search ready (catalog_search fts glob now (rg_mcp (fst (refresh w root cfg False db)))) (q\<lparr>bq_availability := a\<rparr>)
      = Inr page \<and> cp_capabilities page = [] \<and> cp_count page = 0"
proof -
  have "statuses_ok (rg_mcp (fst (refresh w root cfg False db)))"
    using rebuild_props[OF assms(1) gather_status[OF assms(2)], of w "link (cf_rules cfg) (sn_repo scan) (sn_dep scan)" "scanned_tests scan" scan]
      refresh_cases[OF assms(2), of db] by auto
  moreover have "a \<notin> index_statuses" "a \<noteq> []" "a \<noteq> av_stale"
    using assms(3) by (auto simp: index_statuses_def availability_defs)
  ultimately have "candidates fts glob now (rg_mcp (fst (refresh w root cfg False db))) (to_cap_query (q\<lparr>bq_availability := a\<rparr>)) = []"
    by (rule no_such_status)
  moreover have "cq_limit (to_cap_query (q\<lparr>bq_availability := a\<rparr>)) = bq_limit q" "cq_offset (to_cap_query (q\<lparr>bq_availability := a\<rparr>)) = bq_offset q"
    by (simp_all add: to_cap_query_def)
  ultimately show ?thesis
    using assms(4,5) by (simp add: readiness_search_def catalog_search_def query_capability_page_def)
qed

section \<open>Witnesses\<close>

definition demo_orphan_test :: skill_file where
  "demo_orphan_test = (demo_dep ''z.test.md'' ''public'' ''app'' ''l'')
     \<lparr>sf_test_for := ''z.md'',
      sf_verified := Some (test_text ''z.md'' [\<lparr>vs_name = ''n'', vs_prompt = ''p'', vs_extra = [], vs_criteria = [''c'']\<rparr>])\<rparr>"

definition demo_scan :: scan_result where
  "demo_scan = \<lparr>sn_repo = [], sn_dep = [demo_dep ''public/a.md'' ''public'' ''app'' ''l'', demo_orphan_test],
     sn_suggestions = [], sn_errors = []\<rparr>"

definition demo_offer :: scan_result where
  "demo_offer = \<lparr>sn_repo = [], sn_dep = [],
     sn_suggestions = [\<lparr>cs_server = ''d'', cs_version = ''1'', cs_relationship = ''r'', cs_capabilities = [''s''],
       cs_scopes = [], cs_source_type = ''k'', cs_source_ref = ''p''\<rparr>], sn_errors = []\<rparr>"

definition demo_refresh :: "scan_result \<Rightarrow> refresh_world" where
  "demo_refresh scan = \<lparr>fw_packs = Inr (), fw_trusted = Inr empty_trust, fw_prims = demo_prims, fw_raw = demo_raw,
     fw_next = (\<lambda>s. EndOfStream), fw_evalsym = Some, fw_catalog_file = (\<lambda>p. None), fw_observed = Inl NotExist,
     fw_scan = Inr scan, fw_test_text = (\<lambda>p. Inl []), fw_now = ''now''\<rparr>"

definition demo_refresh_config :: config where
  "demo_refresh_config = \<lparr>cf_install = None, cf_version = mcp_version, cf_rules = demo_rules,
     cf_mcp = Some \<lparr>mcp_on = True, mcp_catalogs = [], mcp_bindings = []\<rparr>, cf_registries = [], cf_policy = []\<rparr>"

abbreviation demo_browse :: broker_query where
  "demo_browse \<equiv> \<lparr>bq_path = [], bq_search = [], bq_server = [], bq_kind = [], bq_availability = [], bq_context = ''x'',
     bq_view = ''public'', bq_limit = 5, bq_offset = 0\<rparr>"

abbreviation old_skill :: skill where
  "old_skill \<equiv> \<lparr>sk_id = 0, sk_path = ''old.md'', sk_content = ''b'', sk_name = ''n'', sk_desc = [], sk_pkg = [], sk_ver = [],
    sk_vis = ''public'', sk_src = ''repo'', sk_score = 0, sk_topics = [], sk_tags = [], sk_scopes = [''**'']\<rparr>"

lemma demo_gather:
  "gather (demo_refresh scan) ''/r'' demo_refresh_config
     = map_sum SuggestionsFailed (\<lambda>rs. (rs, scan)) (apply_suggestions demo_prims demo_raw [] (sn_suggestions scan))"
  by (simp add: gather_def demo_refresh_def demo_refresh_config_def catalog_records_def observed_records_def mcp_enabled_def bind_res_def)

lemma demo_gather_scan: "gather (demo_refresh demo_scan) ''/r'' demo_refresh_config = Inr ([], demo_scan)"
  by (simp add: demo_gather demo_scan_def)

lemma demo_gather_offer: "\<exists>rs. gather (demo_refresh demo_offer) ''/r'' demo_refresh_config = Inr (rs, demo_offer)"
proof -
  have "map_sum id length (apply_suggestions demo_prims demo_raw [] (sn_suggestions demo_offer)) = Inr 1" by code_simp
  then show ?thesis by (auto simp: demo_gather map_sum_Ok_iff)
qed

lemma demo_linked_paths:
  "map sk_path (linked_skills demo_refresh_config demo_scan) = [''public/a.md'']"
  by code_simp

lemma demo_old_ok: "reg_ok (fst (insert_skill [] empty_registry old_skill))"
  by (rule insert_skill_ok[OF reg_ok_empty])

theorem refresh_indexes_linked_witness:
  "\<exists>db' r. refresh (demo_refresh demo_scan) ''/r'' demo_refresh_config False (fst (insert_skill [] empty_registry old_skill)) = (db', Inr r)
     \<and> rr_skills r = 1 \<and> read_path db' ''old.md'' = None"
proof -
  from refresh_indexes_linked[OF demo_old_ok demo_gather_scan] obtain db' r where
    r: "refresh (demo_refresh demo_scan) ''/r'' demo_refresh_config False (fst (insert_skill [] empty_registry old_skill)) = (db', Inr r)"
      "rr_skills r = length (linked_skills demo_refresh_config demo_scan)"
      "\<forall>p. read_path db' p = map_option stored_form (List.find (\<lambda>s. sk_path s = p) (rev (linked_skills demo_refresh_config demo_scan)))"
    by blast
  have "''old.md'' \<notin> sk_path ` set (linked_skills demo_refresh_config demo_scan)"
    using arg_cong[OF demo_linked_paths, of set] by simp
  then have "List.find (\<lambda>s. sk_path s = ''old.md'') (rev (linked_skills demo_refresh_config demo_scan)) = None"
    unfolding find_None_iff by (metis image_eqI set_rev)
  moreover have "length (linked_skills demo_refresh_config demo_scan) = 1"
    using arg_cong[OF demo_linked_paths, of length] by simp
  ultimately show ?thesis using r by auto
qed

theorem dry_run_counts_witness:
  "\<exists>real preview. snd (refresh (demo_refresh demo_scan) ''/r'' demo_refresh_config False empty_registry) = Inr real \<and>
     snd (refresh (demo_refresh demo_scan) ''/r'' demo_refresh_config True empty_registry) = Inr preview \<and> rr_tests preview = rr_tests real + 1"
proof -
  have "sum_list (map (scenario_count (demo_refresh demo_scan))
      (filter (\<lambda>f. sf_test_for f \<notin> sk_path ` set (linked_skills demo_refresh_config demo_scan)) (scanned_tests demo_scan))) = 1"
    by code_simp
  with dry_run_counts[OF reg_ok_empty demo_gather_scan] show ?thesis by auto
qed

theorem ready_filter_finds_nothing_witness:
  "\<exists>page all. readiness_search (\<lambda>c. av_ready) (catalog_search (\<lambda>ds s d. None) simple_glob 0
       (rg_mcp (fst (refresh (demo_refresh demo_offer) ''/r'' demo_refresh_config False empty_registry)))) (demo_browse\<lparr>bq_availability := av_ready\<rparr>) = Inr page
     \<and> cp_capabilities page = [] \<and>
   readiness_search (\<lambda>c. av_ready) (catalog_search (\<lambda>ds s d. None) simple_glob 0
       (rg_mcp (fst (refresh (demo_refresh demo_offer) ''/r'' demo_refresh_config False empty_registry)))) demo_browse = Inr all
     \<and> map availability (cp_capabilities all) = [av_ready]"
proof -
  let ?t = "rg_mcp (fst (refresh (demo_refresh demo_offer) ''/r'' demo_refresh_config False empty_registry))"
  obtain rs where g: "gather (demo_refresh demo_offer) ''/r'' demo_refresh_config = Inr (rs, demo_offer)" using demo_gather_offer by blast
  have "map_sum id (map availability \<circ> cp_capabilities) (readiness_search (\<lambda>c. av_ready) (catalog_search (\<lambda>ds s d. None) simple_glob 0 ?t) demo_browse)
      = Inr [av_ready]" by code_simp
  then obtain all where "readiness_search (\<lambda>c. av_ready) (catalog_search (\<lambda>ds s d. None) simple_glob 0 ?t) demo_browse = Inr all"
    "map availability (cp_capabilities all) = [av_ready]" by (auto simp: map_sum_Ok_iff)
  moreover have "av_ready \<in> {av_ready, av_login_required, av_credential_missing}" by simp
  note ready_filter_finds_nothing[OF reg_ok_empty g this, where q = demo_browse and ready = "\<lambda>c. av_ready" and fts = "\<lambda>ds s d. None"
      and glob = simple_glob and now = 0]
  ultimately show ?thesis by auto
qed

end
