(* ===== verification/ValidatorProps.thy ===== *)
theory ValidatorProps
  imports Validator
begin

text \<open>
  A test file laid out as the specification says parses to exactly its scenarios, and the same file
  with Windows line ends does not.
\<close>

section \<open>Lines\<close>

lemma prefix_app: "has_prefix (p @ x) p" "trim_prefix (p @ x) p = x"
  by (simp_all add: has_prefix_iff trim_prefix_def)

lemma test_line_h1: "test_line file st (''# Tests: '' @ r) = st\<lparr>vp_ref := r\<rparr>"
  using prefix_app[of "''# Tests: ''" r] unfolding test_line_def by simp

lemma test_line_section:
  "test_line file st (''## Validation: '' @ n) =
     (finish_section file st)\<lparr>vp_current := Some \<lparr>vs_name = n, vs_prompt = [], vs_extra = [], vs_criteria = []\<rparr>\<rparr>"
proof -
  have "\<not> has_prefix (''## Validation: '' @ n) ''# Tests: ''" by (simp add: has_prefix_iff)
  then show ?thesis using prefix_app[of "''## Validation: ''" n] unfolding test_line_def by simp
qed

lemma test_line_body:
  assumes "\<not> has_prefix l ''# Tests: ''" "\<not> has_prefix l ''## Validation: ''"
  shows "test_line file st l = st\<lparr>vp_current := map_option (section_line l) (vp_current st)\<rparr>"
  using assms unfolding test_line_def by simp

lemma test_line_step:
  assumes "vp_current st = Some s" "\<not> has_prefix l ''# Tests: ''" "\<not> has_prefix l ''## Validation: ''" "section_line l s = s'"
  shows "test_line file st l = st\<lparr>vp_current := Some s'\<rparr>"
  using assms by (simp add: test_line_body)

lemma str_join_free: "c \<notin> set sep \<Longrightarrow> \<forall>x \<in> set xs. c \<notin> set x \<Longrightarrow> c \<notin> set (str_join sep xs)"
  by (induction sep xs rule: str_join.induct) auto

lemma section_line_prompt: "section_line (''Prompt: '' @ p) s = s\<lparr>vs_prompt := p\<rparr>"
  using prefix_app[of "''Prompt: ''" p] unfolding section_line_def by simp

lemma section_line_criterion: "section_line (''  - '' @ c) s = s\<lparr>vs_criteria := vs_criteria s @ [c]\<rparr>"
proof -
  have "\<not> has_prefix (''  - '' @ c) ''Prompt: ''" "\<not> has_prefix (''  - '' @ c) ''Skills: ''"
    "\<not> has_prefix (''  - '' @ c) ''Success criteria:''" by (simp_all add: has_prefix_iff)
  then show ?thesis using prefix_app[of "''  - ''" c] unfolding section_line_def by simp
qed

lemma section_line_header: "section_line ''Success criteria:'' s = s"
proof -
  have "\<not> has_prefix ''Success criteria:'' ''Prompt: ''" "\<not> has_prefix ''Success criteria:'' ''Skills: ''"
    by (simp_all add: has_prefix_iff)
  then show ?thesis using prefix_app(1)[of "''Success criteria:''" "[]"] unfolding section_line_def by simp
qed

lemma split_join_comma:
  "xs \<noteq> [] \<Longrightarrow> \<forall>x \<in> set xs. CHR '','' \<notin> set x \<Longrightarrow>
   split_on (CHR '','') (str_join '', '' xs) = hd xs # map ((#) sp) (tl xs)"
proof (induction xs)
  case Nil
  then show ?case by simp
next
  case (Cons x xs)
  show ?case
  proof (cases "xs = []")
    case True
    with Cons.prems show ?thesis by (simp add: split_on_id)
  next
    case False
    with Cons.prems obtain y ys where xs: "xs = y # ys" by (cases xs) auto
    have "split_on (CHR '','') (sp # str_join '', '' xs) = (sp # y) # map ((#) sp) ys"
      using Cons.IH[OF False] Cons.prems(2) xs by (cases "split_on (CHR '','') (str_join '', '' xs)") auto
    with False Cons.prems(2) xs show ?thesis
      by (simp add: str_join_Cons split_on_append_sep)
  qed
qed

lemma trim_space_sp: "trim_space (sp # x) = trim_space x"
proof -
  have "\<not> has_prefix (sp # x) [c]" if "c \<in> {tab, nl, CHR 0x0B, CHR 0x0C, cr}" for c
    using that by (auto simp: has_prefix_iff)
  moreover have "has_prefix (sp # x) [sp]" by (simp add: has_prefix_iff)
  ultimately have "List.find (has_prefix (sp # x)) space_seqs = Some [sp]" by (simp add: space_seqs_def)
  then show ?thesis by (simp add: trim_space_def)
qed

lemma section_line_skills:
  assumes "xs \<noteq> []" "\<forall>x \<in> set xs. x \<noteq> [] \<and> CHR '','' \<notin> set x \<and> trim_space x = x"
  shows "section_line (''Skills: '' @ str_join '', '' xs) s = s\<lparr>vs_extra := vs_extra s @ xs\<rparr>"
proof -
  let ?l = "''Skills: '' @ str_join '', '' xs"
  have l: "\<not> has_prefix ?l ''Prompt: ''" "has_prefix ?l ''Skills: ''" "trim_prefix ?l ''Skills: '' = str_join '', '' xs"
    using prefix_app[of "''Skills: ''" "str_join '', '' xs"] by (simp_all add: has_prefix_iff)
  have "map trim_space (hd xs # map ((#) sp) (tl xs)) = xs"
    using assms by (cases xs) (auto simp: trim_space_sp map_idI)
  then have "map trim_space (split_on (CHR '','') (str_join '', '' xs)) = xs"
    using split_join_comma[OF assms(1)] assms(2) by simp
  moreover have "filter (\<lambda>x. x \<noteq> []) xs = xs" using assms(2) by (simp add: filter_id_conv)
  ultimately show ?thesis using l unfolding section_line_def by simp
qed

section \<open>Scenarios\<close>

lemma finish_valid:
  "vp_current st = Some s \<Longrightarrow> scenario_ok s \<Longrightarrow> finish_section file st = st\<lparr>vp_scenarios := vp_scenarios st @ [s]\<rparr>"
  by (simp add: finish_section_def validate_scenario_def scenario_errors_def scenario_ok_def)

lemma criteria_lines:
  "vp_current st = Some s \<Longrightarrow> foldl (test_line file) st (map (\<lambda>c. ''  - '' @ c) cs)
     = st\<lparr>vp_current := Some (s\<lparr>vs_criteria := vs_criteria s @ cs\<rparr>)\<rparr>"
proof (induction cs arbitrary: st s)
  case Nil
  then show ?case by simp
next
  case (Cons c cs)
  have "test_line file st (''  - '' @ c) = st\<lparr>vp_current := Some (s\<lparr>vs_criteria := vs_criteria s @ [c]\<rparr>)\<rparr>"
    by (rule test_line_step[OF Cons.prems _ _ section_line_criterion]) (simp_all add: has_prefix_iff)
  with Cons.IH[of "st\<lparr>vp_current := Some (s\<lparr>vs_criteria := vs_criteria s @ [c]\<rparr>)\<rparr>"] show ?case by simp
qed

lemma scenario_lines_parse:
  assumes "scenario_ok s"
  shows "foldl (test_line file) st (scenario_lines s) = (finish_section file st)\<lparr>vp_current := Some s\<rparr>"
proof -
  have s_eq: "\<lparr>vs_name = vs_name s, vs_prompt = vs_prompt s, vs_extra = vs_extra s, vs_criteria = vs_criteria s\<rparr> = s" by simp
  let ?f = "finish_section file st"
  let ?s = "\<lambda>p xs cs. Some \<lparr>vs_name = vs_name s, vs_prompt = p, vs_extra = xs, vs_criteria = cs\<rparr>"
  have 1: "test_line file st (''## Validation: '' @ vs_name s) = ?f\<lparr>vp_current := ?s [] [] []\<rparr>"
    by (rule test_line_section)
  have 2: "test_line file (?f\<lparr>vp_current := ?s [] [] []\<rparr>) (''Prompt: '' @ vs_prompt s) = ?f\<lparr>vp_current := ?s (vs_prompt s) [] []\<rparr>"
    by (subst test_line_step[where s' = "the (?s (vs_prompt s) [] [])"])
      (simp_all add: has_prefix_iff section_line_prompt[of "vs_prompt s", simplified append_Cons append_Nil],
       simp_all only: test_section.update_convs)
  have 3: "foldl (test_line file) (?f\<lparr>vp_current := ?s (vs_prompt s) [] []\<rparr>)
      (if vs_extra s = [] then [] else [''Skills: '' @ str_join '', '' (vs_extra s)]) = ?f\<lparr>vp_current := ?s (vs_prompt s) (vs_extra s) []\<rparr>"
  proof (cases "vs_extra s = []")
    case False
    have x: "\<forall>x \<in> set (vs_extra s). x \<noteq> [] \<and> CHR '','' \<notin> set x \<and> trim_space x = x" using assms by (simp add: scenario_ok_def)
    have "test_line file (?f\<lparr>vp_current := ?s (vs_prompt s) [] []\<rparr>) (''Skills: '' @ str_join '', '' (vs_extra s))
        = ?f\<lparr>vp_current := ?s (vs_prompt s) (vs_extra s) []\<rparr>"
      by (subst test_line_step[OF _ _ _ section_line_skills[OF False x]])
        (simp_all add: has_prefix_iff, simp_all only: test_section.update_convs test_section.select_convs append_Nil)
    with False show ?thesis by simp
  qed simp
  have 4: "test_line file (?f\<lparr>vp_current := ?s (vs_prompt s) (vs_extra s) []\<rparr>) ''Success criteria:''
      = ?f\<lparr>vp_current := ?s (vs_prompt s) (vs_extra s) []\<rparr>"
    by (subst test_line_step[OF _ _ _ section_line_header]) (simp_all add: has_prefix_iff)
  have 5: "foldl (test_line file) (?f\<lparr>vp_current := ?s (vs_prompt s) (vs_extra s) []\<rparr>) (map (\<lambda>c. ''  - '' @ c) (vs_criteria s))
      = ?f\<lparr>vp_current := Some s\<rparr>"
    by (subst criteria_lines, simp, simp only: test_section.update_convs test_section.select_convs append_Nil)
      (simp only: s_eq, simp)
  show ?thesis
    unfolding scenario_lines_def foldl_append foldl_Cons foldl_Nil 1 2 3 4 5 by (rule refl)
qed

lemma scenarios_parse:
  assumes "\<forall>s \<in> set ss. scenario_ok s"
  shows "let st' = finish_section file (foldl (test_line file) st (concat (map scenario_lines ss)))
    in vp_scenarios st' = vp_scenarios (finish_section file st) @ ss \<and> vp_issues st' = vp_issues (finish_section file st)
      \<and> vp_ref st' = vp_ref (finish_section file st)"
  using assms
proof (induction ss arbitrary: st)
  case Nil
  then show ?case by simp
next
  case (Cons s ss)
  let ?st = "(finish_section file st)\<lparr>vp_current := Some s\<rparr>"
  have "finish_section file ?st = ?st\<lparr>vp_scenarios := vp_scenarios ?st @ [s]\<rparr>"
    using Cons.prems by (intro finish_valid) simp_all
  with Cons.IH[of ?st] Cons.prems show ?case by (simp add: scenario_lines_parse)
qed

lemma split_lines:
  "\<forall>l \<in> set ls. nl \<notin> set l \<Longrightarrow> ls \<noteq> [] \<Longrightarrow> split_on nl (str_join [nl] ls) = ls"
  by (rule split_join) simp_all

section \<open>Other lines\<close>

lemma other_line:
  assumes "\<not> keyword_line l" shows "test_line file st l = st"
proof -
  have "section_line l s = s" for s using assms by (simp add: keyword_line_def section_line_def)
  then show ?thesis using assms
    by (cases "vp_current st") (simp_all add: keyword_line_def test_line_def)
qed

lemma keyword_lines_only: "foldl (test_line file) st (filter keyword_line ls) = foldl (test_line file) st ls"
  by (induction ls arbitrary: st) (simp_all add: other_line)

section \<open>Properties\<close>

text \<open>
  C27: A test file laid out as documented, with scenarios that have a prompt and a criterion
  (\<open>scenario_ok\<close>), parses to exactly its scenarios with no issue: the lines
  with a meaning are a heading naming the skill file, and for each scenario a heading, a prompt,
  optional extra skills and a list of criteria; any other lines - the blank lines the specification
  and the repository's own files have between them, a line end after the last one, prose - may stand
  anywhere.
\<close>

theorem test_file_parses:
  assumes "\<forall>s \<in> set ss. scenario_ok s" "ss \<noteq> []" "ref = path_base (skill_of_test path)" "ref \<noteq> []"
    and "filter keyword_line (split_on nl data) = test_lines ref ss"
  shows "parse_test_content path data = (\<lparr>tf_path = path, tf_skill_ref = ref, tf_scenarios = ss\<rparr>, [])"
proof -
  let ?file = "path_base path"
  have "foldl (test_line ?file) start_parse (split_on nl data)
      = foldl (test_line ?file) (start_parse\<lparr>vp_ref := ref\<rparr>) (concat (map scenario_lines ss))"
    using test_line_h1 keyword_lines_only[of ?file start_parse "split_on nl data"] assms(5)
    by (simp add: test_lines_def)
  moreover have "finish_section ?file (start_parse\<lparr>vp_ref := ref\<rparr>) = start_parse\<lparr>vp_ref := ref\<rparr>"
    by (simp add: finish_section_def start_parse_def)
  ultimately have "let st = finish_section ?file (foldl (test_line ?file) start_parse (split_on nl data))
    in vp_scenarios st = ss \<and> vp_issues st = [] \<and> vp_ref st = ref"
    using scenarios_parse[OF assms(1), of ?file "start_parse\<lparr>vp_ref := ref\<rparr>"] by (simp add: start_parse_def)
  then show ?thesis
    using assms(2,3,4) by (simp add: parse_test_content_def header_issues_def Let_def)
qed

lemma test_lines_keep_ref:
  "\<forall>l \<in> set ls. \<not> has_prefix l ''# Tests: '' \<Longrightarrow> vp_ref (finish_section file (foldl (test_line file) st ls)) = vp_ref st"
proof (induction ls arbitrary: st)
  case Nil
  then show ?case by (auto simp: finish_section_def split: option.split prod.split)
next
  case (Cons l ls)
  have "vp_ref (finish_section file st) = vp_ref st"
    by (auto simp: finish_section_def split: option.split prod.split)
  then have "vp_ref (test_line file st l) = vp_ref st" using Cons.prems by (simp add: test_line_def)
  with Cons show ?case by simp
qed

text \<open>
  A test file with Windows line ends is always reported as naming the wrong skill: the heading's
  reference keeps the carriage return, so the right heading gives an error as soon as another
  line follows, while the same lines with Unix line ends give none.
\<close>

theorem crlf_heading_rejected:
  assumes "ref = path_base (skill_of_test path)" "ref \<noteq> []" "nl \<notin> set ref" "ls \<noteq> []"
    "\<forall>l \<in> set ls. nl \<notin> set l \<and> \<not> has_prefix (l @ [cr]) ''# Tests: ''"
  shows "error_issue (path_base path) (WrongH1 (ref @ [cr]) ref)
      \<in> set (snd (parse_test_content path (str_join [cr, nl] ((''# Tests: '' @ ref) # ls)))) \<and>
    (\<forall>i \<in> set (header_issues path (finish_section (path_base path) (foldl (test_line (path_base path)) start_parse
        (split_on nl (str_join [nl] ((''# Tests: '' @ ref) # ls)))))). iu_level i = LevelWarning)"
proof -
  let ?file = "path_base path"
  have crlf: "\<exists>ls'. split_on nl (str_join [cr, nl] (l # ls)) = (l @ [cr]) # ls' \<and> (\<forall>x \<in> set ls'. \<exists>y \<in> set ls. x = y \<or> x = y @ [cr])"
    if "ls \<noteq> []" "nl \<notin> set l" "\<forall>y \<in> set ls. nl \<notin> set y" for l ls
    using that
  proof (induction ls arbitrary: l)
    case Nil
    then show ?case by simp
  next
    case (Cons y ls)
    have "nl \<noteq> cr" by simp
    with Cons.prems have free: "nl \<notin> set (l @ [cr])" by simp
    have "split_on nl (str_join [cr, nl] (l # y # ls)) = (l @ [cr]) # split_on nl (str_join [cr, nl] (y # ls))"
      using split_on_append_sep[OF free, of "str_join [cr, nl] (y # ls)"] by simp
    moreover have "\<exists>ls'. split_on nl (str_join [cr, nl] (y # ls)) = ls' \<and> (\<forall>x \<in> set ls'. \<exists>z \<in> set (y # ls). x = z \<or> x = z @ [cr])"
      using Cons.IH[of y] Cons.prems by (cases "ls = []") (auto simp: split_on_id)
    ultimately show ?case by auto
  qed
  have nl1: "nl \<notin> set (''# Tests: '' @ ref)" using assms(3) by simp
  obtain ls' where ls': "split_on nl (str_join [cr, nl] ((''# Tests: '' @ ref) # ls)) = (''# Tests: '' @ (ref @ [cr])) # ls'"
    "\<forall>x \<in> set ls'. \<exists>y \<in> set ls. x = y \<or> x = y @ [cr]"
    using crlf[OF assms(4) nl1] assms(5) by auto
  have no: "\<not> has_prefix l ''# Tests: ''" if "\<not> has_prefix (l @ [cr]) ''# Tests: ''" for l
    using that by (auto simp: has_prefix_iff)
  have "\<forall>l \<in> set ls'. \<not> has_prefix l ''# Tests: ''" using ls'(2) assms(5) no by blast
  from test_lines_keep_ref[OF this, of ?file "test_line ?file start_parse (''# Tests: '' @ (ref @ [cr]))"]
  have "vp_ref (finish_section ?file (foldl (test_line ?file) start_parse (split_on nl (str_join [cr, nl] ((''# Tests: '' @ ref) # ls)))))
      = ref @ [cr]"
    unfolding ls'(1) foldl_Cons test_line_h1 by simp
  then have 1: "error_issue ?file (WrongH1 (ref @ [cr]) ref)
      \<in> set (snd (parse_test_content path (str_join [cr, nl] ((''# Tests: '' @ ref) # ls))))"
    using assms(1) by (simp add: parse_test_content_def header_issues_def Let_def)
  have "split_on nl (str_join [nl] ((''# Tests: '' @ ref) # ls)) = (''# Tests: '' @ ref) # ls"
    using nl1 assms(5) by (intro split_lines) auto
  moreover have "\<forall>l \<in> set ls. \<not> has_prefix l ''# Tests: ''" using assms(5) no by blast
  from test_lines_keep_ref[OF this, of ?file "test_line ?file start_parse (''# Tests: '' @ ref)"]
  have "vp_ref (finish_section ?file (foldl (test_line ?file) start_parse ((''# Tests: '' @ ref) # ls))) = ref"
    unfolding foldl_Cons test_line_h1 by simp
  ultimately have "\<forall>i \<in> set (header_issues path (finish_section ?file (foldl (test_line ?file) start_parse
        (split_on nl (str_join [nl] ((''# Tests: '' @ ref) # ls)))))). iu_level i = LevelWarning"
    using assms(1,2) by (simp add: header_issues_def Let_def)
  with 1 show ?thesis by blast
qed

section \<open>Witnesses\<close>

definition demo_scenarios :: "test_section list" where
  "demo_scenarios =
     [\<lparr>vs_name = ''n'', vs_prompt = ''p'', vs_extra = [], vs_criteria = [''c'', ''d'']\<rparr>,
      \<lparr>vs_name = ''m'', vs_prompt = ''q'', vs_extra = [''x.md'', ''y.md''], vs_criteria = [''c'']\<rparr>]"

theorem test_file_parses_witness:
  "parse_test_content ''/s/a.test.md'' (test_text ''a.md'' demo_scenarios)
     = (\<lparr>tf_path = ''/s/a.test.md'', tf_skill_ref = ''a.md'', tf_scenarios = demo_scenarios\<rparr>, []) \<and>
   parse_test_content ''/s/a.test.md'' (spaced_text ''a.md'' demo_scenarios)
     = (\<lparr>tf_path = ''/s/a.test.md'', tf_skill_ref = ''a.md'', tf_scenarios = demo_scenarios\<rparr>, [])"
proof -
  have ok: "\<forall>s \<in> set demo_scenarios. scenario_ok s" by code_simp
  have ref: "''a.md'' = path_base (skill_of_test ''/s/a.test.md'')" by code_simp
  have ne: "demo_scenarios \<noteq> []" "''a.md'' \<noteq> []" by (simp_all add: demo_scenarios_def)
  have ls: "filter keyword_line (split_on nl (test_text ''a.md'' demo_scenarios)) = test_lines ''a.md'' demo_scenarios"
    "filter keyword_line (split_on nl (spaced_text ''a.md'' demo_scenarios)) = test_lines ''a.md'' demo_scenarios"
    by code_simp+
  show ?thesis using test_file_parses[OF ok ne(1) ref ne(2)] ls by blast
qed

theorem crlf_heading_rejected_witness:
  "error_issue ''a.test.md'' (WrongH1 (''a.md'' @ [cr]) ''a.md'')
     \<in> set (snd (parse_test_content ''/s/a.test.md'' (str_join [cr, nl] [''# Tests: '' @ ''a.md'', ''x''])))"
proof -
  have b: "''a.md'' = path_base (skill_of_test ''/s/a.test.md'')" "path_base ''/s/a.test.md'' = ''a.test.md''" by (code_simp)+
  from crlf_heading_rejected[OF b(1), of "[''x'']"] b(2) show ?thesis by (simp add: has_prefix_iff)
qed

end
