(* ===== verification/PackRegistry.thy ===== *)
theory PackRegistry
  imports GoPath StreamHttp
begin

text \<open>
  internal/packregistry/registry.go, first part: signed manifests, resolution of a pack, the
  checks of its archive, and downloads.  Parameters (\<open>pack_lib\<close>) are the signature verifier, the JSON and YAML
  decoders, semver, SHA-256 in hexadecimal, and the gzip and tar readers.  A table of files is
  the list of its entries in the order they were added; Go visits it in no particular order.
\<close>

section \<open>Data\<close>

record tarball =
  tb_url :: string
  tb_sha :: string
  tb_size :: int

record pack_entry =
  pe_name :: string
  pe_handle :: string
  pe_tier :: string
  pe_version :: string
  pe_description :: string
  pe_tarball :: tarball

record revocation =
  rv_name :: string
  rv_version :: string
  rv_reason :: string

record pack_manifest =
  pm_schema :: int
  pm_registry :: string
  pm_packs :: "pack_entry list"
  pm_revocations :: "revocation list"

type_synonym file_table = "(string \<times> string) list"

record pack_lock =
  pl_verified :: "file_table option"
  pl_entry :: pack_entry
  pl_registry :: string
  pl_manifest_url :: string
  pl_manifest :: string
  pl_bundle :: string

record prepared =
  pp_lock :: pack_lock
  pp_archive :: string
  pp_files :: file_table

definition max_download :: int where "max_download = 33554432"
definition max_extracted :: int where "max_extracted = 67108864"
definition max_manifest :: int where "max_manifest = 4194304"
definition lock_name :: string where "lock_name = ''manifest.lock.json''"
definition archive_name :: string where "archive_name = ''archive.tar.gz''"

text \<open>
  What reading an archive gives: the headers with what reading the entry's payload gives, how the tar
  ends, the bytes after the tar's end, whether the gzip stream ends well, and the expanded length, read up
  to one more than the limit.
\<close>

record tar_header =
  th_name :: string
  th_type :: char
  th_size :: int
  th_body :: "string option"

record archive_stream =
  as_headers :: "tar_header list"
  as_tar_ok :: bool
  as_tail :: string
  as_gzip_ok :: bool
  as_expanded :: int

datatype pack_error =
    BadSignature string | BadManifest | UnsupportedManifest | AmbiguousIdentity | NoStablePack
  | UnsafeIdentity | InvalidPin | Revoked string | DigestMismatch | IdentityMismatch
  | BadGzip | BadTar | TooManyEntries | DirectorySize | EmptyPath | UnsafePath string | SpecialEntry string
  | ForbiddenExtension string | ReservedFile string | DuplicateEntry string | OverLimit | TruncatedFile
  | TailBytes | FileIsDirectory string | FileBlocks string | NoPackYaml
  | NotHttps | DownloadFailed string | HttpStatus nat | UnsafeRedirect | DownloadTooLarge

datatype http_hop = HopRedirect string | HopReply nat string

record pack_lib =
  kl_verify :: "string \<Rightarrow> string \<Rightarrow> (string, unit) result"
  kl_manifest :: "string \<Rightarrow> pack_manifest option"
  kl_valid :: "string \<Rightarrow> bool"
  kl_prerelease :: "string \<Rightarrow> string"
  kl_compare :: "string \<Rightarrow> string \<Rightarrow> int"
  kl_sha :: "string \<Rightarrow> string"
  kl_archive :: "string \<Rightarrow> archive_stream option"
  kl_identity :: "string \<Rightarrow> (string \<times> string) option"
  kl_lock_text :: "pack_lock \<Rightarrow> string"
  kl_lock :: "string \<Rightarrow> pack_lock option"

section \<open>Manifests\<close>

definition authenticated :: "pack_lib \<Rightarrow> string \<Rightarrow> string \<Rightarrow> (pack_error, pack_manifest) result" where
  "authenticated lib data envelope =
     (case kl_verify lib data envelope of
        Inl e \<Rightarrow> Inl (BadSignature e)
      | Inr _ \<Rightarrow>
          (case kl_manifest lib data of
             None \<Rightarrow> Inl BadManifest
           | Some m \<Rightarrow> if pm_schema m \<noteq> 1 \<or> pm_registry m = [] then Inl UnsupportedManifest else Inr m))"

definition semver_stable :: "pack_lib \<Rightarrow> string \<Rightarrow> bool" where
  "semver_stable lib v \<longleftrightarrow> kl_valid lib (CHR ''v'' # v) \<and> kl_prerelease lib (CHR ''v'' # v) = []"

text \<open>\<^verbatim>\<open>^[a-z0-9][a-z0-9.-]*$\<close>\<close>

definition name_start :: "char \<Rightarrow> bool" where
  "name_start c \<longleftrightarrow> (CHR ''a'' \<le> c \<and> c \<le> CHR ''z'') \<or> (CHR ''0'' \<le> c \<and> c \<le> CHR ''9'')"

fun pack_safe_name :: "string \<Rightarrow> bool" where
  "pack_safe_name [] = False"
| "pack_safe_name (c # s) \<longleftrightarrow> name_start c \<and> list_all (\<lambda>c. name_start c \<or> c = CHR ''.'' \<or> c = CHR ''-'') s"

definition is_hex_char :: "char \<Rightarrow> bool" where
  "is_hex_char c \<longleftrightarrow> (CHR ''0'' \<le> c \<and> c \<le> CHR ''9'') \<or> (CHR ''a'' \<le> c \<and> c \<le> CHR ''f'') \<or> (CHR ''A'' \<le> c \<and> c \<le> CHR ''F'')"

definition hex_length :: "string \<Rightarrow> nat option" where
  "hex_length s = (if even (length s) \<and> list_all is_hex_char s then Some (length s div 2) else None)"

definition has_upper :: "string \<Rightarrow> bool" where
  "has_upper s \<longleftrightarrow> list_ex (\<lambda>c. CHR ''A'' \<le> c \<and> c \<le> CHR ''Z'') s"

definition validate_entry :: "pack_lib \<Rightarrow> pack_entry \<Rightarrow> (pack_error, unit) result" where
  "validate_entry lib e =
     (if \<not> pack_safe_name (pe_name e) \<or> \<not> pack_safe_name (pe_handle e) \<or> \<not> has_prefix (pe_name e) (pe_handle e @ ''.'')
         \<or> \<not> semver_stable lib (pe_version e) then Inl UnsafeIdentity
      else if hex_length (tb_sha (pe_tarball e)) \<noteq> Some 32 \<or> has_upper (tb_sha (pe_tarball e))
         \<or> tb_size (pe_tarball e) \<le> 0 \<or> tb_size (pe_tarball e) > max_download then Inl InvalidPin
      else Inr ())"

definition check_revocation :: "pack_manifest \<Rightarrow> pack_entry \<Rightarrow> (pack_error, unit) result" where
  "check_revocation m e =
     (case List.find (\<lambda>r. rv_name r = pe_name e \<and> rv_version r = pe_version e) (pm_revocations m) of
        Some r \<Rightarrow> Inl (Revoked (rv_reason r))
      | None \<Rightarrow> Inr ())"

fun stable_candidates :: "pack_lib \<Rightarrow> string \<Rightarrow> string list \<Rightarrow> pack_entry list \<Rightarrow> (pack_error, pack_entry list) result" where
  "stable_candidates lib name seen [] = Inr []"
| "stable_candidates lib name seen (e # es) =
     (if pe_name e = name \<and> semver_stable lib (pe_version e) then
        (if pe_version e \<in> set seen then Inl AmbiguousIdentity
         else map_sum id ((#) e) (stable_candidates lib name (pe_version e # seen) es))
      else stable_candidates lib name seen es)"

text \<open>The head of the list sorted by descending version; of versions that compare equal the sort may
  put any first, the model takes the first in the manifest.\<close>

fun newest :: "pack_lib \<Rightarrow> pack_entry \<Rightarrow> pack_entry list \<Rightarrow> pack_entry" where
  "newest lib best [] = best"
| "newest lib best (e # es) =
     newest lib (if kl_compare lib (CHR ''v'' # pe_version e) (CHR ''v'' # pe_version best) > 0 then e else best) es"

definition resolve_pack :: "pack_lib \<Rightarrow> pack_manifest \<Rightarrow> string \<Rightarrow> (pack_error, pack_entry) result" where
  "resolve_pack lib m name =
     bind_res (stable_candidates lib name [] (pm_packs m)) (\<lambda>cs.
       case cs of
         [] \<Rightarrow> Inl NoStablePack
       | c # rest \<Rightarrow>
           (let e = newest lib c rest
            in bind_res (validate_entry lib e) (\<lambda>_. bind_res (check_revocation m e) (\<lambda>_. Inr e))))"

section \<open>Archives\<close>

definition type_reg :: char where "type_reg = CHR ''0''"
definition type_dir :: char where "type_dir = CHR ''5''"

text \<open>\<^verbatim>\<open>path.Ext\<close>\<close>

definition path_ext :: "string \<Rightarrow> string" where
  "path_ext p =
     (let b = last (split_on slash p)
      in case last_index_char b (CHR ''.'') of None \<Rightarrow> [] | Some i \<Rightarrow> drop i b)"

definition allowed_extension :: "string \<Rightarrow> bool" where
  "allowed_extension name \<longleftrightarrow> path_ext name \<in> {''.md'', ''.yaml'', ''.yml'', ''.json'', ''.txt''}"

definition unsafe_archive_path :: "string \<Rightarrow> bool" where
  "unsafe_archive_path name \<longleftrightarrow>
     is_abs name \<or> path_clean name \<noteq> name \<or> contains_any name [backslash, CHR '':'', CHR 0x00]
     \<or> name = ''..'' \<or> has_prefix name ''../''"

record extract_state =
  xs_files :: file_table
  xs_dirs :: "string list"
  xs_total :: int

definition extract_header :: "tar_header \<Rightarrow> extract_state \<Rightarrow> (pack_error, extract_state) result" where
  "extract_header h st =
     (if th_type h = type_dir \<and> th_size h \<noteq> 0 then Inl DirectorySize
      else let name = trim_suffix (th_name h) [slash]
      in if name = [] \<or> name = ''.'' then (if th_type h = type_dir then Inr st else Inl EmptyPath)
      else if unsafe_archive_path name then Inl (UnsafePath (th_name h))
      else if th_type h = type_dir then Inr (st\<lparr>xs_dirs := name # xs_dirs st\<rparr>)
      else if th_type h \<noteq> type_reg \<and> th_type h \<noteq> CHR 0x00 then Inl (SpecialEntry name)
      else if \<not> allowed_extension name then Inl (ForbiddenExtension name)
      else if name = lock_name \<or> name = archive_name then Inl (ReservedFile name)
      else if name \<in> fst ` set (xs_files st) then Inl (DuplicateEntry name)
      else if th_size h < 0 \<or> xs_total st + th_size h > max_extracted then Inl OverLimit
      else (case th_body h of
              None \<Rightarrow> Inl BadTar
            | Some body \<Rightarrow>
                (if int (length body) \<noteq> th_size h then Inl TruncatedFile
                 else Inr (st\<lparr>xs_files := xs_files st @ [(name, body)], xs_total := xs_total st + th_size h\<rparr>))))"

fun extract_headers :: "int \<Rightarrow> tar_header list \<Rightarrow> extract_state \<Rightarrow> (pack_error, extract_state) result" where
  "extract_headers count [] st = Inr st"
| "extract_headers count (h # hs) st =
     (if count \<ge> 4096 then Inl TooManyEntries
      else bind_res (extract_header h st) (extract_headers (count + 1) hs))"

text \<open>The loop \<^verbatim>\<open>for parent := p; parent != "."; parent = path.Dir(parent)\<close>, with fuel.\<close>

fun parents_from :: "nat \<Rightarrow> string \<Rightarrow> string list" where
  "parents_from 0 p = []"
| "parents_from (Suc n) p = (if p = ''.'' then [] else p # parents_from n (path_dir p))"

definition file_conflict :: "file_table \<Rightarrow> string list \<Rightarrow> string \<Rightarrow> (pack_error, unit) result" where
  "file_conflict files dirs name =
     (if name \<in> set dirs then Inl (FileIsDirectory name)
      else if list_ex (\<lambda>p. p \<in> fst ` set files) (parents_from (length name) (path_dir name)) then Inl (FileBlocks name)
      else Inr ())"

definition dir_conflict :: "file_table \<Rightarrow> string \<Rightarrow> (pack_error, unit) result" where
  "dir_conflict files name =
     (if list_ex (\<lambda>p. p \<in> fst ` set files) (parents_from (length name) name) then Inl (FileBlocks name) else Inr ())"

definition extract_archive :: "pack_lib \<Rightarrow> string \<Rightarrow> (pack_error, file_table) result" where
  "extract_archive lib data =
     (case kl_archive lib data of
        None \<Rightarrow> Inl BadGzip
      | Some s \<Rightarrow>
          bind_res (extract_headers 0 (as_headers s) \<lparr>xs_files = [], xs_dirs = [], xs_total = 0\<rparr>) (\<lambda>st.
            if \<not> as_tar_ok s then Inl BadTar
            else if list_ex (\<lambda>c. c \<noteq> CHR 0x00) (as_tail s) then Inl TailBytes
            else if \<not> as_gzip_ok s then Inl BadGzip
            else if as_expanded s > max_extracted then Inl OverLimit
            else bind_res (check_each (\<lambda>_ f. file_conflict (xs_files st) (xs_dirs st) (fst f)) 0 (xs_files st)) (\<lambda>_.
                 bind_res (check_each (\<lambda>_. dir_conflict (xs_files st)) 0 (xs_dirs st)) (\<lambda>_.
                   if ''pack.yaml'' \<in> fst ` set (xs_files st) then Inr (xs_files st) else Inl NoPackYaml))))"

definition verified_archive :: "pack_lib \<Rightarrow> pack_entry \<Rightarrow> string \<Rightarrow> (pack_error, file_table) result" where
  "verified_archive lib e data =
     (if int (length data) \<noteq> tb_size (pe_tarball e) \<or> kl_sha lib data \<noteq> tb_sha (pe_tarball e) then Inl DigestMismatch
      else bind_res (extract_archive lib data) (\<lambda>files.
        case kl_identity lib (case map_of files ''pack.yaml'' of Some t \<Rightarrow> t | None \<Rightarrow> []) of
          None \<Rightarrow> Inl BadManifest
        | Some (name, version) \<Rightarrow>
            (if name \<noteq> pe_name e \<or> version \<noteq> pe_version e then Inl IdentityMismatch else Inr files)))"

section \<open>Downloads\<close>

text \<open>
  One request after another, following redirects; the first list is the log of addresses requested.
  \<open>hop\<close> is the transport: a failure, a redirect to an address, or a response.
\<close>

definition https_address :: "(string \<Rightarrow> parsed_url option) \<Rightarrow> string \<Rightarrow> bool" where
  "https_address parse a = (case parse a of None \<Rightarrow> False | Some u \<Rightarrow> pu_scheme u = ''https'')"

fun follow_redirects :: "(string \<Rightarrow> parsed_url option) \<Rightarrow> (string \<Rightarrow> (string, http_hop) result) \<Rightarrow> nat \<Rightarrow> string
  \<Rightarrow> string list \<times> (pack_error, nat \<times> string) result" where
  "follow_redirects parse hop 0 a = ([], Inl UnsafeRedirect)"
| "follow_redirects parse hop (Suc n) a =
     (case hop a of
        Inl e \<Rightarrow> ([a], Inl (DownloadFailed e))
      | Inr (HopReply status body) \<Rightarrow> ([a], Inr (status, body))
      | Inr (HopRedirect b) \<Rightarrow>
          (if n = 0 \<or> \<not> https_address parse b then ([a], Inl UnsafeRedirect)
           else (case follow_redirects parse hop n b of (log, r) \<Rightarrow> (a # log, r))))"

definition download :: "(string \<Rightarrow> parsed_url option) \<Rightarrow> (string \<Rightarrow> (string, http_hop) result) \<Rightarrow> string \<Rightarrow> int
  \<Rightarrow> string list \<times> (pack_error, string) result" where
  "download parse hop address limit =
     (case parse address of
        None \<Rightarrow> ([], Inl NotHttps)
      | Some u \<Rightarrow>
          (if pu_scheme u \<noteq> ''https'' \<or> pu_host u = [] \<or> pu_has_user u then ([], Inl NotHttps)
           else (case follow_redirects parse hop 10 address of
                   (log, Inl e) \<Rightarrow> (log, Inl e)
                 | (log, Inr (status, body)) \<Rightarrow>
                     (log, if status \<noteq> 200 then Inl (HttpStatus status)
                           else if int (length body) > limit then Inl DownloadTooLarge
                           else Inr body))))"

type_synonym fetcher = "string \<Rightarrow> int \<Rightarrow> string list \<times> (pack_error, string) result"

definition fetch_manifest :: "pack_lib \<Rightarrow> fetcher \<Rightarrow> string \<Rightarrow> string list \<times> (pack_error, pack_manifest \<times> string \<times> string) result" where
  "fetch_manifest lib fetch address =
     (case fetch address max_manifest of
        (l1, Inl e) \<Rightarrow> (l1, Inl e)
      | (l1, Inr data) \<Rightarrow>
          (case fetch (address @ ''.bundle'') max_manifest of
             (l2, Inl e) \<Rightarrow> (l1 @ l2, Inl e)
           | (l2, Inr envelope) \<Rightarrow> (l1 @ l2, map_sum id (\<lambda>m. (m, data, envelope)) (authenticated lib data envelope))))"

definition prepare_pack :: "pack_lib \<Rightarrow> fetcher \<Rightarrow> string \<Rightarrow> string \<Rightarrow> string list \<times> (pack_error, prepared) result" where
  "prepare_pack lib fetch address name =
     (case fetch_manifest lib fetch address of
        (l1, Inl e) \<Rightarrow> (l1, Inl e)
      | (l1, Inr (m, data, envelope)) \<Rightarrow>
          (case resolve_pack lib m name of
             Inl e \<Rightarrow> (l1, Inl e)
           | Inr e \<Rightarrow>
               (case fetch (tb_url (pe_tarball e)) max_download of
                  (l2, Inl x) \<Rightarrow> (l1 @ l2, Inl x)
                | (l2, Inr archive) \<Rightarrow>
                    (l1 @ l2, map_sum id (\<lambda>files.
                       \<lparr>pp_lock = \<lparr>pl_verified = None, pl_entry = e, pl_registry = pm_registry m, pl_manifest_url = address,
                          pl_manifest = data, pl_bundle = envelope\<rparr>, pp_archive = archive, pp_files = files\<rparr>)
                       (verified_archive lib e archive)))))"

end
