(* ===== verification/PackStore.thy ===== *)
theory PackStore
  imports PackRegistry
begin

text \<open>
  internal/packregistry/registry.go, second part: installed packs on disk.  A project's disk is the
  entries \<^verbatim>\<open>.skillex\<close> and \<^verbatim>\<open>.skillex/packs\<close> and the children of the latter; the
  tree of a pack lists its entries by their path below it, in the order of the walk.  Reads and writes
  go through pinned directory handles, so one operation sees one disk; apart from a disk that is not writable
  a write fails only where the code's own flags make it fail.
\<close>

section \<open>Disks\<close>

datatype disk_kind = DirKind | FileKind string | LinkKind | SpecialKind

type_synonym disk_tree = "(string \<times> disk_kind) list"

datatype pack_child = PackDir disk_tree | PackLink | PackOther

record pack_disk =
  dk_skillex :: "disk_kind option"
  dk_packs :: "disk_kind option"
  dk_children :: "(string \<times> pack_child) list"
  dk_writable :: bool

datatype install_error =
    InstallPack pack_error | ParentMissing | MkdirFailed | UnsafeDirectory string | AlreadyInstalled | StageExists
  | WriteFailed string | PackMissing | UnsafePackDirectory | UnreadableFile string | BadLock | LockMismatch
  | DirectoryMismatch | TooManyInstalled | ContainsLink | ContainsSpecial | UnexpectedFile string | Tampered string
  | FilesMissing | UnexpectedEntry | InvalidPackDirectory

abbreviation pack_op :: "(pack_error, 'a) result \<Rightarrow> (install_error, 'a) result" where
  "pack_op r \<equiv> map_sum InstallPack id r"

section \<open>Writing\<close>

definition write_new :: "string \<Rightarrow> string \<Rightarrow> disk_tree \<Rightarrow> (install_error, disk_tree) result" where
  "write_new name data t =
     (if map_of t name \<noteq> None \<or> (path_dir name \<noteq> ''.'' \<and> map_of t (path_dir name) \<noteq> Some DirKind) then Inl (WriteFailed name)
      else Inr (t @ [(name, FileKind data)]))"

fun make_dirs :: "string list \<Rightarrow> disk_tree \<Rightarrow> (install_error, disk_tree) result" where
  "make_dirs [] t = Inr t"
| "make_dirs (d # ds) t =
     (case map_of t d of
        None \<Rightarrow> make_dirs ds (t @ [(d, DirKind)])
      | Some DirKind \<Rightarrow> make_dirs ds t
      | Some k \<Rightarrow> Inl (WriteFailed d))"

definition mkdir_all :: "string \<Rightarrow> disk_tree \<Rightarrow> (install_error, disk_tree) result" where
  "mkdir_all dir t = make_dirs (rev (parents_from (Suc (length dir)) dir)) t"

fun write_tree :: "file_table \<Rightarrow> disk_tree \<Rightarrow> (install_error, disk_tree) result" where
  "write_tree [] t = Inr t"
| "write_tree ((name, data) # fs) t =
     bind_res (mkdir_all (path_dir name) t) (\<lambda>t1. bind_res (write_new name data t1) (write_tree fs))"

section \<open>The installation directory\<close>

definition parent_step :: "bool \<Rightarrow> bool \<Rightarrow> string \<Rightarrow> disk_kind option \<Rightarrow> disk_kind option \<times> (install_error, unit) result" where
  "parent_step create writable name k =
     (let k' = (if create \<and> k = None \<and> writable then Some DirKind else k)
      in (k', if create \<and> k = None \<and> \<not> writable then Inl MkdirFailed
              else case k' of None \<Rightarrow> Inl ParentMissing
                   | Some DirKind \<Rightarrow> Inr () | Some _ \<Rightarrow> Inl (UnsafeDirectory name)))"

definition installation_parent :: "bool \<Rightarrow> pack_disk \<Rightarrow> pack_disk \<times> (install_error, unit) result" where
  "installation_parent create d =
     (case parent_step create (dk_writable d) ''.skillex'' (dk_skillex d) of
        (k, Inl e) \<Rightarrow> (d\<lparr>dk_skillex := k\<rparr>, Inl e)
      | (k, Inr _) \<Rightarrow>
          (case parent_step create (dk_writable d) ''packs'' (dk_packs d) of
             (k2, r) \<Rightarrow> (d\<lparr>dk_skillex := k, dk_packs := k2\<rparr>, r)))"

section \<open>Installation\<close>

definition pack_target :: "pack_entry \<Rightarrow> string" where
  "pack_target e = pe_name e @ ''@'' @ pe_version e"

definition staged :: "pack_lib \<Rightarrow> prepared \<Rightarrow> file_table \<Rightarrow> (install_error, disk_tree) result" where
  "staged lib p files =
     bind_res (write_tree files []) (\<lambda>t.
     bind_res (write_new lock_name (kl_lock_text lib (pp_lock p)) t) (write_new archive_name (pp_archive p)))"

text \<open>\<open>stage\<close> is the name of the staging directory; it is gone on every path that returns.\<close>

definition install_pack :: "pack_lib \<Rightarrow> string \<Rightarrow> prepared \<Rightarrow> pack_disk \<Rightarrow> pack_disk \<times> (install_error, unit) result" where
  "install_pack lib stage p d =
     (case pack_op (validate_entry lib (pl_entry (pp_lock p))) of
        Inl e \<Rightarrow> (d, Inl e)
      | Inr _ \<Rightarrow>
     (case pack_op (verified_archive lib (pl_entry (pp_lock p)) (pp_archive p)) of
        Inl e \<Rightarrow> (d, Inl e)
      | Inr files \<Rightarrow>
     (case installation_parent True d of
        (d1, Inl e) \<Rightarrow> (d1, Inl e)
      | (d1, Inr _) \<Rightarrow>
          (if map_of (dk_children d1) (pack_target (pl_entry (pp_lock p))) \<noteq> None then (d1, Inl AlreadyInstalled)
           else if \<not> dk_writable d1 then (d1, Inl MkdirFailed)
           else if map_of (dk_children d1) stage \<noteq> None then (d1, Inl StageExists)
           else (case staged lib p files of
                   Inl e \<Rightarrow> (d1, Inl e)
                 | Inr t \<Rightarrow> (d1\<lparr>dk_children := dk_children d1 @ [(pack_target (pl_entry (pp_lock p)), PackDir t)]\<rparr>, Inr ()))))))"

section \<open>Verification of an installed pack\<close>

definition max_lock :: int where "max_lock = 12582912"

definition read_regular :: "disk_tree \<Rightarrow> string \<Rightarrow> int \<Rightarrow> (install_error, string) result" where
  "read_regular t name limit =
     (case map_of t name of
        Some (FileKind data) \<Rightarrow> if int (length data) > limit then Inl (UnreadableFile name) else Inr data
      | _ \<Rightarrow> Inl (UnreadableFile name))"

text \<open>The loop over the signed packs: two with the identity of the lock are an error.\<close>

definition signed_entry :: "pack_manifest \<Rightarrow> pack_entry \<Rightarrow> (install_error, pack_entry option) result" where
  "signed_entry m le =
     (case filter (\<lambda>e. pe_name e = pe_name le \<and> pe_version e = pe_version le) (pm_packs m) of
        [] \<Rightarrow> Inr None
      | [e] \<Rightarrow> Inr (Some e)
      | _ \<Rightarrow> Inl (InstallPack AmbiguousIdentity))"

text \<open>The walk: \<open>count\<close> entries were visited, \<open>files\<close> are the archive's files not seen yet.\<close>

fun check_tree :: "disk_tree \<Rightarrow> int \<Rightarrow> disk_tree \<Rightarrow> file_table \<Rightarrow> (install_error, file_table) result" where
  "check_tree t count [] files = Inr files"
| "check_tree t count ((f, k) # rest) files =
     (if count + 1 > 8192 then Inl TooManyInstalled
      else (case k of
              LinkKind \<Rightarrow> Inl ContainsLink
            | DirKind \<Rightarrow> check_tree t (count + 1) rest files
            | SpecialKind \<Rightarrow> Inl ContainsSpecial
            | FileKind _ \<Rightarrow>
                (if f = lock_name \<or> f = archive_name then check_tree t (count + 1) rest files
                 else (case map_of files f of
                         None \<Rightarrow> Inl (UnexpectedFile f)
                       | Some expected \<Rightarrow>
                           bind_res (read_regular t f (int (length expected))) (\<lambda>actual.
                             if actual \<noteq> expected then Inl (Tampered f)
                             else check_tree t (count + 1) rest (filter (\<lambda>(g, c). g \<noteq> f) files))))))"

definition verify_tree :: "pack_lib \<Rightarrow> pack_entry \<Rightarrow> disk_tree \<Rightarrow> (install_error, file_table) result" where
  "verify_tree lib e t =
     bind_res (read_regular t archive_name max_download) (\<lambda>archive.
     bind_res (pack_op (verified_archive lib e archive)) (\<lambda>files.
     bind_res (check_tree t 1 t files) (\<lambda>rest. if rest \<noteq> [] then Inl FilesMissing else Inr files)))"

definition validate_child :: "pack_lib \<Rightarrow> pack_disk \<Rightarrow> string \<Rightarrow> (install_error, pack_lock) result" where
  "validate_child lib d name =
     (case map_of (dk_children d) name of
        None \<Rightarrow> Inl PackMissing
      | Some PackLink \<Rightarrow> Inl UnsafePackDirectory
      | Some PackOther \<Rightarrow> Inl UnsafePackDirectory
      | Some (PackDir t) \<Rightarrow>
          bind_res (read_regular t lock_name max_lock) (\<lambda>data.
            case kl_lock lib data of
              None \<Rightarrow> Inl BadLock
            | Some lock \<Rightarrow>
                bind_res (pack_op (authenticated lib (pl_manifest lock) (pl_bundle lock))) (\<lambda>m.
                bind_res (signed_entry m (pl_entry lock)) (\<lambda>signed.
                  if signed \<noteq> Some (pl_entry lock) \<or> pl_registry lock \<noteq> pm_registry m then Inl LockMismatch
                  else bind_res (pack_op (validate_entry lib (pl_entry lock))) (\<lambda>_.
                    if name \<noteq> pack_target (pl_entry lock) then Inl DirectoryMismatch
                    else bind_res (pack_op (check_revocation m (pl_entry lock))) (\<lambda>_.
                         map_sum id (\<lambda>files. lock\<lparr>pl_verified := Some files\<rparr>) (verify_tree lib (pl_entry lock) t)))))))"

text \<open>\<open>disks\<close> is opening a project root.\<close>

definition validate_pack_dir :: "pack_lib \<Rightarrow> (string \<Rightarrow> pack_disk option) \<Rightarrow> string \<Rightarrow> (install_error, pack_lock) result" where
  "validate_pack_dir lib disks dir =
     (let packs = path_dir (path_clean dir); skillex = path_dir packs
      in if path_base packs \<noteq> ''packs'' \<or> path_base skillex \<noteq> ''.skillex'' then Inl InvalidPackDirectory
         else (case disks (path_dir skillex) of
                 None \<Rightarrow> Inl ParentMissing
               | Some d \<Rightarrow> bind_res (snd (installation_parent False d)) (\<lambda>_. validate_child lib d (path_base dir))))"

definition list_entry :: "pack_lib \<Rightarrow> pack_disk \<Rightarrow> string \<times> pack_child \<Rightarrow> (install_error, pack_lock) result" where
  "list_entry lib d c =
     (case c of (name, PackDir t) \<Rightarrow> validate_child lib d name | (name, _) \<Rightarrow> Inl UnexpectedEntry)"

definition list_packs :: "pack_lib \<Rightarrow> pack_disk \<Rightarrow> (install_error, pack_lock list) result" where
  "list_packs lib d =
     (case snd (installation_parent False d) of
        Inl ParentMissing \<Rightarrow> Inr []
      | Inl e \<Rightarrow> Inl e
      | Inr _ \<Rightarrow>
          map_sum id (sort_key (\<lambda>l. pack_target (pl_entry l)))
            (map_res (list_entry lib d) (filter (\<lambda>c. \<not> has_prefix (fst c) ''.'') (dk_children d))))"

section \<open>Paths into installed packs\<close>

definition abs_path :: "string \<Rightarrow> string \<Rightarrow> string" where
  "abs_path cwd p = (if is_abs p then path_clean p else path_join [cwd, p])"

definition packs_marker :: string where "packs_marker = ''/.skillex/packs/''"

definition installed_file_path :: "string \<Rightarrow> string \<Rightarrow> (string \<times> string) option" where
  "installed_file_path cwd file =
     (let clean = path_clean (abs_path cwd file)
      in case str_index clean packs_marker of
           None \<Rightarrow> None
         | Some i \<Rightarrow>
             (let start = i + length packs_marker; rest = drop start clean
              in map_option (\<lambda>b. (take (start + b) clean, drop (Suc b) rest)) (str_index rest [slash])))"

end
