(* ===== verification/Packs.thy ===== *)
theory Packs
  imports PackStore Trust
begin

text \<open>
  internal/packs/pack.go: manifests of skill packs, their validation, detectors, and the rules that
  activate a pack's skills and server suggestions for a repository.  Parameters (\<open>pack_world\<close>) are the YAML
  decoder, the file reads, the repository's tree and the glob compiler.  The map of detectors is the
  list of its entries in the order Go visits them, which Go leaves open.
\<close>

section \<open>Data\<close>

record dep_condition =
  dc_source :: string
  dc_name :: string
  dc_version :: string

record detector_match =
  dm_file :: "string option"
  dm_dep :: "dep_condition option"

type_synonym detector_def = "detector_match list"
type_synonym detectors = "(string \<times> detector_def) list"

text \<open>The field \<^verbatim>\<open>All\<close> distinguishes a missing list from an empty one.\<close>

datatype activate_when =
  ActivateWhen (aw_all: "activate_when list option") (aw_present: "string list") (aw_matching: "string list")
    (aw_declared: "dep_condition list") (aw_detector: string)

record pack_skill_ref =
  kr_file :: string
  kr_when :: activate_when
  kr_scope :: string
  kr_files :: "string list"

record server_ref =
  mr_ref :: string
  mr_version :: string
  mr_relationship :: string
  mr_when :: activate_when
  mr_scope :: string
  mr_files :: "string list"
  mr_prefer :: "string list"

record pack_yaml =
  py_name :: string
  py_version :: string
  py_description :: string
  py_source :: string
  py_detectors :: detectors
  py_skills :: "pack_skill_ref list"
  py_servers :: "server_ref list"

record skill_pack =
  pk_path :: string
  pk_dir :: string
  pk_manifest :: pack_yaml
  pk_verified :: "file_table option"

record dep_fact =
  df_source :: string
  df_name :: string
  df_version :: string

text \<open>The known detectors, and of these the active ones.\<close>

record activation_context =
  ax_dep :: dep_fact
  ax_boundary :: string
  ax_known :: "string list option"
  ax_active :: "string list"

datatype repo_node = RepoFile string | RepoDir string "repo_node list" | RepoUnreadable string

record pack_world =
  pw_cwd :: string
  pw_lib :: pack_lib
  pw_disks :: "string \<Rightarrow> pack_disk option"
  pw_read :: "string \<Rightarrow> (file_error, string) result"
  pw_exists :: "string \<Rightarrow> bool"
  pw_is_file :: "string \<Rightarrow> bool"
  pw_dir :: "string \<Rightarrow> (string \<times> bool) list option"
  pw_yaml :: "string \<Rightarrow> pack_yaml option"
  pw_glob :: globber
  pw_tree :: "repo_node list"

datatype activation_error =
    TooDeep "nat list" | AllMixed "nat list" | NoCondition "nat list" | BadGlob string | WalkFailed string | UnknownDetector string

datatype pack_problem =
    PackName | PackEmpty | DetectorName | DetectorEmpty string | MatchEmpty string nat | MatchPath string nat
  | MatchDependency string nat | SkillFile nat | SkillOutside nat | SkillUnverified nat string | SkillMissing nat string
  | SkillActivation nat activation_error | SkillScope nat | ServerRef nat | ServerVersion nat | ServerRelationship nat
  | ServerActivation nat activation_error | ServerScope nat | ServerPrefer nat nat

datatype load_pack_error = PackAuth install_error | PackRead file_error | PackParse string | PackInvalid string "pack_problem list"

section \<open>Validation\<close>

definition blank_text :: "string \<Rightarrow> bool" where
  "blank_text s \<longleftrightarrow> trim_space s = []"

definition has_leaf :: "activate_when \<Rightarrow> bool" where
  "has_leaf a \<longleftrightarrow> aw_present a \<noteq> [] \<or> aw_matching a \<noteq> [] \<or> aw_declared a \<noteq> [] \<or> \<not> blank_text (aw_detector a)"

definition max_nesting :: int where "max_nesting = 32"

text \<open>\<open>at\<close> is the place of the rule, the indices of the \<^verbatim>\<open>all\<close> lists on the way to it.\<close>

fun validate_activation :: "activate_when \<Rightarrow> nat list \<Rightarrow> int \<Rightarrow> activation_error option"
and validate_children :: "activate_when list \<Rightarrow> nat list \<Rightarrow> nat \<Rightarrow> int \<Rightarrow> activation_error option" where
  "validate_activation (ActivateWhen al ps ms ds det) at depth =
     (if depth > max_nesting then Some (TooDeep at)
      else case al of
        Some cs \<Rightarrow>
          if cs = [] \<or> has_leaf (ActivateWhen al ps ms ds det) then Some (AllMixed at)
          else validate_children cs at 0 (depth + 1)
      | None \<Rightarrow> if \<not> has_leaf (ActivateWhen al ps ms ds det) then Some (NoCondition at) else None)"
| "validate_children [] at i depth = None"
| "validate_children (c # cs) at i depth =
     (case validate_activation c (at @ [i]) depth of Some e \<Rightarrow> Some e | None \<Rightarrow> validate_children cs at (Suc i) depth)"

definition scope_kinds :: "string list" where
  "scope_kinds = ['''', ''subtree'', ''repo'', ''directory'', ''matching-files'', ''nearest-ancestor'', ''boundary'']"

definition is_safe_relative_path :: "string \<Rightarrow> bool" where
  "is_safe_relative_path path \<longleftrightarrow> \<not> is_abs path \<and> stays_inside (path_clean path)"

definition match_problems :: "string \<Rightarrow> nat \<times> detector_match \<Rightarrow> pack_problem list" where
  "match_problems name m =
     (case m of (i, m) \<Rightarrow>
        (if dm_file m = None \<and> dm_dep m = None then [MatchEmpty name i] else [])
        @ (case dm_file m of Some p \<Rightarrow> if blank_text p then [MatchPath name i] else [] | None \<Rightarrow> [])
        @ (case dm_dep m of
             Some d \<Rightarrow> if blank_text (dc_source d) \<and> blank_text (dc_name d) \<and> blank_text (dc_version d) then [MatchDependency name i] else []
           | None \<Rightarrow> []))"

definition detector_problems :: "string \<times> detector_def \<Rightarrow> pack_problem list" where
  "detector_problems d =
     (case d of (name, def) \<Rightarrow>
        (if blank_text name then [DetectorName] else [])
        @ (if def = [] then [DetectorEmpty name] else [])
        @ concat (map (match_problems name) (List.enumerate 0 def)))"

definition skill_problems :: "(string \<Rightarrow> bool) \<Rightarrow> string \<Rightarrow> file_table option \<Rightarrow> nat \<times> pack_skill_ref \<Rightarrow> pack_problem list" where
  "skill_problems exists dir verified s =
     (case s of (i, s) \<Rightarrow>
        (if blank_text (kr_file s) then [SkillFile i]
         else if \<not> is_safe_relative_path (kr_file s) then [SkillOutside i]
         else case verified of
                Some files \<Rightarrow> if map_of files (kr_file s) = None then [SkillUnverified i (kr_file s)] else []
              | None \<Rightarrow> if \<not> exists (path_join [dir, kr_file s]) then [SkillMissing i (kr_file s)] else [])
        @ (case validate_activation (kr_when s) [] 0 of Some e \<Rightarrow> [SkillActivation i e] | None \<Rightarrow> [])
        @ (if kr_scope s \<in> set scope_kinds then [] else [SkillScope i]))"

definition server_problems :: "nat \<times> server_ref \<Rightarrow> pack_problem list" where
  "server_problems s =
     (case s of (i, s) \<Rightarrow>
        (if blank_text (mr_ref s) then [ServerRef i] else [])
        @ (if blank_text (mr_version s) \<or> contains_any (mr_version s) ''*<>=^~ '' then [ServerVersion i] else [])
        @ (if mr_relationship s \<noteq> ''suggested'' then [ServerRelationship i] else [])
        @ (case validate_activation (mr_when s) [] 0 of Some e \<Rightarrow> [ServerActivation i e] | None \<Rightarrow> [])
        @ (if mr_scope s \<in> set scope_kinds then [] else [ServerScope i])
        @ concat (map (\<lambda>(j, n). if blank_text n then [ServerPrefer i j] else []) (List.enumerate 0 (mr_prefer s))))"

definition pack_problems :: "(string \<Rightarrow> bool) \<Rightarrow> skill_pack \<Rightarrow> pack_problem list" where
  "pack_problems exists p =
     (let m = pk_manifest p
      in (if blank_text (py_name m) then [PackName] else [])
         @ (if py_skills m = [] \<and> py_servers m = [] then [PackEmpty] else [])
         @ concat (map detector_problems (py_detectors m))
         @ concat (map (skill_problems exists (pk_dir p) (pk_verified p)) (List.enumerate 0 (py_skills m)))
         @ concat (map server_problems (List.enumerate 0 (py_servers m))))"

definition validate_pack :: "(string \<Rightarrow> bool) \<Rightarrow> skill_pack \<Rightarrow> (load_pack_error, unit) result" where
  "validate_pack exists p =
     (case pack_problems exists p of [] \<Rightarrow> Inr () | es \<Rightarrow> Inl (PackInvalid (pk_path p) es))"

section \<open>Loading\<close>

definition pack_filename :: string where "pack_filename = ''pack.yaml''"

text \<open>The bytes of the manifest and the files verified with it.\<close>

definition pack_source :: "pack_world \<Rightarrow> string \<Rightarrow> (load_pack_error, string \<times> file_table option) result" where
  "pack_source w path =
     (if str_contains path packs_marker then
        (case validate_pack_dir (pw_lib w) (pw_disks w) (path_dir path) of
           Inl e \<Rightarrow> Inl (PackAuth e)
         | Inr lock \<Rightarrow>
             (let files = (case pl_verified lock of Some fs \<Rightarrow> fs | None \<Rightarrow> [])
              in Inr (case map_of files pack_filename of Some t \<Rightarrow> t | None \<Rightarrow> [], Some files)))
      else map_sum PackRead (\<lambda>data. (data, None)) (pw_read w path))"

definition load_pack :: "pack_world \<Rightarrow> string \<Rightarrow> (load_pack_error, skill_pack) result" where
  "load_pack w path0 =
     (let path = path_clean (abs_path (pw_cwd w) path0)
      in case pack_source w path of
           Inl e \<Rightarrow> Inl e
         | Inr (data, verified) \<Rightarrow>
             (case pw_yaml w data of
                None \<Rightarrow> Inl (PackParse path)
              | Some m \<Rightarrow>
                  (let p = \<lparr>pk_path = path, pk_dir = path_dir path, pk_manifest = m, pk_verified = verified\<rparr>
                   in map_sum id (\<lambda>_. p) (validate_pack (pw_exists w) p))))"

section \<open>Files of the repository\<close>

definition skipped_dir :: "string \<Rightarrow> bool" where
  "skipped_dir name \<longleftrightarrow> name \<in> {''.git'', ''.skillex'', ''node_modules''}"

fun walk_node :: "string \<Rightarrow> repo_node \<Rightarrow> (string, string list) result"
and walk_nodes :: "string \<Rightarrow> repo_node list \<Rightarrow> (string, string list) result" where
  "walk_node at (RepoFile name) = Inr [at @ name]"
| "walk_node at (RepoDir name ns) = (if skipped_dir name then Inr [] else walk_nodes (at @ name @ [slash]) ns)"
| "walk_node at (RepoUnreadable name) = (if skipped_dir name then Inr [] else Inl (at @ name))"
| "walk_nodes at [] = Inr []"
| "walk_nodes at (n # ns) = bind_res (walk_node at n) (\<lambda>fs. map_sum id ((@) fs) (walk_nodes at ns))"

definition repo_files :: "pack_world \<Rightarrow> string \<Rightarrow> (string, string list) result" where
  "repo_files w root = (if skipped_dir (path_base root) then Inr [] else walk_nodes [] (pw_tree w))"

definition match_repo_files :: "pack_world \<Rightarrow> string \<Rightarrow> string \<Rightarrow> (activation_error, string list) result" where
  "match_repo_files w root pattern =
     (case pw_glob w pattern of
        None \<Rightarrow> Inl (BadGlob pattern)
      | Some g \<Rightarrow> map_sum WalkFailed (filter (\<lambda>rel. g rel \<or> g (path_base rel))) (repo_files w root))"

section \<open>Detectors\<close>

definition dependency_matches :: "dep_fact \<Rightarrow> dep_condition list \<Rightarrow> bool" where
  "dependency_matches dep conditions \<longleftrightarrow>
     list_ex (\<lambda>c. (dc_source c = [] \<or> dc_source c = df_source dep) \<and> (dc_name c = [] \<or> dc_name c = df_name dep)
        \<and> (dc_version c = [] \<or> dc_version c = df_version dep)) conditions"

fun detector_matches :: "pack_world \<Rightarrow> string \<Rightarrow> detector_def \<Rightarrow> activation_context \<Rightarrow> (activation_error, bool) result" where
  "detector_matches w root [] ctx = Inr False"
| "detector_matches w root (m # ms) ctx =
     bind_res (case dm_file m of None \<Rightarrow> Inr False | Some p \<Rightarrow> map_sum id (\<lambda>fs. fs \<noteq> []) (match_repo_files w root p)) (\<lambda>found.
       if found then Inr True
       else if (case dm_dep m of None \<Rightarrow> False | Some d \<Rightarrow> dependency_matches (ax_dep ctx) [d]) then Inr True
       else detector_matches w root ms ctx)"

definition file_match :: "string \<Rightarrow> detector_match" where
  "file_match p = \<lparr>dm_file = Some p, dm_dep = None\<rparr>"

definition builtin_detectors :: detectors where
  "builtin_detectors =
     [(''docker'', [file_match ''Dockerfile'', file_match ''Dockerfile.*'']), (''go'', [file_match ''go.mod'']),
      (''javascript'', [file_match ''package.json'']), (''typescript'', [file_match ''tsconfig.json''])]"

text \<open>A registration is the definition and the source it came from.\<close>

type_synonym detector_registry = "(string \<times> detector_def \<times> string) list"

datatype detector_conflict = BuiltinConflict string string | PackConflict string string string

definition register_detector :: "bool \<Rightarrow> string \<Rightarrow> string \<times> detector_def \<Rightarrow> detector_registry
  \<Rightarrow> (detector_conflict, detector_registry) result" where
  "register_detector builtin source d reg =
     (case d of (name, def) \<Rightarrow>
        (case map_of reg name of
           None \<Rightarrow> Inr (reg @ [(name, def, source)])
         | Some (old, old_source) \<Rightarrow>
             (if old = def then Inr reg
              else if old_source = ''builtin'' \<or> builtin then Inl (BuiltinConflict name source)
              else Inl (PackConflict name source old_source))))"

text \<open>The entries visited before a conflict stay registered.\<close>

fun register_all :: "bool \<Rightarrow> string \<Rightarrow> detectors \<Rightarrow> detector_registry \<Rightarrow> detector_registry \<times> detector_conflict option" where
  "register_all builtin source [] reg = (reg, None)"
| "register_all builtin source (d # ds) reg =
     (case register_detector builtin source d reg of
        Inl e \<Rightarrow> (reg, Some e)
      | Inr reg' \<Rightarrow> register_all builtin source ds reg')"

definition new_detector_registry :: detector_registry where
  "new_detector_registry = fst (register_all True ''builtin'' builtin_detectors [])"

fun evaluate_detectors :: "pack_world \<Rightarrow> string \<Rightarrow> detector_registry \<Rightarrow> activation_context
  \<Rightarrow> string list \<times> (string \<times> activation_error) list" where
  "evaluate_detectors w root [] ctx = ([], [])"
| "evaluate_detectors w root ((name, def, source) # reg) ctx =
     (case evaluate_detectors w root reg ctx of
        (active, errs) \<Rightarrow>
          (case detector_matches w root def ctx of
             Inl e \<Rightarrow> (active, (name, e) # errs)
           | Inr ok \<Rightarrow> (if ok then name # active else active, errs)))"

section \<open>Activation\<close>

definition append_items :: "string list \<Rightarrow> string list \<Rightarrow> string list" where
  "append_items xs ys = append_unique xs (filter (\<lambda>y. y \<noteq> []) ys)"

fun match_patterns :: "pack_world \<Rightarrow> string \<Rightarrow> string list \<Rightarrow> string list \<Rightarrow> (activation_error, string list) result" where
  "match_patterns w root acc [] = Inr acc"
| "match_patterns w root acc (p # ps) =
     bind_res (match_repo_files w root p) (\<lambda>fs. match_patterns w root (append_items acc fs) ps)"

definition detector_active :: "activation_context \<Rightarrow> string \<Rightarrow> (activation_error, bool) result" where
  "detector_active ctx name =
     (if blank_text name then Inr False
      else case ax_known ctx of
             None \<Rightarrow> Inl (UnknownDetector name)
           | Some known \<Rightarrow> if name \<notin> set known then Inl (UnknownDetector name) else Inr (name \<in> set (ax_active ctx)))"

fun evaluate_activation :: "pack_world \<Rightarrow> string \<Rightarrow> activation_context \<Rightarrow> activate_when
  \<Rightarrow> (activation_error, bool \<times> string list) result"
and evaluate_children :: "pack_world \<Rightarrow> string \<Rightarrow> activation_context \<Rightarrow> bool \<Rightarrow> string list \<Rightarrow> activate_when list
  \<Rightarrow> (activation_error, bool \<times> string list) result" where
  "evaluate_activation w root ctx (ActivateWhen al ps ms ds det) =
     (case al of
        Some cs \<Rightarrow> evaluate_children w root ctx True [] cs
      | None \<Rightarrow>
          bind_res (match_patterns w root [] (ps @ ms)) (\<lambda>files.
          bind_res (detector_active ctx det) (\<lambda>active.
            Inr (files \<noteq> [] \<or> active \<or> dependency_matches (ax_dep ctx) ds, files))))"
| "evaluate_children w root ctx matched files [] = Inr (matched, files)"
| "evaluate_children w root ctx matched files (c # cs) =
     bind_res (evaluate_activation w root ctx c) (\<lambda>(ok, fs).
       evaluate_children w root ctx (matched \<and> ok) (append_items files fs) cs)"

definition below_dir :: "string \<Rightarrow> string \<Rightarrow> string \<Rightarrow> string list" where
  "below_dir dir here pattern = (if dir = here then [pattern] else [path_join [dir, pattern]])"

definition scope_for_match :: "string \<Rightarrow> string \<Rightarrow> string list" where
  "scope_for_match match scope =
     (if scope = ''repo'' then [''**'']
      else if scope = ''boundary'' then []
      else if scope = ''directory'' then below_dir (path_dir match) ''.'' ''*''
      else if scope = ''matching-files'' then [match]
      else if scope \<in> {''nearest-ancestor'', '''', ''subtree''} then below_dir (path_dir match) ''.'' ''**''
      else [])"

definition scope_for_context :: "activation_context \<Rightarrow> string \<Rightarrow> string list" where
  "scope_for_context ctx scope =
     (let here = (ax_boundary ctx = [] \<or> ax_boundary ctx = ''.'')
      in if scope = ''repo'' then [''**'']
         else if scope \<in> {''boundary'', '''', ''subtree'', ''nearest-ancestor''} then
           (if here then [''**''] else [path_join [ax_boundary ctx, ''**'']])
         else if scope = ''directory'' then (if here then [''*''] else [path_join [ax_boundary ctx, ''*'']])
         else [])"

definition activate_with_context :: "pack_world \<Rightarrow> string \<Rightarrow> activate_when \<Rightarrow> string \<Rightarrow> string list \<Rightarrow> activation_context
  \<Rightarrow> (activation_error, string list) result" where
  "activate_with_context w root when scope files ctx =
     (case validate_activation when [] 0 of
        Some e \<Rightarrow> Inl e
      | None \<Rightarrow>
          bind_res (evaluate_activation w root ctx when) (\<lambda>(matched, found).
            if \<not> matched then Inr []
            else bind_res (if scope = ''matching-files'' \<and> files \<noteq> [] then match_patterns w root [] files else Inr found) (\<lambda>matches.
              if scope = ''boundary'' \<or> matches = [] then Inr (scope_for_context ctx scope)
              else Inr (foldl (\<lambda>acc m. append_items acc (scope_for_match m scope)) [] matches))))"

definition activate_skill :: "pack_world \<Rightarrow> string \<Rightarrow> pack_skill_ref \<Rightarrow> activation_context \<Rightarrow> (activation_error, string list) result" where
  "activate_skill w root s ctx = activate_with_context w root (kr_when s) (kr_scope s) (kr_files s) ctx"

definition activate_server :: "pack_world \<Rightarrow> string \<Rightarrow> server_ref \<Rightarrow> activation_context \<Rightarrow> (activation_error, string list) result" where
  "activate_server w root s ctx = activate_with_context w root (mr_when s) (mr_scope s) (mr_files s) ctx"

section \<open>Projects\<close>

datatype project_error =
    PackLoad load_pack_error | DetectorClash detector_conflict | DetectorFailed string activation_error
  | SkillActivationFailed string string activation_error | ServerActivationFailed string string activation_error

definition project_manifest_paths :: "pack_world \<Rightarrow> string \<Rightarrow> string list" where
  "project_manifest_paths w root =
     (let here = path_join [root, ''skillex'', pack_filename]
      in (if pw_is_file w here then [here] else [])
         @ concat (map (\<lambda>dir. case pw_dir w dir of
               None \<Rightarrow> []
             | Some es \<Rightarrow> filter (pw_is_file w) (map (\<lambda>(name, d). path_join [dir, name, pack_filename])
                 (filter (\<lambda>(name, d). d \<and> \<not> has_prefix name ''.'') es)))
             [path_join [root, ''skillex'', ''packs''], path_join [root, ''.skillex'', ''packs'']]))"

definition left_of :: "('a, 'b) result list \<Rightarrow> 'a list" where
  "left_of rs = List.map_filter (\<lambda>r. case r of Inl e \<Rightarrow> Some e | Inr _ \<Rightarrow> None) rs"

definition right_of :: "('a, 'b) result list \<Rightarrow> 'b list" where
  "right_of rs = List.map_filter (\<lambda>r. case r of Inl _ \<Rightarrow> None | Inr x \<Rightarrow> Some x) rs"

definition project_packs :: "pack_world \<Rightarrow> string \<Rightarrow> skill_pack list \<times> project_error list" where
  "project_packs w root =
     (let rs = map (load_pack w) (project_manifest_paths w root) in (right_of rs, map PackLoad (left_of rs)))"

fun register_packs :: "skill_pack list \<Rightarrow> detector_registry \<Rightarrow> detector_registry \<times> project_error list" where
  "register_packs [] reg = (reg, [])"
| "register_packs (p # ps) reg =
     (case register_all False (py_name (pk_manifest p)) (py_detectors (pk_manifest p)) reg of
        (reg', c) \<Rightarrow> (case register_packs ps reg' of
                       (r, es) \<Rightarrow> (r, (case c of None \<Rightarrow> [] | Some e \<Rightarrow> [DetectorClash e]) @ es)))"

definition empty_dep :: dep_fact where "empty_dep = \<lparr>df_source = [], df_name = [], df_version = []\<rparr>"

definition empty_context :: activation_context where
  "empty_context = \<lparr>ax_dep = empty_dep, ax_boundary = [], ax_known = None, ax_active = []\<rparr>"

definition detector_context :: "pack_world \<Rightarrow> string \<Rightarrow> detector_registry \<Rightarrow> activation_context
  \<Rightarrow> activation_context \<times> (string \<times> activation_error) list" where
  "detector_context w root reg ctx =
     (case evaluate_detectors w root reg ctx of
        (active, errs) \<Rightarrow> (ctx\<lparr>ax_known := Some (map fst reg), ax_active := active\<rparr>, errs))"

definition project_context :: "pack_world \<Rightarrow> string \<Rightarrow> skill_pack list \<Rightarrow> activation_context \<times> project_error list" where
  "project_context w root ps =
     (case register_packs ps new_detector_registry of
        (reg, es) \<Rightarrow> (case detector_context w root reg empty_context of
                       (ctx, des) \<Rightarrow> (ctx, es @ map (\<lambda>(n, e). DetectorFailed n e) des)))"

text \<open>Activated entries with their scopes; entries without scopes are left out.\<close>

definition activated :: "('s \<Rightarrow> (activation_error, string list) result) \<Rightarrow> (skill_pack \<Rightarrow> 's \<Rightarrow> activation_error \<Rightarrow> project_error)
  \<Rightarrow> skill_pack \<times> 's \<Rightarrow> (project_error, (skill_pack \<times> 's \<times> string list) option) result" where
  "activated act fail ps =
     (case ps of (p, s) \<Rightarrow>
        map_sum (fail p s) (\<lambda>scopes. if scopes = [] then None else Some (p, s, scopes)) (act s))"

definition activate_project :: "pack_world \<Rightarrow> string \<Rightarrow> (skill_pack \<times> pack_skill_ref \<times> string list) list \<times> project_error list" where
  "activate_project w root =
     (case project_packs w root of (ps, e1) \<Rightarrow>
     (case project_context w root ps of (ctx, e2) \<Rightarrow>
       (let rs = map (activated (\<lambda>s. activate_skill w root s ctx)
                       (\<lambda>p s. SkillActivationFailed (py_name (pk_manifest p)) (kr_file s)))
                   (concat (map (\<lambda>p. map (Pair p) (py_skills (pk_manifest p))) ps))
        in (List.map_filter id (right_of rs), e1 @ e2 @ left_of rs))))"

definition activate_project_servers :: "pack_world \<Rightarrow> string \<Rightarrow> (skill_pack \<times> server_ref \<times> string list) list \<times> project_error list" where
  "activate_project_servers w root =
     (case project_packs w root of (ps, e1) \<Rightarrow>
     (case project_context w root ps of (ctx, e2) \<Rightarrow>
       (let rs = map (activated (\<lambda>s. activate_server w root s ctx)
                       (\<lambda>p s. ServerActivationFailed (py_name (pk_manifest p)) (mr_ref s)))
                   (concat (map (\<lambda>p. map (Pair p) (py_servers (pk_manifest p))) ps))
        in (List.map_filter id (right_of rs), e1 @ e2 @ left_of rs))))"

text \<open>The context of a dependency's pack: a conflict leaves the context as it was.\<close>

definition context_for_pack :: "pack_world \<Rightarrow> string \<Rightarrow> skill_pack \<Rightarrow> activation_context
  \<Rightarrow> activation_context \<times> project_error list" where
  "context_for_pack w root p ctx =
     (case register_all False (py_name (pk_manifest p)) (py_detectors (pk_manifest p)) new_detector_registry of
        (reg, Some e) \<Rightarrow> (ctx, [DetectorClash e])
      | (reg, None) \<Rightarrow> (case detector_context w root reg ctx of (ctx', des) \<Rightarrow> (ctx', map (\<lambda>(n, e). DetectorFailed n e) des)))"

end
