(* ===== verification/PackProps.thy ===== *)
theory PackProps
  imports PackStore
begin

text \<open>
  Lemmas on archives and installed trees: the names an archive may contain, the tree that writing
  its files gives, and what the verification of an installed tree compares.
\<close>

section \<open>Clean relative names\<close>

text \<open>A name the archive check lets through, as its list of components.\<close>

definition plain_comps :: "string list \<Rightarrow> bool" where
  "plain_comps cs \<longleftrightarrow> cs \<noteq> [] \<and> (\<forall>c \<in> set cs. proper_comp c \<and> c \<noteq> ''..'')"

abbreviation joined_path :: "string list \<Rightarrow> string" where
  "joined_path cs \<equiv> str_join [slash] cs"

lemma plain_stack: "\<forall>c \<in> set cs. proper_comp c \<and> c \<noteq> ''..'' \<Longrightarrow> stack_ok r (rev cs)"
proof -
  have "dots_last xs" if "\<forall>c \<in> set xs. c \<noteq> ''..''" for xs using that by (induction xs) auto
  then show "\<forall>c \<in> set cs. proper_comp c \<and> c \<noteq> ''..'' \<Longrightarrow> stack_ok r (rev cs)" by (auto simp: stack_ok_def)
qed

lemma plain_split: "plain_comps cs \<Longrightarrow> split_on slash (joined_path cs) = cs"
  by (rule split_join) (auto simp: plain_comps_def proper_comp_def)

lemma plain_rel: "plain_comps cs \<Longrightarrow> \<not> is_abs (joined_path cs) \<and> joined_path cs \<noteq> []"
  using join_not_abs[OF plain_stack[of cs False]] by (simp add: plain_comps_def)

lemma plain_inj: "plain_comps cs \<Longrightarrow> plain_comps ds \<Longrightarrow> joined_path cs = joined_path ds \<Longrightarrow> cs = ds"
  using plain_split by metis

lemma plain_clean: "plain_comps cs \<Longrightarrow> path_clean (joined_path cs) = joined_path cs"
  using plain_rel[of cs] plain_split[of cs] clean_stack_id[of False cs "[]"] plain_stack[of cs False]
  by (auto simp: path_clean_rel Let_def plain_comps_def)

lemma safe_name_comps:
  assumes "\<not> unsafe_archive_path name" "name \<noteq> []" "name \<noteq> ''.''"
  obtains cs where "plain_comps cs" "name = joined_path cs"
proof -
  let ?st = "clean_stack False [] (split_on slash name)"
  have a: "\<not> is_abs name" "path_clean name = name" "stays_inside (path_clean name)"
    using assms(1) by (auto simp: unsafe_archive_path_def stays_inside_def)
  have nd: "''..'' \<notin> set ?st" by (rule stays_inside_no_dots[OF a(1) assms(2) a(3)])
  have st: "?st \<noteq> []" using path_clean_rel[OF a(1) assms(2)] a(2) assms(3) by (auto simp: Let_def)
  then have "name = joined_path (rev ?st)" using path_clean_rel[OF a(1) assms(2)] a(2) by (simp add: Let_def)
  moreover have "plain_comps (rev ?st)"
    using clean_comps_ok[of False name] nd st by (auto simp: plain_comps_def stack_ok_def)
  ultimately show thesis by (rule that[rotated])
qed

lemma last_slash: "slash \<notin> set c \<Longrightarrow> last_index_char (s @ slash # c) slash = Some (length s)"
  by (induction s) (auto simp: last_index_char_None split: option.splits)

lemma plain_dir:
  assumes "plain_comps (cs @ [c])"
  shows "path_dir (joined_path (cs @ [c])) = (if cs = [] then ''.'' else joined_path cs)"
proof (cases "cs = []")
  case True
  then have "last_index_char c slash = None" using assms by (simp add: plain_comps_def proper_comp_def last_index_char_None)
  with True show ?thesis by (simp add: path_dir_def path_clean_def)
next
  case False
  then have cs: "plain_comps cs" using assms by (simp add: plain_comps_def)
  have c: "slash \<notin> set c" using assms by (simp add: plain_comps_def proper_comp_def)
  let ?d = "joined_path cs @ [slash]"
  have j: "joined_path (cs @ [c]) = joined_path cs @ slash # c" using False by (simp add: str_join_append)
  have "path_dir (joined_path (cs @ [c])) = path_clean ?d"
    using last_slash[OF c, of "joined_path cs"] j by (simp add: path_dir_def)
  also have "\<dots> = joined_path cs"
  proof -
    have "split_on slash ?d = cs @ [[]]" using split_on_append[of slash "joined_path cs" "[]"] plain_split[OF cs] by simp
    moreover have "clean_stack False [] cs = rev cs"
      using clean_stack_id[of False cs "[]"] plain_stack[of cs False] cs by (simp add: plain_comps_def)
    moreover have "\<not> is_abs ?d" using plain_rel[OF cs] by (cases "joined_path cs") auto
    ultimately show ?thesis using False by (simp add: path_clean_rel Let_def clean_step_def)
  qed
  finally show ?thesis using False by simp
qed

text \<open>The chain of parents are the joined prefixes.\<close>

lemma parents_dot [simp]: "parents_from n ''.'' = []"
  by (cases n) simp_all

lemma plain_not_dot: "plain_comps cs \<Longrightarrow> joined_path cs \<noteq> ''.''"
proof
  assume a: "plain_comps cs" "joined_path cs = ''.''"
  from plain_split[OF a(1)] have "cs = [''.'']" by (simp add: a(2))
  with a(1) show False by (simp add: plain_comps_def proper_comp_def)
qed

lemma plain_butlast: "plain_comps (cs @ ds) \<Longrightarrow> cs \<noteq> [] \<Longrightarrow> plain_comps cs"
  by (simp add: plain_comps_def)

lemma parents_set:
  "plain_comps cs \<Longrightarrow> length cs \<le> n \<Longrightarrow> set (parents_from n (joined_path cs)) = (\<lambda>k. joined_path (take k cs)) ` {1..length cs}"
proof (induction cs arbitrary: n rule: rev_induct)
  case Nil
  then show ?case by (simp add: plain_comps_def)
next
  case (snoc c cs)
  obtain m where n: "n = Suc m" using snoc.prems(2) by (cases n) auto
  have top: "parents_from n (joined_path (cs @ [c])) = joined_path (cs @ [c]) # parents_from m (if cs = [] then ''.'' else joined_path cs)"
    using plain_not_dot[OF snoc.prems(1)] plain_dir[OF snoc.prems(1)] n by simp
  show ?case
  proof (cases "cs = []")
    case True
    with top show ?thesis by simp
  next
    case False
    have "set (parents_from m (joined_path cs)) = (\<lambda>k. joined_path (take k cs)) ` {1..length cs}"
      using snoc.IH plain_butlast[OF snoc.prems(1) False] snoc.prems(2) n by simp
    also have "\<dots> = (\<lambda>k. joined_path (take k (cs @ [c]))) ` {1..length cs}" by (intro image_cong) auto
    finally have "set (parents_from n (joined_path (cs @ [c])))
        = insert (joined_path (cs @ [c])) ((\<lambda>k. joined_path (take k (cs @ [c]))) ` {1..length cs})"
      using top False by simp
    moreover have "{1..length (cs @ [c])} = insert (Suc (length cs)) {1..length cs}" by auto
    ultimately show ?thesis by simp
  qed
qed

lemma plain_length: "plain_comps cs \<Longrightarrow> length cs \<le> length (joined_path cs)"
proof -
  have "(\<forall>c \<in> set cs. c \<noteq> []) \<Longrightarrow> length cs \<le> length (joined_path cs)" for cs
  proof (induction cs)
    case Nil
    then show ?case by simp
  next
    case (Cons c cs)
    then have "length c \<ge> 1" by (cases c) auto
    with Cons show ?case by (cases "cs = []") (auto simp: str_join_Cons)
  qed
  then show "plain_comps cs \<Longrightarrow> length cs \<le> length (joined_path cs)" by (auto simp: plain_comps_def proper_comp_def)
qed

text \<open>A path below another one has it among its proper prefixes.\<close>

lemma below_prefix:
  assumes "plain_comps as" "plain_comps bs" "has_prefix (joined_path bs) (joined_path as @ [slash])"
  shows "\<exists>k. 1 \<le> k \<and> k < length bs \<and> as = take k bs"
proof -
  from assms(3) obtain r where "joined_path bs = joined_path as @ slash # r" by (auto simp: has_prefix_iff)
  then have "bs = as @ split_on slash r"
    using plain_split[OF assms(2)] plain_split[OF assms(1)] split_on_append[of slash "joined_path as" r] by simp
  moreover have "split_on slash r \<noteq> []" by simp
  ultimately show ?thesis using assms(1) by (intro exI[of _ "length as"]) (auto simp: plain_comps_def Suc_le_eq)
qed

lemma prefix_below:
  assumes "1 \<le> k" "k < length bs"
  shows "has_prefix (joined_path bs) (joined_path (take k bs) @ [slash])"
proof -
  have "joined_path bs = joined_path (take k bs @ drop k bs)" by simp
  also have "\<dots> = joined_path (take k bs) @ [slash] @ joined_path (drop k bs)"
    by (rule str_join_append) (use assms in auto)
  finally show ?thesis by (simp add: has_prefix_iff)
qed

section \<open>Archives\<close>

definition good_name :: "string \<Rightarrow> bool" where
  "good_name n \<longleftrightarrow> n \<noteq> [] \<and> n \<noteq> ''.'' \<and> \<not> unsafe_archive_path n"

lemma good_name_comps: "good_name n \<Longrightarrow> \<exists>cs. plain_comps cs \<and> n = joined_path cs"
  unfolding good_name_def by (metis safe_name_comps)

text \<open>What every extracted table satisfies.\<close>

definition table_names :: "file_table \<Rightarrow> string set" where
  "table_names files = fst ` set files"

definition no_blocking :: "string set \<Rightarrow> bool" where
  "no_blocking N \<longleftrightarrow> (\<forall>a \<in> N. \<forall>b \<in> N. \<not> has_prefix b (a @ [slash]))"

definition headers_ok :: "int \<Rightarrow> extract_state \<Rightarrow> bool" where
  "headers_ok count st \<longleftrightarrow>
     distinct (map fst (xs_files st)) \<and> int (length (xs_files st)) \<le> count \<and> count \<le> 4096 \<and>
     xs_total st = int (sum_list (map (length \<circ> snd) (xs_files st))) \<and> xs_total st \<le> max_extracted \<and>
     (\<forall>n \<in> table_names (xs_files st). good_name n \<and> allowed_extension n \<and> n \<noteq> lock_name \<and> n \<noteq> archive_name) \<and>
     (\<forall>d \<in> set (xs_dirs st). good_name d)"

lemma extract_header_ok:
  assumes "headers_ok count st" "count < 4096" "extract_header h st = Inr st'"
  shows "headers_ok (count + 1) st'"
proof -
  let ?name = "trim_suffix (th_name h) [slash]"
  from assms(3) consider (same) "st' = st" | (dir) "st' = st\<lparr>xs_dirs := ?name # xs_dirs st\<rparr>" "good_name ?name"
    | (new) body where "st' = st\<lparr>xs_files := xs_files st @ [(?name, body)], xs_total := xs_total st + th_size h\<rparr>"
      "good_name ?name" "allowed_extension ?name" "?name \<noteq> lock_name" "?name \<noteq> archive_name" "?name \<notin> fst ` set (xs_files st)"
      "int (length body) = th_size h" "xs_total st + th_size h \<le> max_extracted"
    by (auto simp: extract_header_def Let_def good_name_def split: if_splits option.splits)
  then show ?thesis
  proof cases
    case same
    with assms(1,2) show ?thesis by (simp add: headers_ok_def)
  next
    case dir
    with assms(1,2) show ?thesis by (simp add: headers_ok_def)
  next
    case new
    with assms(1,2) show ?thesis by (simp add: headers_ok_def table_names_def)
  qed
qed

lemma extract_headers_ok:
  "headers_ok count st \<Longrightarrow> extract_headers count hs st = Inr st' \<Longrightarrow> \<exists>n. headers_ok n st'"
proof (induction hs arbitrary: count st)
  case Nil
  then show ?case by auto
next
  case (Cons h hs)
  from Cons.prems(2) obtain st1 where "count < 4096" "extract_header h st = Inr st1" "extract_headers (count + 1) hs st1 = Inr st'"
    by (auto simp: bind_res_Ok_iff split: if_splits)
  with Cons.IH extract_header_ok[OF Cons.prems(1)] show ?case by blast
qed

definition archive_ok :: "file_table \<Rightarrow> bool" where
  "archive_ok files \<longleftrightarrow>
     distinct (map fst files) \<and> length files \<le> 4096 \<and> int (sum_list (map (length \<circ> snd) files)) \<le> max_extracted \<and>
     (\<forall>n \<in> table_names files. good_name n \<and> allowed_extension n \<and> n \<noteq> lock_name \<and> n \<noteq> archive_name) \<and>
     no_blocking (table_names files) \<and> ''pack.yaml'' \<in> table_names files"

lemma file_parents:
  assumes "plain_comps cs"
  shows "set (parents_from (length (joined_path cs)) (path_dir (joined_path cs))) = (\<lambda>k. joined_path (take k cs)) ` {1..<length cs}"
proof -
  obtain c ds where cs: "cs = ds @ [c]" using assms by (metis plain_comps_def rev_exhaust)
  show ?thesis
  proof (cases "ds = []")
    case True
    with cs plain_dir[OF assms[unfolded cs]] show ?thesis by simp
  next
    case False
    have "set (parents_from (length (joined_path cs)) (joined_path ds)) = (\<lambda>k. joined_path (take k ds)) ` {1..length ds}"
      using parents_set[OF plain_butlast[OF assms[unfolded cs] False]] plain_length[OF assms] cs by simp
    also have "\<dots> = (\<lambda>k. joined_path (take k cs)) ` {1..<length cs}" using cs by (intro image_cong) auto
    finally show ?thesis using plain_dir[OF assms[unfolded cs]] False cs by simp
  qed
qed

lemma extract_archive_ok:
  assumes "extract_archive lib data = Inr files"
  shows "archive_ok files"
proof -
  from assms obtain s st where st: "kl_archive lib data = Some s"
    "extract_headers 0 (as_headers s) \<lparr>xs_files = [], xs_dirs = [], xs_total = 0\<rparr> = Inr st" "files = xs_files st"
    "check_each (\<lambda>_ f. file_conflict (xs_files st) (xs_dirs st) (fst f)) 0 (xs_files st) = Inr ()" "''pack.yaml'' \<in> table_names files"
    by (auto simp: extract_archive_def bind_res_Ok_iff table_names_def split: option.splits if_splits)
  have "headers_ok 0 \<lparr>xs_files = [], xs_dirs = [], xs_total = 0\<rparr>" by (simp add: headers_ok_def table_names_def max_extracted_def)
  from extract_headers_ok[OF this st(2)] obtain n where ok: "headers_ok n st" ..
  have "\<not> has_prefix b (a @ [slash])" if "a \<in> table_names files" "b \<in> table_names files" for a b
  proof
    assume pre: "has_prefix b (a @ [slash])"
    from that ok st(3) have "good_name a" "good_name b" by (auto simp: headers_ok_def)
    then obtain as bs where c: "plain_comps as" "a = joined_path as" "plain_comps bs" "b = joined_path bs" using good_name_comps by meson
    from below_prefix[OF c(1,3)] pre c obtain k where k: "1 \<le> k" "k < length bs" "as = take k bs" by auto
    from that(2) obtain f where f: "f \<in> set (xs_files st)" "fst f = b" using st(3) by (auto simp: table_names_def)
    have "file_conflict (xs_files st) (xs_dirs st) b = Inr ()" using check_each_OkD[OF st(4) f(1)] f(2) by auto
    then have "\<not> list_ex (\<lambda>p. p \<in> fst ` set (xs_files st)) (parents_from (length b) (path_dir b))"
      by (auto simp: file_conflict_def split: if_splits)
    moreover have "a \<in> set (parents_from (length b) (path_dir b))" using file_parents[OF c(3)] c k by auto
    ultimately show False using that(1) st(3) by (auto simp: list_ex_iff table_names_def)
  qed
  then have "no_blocking (table_names files)" by (simp add: no_blocking_def)
  with ok st(3,5) show ?thesis by (auto simp: archive_ok_def headers_ok_def)
qed

section \<open>Writing a tree\<close>

text \<open>\<open>t\<close> holds the files of \<open>fs\<close>, and besides them only directories above names of \<open>N\<close>.\<close>

definition tree_holds :: "string set \<Rightarrow> file_table \<Rightarrow> disk_tree \<Rightarrow> bool" where
  "tree_holds N fs t \<longleftrightarrow>
     distinct (map fst t) \<and> (\<forall>n c. map_of t n = Some (FileKind c) \<longleftrightarrow> (n, c) \<in> set fs) \<and>
     (\<forall>d k. map_of t d = Some k \<longrightarrow> (k = DirKind \<and> (\<exists>b \<in> N. has_prefix b (d @ [slash]))) \<or> (\<exists>c. k = FileKind c))"

lemma tree_holdsD:
  "tree_holds N fs t \<Longrightarrow> map_of t d = Some k \<Longrightarrow>
     (k = DirKind \<and> (\<exists>b \<in> N. has_prefix b (d @ [slash]))) \<or> (\<exists>c. k = FileKind c \<and> (d, c) \<in> set fs)"
  unfolding tree_holds_def by metis

lemma make_dirs_holds:
  "tree_holds N fs t \<Longrightarrow> no_blocking N \<Longrightarrow> table_names fs \<subseteq> N \<Longrightarrow> \<forall>d \<in> set ds. \<exists>b \<in> N. has_prefix b (d @ [slash]) \<Longrightarrow>
   \<exists>t'. make_dirs ds t = Inr t' \<and> tree_holds N fs t' \<and> (\<forall>d \<in> set ds. map_of t' d = Some DirKind) \<and>
     (\<forall>d. map_of t d = Some DirKind \<longrightarrow> map_of t' d = Some DirKind)"
proof (induction ds arbitrary: t)
  case Nil
  then show ?case by simp
next
  case (Cons d ds)
  show ?case
  proof (cases "map_of t d")
    case None
    have "tree_holds N fs (t @ [(d, DirKind)])"
      using Cons.prems(1,4) None by (auto simp: tree_holds_def map_add_Some_iff map_of_eq_None_iff split: if_splits)
    from Cons.IH[OF this Cons.prems(2,3)] Cons.prems(4) obtain t' where t': "make_dirs ds (t @ [(d, DirKind)]) = Inr t'" "tree_holds N fs t'"
      "\<forall>d \<in> set ds. map_of t' d = Some DirKind" "\<forall>x. map_of (t @ [(d, DirKind)]) x = Some DirKind \<longrightarrow> map_of t' x = Some DirKind" by auto
    with None show ?thesis by (auto simp: map_add_Some_iff)
  next
    case (Some k)
    have "k = DirKind"
    proof (rule ccontr)
      assume "k \<noteq> DirKind"
      with tree_holdsD[OF Cons.prems(1) Some] obtain c where "(d, c) \<in> set fs" by blast
      then have "d \<in> N" using Cons.prems(3) by (force simp: table_names_def)
      with Cons.prems(2,4) show False by (auto simp: no_blocking_def)
    qed
    with Some have d: "map_of t d = Some DirKind" by simp
    from Cons.IH[OF Cons.prems(1-3)] Cons.prems(4) obtain t' where t': "make_dirs ds t = Inr t'" "tree_holds N fs t'"
      "\<forall>d \<in> set ds. map_of t' d = Some DirKind" "\<forall>d. map_of t d = Some DirKind \<longrightarrow> map_of t' d = Some DirKind" by auto
    then have "map_of t' d = Some DirKind" using d by blast
    with d t' show ?thesis by (intro exI[of _ t']) simp
  qed
qed

lemma write_new_holds:
  assumes "tree_holds N fs t" "no_blocking N" "n \<in> N" "n \<notin> table_names fs"
    "path_dir n = ''.'' \<or> map_of t (path_dir n) = Some DirKind"
  shows "write_new n c t = Inr (t @ [(n, FileKind c)]) \<and> tree_holds N (fs @ [(n, c)]) (t @ [(n, FileKind c)])"
proof -
  have none: "map_of t n = None"
  proof (rule ccontr)
    assume "map_of t n \<noteq> None"
    then obtain k where k: "map_of t n = Some k" by auto
    from tree_holdsD[OF assms(1) k] consider "\<exists>b \<in> N. has_prefix b (n @ [slash])" | c' where "(n, c') \<in> set fs" by blast
    then show False
    proof cases
      case 1
      with assms(2,3) show False by (auto simp: no_blocking_def)
    next
      case 2
      with assms(4) show False by (force simp: table_names_def)
    qed
  qed
  have "tree_holds N (fs @ [(n, c)]) (t @ [(n, FileKind c)])"
    using assms(1,4) none unfolding tree_holds_def
    by (auto simp: map_add_Some_iff map_of_eq_None_iff table_names_def split: if_splits)
  with none assms(5) show ?thesis by (auto simp: write_new_def)
qed

lemma mkdir_all_holds:
  assumes "tree_holds N fs t" "no_blocking N" "table_names fs \<subseteq> N" "n \<in> N" "good_name n"
  shows "\<exists>t'. mkdir_all (path_dir n) t = Inr t' \<and> tree_holds N fs t' \<and> (path_dir n = ''.'' \<or> map_of t' (path_dir n) = Some DirKind)"
proof -
  obtain cs where cs: "plain_comps cs" "n = joined_path cs" using good_name_comps[OF assms(5)] by blast
  obtain ds c where d: "cs = ds @ [c]" using cs(1) by (metis plain_comps_def rev_exhaust)
  let ?ps = "parents_from (Suc (length (path_dir n))) (path_dir n)"
  have ps: "set ?ps = (\<lambda>k. joined_path (take k ds)) ` {1..length ds}"
  proof (cases "ds = []")
    case True
    then show ?thesis using plain_dir[OF cs(1)[unfolded d]] cs(2) d by simp
  next
    case False
    have p: "plain_comps ds" by (rule plain_butlast[OF cs(1)[unfolded d] False])
    have "path_dir n = joined_path ds" using plain_dir[OF cs(1)[unfolded d]] False cs(2) d by simp
    then show ?thesis using parents_set[OF p, of "Suc (length (path_dir n))"] plain_length[OF p] by (simp del: parents_from.simps)
  qed
  have "\<forall>d \<in> set (rev ?ps). \<exists>b \<in> N. has_prefix b (d @ [slash])"
  proof
    fix x
    assume "x \<in> set (rev ?ps)"
    then obtain k where k: "1 \<le> k" "k \<le> length ds" "x = joined_path (take k cs)" using ps d by auto
    with prefix_below[of k cs] d cs(2) assms(4) show "\<exists>b \<in> N. has_prefix b (x @ [slash])" by auto
  qed
  from make_dirs_holds[OF assms(1-3) this] obtain t' where t': "mkdir_all (path_dir n) t = Inr t'" "tree_holds N fs t'"
    "\<forall>d \<in> set ?ps. map_of t' d = Some DirKind" by (auto simp: mkdir_all_def simp del: parents_from.simps)
  have "path_dir n = ''.'' \<or> path_dir n \<in> set ?ps" by simp
  with t' show ?thesis by blast
qed

lemma write_tree_holds:
  "tree_holds N done t \<Longrightarrow> no_blocking N \<Longrightarrow> table_names done \<subseteq> N \<Longrightarrow> table_names fs \<subseteq> N \<Longrightarrow> \<forall>n \<in> N. good_name n \<Longrightarrow>
   distinct (map fst (done @ fs)) \<Longrightarrow> \<exists>t'. write_tree fs t = Inr t' \<and> tree_holds N (done @ fs) t'"
proof (induction fs arbitrary: "done" t)
  case Nil
  then show ?case by simp
next
  case (Cons f fs)
  obtain n c where f: "f = (n, c)" by (cases f)
  have n: "n \<in> N" "good_name n" "n \<notin> table_names done" using Cons.prems(4,5,6) f by (auto simp: table_names_def)
  obtain t1 where t1: "mkdir_all (path_dir n) t = Inr t1" "tree_holds N done t1" "path_dir n = ''.'' \<or> map_of t1 (path_dir n) = Some DirKind"
    using mkdir_all_holds[OF Cons.prems(1-3) n(1,2)] by blast
  have w: "write_new n c t1 = Inr (t1 @ [(n, FileKind c)])" "tree_holds N (done @ [(n, c)]) (t1 @ [(n, FileKind c)])"
    using write_new_holds[OF t1(2) Cons.prems(2) n(1,3) t1(3)] by auto
  have "\<exists>t'. write_tree fs (t1 @ [(n, FileKind c)]) = Inr t' \<and> tree_holds N ((done @ [(n, c)]) @ fs) t'"
    using Cons.prems f n by (intro Cons.IH[OF w(2)]) (auto simp: table_names_def)
  with t1(1) w(1) f show ?case by (auto simp: bind_res_def)
qed

section \<open>Comparing an installed tree\<close>

definition reserved_file :: "string \<Rightarrow> bool" where
  "reserved_file f \<longleftrightarrow> f = lock_name \<or> f = archive_name"

text \<open>The files a walk over \<open>es\<close> compares with the archive.\<close>

definition compared :: "disk_tree \<Rightarrow> string set" where
  "compared es = {f. \<exists>c. (f, FileKind c) \<in> set es \<and> \<not> reserved_file f}"

lemma compared_simps [simp]:
  "compared [] = {}"
  "compared ((f, k) # es) = (if (\<exists>c. k = FileKind c) \<and> \<not> reserved_file f then insert f (compared es) else compared es)"
  by (auto simp: compared_def)

lemma map_of_without: "map_of (filter (\<lambda>(g, c). g \<noteq> f) files) x = (if x = f then None else map_of files x)"
  by (induction files) auto

definition entry_matches :: "disk_tree \<Rightarrow> file_table \<Rightarrow> string \<times> disk_kind \<Rightarrow> bool" where
  "entry_matches t files e \<longleftrightarrow> (case e of (f, k) \<Rightarrow>
     k = DirKind \<or> (\<exists>c. k = FileKind c \<and> (reserved_file f \<or> map_of files f = Some c \<and> map_of t f = Some (FileKind c))))"

lemma entry_matches_without: "fst e \<noteq> f \<Longrightarrow> entry_matches t (filter (\<lambda>(g, c). g \<noteq> f) files) e = entry_matches t files e"
  by (cases e) (simp add: entry_matches_def map_of_without)

lemma check_tree_complete:
  "\<forall>e \<in> set es. entry_matches t files e \<Longrightarrow> distinct (map fst es) \<Longrightarrow> count + int (length es) \<le> 8192 \<Longrightarrow>
   check_tree t count es files = Inr (filter (\<lambda>(f, c). f \<notin> compared es) files)"
proof (induction es arbitrary: count files)
  case Nil
  then show ?case by simp
next
  case (Cons e es)
  obtain f k where e: "e = (f, k)" by (cases e)
  from Cons.prems(1) e consider (dir) "k = DirKind" | (res) c where "k = FileKind c" "reserved_file f"
    | (same) c where "k = FileKind c" "\<not> reserved_file f" "map_of files f = Some c" "map_of t f = Some (FileKind c)"
    by (auto simp: entry_matches_def)
  then show ?case
  proof cases
    case dir
    with Cons e show ?thesis by simp
  next
    case res
    then have "f = lock_name \<or> f = archive_name" by (simp add: reserved_file_def)
    with res Cons e show ?thesis by simp
  next
    case same
    let ?files = "filter (\<lambda>(g, c). g \<noteq> f) files"
    have "f \<notin> fst ` set es" using Cons.prems(2) e by simp
    then have "\<forall>x \<in> set es. fst x \<noteq> f" by force
    then have "\<forall>x \<in> set es. entry_matches t ?files x" using Cons.prems(1) by (simp add: entry_matches_without)
    from Cons.IH[OF this] Cons.prems(2,3) e
    have "check_tree t (count + 1) es ?files = Inr (filter (\<lambda>(g, c). g \<notin> compared es) ?files)" by simp
    moreover have "filter (\<lambda>(g, c). g \<notin> compared es) ?files = filter (\<lambda>(g, c). g \<notin> insert f (compared es)) files"
      by (induction files) auto
    ultimately show ?thesis using same e Cons.prems(3) by (simp add: read_regular_def bind_res_def reserved_file_def)
  qed
qed

lemma check_tree_sound:
  "check_tree t count es files = Inr rest \<Longrightarrow>
   (\<forall>(f, k) \<in> set es. k = DirKind \<or> (\<exists>c. k = FileKind c) \<and> (reserved_file f \<or> (\<exists>c. map_of files f = Some c \<and> map_of t f = Some (FileKind c))))
   \<and> rest = filter (\<lambda>(f, c). f \<notin> compared es) files"
proof (induction t count es files rule: check_tree.induct)
  case (1 t count files)
  then show ?case by simp
next
  case (2 t count f k es files)
  show ?case
  proof (cases k)
    case DirKind
    with 2 show ?thesis by (auto split: if_splits)
  next
    case LinkKind
    with 2 show ?thesis by (auto split: if_splits)
  next
    case SpecialKind
    with 2 show ?thesis by (auto split: if_splits)
  next
    case (FileKind c0)
    show ?thesis
    proof (cases "f = lock_name \<or> f = archive_name")
      case True
      then have "reserved_file f" by (simp add: reserved_file_def)
      with 2 FileKind True show ?thesis by (auto split: if_splits)
    next
      case False
      let ?files = "filter (\<lambda>(g, c). g \<noteq> f) files"
      from 2(4) False FileKind obtain c where c: "map_of files f = Some c" "map_of t f = Some (FileKind c)" "\<not> count + 1 > 8192"
        "check_tree t (count + 1) es ?files = Inr rest"
        by (auto simp: bind_res_Ok_iff read_regular_def split: if_splits option.splits disk_kind.splits)
      have "(\<forall>(g, k) \<in> set es. k = DirKind \<or> (\<exists>c. k = FileKind c) \<and> (reserved_file g \<or> (\<exists>c. map_of ?files g = Some c \<and> map_of t g = Some (FileKind c))))
        \<and> rest = filter (\<lambda>(g, c). g \<notin> compared es) ?files"
        using 2(3)[OF c(3) FileKind False c(1), of c] c(4) by simp
      moreover have "filter (\<lambda>(g, c). g \<notin> compared es) ?files = filter (\<lambda>(g, c). g \<notin> insert f (compared es)) files"
        by (induction files) auto
      ultimately show ?thesis using False FileKind c(1,2) by (fastforce simp: map_of_without reserved_file_def split: if_splits)
    qed
  qed
qed

end
