(* ===== verification/PackClaims.thy ===== *)
theory PackClaims
  imports PackProps
begin

text \<open>
  The properties of the pack registry: what an archive may contain, which pack is chosen, that an
  installed pack has the signed contents, and that an installation passes the verification.
\<close>

section \<open>Choosing a pack\<close>

lemma stable_candidates_eq:
  "stable_candidates lib name seen es = Inr cs \<Longrightarrow>
   cs = filter (\<lambda>e. pe_name e = name \<and> semver_stable lib (pe_version e)) es \<and> distinct (map pe_version cs)
     \<and> (\<forall>c \<in> set cs. pe_version c \<notin> set seen)"
proof (induction es arbitrary: seen cs)
  case Nil
  then show ?case by simp
next
  case (Cons e es)
  show ?case
  proof (cases "pe_name e = name \<and> semver_stable lib (pe_version e)")
    case True
    with Cons.prems obtain cs' where c: "pe_version e \<notin> set seen" "stable_candidates lib name (pe_version e # seen) es = Inr cs'" "cs = e # cs'"
      by (auto simp: map_sum_Ok_iff split: if_splits)
    note ih = Cons.IH[OF c(2)]
    then have "\<forall>x \<in> set cs'. pe_version x \<notin> set seen \<and> pe_version x \<noteq> pe_version e" by auto
    with ih True c(1,3) show ?thesis by force
  next
    case False
    then have "stable_candidates lib name seen es = Inr cs" using Cons.prems by (auto split: if_splits)
    from Cons.IH[OF this] False show ?thesis by auto
  qed
qed

lemma newest_in: "newest lib b es \<in> set (b # es)"
proof (induction es arbitrary: b)
  case Nil
  then show ?case by simp
next
  case (Cons e es)
  from Cons[of b] Cons[of e] show ?case by auto
qed

lemma newest_greatest:
  assumes "\<And>a. kl_compare lib a a \<le> 0" "\<And>a b c. kl_compare lib a b \<le> 0 \<Longrightarrow> kl_compare lib c b > 0 \<Longrightarrow> kl_compare lib a c \<le> 0"
  shows "(\<forall>x \<in> X. kl_compare lib (CHR ''v'' # pe_version x) (CHR ''v'' # pe_version b) \<le> 0) \<Longrightarrow> b \<in> X \<Longrightarrow>
    \<forall>x \<in> X \<union> set es. kl_compare lib (CHR ''v'' # pe_version x) (CHR ''v'' # pe_version (newest lib b es)) \<le> 0"
proof (induction es arbitrary: b X)
  case Nil
  then show ?case by simp
next
  case (Cons e es)
  let ?v = "\<lambda>x. CHR ''v'' # pe_version x"
  show ?case
  proof (cases "kl_compare lib (?v e) (?v b) > 0")
    case True
    have "\<forall>x \<in> insert e X. kl_compare lib (?v x) (?v e) \<le> 0"
      using Cons.prems(1) True assms by blast
    from Cons.IH[OF this] True show ?thesis by simp
  next
    case False
    then have "\<forall>x \<in> insert e X. kl_compare lib (?v x) (?v b) \<le> 0" using Cons.prems(1) by auto
    from Cons.IH[OF this] False Cons.prems(2) show ?thesis by simp
  qed
qed

lemma check_revocation_Ok: "check_revocation m e = Inr () \<longleftrightarrow> (\<forall>r \<in> set (pm_revocations m). \<not> (rv_name r = pe_name e \<and> rv_version r = pe_version e))"
proof -
  have "check_revocation m e = Inr () \<longleftrightarrow> List.find (\<lambda>r. rv_name r = pe_name e \<and> rv_version r = pe_version e) (pm_revocations m) = None"
    by (simp add: check_revocation_def split: option.splits)
  then show ?thesis by (auto simp: find_None_iff)
qed

lemma resolve_pack_cases:
  assumes "resolve_pack lib m name = Inr e"
  obtains c rest where "stable_candidates lib name [] (pm_packs m) = Inr (c # rest)" "e = newest lib c rest"
    "validate_entry lib e = Inr ()" "check_revocation m e = Inr ()"
proof -
  from assms obtain cs where cs: "stable_candidates lib name [] (pm_packs m) = Inr cs"
    "(case cs of [] \<Rightarrow> Inl NoStablePack | c # rest \<Rightarrow> (let e = newest lib c rest
       in bind_res (validate_entry lib e) (\<lambda>_. bind_res (check_revocation m e) (\<lambda>_. Inr e)))) = Inr e"
    unfolding resolve_pack_def bind_res_Ok_iff by blast
  then obtain c rest where "cs = c # rest" by (cases cs) auto
  with cs that show thesis by (auto simp: bind_res_Ok_iff Let_def)
qed

text \<open>
  Resolving a pack gives the newest stable signed version of that name: no other stable
  entry of the name is newer, its identity and archive pin are well formed, and it is not revoked; when
  the newest version is revoked there is no falling back to an older one.
\<close>

theorem resolve_picks_newest:
  assumes "\<And>a. kl_compare lib a a \<le> 0" "\<And>a b c. kl_compare lib a b \<le> 0 \<Longrightarrow> kl_compare lib c b > 0 \<Longrightarrow> kl_compare lib a c \<le> 0"
    and "resolve_pack lib m name = Inr e"
  shows "e \<in> set (pm_packs m) \<and> pe_name e = name \<and> semver_stable lib (pe_version e) \<and> validate_entry lib e = Inr () \<and>
    (\<forall>x \<in> set (pm_packs m). pe_name x = name \<and> semver_stable lib (pe_version x) \<longrightarrow>
       kl_compare lib (CHR ''v'' # pe_version x) (CHR ''v'' # pe_version e) \<le> 0) \<and>
    (\<forall>r \<in> set (pm_revocations m). \<not> (rv_name r = pe_name e \<and> rv_version r = pe_version e))"
proof -
  from resolve_pack_cases[OF assms(3)] obtain c rest where r: "stable_candidates lib name [] (pm_packs m) = Inr (c # rest)"
    "e = newest lib c rest" "validate_entry lib e = Inr ()" "check_revocation m e = Inr ()" .
  have cs: "c # rest = filter (\<lambda>e. pe_name e = name \<and> semver_stable lib (pe_version e)) (pm_packs m)"
    using stable_candidates_eq[OF r(1)] by blast
  have "\<forall>x \<in> {c} \<union> set rest. kl_compare lib (CHR ''v'' # pe_version x) (CHR ''v'' # pe_version e) \<le> 0"
    unfolding r(2) by (rule newest_greatest[OF assms(1,2)]) (auto simp: assms(1))
  moreover have "{c} \<union> set rest = {x \<in> set (pm_packs m). pe_name x = name \<and> semver_stable lib (pe_version x)}"
    using arg_cong[OF cs, of set] by auto
  moreover have "e \<in> {c} \<union> set rest" using newest_in[of lib c rest] r(2) by auto
  ultimately show ?thesis using r(3,4) by (auto simp: check_revocation_Ok)
qed

section \<open>Archives and downloads\<close>

lemma verified_archive_OkD:
  assumes "verified_archive lib e data = Inr files"
  shows "archive_ok files" "extract_archive lib data = Inr files" "kl_sha lib data = tb_sha (pe_tarball e)" "int (length data) = tb_size (pe_tarball e)"
proof -
  from assms have d: "\<not> (int (length data) \<noteq> tb_size (pe_tarball e) \<or> kl_sha lib data \<noteq> tb_sha (pe_tarball e))"
    by (auto simp: verified_archive_def split: if_splits)
  with assms obtain fs where fs: "extract_archive lib data = Inr fs"
    "(case kl_identity lib (case map_of fs ''pack.yaml'' of Some t \<Rightarrow> t | None \<Rightarrow> []) of
        None \<Rightarrow> Inl BadManifest
      | Some (name, version) \<Rightarrow> if name \<noteq> pe_name e \<or> version \<noteq> pe_version e then Inl IdentityMismatch else Inr fs) = Inr files"
    by (auto simp: verified_archive_def bind_res_Ok_iff)
  have "fs = files"
  proof (cases "kl_identity lib (case map_of fs ''pack.yaml'' of Some t \<Rightarrow> t | None \<Rightarrow> [])")
    case None
    with fs(2) show ?thesis by simp
  next
    case (Some p)
    with fs(2) show ?thesis by (cases p) (simp split: if_splits)
  qed
  with fs d show "archive_ok files" "extract_archive lib data = Inr files" "kl_sha lib data = tb_sha (pe_tarball e)"
    "int (length data) = tb_size (pe_tarball e)" using extract_archive_ok by auto
qed

text \<open>
  C25: Everything a verified archive contains can be written safely: every file, joined to
  any directory, lies below it, has one of the five document extensions, is none of the files the
  installer writes itself, and is neither a duplicate nor a directory of another file; there are at
  most 4096 of them, with at most 64 MiB together.
\<close>

theorem archive_stays_inside:
  assumes "verified_archive lib e data = Inr files" "(n, c) \<in> set files" "is_abs dir" "path_clean dir = dir"
  shows "below dir (path_join [dir, n]) \<and> allowed_extension n \<and> n \<noteq> lock_name \<and> n \<noteq> archive_name \<and> map_of files n = Some c \<and>
    (\<forall>m \<in> table_names files. \<not> has_prefix m (n @ [slash])) \<and> length files \<le> 4096 \<and>
    int (sum_list (map (length \<circ> snd) files)) \<le> max_extracted"
proof -
  have ok: "archive_ok files" by (rule verified_archive_OkD(1)[OF assms(1)])
  have n: "n \<in> table_names files" using assms(2) by (force simp: table_names_def)
  then have "good_name n" using ok by (simp add: archive_ok_def)
  then have "below dir (path_join [dir, n])"
    by (intro path_join_inside[OF assms(3,4)]) (auto simp: good_name_def unsafe_archive_path_def stays_inside_def)
  with ok n assms(2) show ?thesis by (auto simp: archive_ok_def no_blocking_def)
qed

lemma follow_redirects_https:
  "follow_redirects parse hop n a = (log, r) \<Longrightarrow> https_address parse a \<Longrightarrow> length log \<le> n \<and> (\<forall>x \<in> set log. https_address parse x)"
proof (induction n arbitrary: a log r)
  case 0
  then show ?case by simp
next
  case (Suc n)
  show ?case
  proof (cases "\<exists>b. hop a = Inr (HopRedirect b) \<and> n \<noteq> 0 \<and> https_address parse b")
    case True
    then obtain b where b: "hop a = Inr (HopRedirect b)" "n \<noteq> 0" "https_address parse b" by blast
    obtain l r' where f: "follow_redirects parse hop n b = (l, r')" by (cases "follow_redirects parse hop n b")
    from Suc.IH[OF f b(3)] Suc.prems b f show ?thesis by auto
  next
    case False
    with Suc.prems show ?thesis by (auto split: sum.splits http_hop.splits if_splits)
  qed
qed

text \<open>
  Downloads go over HTTPS only and are bounded: whatever the servers answer, every
  address requested, those of redirects included, is an https address, at most ten requests are
  made, and the data returned is at most the limit.
\<close>

theorem downloads_are_https:
  assumes "download parse hop address limit = (log, r)"
  shows "length log \<le> 10 \<and> (\<forall>a \<in> set log. https_address parse a) \<and> (\<forall>body. r = Inr body \<longrightarrow> int (length body) \<le> limit)"
proof (cases "\<exists>u. parse address = Some u \<and> pu_scheme u = ''https'' \<and> pu_host u \<noteq> [] \<and> \<not> pu_has_user u")
  case False
  with assms show ?thesis by (auto simp: download_def split: option.splits if_splits)
next
  case True
  then obtain u where u: "parse address = Some u" "pu_scheme u = ''https''" "pu_host u \<noteq> []" "\<not> pu_has_user u" by blast
  then have a: "https_address parse address" by (simp add: https_address_def)
  obtain l r' where f: "follow_redirects parse hop 10 address = (l, r')" by (cases "follow_redirects parse hop 10 address")
  have "log = l" using assms u f by (auto simp: download_def split: sum.splits)
  moreover have "\<forall>body. r = Inr body \<longrightarrow> int (length body) \<le> limit" using assms u f by (auto simp: download_def split: sum.splits if_splits)
  ultimately show ?thesis using follow_redirects_https[OF f a] by blast
qed

section \<open>Installed packs\<close>

lemma validate_child_sound:
  assumes "validate_child lib d name = Inr lock"
  shows "\<exists>t m archive files. map_of (dk_children d) name = Some (PackDir t) \<and> name = pack_target (pl_entry lock) \<and>
    kl_verify lib (pl_manifest lock) (pl_bundle lock) = Inr () \<and> kl_manifest lib (pl_manifest lock) = Some m \<and>
    pl_entry lock \<in> set (pm_packs m) \<and> check_revocation m (pl_entry lock) = Inr () \<and>
    kl_sha lib archive = tb_sha (pe_tarball (pl_entry lock)) \<and> extract_archive lib archive = Inr files \<and>
    pl_verified lock = Some files \<and> (\<forall>(f, k) \<in> set t. k = DirKind \<or> (\<exists>c. k = FileKind c)) \<and>
    (\<forall>f c. \<not> reserved_file f \<longrightarrow> (map_of t f = Some (FileKind c) \<longleftrightarrow> map_of files f = Some c))"
proof -
  from assms obtain t data l m files where v: "map_of (dk_children d) name = Some (PackDir t)" "kl_lock lib data = Some l"
    "authenticated lib (pl_manifest l) (pl_bundle l) = Inr m" "signed_entry m (pl_entry l) = Inr (Some (pl_entry l))"
    "name = pack_target (pl_entry l)" "check_revocation m (pl_entry l) = Inr ()" "verify_tree lib (pl_entry l) t = Inr files"
    "lock = l\<lparr>pl_verified := Some files\<rparr>"
    by (auto simp: validate_child_def bind_res_Ok_iff map_sum_Ok_iff split: option.splits pack_child.splits if_splits)
  from v(7) obtain archive where a: "verified_archive lib (pl_entry l) archive = Inr files" "check_tree t 1 t files = Inr []"
    by (auto simp: verify_tree_def bind_res_Ok_iff map_sum_Ok_iff split: if_splits)
  note sound = check_tree_sound[OF a(2)]
  have "pl_entry l \<in> set (pm_packs m)"
    using v(4) by (auto simp: signed_entry_def split: list.splits dest!: arg_cong[where f = set])
  moreover have "kl_verify lib (pl_manifest l) (pl_bundle l) = Inr ()" "kl_manifest lib (pl_manifest l) = Some m"
    using v(3) by (auto simp: authenticated_def split: sum.splits option.splits if_splits)
  moreover have "map_of t f = Some (FileKind c) \<longleftrightarrow> map_of files f = Some c" if "\<not> reserved_file f" for f c
  proof
    assume "map_of t f = Some (FileKind c)"
    then have "(f, FileKind c) \<in> set t" by (rule map_of_SomeD)
    with sound that obtain c' where "map_of files f = Some c'" "map_of t f = Some (FileKind c')" by fastforce
    with \<open>map_of t f = Some (FileKind c)\<close> show "map_of files f = Some c" by simp
  next
    assume m: "map_of files f = Some c"
    then have "(f, c) \<in> set files" by (rule map_of_SomeD)
    moreover have "filter (\<lambda>(f, c). f \<notin> compared t) files = []" using sound by simp
    ultimately have "f \<in> compared t" unfolding filter_empty_conv by blast
    then obtain c'' where "(f, FileKind c'') \<in> set t" by (auto simp: compared_def)
    with sound that obtain c' where "map_of files f = Some c'" "map_of t f = Some (FileKind c')" by fastforce
    with m show "map_of t f = Some (FileKind c)" by simp
  qed
  moreover have "\<forall>(f, k) \<in> set t. k = DirKind \<or> (\<exists>c. k = FileKind c)" using sound by fastforce
  ultimately show ?thesis using v(1,5,6,8) verified_archive_OkD(2,3)[OF a(1)] by (intro exI conjI) auto
qed

text \<open>
  C8: An installed pack that passes verification holds exactly the signed contents: the
  manifest kept beside it carries a valid signature, lists the pack, and does not revoke it; the
  archive kept beside it has the pinned digest; the tree has no links or special files, and apart from
  the two files of the installer its files and their bytes are those of that archive, which is
  also what is handed on as verified.
\<close>

theorem installed_pack_authentic:
  assumes "validate_child lib d name = Inr lock"
  shows "\<exists>t m archive files. map_of (dk_children d) name = Some (PackDir t) \<and> name = pack_target (pl_entry lock) \<and>
    kl_verify lib (pl_manifest lock) (pl_bundle lock) = Inr () \<and> kl_manifest lib (pl_manifest lock) = Some m \<and>
    pl_entry lock \<in> set (pm_packs m) \<and> check_revocation m (pl_entry lock) = Inr () \<and>
    kl_sha lib archive = tb_sha (pe_tarball (pl_entry lock)) \<and> extract_archive lib archive = Inr files \<and>
    pl_verified lock = Some files \<and> (\<forall>(f, k) \<in> set t. k = DirKind \<or> (\<exists>c. k = FileKind c)) \<and>
    (\<forall>f c. \<not> reserved_file f \<longrightarrow> (map_of t f = Some (FileKind c) \<longleftrightarrow> map_of files f = Some c))"
  using assms by (rule validate_child_sound)

section \<open>Installing\<close>

lemma prepare_pack_OkD:
  assumes "prepare_pack lib fetch address name = (log, Inr p)"
  shows "\<exists>m. authenticated lib (pl_manifest (pp_lock p)) (pl_bundle (pp_lock p)) = Inr m \<and>
    resolve_pack lib m name = Inr (pl_entry (pp_lock p)) \<and> pl_registry (pp_lock p) = pm_registry m \<and>
    pl_verified (pp_lock p) = None \<and> verified_archive lib (pl_entry (pp_lock p)) (pp_archive p) = Inr (pp_files p)"
  using assms
  by (auto simp: prepare_pack_def fetch_manifest_def map_sum_Ok_iff split: prod.splits sum.splits)

lemma filter_key: "distinct (map f xs) \<Longrightarrow> x \<in> set xs \<Longrightarrow> filter (\<lambda>y. f y = f x) xs = [x]"
  by (induction xs) (auto simp: filter_empty_conv image_iff)

lemma resolved_signed:
  assumes "resolve_pack lib m name = Inr e"
  shows "signed_entry m e = Inr (Some e)"
proof -
  from resolve_pack_cases[OF assms] obtain c rest where r: "stable_candidates lib name [] (pm_packs m) = Inr (c # rest)"
    "e = newest lib c rest" "validate_entry lib e = Inr ()" .
  let ?P = "\<lambda>e. pe_name e = name \<and> semver_stable lib (pe_version e)"
  have cs: "c # rest = filter ?P (pm_packs m)" "distinct (map pe_version (c # rest))"
    using stable_candidates_eq[OF r(1)] by blast+
  have e: "e \<in> set (c # rest)" using newest_in r(2) by blast
  then have P: "?P e" using cs(1) by auto
  have "filter (\<lambda>x. pe_name x = pe_name e \<and> pe_version x = pe_version e) (pm_packs m)
      = filter (\<lambda>x. pe_version x = pe_version e) (filter ?P (pm_packs m))"
    unfolding filter_filter by (rule filter_cong) (use P in auto)
  also have "\<dots> = [e]" unfolding cs(1)[symmetric] by (rule filter_key[OF cs(2) e])
  finally show ?thesis by (simp add: signed_entry_def)
qed

lemma write_reserved:
  assumes "tree_holds N fs t" "map_of t n = None" "path_dir n = ''.''"
  shows "write_new n c t = Inr (t @ [(n, FileKind c)])"
  using assms(2,3) by (simp add: write_new_def)

lemma reserved_top: "path_dir lock_name = ''.''" "path_dir archive_name = ''.''" "lock_name \<noteq> archive_name"
  by (code_simp)+

lemma staged_tree:
  assumes "archive_ok files" "\<forall>n \<in> table_names files. \<not> has_prefix n (lock_name @ [slash]) \<and> \<not> has_prefix n (archive_name @ [slash])"
  shows "\<exists>t. staged lib p files = Inr (t @ [(lock_name, FileKind (kl_lock_text lib (pp_lock p))), (archive_name, FileKind (pp_archive p))]) \<and>
    tree_holds (table_names files) files t \<and> map_of t lock_name = None \<and> map_of t archive_name = None"
proof -
  let ?N = "table_names files"
  have "tree_holds ?N [] []" by (simp add: tree_holds_def)
  from write_tree_holds[OF this, of files] assms(1) obtain t where t: "write_tree files [] = Inr t" "tree_holds ?N files t"
    by (auto simp: archive_ok_def table_names_def)
  have none: "map_of t n = None" if "\<forall>m \<in> ?N. \<not> has_prefix m (n @ [slash])" "n \<notin> ?N" for n
  proof (rule ccontr)
    assume "map_of t n \<noteq> None"
    then obtain k where "map_of t n = Some k" by auto
    from tree_holdsD[OF t(2) this] that show False by (force simp: table_names_def)
  qed
  have l: "map_of t lock_name = None" by (rule none) (use assms in \<open>auto simp: archive_ok_def\<close>)
  have a: "map_of t archive_name = None" by (rule none) (use assms in \<open>auto simp: archive_ok_def\<close>)
  have w: "write_new lock_name c t = Inr (t @ [(lock_name, FileKind c)])" for c
    using l reserved_top by (simp add: write_new_def)
  have "write_new archive_name c (t @ [(lock_name, FileKind c')]) = Inr ((t @ [(lock_name, FileKind c')]) @ [(archive_name, FileKind c)])" for c c'
    using a reserved_top by (simp add: write_new_def map_add_def)
  with w t l a show ?thesis by (auto simp: staged_def)
qed

lemma staged_verifies:
  assumes "archive_ok files" "verified_archive lib e archive = Inr files" "int (length archive) \<le> max_download"
    and "tree_holds (table_names files) files t" "map_of t lock_name = None" "map_of t archive_name = None" "length t + 3 \<le> 8192"
  shows "verify_tree lib e (t @ [(lock_name, FileKind l), (archive_name, FileKind archive)]) = Inr files"
proof -
  let ?T = "t @ [(lock_name, FileKind l), (archive_name, FileKind archive)]"
  have files: "map_of files n = Some c \<longleftrightarrow> (n, c) \<in> set files" for n c
    using assms(1) by (simp add: archive_ok_def)
  have res: "reserved_file lock_name" "reserved_file archive_name" by (simp_all add: reserved_file_def)
  have nres: "\<not> reserved_file n" if "(n, c) \<in> set files" for n c
    using assms(1) that by (force simp: archive_ok_def reserved_file_def table_names_def)
  have T: "map_of ?T n = map_of t n" if "\<not> reserved_file n" for n
    using that by (simp add: map_add_def reserved_file_def split: option.splits)
  have d: "distinct (map fst ?T)" "distinct (map fst t)"
    using assms(4-6) reserved_top(3) by (auto simp: tree_holds_def map_of_eq_None_iff)
  have "entry_matches ?T files (n, k)" if "(n, k) \<in> set t" for n k
  proof -
    have m: "map_of t n = Some k" using that d(2) by simp
    from tree_holdsD[OF assms(4) m] show ?thesis
    proof
      assume "k = DirKind \<and> (\<exists>b \<in> table_names files. has_prefix b (n @ [slash]))"
      then show ?thesis by (simp add: entry_matches_def)
    next
      assume "\<exists>c. k = FileKind c \<and> (n, c) \<in> set files"
      then obtain c where c: "k = FileKind c" "(n, c) \<in> set files" by blast
      with m T[OF nres[OF c(2)]] files show ?thesis by (auto simp: entry_matches_def simp del: map_of_append)
    qed
  qed
  then have "\<forall>x \<in> set ?T. entry_matches ?T files x"
    using res by (auto simp: entry_matches_def[of _ _ "(lock_name, _)"] entry_matches_def[of _ _ "(archive_name, _)"])
  from check_tree_complete[OF this d(1), of 1] assms(7)
  have "check_tree ?T 1 ?T files = Inr (filter (\<lambda>(f, c). f \<notin> compared ?T) files)" by simp
  also have "filter (\<lambda>(f, c). f \<notin> compared ?T) files = []"
  proof -
    have "f \<in> compared ?T" if "(f, c) \<in> set files" for f c
    proof -
      have "map_of t f = Some (FileKind c)" using that assms(4) by (simp add: tree_holds_def)
      then have "(f, FileKind c) \<in> set t" by (rule map_of_SomeD)
      with nres[OF that] show ?thesis by (auto simp: compared_def)
    qed
    then show ?thesis by (auto simp: filter_empty_conv)
  qed
  finally have c: "check_tree ?T 1 ?T files = Inr []" .
  have "read_regular ?T archive_name max_download = Inr archive"
    using assms(3,6) reserved_top(3) by (simp add: read_regular_def map_add_def)
  with c assms(2) show ?thesis by (simp add: verify_tree_def bind_res_def)
qed

text \<open>
  C22: A prepared pack installs, and what was installed verifies: on a writable disk where the
  pack is not yet installed, the installation succeeds, unless the archive has a directory named like
  one of the installer's own files, and the verification of the new directory accepts it with
  the files of the archive, if its files and directories number at most 8190 and the lock file fits its limit.
\<close>

theorem install_then_verify:
  assumes "prepare_pack lib fetch address name = (log, Inr p)"
    and "kl_lock lib (kl_lock_text lib (pp_lock p)) = Some (pp_lock p)" "int (length (kl_lock_text lib (pp_lock p))) \<le> max_lock"
    and "\<forall>n \<in> table_names (pp_files p). \<not> has_prefix n (lock_name @ [slash]) \<and> \<not> has_prefix n (archive_name @ [slash])"
    and "snd (installation_parent True d) = Inr ()" "dk_writable d"
    and "map_of (dk_children d) (pack_target (pl_entry (pp_lock p))) = None" "map_of (dk_children d) stage = None"
  shows "\<exists>d' t. install_pack lib stage p d = (d', Inr ()) \<and>
    map_of (dk_children d') (pack_target (pl_entry (pp_lock p))) = Some (PackDir t) \<and>
    (length t \<le> 8191 \<longrightarrow> validate_child lib d' (pack_target (pl_entry (pp_lock p))) = Inr ((pp_lock p)\<lparr>pl_verified := Some (pp_files p)\<rparr>))"
proof -
  let ?e = "pl_entry (pp_lock p)"
  obtain m where m: "authenticated lib (pl_manifest (pp_lock p)) (pl_bundle (pp_lock p)) = Inr m" "resolve_pack lib m name = Inr ?e"
    "pl_registry (pp_lock p) = pm_registry m" "verified_archive lib ?e (pp_archive p) = Inr (pp_files p)"
    using prepare_pack_OkD[OF assms(1)] by blast
  note ok = verified_archive_OkD[OF m(4)]
  have v: "validate_entry lib ?e = Inr ()" "check_revocation m ?e = Inr ()" using resolve_pack_cases[OF m(2)] by metis+
  have len: "int (length (pp_archive p)) \<le> max_download" using v(1) ok(4) by (auto simp: validate_entry_def split: if_splits)
  obtain d1 where d1: "installation_parent True d = (d1, Inr ())" using assms(5) by (cases "installation_parent True d") auto
  then have keep: "dk_children d1 = dk_children d" "dk_writable d1" using assms(6)
    by (auto simp: installation_parent_def split: prod.splits sum.splits)
  from staged_tree[OF ok(1) assms(4), of lib p] obtain t where t:
    "staged lib p (pp_files p) = Inr (t @ [(lock_name, FileKind (kl_lock_text lib (pp_lock p))), (archive_name, FileKind (pp_archive p))])"
    "tree_holds (table_names (pp_files p)) (pp_files p) t" "map_of t lock_name = None" "map_of t archive_name = None" by blast
  let ?T = "t @ [(lock_name, FileKind (kl_lock_text lib (pp_lock p))), (archive_name, FileKind (pp_archive p))]"
  let ?d = "d1\<lparr>dk_children := dk_children d1 @ [(pack_target ?e, PackDir ?T)]\<rparr>"
  have inst: "install_pack lib stage p d = (?d, Inr ())"
    using v(1) m(4) d1 keep assms(7,8) t(1) by (simp add: install_pack_def)
  have child: "map_of (dk_children ?d) (pack_target ?e) = Some (PackDir ?T)" using keep assms(7) by (simp add: map_add_def)
  have "validate_child lib ?d (pack_target ?e) = Inr ((pp_lock p)\<lparr>pl_verified := Some (pp_files p)\<rparr>)" if "length ?T \<le> 8191"
  proof -
    have "read_regular ?T lock_name max_lock = Inr (kl_lock_text lib (pp_lock p))"
      using assms(3) reserved_top(3) t(3) by (simp add: read_regular_def map_add_def)
    moreover have "verify_tree lib ?e ?T = Inr (pp_files p)"
      by (rule staged_verifies[OF ok(1) m(4) len t(2-4)]) (use that in simp)
    ultimately show ?thesis
      using child assms(2) m(1,3) resolved_signed[OF m(2)] v by (simp add: validate_child_def)
  qed
  with inst child show ?thesis by blast
qed

section \<open>Witnesses\<close>

definition demo_pack_entry :: pack_entry where
  "demo_pack_entry = \<lparr>pe_name = ''acme.docs'', pe_handle = ''acme'', pe_tier = [], pe_version = ''1'', pe_description = [],
     pe_tarball = \<lparr>tb_url = ''t'', tb_sha = replicate 64 (CHR ''a''), tb_size = 1\<rparr>\<rparr>"

definition demo_pack_manifest :: pack_manifest where
  "demo_pack_manifest = \<lparr>pm_schema = 1, pm_registry = ''r'', pm_packs = [demo_pack_entry], pm_revocations = []\<rparr>"

definition demo_pack_lock :: pack_lock where
  "demo_pack_lock = \<lparr>pl_verified = None, pl_entry = demo_pack_entry, pl_registry = ''r'', pl_manifest_url = ''m'',
     pl_manifest = ''d'', pl_bundle = ''d''\<rparr>"

definition demo_stream :: archive_stream where
  "demo_stream = \<lparr>as_headers = [\<lparr>th_name = ''docs/'', th_type = type_dir, th_size = 0, th_body = Some []\<rparr>,
       \<lparr>th_name = ''docs/a.md'', th_type = type_reg, th_size = 1, th_body = Some ''x''\<rparr>,
       \<lparr>th_name = ''pack.yaml'', th_type = type_reg, th_size = 1, th_body = Some ''y''\<rparr>],
     as_tar_ok = True, as_tail = [CHR 0x00], as_gzip_ok = True, as_expanded = 9\<rparr>"

definition demo_pack_lib :: pack_lib where
  "demo_pack_lib = \<lparr>kl_verify = (\<lambda>d b. Inr ()), kl_manifest = (\<lambda>d. Some demo_pack_manifest), kl_valid = (\<lambda>v. True),
     kl_prerelease = (\<lambda>v. []), kl_compare = (\<lambda>a b. int (length a) - int (length b)), kl_sha = (\<lambda>d. replicate 64 (CHR ''a'')),
     kl_archive = (\<lambda>d. Some demo_stream), kl_identity = (\<lambda>t. Some (''acme.docs'', ''1'')), kl_lock_text = (\<lambda>l. ''l''),
     kl_lock = (\<lambda>t. Some demo_pack_lock)\<rparr>"

definition demo_disk :: pack_disk where
  "demo_disk = \<lparr>dk_skillex = None, dk_packs = None, dk_children = [], dk_writable = True\<rparr>"

abbreviation demo_files :: file_table where
  "demo_files \<equiv> [(''docs/a.md'', ''x''), (''pack.yaml'', ''y'')]"

lemma demo_resolves: "resolve_pack demo_pack_lib demo_pack_manifest ''acme.docs'' = Inr demo_pack_entry"
  by code_simp

lemma demo_verified: "verified_archive demo_pack_lib demo_pack_entry ''z'' = Inr demo_files"
  by code_simp

theorem resolve_picks_newest_witness:
  "demo_pack_entry \<in> set (pm_packs demo_pack_manifest) \<and> validate_entry demo_pack_lib demo_pack_entry = Inr ()"
  using resolve_picks_newest[OF _ _ demo_resolves] by (auto simp: demo_pack_lib_def)

theorem archive_stays_inside_witness:
  "below ''/s'' (path_join [''/s'', ''docs/a.md'']) \<and> map_of demo_files ''docs/a.md'' = Some ''x''"
proof -
  have "is_abs ''/s''" "path_clean ''/s'' = ''/s''" by (code_simp)+
  with archive_stays_inside[OF demo_verified, of "''docs/a.md''" "''x''" "''/s''"] show ?thesis by simp
qed

definition demo_hop :: "string \<Rightarrow> (string, http_hop) result" where
  "demo_hop a = (if a = ''https://a'' then Inr (HopRedirect ''https://b'') else Inr (HopReply 200 ''z''))"

definition demo_parse :: "string \<Rightarrow> parsed_url option" where
  "demo_parse a = (if has_prefix a ''https://'' then Some \<lparr>pu_scheme = ''https'', pu_host = ''h'', pu_hostname = ''h'', pu_path = [],
     pu_has_user = False, pu_raw_query = [], pu_fragment = []\<rparr> else None)"

theorem downloads_are_https_witness:
  "download demo_parse demo_hop ''https://a'' 1 = ([''https://a'', ''https://b''], Inr ''z'') \<and>
   length [''https://a'', ''https://b''] \<le> 10 \<and> (\<exists>u. demo_parse ''https://b'' = Some u \<and> pu_scheme u = ''https'')"
proof -
  have d: "download demo_parse demo_hop ''https://a'' 1 = ([''https://a'', ''https://b''], Inr ''z'')" by code_simp
  with downloads_are_https[OF d] show ?thesis by (auto simp: https_address_def split: option.splits)
qed

lemma demo_prepares:
  "prepare_pack demo_pack_lib (\<lambda>a n. ([a], Inr (if a = ''t'' then ''z'' else ''d''))) ''m'' ''acme.docs''
     = ([''m'', ''m.bundle'', ''t''], Inr \<lparr>pp_lock = demo_pack_lock, pp_archive = ''z'', pp_files = demo_files\<rparr>)"
  by code_simp

theorem install_then_verify_witness:
  "\<exists>d' t. install_pack demo_pack_lib ''.install-1'' \<lparr>pp_lock = demo_pack_lock, pp_archive = ''z'', pp_files = demo_files\<rparr> demo_disk = (d', Inr ())
     \<and> map_of (dk_children d') ''acme.docs@1'' = Some (PackDir t)"
proof -
  have h: "kl_lock demo_pack_lib (kl_lock_text demo_pack_lib demo_pack_lock) = Some demo_pack_lock"
    "int (length (kl_lock_text demo_pack_lib demo_pack_lock)) \<le> max_lock"
    "\<forall>n \<in> table_names demo_files. \<not> has_prefix n (lock_name @ [slash]) \<and> \<not> has_prefix n (archive_name @ [slash])"
    "snd (installation_parent True demo_disk) = Inr ()" "dk_writable demo_disk"
    "map_of (dk_children demo_disk) (pack_target demo_pack_entry) = None" "map_of (dk_children demo_disk) ''.install-1'' = None"
    "pack_target demo_pack_entry = ''acme.docs@1''" "pl_entry demo_pack_lock = demo_pack_entry"
    by (code_simp)+
  from install_then_verify[OF demo_prepares, where d = demo_disk and stage = "''.install-1''"] h show ?thesis by auto
qed

theorem installed_pack_authentic_witness:
  "\<exists>d lock. validate_child demo_pack_lib d ''acme.docs@1'' = Inr lock \<and> pl_verified lock = Some demo_files \<and>
     pl_entry lock \<in> set (pm_packs demo_pack_manifest)"
proof -
  let ?d = "fst (install_pack demo_pack_lib ''.install-1'' \<lparr>pp_lock = demo_pack_lock, pp_archive = ''z'', pp_files = demo_files\<rparr> demo_disk)"
  have v: "validate_child demo_pack_lib ?d ''acme.docs@1'' = Inr (demo_pack_lock\<lparr>pl_verified := Some demo_files\<rparr>)" by code_simp
  from installed_pack_authentic[OF v] have "pl_entry demo_pack_lock \<in> set (pm_packs demo_pack_manifest)"
    by (auto simp: demo_pack_lib_def)
  with v show ?thesis by (intro exI[of _ ?d] exI[of _ "demo_pack_lock\<lparr>pl_verified := Some demo_files\<rparr>"]) simp
qed

end
