(* ===== verification/PackActivation.thy ===== *)
theory PackActivation
  imports Packs PackClaims
begin

text \<open>
  The properties of packs: which scopes a rule activates, that a pack's files lie in the pack and are
  the signed ones when it is installed, and that the detectors known depend on the order of a map.
\<close>

section \<open>Files and patterns\<close>

lemma append_items_set [simp]: "set (append_items xs ys) = set xs \<union> (set ys - {[]})"
  by (auto simp: append_items_def append_unique_set)

definition pattern_hits :: "pack_world \<Rightarrow> string \<Rightarrow> string \<Rightarrow> bool" where
  "pattern_hits w p f \<longleftrightarrow> (\<exists>g. pw_glob w p = Some g \<and> (g f \<or> g (path_base f)))"

text \<open>The files of the repository that match one of the patterns.\<close>

definition matched_files :: "pack_world \<Rightarrow> string \<Rightarrow> string list \<Rightarrow> string set" where
  "matched_files w root ps =
     {f. f \<noteq> [] \<and> (\<exists>files. repo_files w root = Inr files \<and> f \<in> set files) \<and> (\<exists>p \<in> set ps. pattern_hits w p f)}"

lemma match_repo_files_set:
  "match_repo_files w root p = Inr fs \<Longrightarrow> set fs - {[]} = matched_files w root [p]"
  by (auto simp: match_repo_files_def matched_files_def pattern_hits_def map_sum_Ok_iff split: option.splits)

lemma matched_files_Cons: "matched_files w root (p # ps) = matched_files w root [p] \<union> matched_files w root ps"
  by (auto simp: matched_files_def)

lemma match_patterns_set:
  "match_patterns w root acc ps = Inr fs \<Longrightarrow> set fs = set acc \<union> matched_files w root ps"
proof (induction ps arbitrary: acc)
  case Nil
  then show ?case by (simp add: matched_files_def)
next
  case (Cons p ps)
  then obtain gs where g: "match_repo_files w root p = Inr gs" "match_patterns w root (append_items acc gs) ps = Inr fs"
    by (auto simp: bind_res_Ok_iff)
  from Cons.IH[OF g(2)] match_repo_files_set[OF g(1)] show ?case
    by (subst matched_files_Cons) auto
qed

section \<open>Conditions\<close>

text \<open>What a rule means, independently of the order in which its parts are evaluated.\<close>

fun condition_met :: "pack_world \<Rightarrow> string \<Rightarrow> activation_context \<Rightarrow> activate_when \<Rightarrow> bool" where
  "condition_met w root ctx (ActivateWhen al ps ms ds det) =
     (case al of
        Some cs \<Rightarrow> (\<forall>c \<in> set cs. condition_met w root ctx c)
      | None \<Rightarrow> matched_files w root (ps @ ms) \<noteq> {} \<or> (\<not> blank_text det \<and> det \<in> set (ax_active ctx))
          \<or> dependency_matches (ax_dep ctx) ds)"

fun evidence :: "pack_world \<Rightarrow> string \<Rightarrow> activate_when \<Rightarrow> string set" where
  "evidence w root (ActivateWhen al ps ms ds det) =
     (case al of Some cs \<Rightarrow> (\<Union>c \<in> set cs. evidence w root c) | None \<Rightarrow> matched_files w root (ps @ ms))"

lemma evidence_nonempty_names: "[] \<notin> evidence w root a"
proof (induction a)
  case (ActivateWhen al ps ms ds det)
  then show ?case by (cases al) (auto simp: matched_files_def)
qed

lemma evaluate_sound:
  "evaluate_activation w root ctx a = Inr (ok, fs) \<Longrightarrow> ok = condition_met w root ctx a \<and> set fs = evidence w root a"
  "evaluate_children w root ctx m acc cs = Inr (ok, fs) \<Longrightarrow>
     ok = (m \<and> (\<forall>c \<in> set cs. condition_met w root ctx c)) \<and> set fs = set acc \<union> (\<Union>c \<in> set cs. evidence w root c)"
proof (induction w root ctx a and w root ctx m acc cs arbitrary: ok fs and ok fs rule: evaluate_activation_evaluate_children.induct)
  case (1 w root ctx al ps ms ds det)
  show ?case
  proof (cases al)
    case None
    with 1(2) obtain active where e: "match_patterns w root [] (ps @ ms) = Inr fs" "detector_active ctx det = Inr active"
      "ok = (fs \<noteq> [] \<or> active \<or> dependency_matches (ax_dep ctx) ds)"
      by (auto simp: bind_res_Ok_iff)
    have "active = (\<not> blank_text det \<and> det \<in> set (ax_active ctx))"
      using e(2) by (auto simp: detector_active_def split: if_splits option.splits)
    with match_patterns_set[OF e(1)] e(3) None show ?thesis by (auto simp: set_empty[symmetric] simp del: set_empty)
  next
    case (Some cs)
    with 1 show ?thesis by simp
  qed
next
  case (2 w root ctx m acc)
  then show ?case by simp
next
  case (3 w root ctx m acc c cs)
  from 3(3) obtain r where r: "evaluate_activation w root ctx c = Inr r"
    "(case r of (ok', fs') \<Rightarrow> evaluate_children w root ctx (m \<and> ok') (append_items acc fs') cs) = Inr (ok, fs)"
    by (auto simp: bind_res_Ok_iff)
  obtain ok' fs' where r': "r = (ok', fs')" by (cases r)
  note a = 3(1)[OF r(1)[unfolded r']]
  have "evaluate_children w root ctx (m \<and> ok') (append_items acc fs') cs = Inr (ok, fs)" using r(2) r' by simp
  note b = 3(2)[OF this]
  have "[] \<notin> set fs'" using a evidence_nonempty_names by simp
  with a b show ?case by auto
qed

section \<open>Scopes\<close>

lemma path_clean_ne [simp]: "path_clean p \<noteq> []"
proof (cases "is_abs p")
  case True
  then show ?thesis by (simp add: path_clean_rooted)
next
  case False
  show ?thesis
  proof (cases "p = []")
    case True
    then show ?thesis by (simp add: path_clean_def)
  next
    case p: False
    let ?st = "clean_stack False [] (split_on slash p)"
    show ?thesis
    proof (cases "?st = []")
      case True
      with False p show ?thesis by (simp add: path_clean_rel)
    next
      case st: False
      with join_not_abs(2)[OF clean_comps_ok st] False p show ?thesis by (simp add: path_clean_rel Let_def)
    qed
  qed
qed

lemma below_dir_ne: "pat \<noteq> [] \<Longrightarrow> [] \<notin> set (below_dir d h pat)"
  by (auto simp: below_dir_def path_join_def Let_def path_clean_ne[symmetric] simp del: path_clean_ne)

lemma scope_for_match_ne: "m \<noteq> [] \<Longrightarrow> [] \<notin> set (scope_for_match m scope)"
  using below_dir_ne[of "''*''" "path_dir m" "''.''"] below_dir_ne[of "''**''" "path_dir m" "''.''"]
  by (auto simp: scope_for_match_def)

lemma collect_scopes_set:
  "set (foldl (\<lambda>acc m. append_items acc (scope_for_match m scope)) acc ms)
     = set acc \<union> (\<Union>m \<in> set ms. set (scope_for_match m scope) - {[]})"
  by (induction ms arbitrary: acc) auto

text \<open>The files the scopes are taken from.\<close>

definition scope_files :: "pack_world \<Rightarrow> string \<Rightarrow> activate_when \<Rightarrow> string \<Rightarrow> string list \<Rightarrow> string set" where
  "scope_files w root a scope files =
     (if scope = ''matching-files'' \<and> files \<noteq> [] then matched_files w root files else evidence w root a)"

lemma scope_files_ne: "[] \<notin> scope_files w root a scope files"
  using evidence_nonempty_names by (auto simp: scope_files_def matched_files_def)

text \<open>
  C23: The scopes a rule of a pack activates are exactly these: none unless its condition holds,
  where all parts of a conjunction must hold and one alternative of a plain rule is enough; then, without
  a matching file or with the scope kind boundary, the scopes of the dependency context; otherwise the
  scopes of the matching files, and nothing else.  The order of evaluation and the removal of
  duplicates do not matter.
\<close>

theorem activation_exact:
  assumes "activate_with_context w root a scope files ctx = Inr scopes"
  shows "set scopes =
    (if \<not> condition_met w root ctx a then {}
     else if scope = ''boundary'' \<or> scope_files w root a scope files = {} then set (scope_for_context ctx scope)
     else (\<Union>m \<in> scope_files w root a scope files. set (scope_for_match m scope)))"
proof -
  from assms obtain ok fs where e: "evaluate_activation w root ctx a = Inr (ok, fs)"
    "(if \<not> ok then Inr []
      else bind_res (if scope = ''matching-files'' \<and> files \<noteq> [] then match_patterns w root [] files else Inr fs) (\<lambda>matches.
        if scope = ''boundary'' \<or> matches = [] then Inr (scope_for_context ctx scope)
        else Inr (foldl (\<lambda>acc m. append_items acc (scope_for_match m scope)) [] matches))) = Inr scopes"
    by (auto simp: activate_with_context_def bind_res_Ok_iff split: option.splits prod.splits)
  note s = evaluate_sound(1)[OF e(1)]
  show ?thesis
  proof (cases ok)
    case False
    with e(2) s show ?thesis by simp
  next
    case True
    with e(2) obtain ms where m: "(if scope = ''matching-files'' \<and> files \<noteq> [] then match_patterns w root [] files else Inr fs) = Inr ms"
      "(if scope = ''boundary'' \<or> ms = [] then Inr (scope_for_context ctx scope)
        else Inr (foldl (\<lambda>acc m. append_items acc (scope_for_match m scope)) [] ms)) = (Inr scopes :: (activation_error, string list) result)"
      by (auto simp: bind_res_Ok_iff)
    have ms: "set ms = scope_files w root a scope files"
      using m(1) s match_patterns_set[of w root "[]" files ms] by (auto simp: scope_files_def split: if_splits)
    show ?thesis
    proof (cases "scope = ''boundary'' \<or> ms = []")
      case True
      with m(2) ms \<open>ok\<close> s show ?thesis by auto
    next
      case False
      then have "scopes = foldl (\<lambda>acc m. append_items acc (scope_for_match m scope)) [] ms" using m(2) by auto
      then have "set scopes = (\<Union>m \<in> set ms. set (scope_for_match m scope) - {[]})" by (simp add: collect_scopes_set)
      also have "\<dots> = (\<Union>m \<in> set ms. set (scope_for_match m scope))"
      proof (rule SUP_cong[OF refl])
        fix m
        assume "m \<in> set ms"
        then have "m \<noteq> []" using ms scope_files_ne by blast
        then show "set (scope_for_match m scope) - {[]} = set (scope_for_match m scope)" using scope_for_match_ne by blast
      qed
      finally show ?thesis using False ms \<open>ok\<close> s by auto
    qed
  qed
qed

section \<open>Loaded packs\<close>

lemma load_pack_cases:
  assumes "load_pack w path = Inr p"
  shows "pk_path p = path_clean (abs_path (pw_cwd w) path) \<and> pk_dir p = path_dir (pk_path p) \<and>
    (\<exists>data. pack_source w (pk_path p) = Inr (data, pk_verified p) \<and> pw_yaml w data = Some (pk_manifest p)) \<and>
    pack_problems (pw_exists w) p = []"
  using assms
  by (auto simp: load_pack_def Let_def map_sum_Ok_iff validate_pack_def split: sum.splits option.splits list.splits)

lemma abs_clean: "is_abs p \<Longrightarrow> is_abs (path_clean p)"
  by (simp add: path_clean_rooted)

lemma abs_path_abs: "is_abs cwd \<Longrightarrow> is_abs (abs_path cwd p)"
proof -
  assume a: "is_abs cwd"
  then obtain c where c: "cwd = slash # c" by (cases cwd) auto
  show ?thesis
    by (cases "is_abs p"; cases "p = []") (auto simp: abs_path_def path_join_def c abs_clean)
qed

lemma dir_abs: "is_abs p \<Longrightarrow> is_abs (path_dir p)"
proof -
  assume a: "is_abs p"
  then obtain q where q: "p = slash # q" by (cases p) auto
  obtain i where i: "last_index_char p slash = Some i"
    using q last_index_char_None[of p slash] by (cases "last_index_char p slash") auto
  have "is_abs (take (Suc i) p)" by (simp add: q)
  with i show ?thesis by (simp add: path_dir_def abs_clean)
qed

lemma skill_problem_member:
  assumes "pack_problems exists p = []" "s \<in> set (py_skills (pk_manifest p))"
  shows "\<exists>i. skill_problems exists (pk_dir p) (pk_verified p) (i, s) = []"
proof -
  from assms(2) obtain i where "i < length (py_skills (pk_manifest p))" "py_skills (pk_manifest p) ! i = s" by (auto simp: in_set_conv_nth)
  then have "(i, s) \<in> set (List.enumerate 0 (py_skills (pk_manifest p)))" by (force simp: in_set_enumerate_eq)
  with assms(1) show ?thesis by (auto simp: pack_problems_def Let_def)
qed

text \<open>
  C24: Every skill of a loaded pack lies in the pack: its path, joined to the pack's directory,
  is below that directory; and a pack loaded from the installation directory carries the files of an
  archive whose digest a validly signed manifest pins, its manifest and all its skills among them.
\<close>

theorem pack_files_inside:
  assumes "load_pack w path = Inr p" "is_abs (pw_cwd w)" "s \<in> set (py_skills (pk_manifest p))"
  shows "below (pk_dir p) (path_join [pk_dir p, kr_file s]) \<and>
    (str_contains (pk_path p) packs_marker \<longrightarrow>
      (\<exists>files (lock :: pack_lock) m archive. pk_verified p = Some files \<and> map_of files (kr_file s) \<noteq> None \<and>
         kl_verify (pw_lib w) (pl_manifest lock) (pl_bundle lock) = Inr () \<and> kl_manifest (pw_lib w) (pl_manifest lock) = Some m \<and>
         pl_entry lock \<in> set (pm_packs m) \<and> check_revocation m (pl_entry lock) = Inr () \<and>
         kl_sha (pw_lib w) archive = tb_sha (pe_tarball (pl_entry lock)) \<and> extract_archive (pw_lib w) archive = Inr files \<and>
         pw_yaml w (case map_of files pack_filename of Some t \<Rightarrow> t | None \<Rightarrow> []) = Some (pk_manifest p)))"
proof -
  note l = load_pack_cases[OF assms(1)]
  obtain i where i: "skill_problems (pw_exists w) (pk_dir p) (pk_verified p) (i, s) = []"
    using skill_problem_member[of "pw_exists w" p s] l assms(3) by blast
  then have s: "\<not> blank_text (kr_file s)" "is_safe_relative_path (kr_file s)"
    "\<forall>files. pk_verified p = Some files \<longrightarrow> map_of files (kr_file s) \<noteq> None"
    by (auto simp: skill_problems_def split: if_splits option.splits)
  have "kr_file s \<noteq> []"
  proof
    assume e: "kr_file s = []"
    have "blank_text []" by code_simp
    with s(1) e show False by simp
  qed
  moreover have "is_abs (pk_dir p)" "path_clean (pk_dir p) = pk_dir p"
    using l assms(2) by (simp_all add: dir_abs abs_clean abs_path_abs) (simp add: path_dir_def path_clean_idem)
  ultimately have "below (pk_dir p) (path_join [pk_dir p, kr_file s])"
    using s(2) by (intro path_join_inside) (auto simp: is_safe_relative_path_def)
  moreover have "\<exists>files (lock :: pack_lock) m archive. pk_verified p = Some files \<and> map_of files (kr_file s) \<noteq> None \<and>
         kl_verify (pw_lib w) (pl_manifest lock) (pl_bundle lock) = Inr () \<and> kl_manifest (pw_lib w) (pl_manifest lock) = Some m \<and>
         pl_entry lock \<in> set (pm_packs m) \<and> check_revocation m (pl_entry lock) = Inr () \<and>
         kl_sha (pw_lib w) archive = tb_sha (pe_tarball (pl_entry lock)) \<and> extract_archive (pw_lib w) archive = Inr files \<and>
         pw_yaml w (case map_of files pack_filename of Some t \<Rightarrow> t | None \<Rightarrow> []) = Some (pk_manifest p)"
    if marker: "str_contains (pk_path p) packs_marker"
  proof -
    from l obtain data where d: "pack_source w (pk_path p) = Inr (data, pk_verified p)" "pw_yaml w data = Some (pk_manifest p)" by blast
    from d(1) marker obtain lock where lock: "validate_pack_dir (pw_lib w) (pw_disks w) (path_dir (pk_path p)) = Inr lock"
      "pk_verified p = Some (case pl_verified lock of Some fs \<Rightarrow> fs | None \<Rightarrow> [])"
      "data = (case map_of (case pl_verified lock of Some fs \<Rightarrow> fs | None \<Rightarrow> []) pack_filename of Some t \<Rightarrow> t | None \<Rightarrow> [])"
      by (auto simp: pack_source_def Let_def split: sum.splits)
    from lock(1) obtain dk name where "validate_child (pw_lib w) dk name = Inr lock"
      by (auto simp: validate_pack_dir_def Let_def bind_res_Ok_iff split: if_splits option.splits)
    from validate_child_sound[OF this] obtain m archive files where v:
      "kl_verify (pw_lib w) (pl_manifest lock) (pl_bundle lock) = Inr ()" "kl_manifest (pw_lib w) (pl_manifest lock) = Some m"
      "pl_entry lock \<in> set (pm_packs m)" "check_revocation m (pl_entry lock) = Inr ()"
      "kl_sha (pw_lib w) archive = tb_sha (pe_tarball (pl_entry lock))" "extract_archive (pw_lib w) archive = Inr files"
      "pl_verified lock = Some files" by blast
    have f: "pk_verified p = Some files" using lock(2) v(7) by simp
    moreover have "map_of files (kr_file s) \<noteq> None" using s(3) f by blast
    moreover have "pw_yaml w (case map_of files pack_filename of Some t \<Rightarrow> t | None \<Rightarrow> []) = Some (pk_manifest p)"
      using lock(3) d(2) v(7) by simp
    ultimately show ?thesis using v(1-6) by blast
  qed
  ultimately show ?thesis by blast
qed

section \<open>Detectors\<close>

lemma register_detector_keeps:
  "register_detector b src d reg = Inr reg' \<Longrightarrow> map_of reg n = Some x \<Longrightarrow> map_of reg' n = Some x"
  by (auto simp: register_detector_def map_add_Some_iff split: prod.splits option.splits if_splits)

lemma register_all_keeps: "map_of reg n = Some x \<Longrightarrow> map_of (fst (register_all b src ds reg)) n = Some x"
proof (induction ds arbitrary: reg)
  case Nil
  then show ?case by simp
next
  case (Cons d ds)
  then show ?case by (auto split: sum.splits dest: register_detector_keeps)
qed

text \<open>
  C40: Which detectors of a pack are known depends on the order in which Go visits its map: when
  one of two detectors conflicts with a registered one, the other is registered if it comes first
  and is lost if it comes second, so that a skill relying on it activates in one run and fails with an
  unknown detector in the next.
\<close>

theorem detector_order_matters:
  assumes "map_of reg a = Some (old, src0)" "old \<noteq> def_a" "map_of reg b = None"
  shows "map_of (fst (register_all False src [(b, def_b), (a, def_a)] reg)) b = Some (def_b, src) \<and>
    map_of (fst (register_all False src [(a, def_a), (b, def_b)] reg)) b = None"
proof -
  have "a \<noteq> b" using assms by auto
  with assms show ?thesis
    by (auto simp: register_detector_def map_add_def split: sum.splits option.splits)
qed

section \<open>Witnesses\<close>

definition go_rule :: activate_when where
  "go_rule = ActivateWhen (Some [ActivateWhen None [''go.mod''] [] [] [], ActivateWhen None [] [] [] ''go'']) [] [] [] []"

definition demo_pack_yaml :: pack_yaml where
  "demo_pack_yaml = \<lparr>py_name = ''p'', py_version = ''1'', py_description = [], py_source = [], py_detectors = [],
     py_skills = [\<lparr>kr_file = ''docs/a.md'', kr_when = go_rule, kr_scope = [], kr_files = []\<rparr>], py_servers = []\<rparr>"

definition demo_pack_world :: pack_world where
  "demo_pack_world = \<lparr>pw_cwd = ''/r'', pw_lib = demo_pack_lib,
     pw_disks = (\<lambda>r. Some (fst (install_pack demo_pack_lib ''.install-1''
        \<lparr>pp_lock = demo_pack_lock, pp_archive = ''z'', pp_files = demo_files\<rparr> demo_disk))),
     pw_read = (\<lambda>p. Inl NotExist), pw_exists = (\<lambda>p. False), pw_is_file = (\<lambda>p. False), pw_dir = (\<lambda>p. None),
     pw_yaml = (\<lambda>t. Some demo_pack_yaml), pw_glob = (\<lambda>p. Some (\<lambda>f. f = p)),
     pw_tree = [RepoDir ''srv'' [RepoFile ''go.mod''], RepoDir ''node_modules'' [RepoFile ''go.mod'']]\<rparr>"

definition demo_activation :: activation_context where
  "demo_activation = \<lparr>ax_dep = empty_dep, ax_boundary = [], ax_known = Some [''go''], ax_active = [''go'']\<rparr>"

theorem activation_exact_witness:
  "activate_with_context demo_pack_world ''/r'' go_rule [] [] demo_activation = Inr [''srv/**''] \<and>
   condition_met demo_pack_world ''/r'' demo_activation go_rule"
proof -
  have a: "activate_with_context demo_pack_world ''/r'' go_rule [] [] demo_activation = Inr [''srv/**'']" by code_simp
  from activation_exact[OF a] show ?thesis using a by (auto split: if_splits)
qed

theorem pack_files_inside_witness:
  "\<exists>p. load_pack demo_pack_world ''/r/.skillex/packs/acme.docs@1/pack.yaml'' = Inr p \<and> pk_verified p = Some demo_files \<and>
     below (pk_dir p) (path_join [pk_dir p, ''docs/a.md'']) \<and> map_of demo_files ''docs/a.md'' \<noteq> None"
proof -
  let ?p = "\<lparr>pk_path = ''/r/.skillex/packs/acme.docs@1/pack.yaml'', pk_dir = ''/r/.skillex/packs/acme.docs@1'',
     pk_manifest = demo_pack_yaml, pk_verified = Some demo_files\<rparr>"
  have l: "load_pack demo_pack_world ''/r/.skillex/packs/acme.docs@1/pack.yaml'' = Inr ?p" by code_simp
  have "is_abs (pw_cwd demo_pack_world)" by code_simp
  moreover have "\<lparr>kr_file = ''docs/a.md'', kr_when = go_rule, kr_scope = [], kr_files = []\<rparr> \<in> set (py_skills (pk_manifest ?p))"
    by (simp add: demo_pack_yaml_def)
  moreover have "str_contains (pk_path ?p) packs_marker" by code_simp
  ultimately show ?thesis using l pack_files_inside[OF l] by (intro exI[of _ ?p]) force
qed

theorem detector_order_matters_witness:
  "map_of (fst (register_all False ''p'' [(''x'', []), (''go'', [])] new_detector_registry)) ''x'' = Some ([], ''p'') \<and>
   map_of (fst (register_all False ''p'' [(''go'', []), (''x'', [])] new_detector_registry)) ''x'' = None"
proof -
  have h: "map_of new_detector_registry ''go'' = Some ([file_match ''go.mod''], ''builtin'')" "map_of new_detector_registry ''x'' = None"
    by (code_simp)+
  show ?thesis by (rule detector_order_matters[OF h(1) _ h(2)]) simp
qed

end
