(* ===== verification/Spec2Isabelle.thy ===== *)
theory Spec2Isabelle
  imports RegistryClaims AccessProps ConfigProps Frontmatter LinkerProps BrokerProps CapabilityClaims
    CatalogClaims QueryClaims ConnectorClaims AuthClaims TrustWitness
    RuntimeClaims RefreshClaims ValidatorProps PackActivation
begin

text \<open>
  A model of skillex: a registry of agent skills (Markdown files with scopes) and of MCP
  capabilities (tools, prompts, resources of downstream servers), written in Go.

  \<^bold>\<open>The program and its parts.\<close>  A refresh (internal/registry/refresh.go) scans the repository and its
  dependencies for skills, the linker (internal/linker) decides for which paths each skill applies, the
  validator (internal/validator) reads the test files beside the skills, and the registry
  (internal/registry) stores skills, scopes, facets and test scenarios in SQLite tables.  The query
  engine (internal/query) answers searches over the registry and bounded reads of one skill.  Static
  capability catalogs are loaded into a second group of tables; the broker (internal/broker) lists
  them as opaque signed references (internal/capability), and describes or calls a capability only
  by such a reference, after readiness and policy checks, over a connector (internal/connector).  Which
  servers may be called, with which command and credentials, is the user's trust configuration
  (internal/trust), which logs in and renews tokens through internal/auth; internal/brokerruntime
  assembles the broker from all of these.  The project's configuration (internal/config) names the rules
  and the MCP bindings; skill packs (internal/packs) bring skills and server suggestions and come from a
  signed pack registry (internal/packregistry); internal/tenant separates hosted callers.

  \<^bold>\<open>Theories.\<close>
  \<^item> Prelude, GoStrings, GoPath, GoRel, Base64, Tables: results with errors (\<open>Ok\<close>, \<open>Err\<close>), 64-bit
    wrap-around, the operations of Go's strings, unicode/utf8, path/filepath and encoding/base64 that the
    program calls, keyed tables.
  \<^item> ScopeIndex (internal/registry/path.go), Registry (registry.go), RegistryProps (the table
    invariant, writes and reads), RegistryQueries, RegistryClaims: \<open>Insert\<close>, \<open>Delete\<close>, \<open>Clear\<close>, the
    scenario operations and every query; refinement of a map from paths to skills; the path index against
    filtering by globs.
  \<^item> McpTables, CapabilityIndex, CapabilityQuery (internal/registry/capability.go),
    CapabilityStore, CapabilityProps, CapabilityClaims: static catalogs, pack suggestions, the
    insertion transaction, exact resolution, ranked and paged search.
  \<^item> Signature (internal/registry/signature.go): the hashed text of the index and what it pins.
  \<^item> Capability (internal/capability), Tenant (internal/tenant), AccessProps, DemoPrims: records,
    digests, signed references, partitions; a concrete instance of the primitives for witnesses.
  \<^item> Broker (internal/broker), BrokerProps, Catalog (internal/catalog), CatalogClaims: discovery,
    description and calls with the trace of events each leaves; the catalog contract between the
    broker and the index (locale \<open>discoverable_catalog\<close>).
  \<^item> QueryEngine (internal/query/query.go), Sections (sections.go), QueryProps, SectionProps,
    QueryPages, QueryClaims: execution, cursors, facets, headings and bounded reads; the paging
    contract between the engine and the broker (locale \<open>paged_source\<close>).
  \<^item> McpWire (what the two connectors share), Stdio (internal/connector/stdio), StreamHttp
    (internal/connector/streamhttp), McpProps, ConnectorClaims: factories, round trips, paged listings, the
    verification of the selected capability, calls, the definition cache; both transports promise to send
    one request at a time (locale \<open>request_counter\<close>).
  \<^item> OAuth (internal/auth/oauth.go, pkce.go, registration.go), TokenStore (tokenstore.go), AuthClaims:
    discovery, the grants, the login, registration, the encrypted records; every flow sends only secure
    requests (locale \<open>secure_flow\<close>).
  \<^item> Trust, TrustResolve, TrustOAuth (internal/trust/config.go in three parts: validation and loading,
    credential sources and launch configurations, tokens and logins), TrustProps, TrustClaims, TrustWitness.
  \<^item> BrokerRuntime (internal/brokerruntime, internal/capability/key.go), RuntimeClaims: the assembled
    broker, its policy and connector factory, the signing key file.
  \<^item> PackRegistry, PackStore (internal/packregistry in two parts: manifests, resolution, archives and
    downloads; the installed packs on disk), PackProps, PackClaims; Packs (internal/packs), PackActivation.
  \<^item> Refresh (internal/registry/refresh.go, cli/refresh.go), RefreshProps, RefreshClaims; Validator,
    ValidatorProps; Config, ConfigProps (internal/config); Frontmatter; Linker, LinkerProps.

  \<^bold>\<open>Correspondence.\<close>  A Go struct is a record with its fields, a table is the list of its rows in
  insertion order (the row order SQLite scans), \<^verbatim>\<open>(T, error)\<close> is \<open>error + T\<close>, strings and
  byte slices are byte strings (a \<open>char\<close> is a byte), Go maps are functions or association lists where
  the order shows.  Times and durations are integers of nanoseconds; where 64 bits can overflow on
  data the program reads (expiry seconds of a reference, token lifetimes, configured milliseconds) the
  wrap-around is written out, while a clock reading is any integer.  An operation reads the clock once.
  Effects are explicit: a file system or a network is a state, and launches, requests and accesses to
  credentials are kept in a log.

  \<^bold>\<open>Parameters.\<close>  What Go code reads from outside the repository's source (SQLite's own failures,
  full-text ranks, SHA-256, HMAC, AES-GCM, RSA, JSON, YAML, URLs, globs, gzip, tar, semver, the signature
  verifier, processes, the file system, the network) is an argument of the definitions that use it; each
  theory names its own.  The properties assume of them only what is documented: a JSON codec gives back
  claims whose strings are UTF-8, the glob compiler reads literal patterns and \<open>base/**\<close> in UTF-8, a MAC
  or a cipher with the key it was made with opens what it sealed.

  \<^bold>\<open>Bounds and fuel.\<close>  Definitions are total.  The only fuel of a property is that of \<open>follow\<close>, the
  loop of a client that follows discovery cursors: the number of skills and capabilities plus one is
  enough, because every page but the last returns something, which \<open>paging_complete\<close> proves.
  \<open>str_fields_fuel\<close> recurs once for each byte.  The limits the code sets are written as in the code: 64 KiB
  reads, pages of twenty, eight headings, 24 and 64 KiB descriptions; 32 pages of a listing, hence 97
  requests of an opening; a 4 MiB message; ten minutes for a login, thirty seconds of token leeway,
  references of five minutes; 1 MiB of a dotenv file and of an OAuth response, 64 KiB of one
  of its lines and of helper output; 32 MiB and 64 MiB of an archive, its entry counts, ten requests of a download.

  \<^bold>\<open>Not modelled.\<close>  SQL engine failures and schema migration, concurrency of transactions, the walks of
  the scanner and of the package resolvers (the records they produce are inputs), agent skill
  directories, watching, the MCP registry client (internal/registryapi), the sigstore verifier
  (internal/verify), update checks, the JWT checks of internal/hostedauth, instruction files for agents,
  telemetry, the command line and the MCP server, because they are input and output, calls of a library, or
  printing.
\<close>

end
